(* ===== verification/Prelude.thy ===== *)
theory Prelude
  imports Complex_Main "HOL-Library.AList" "HOL-Library.Sublist" "HOL-Library.Char_ord"
begin

text \<open>
  Shared vocabulary of the development: the JavaScript values and library operations the web client
  relies on (strings and their whitespace, decimal printing, insertion-ordered maps and sets, stable
  sorting, the random suffix source) and the lemmas and rule collections the component theories
  share.

  A JavaScript string is modelled as a \<open>string\<close>, one character per UTF-16 code unit, restricted to
  the code units below 256 (the Latin-1 block). The SMS component, whose character classes go beyond
  it, uses 16-bit code units instead.
\<close>

named_theorems js_simps \<open>computation rules of the modelled JavaScript library\<close>
named_theorems record_simps \<open>projections of the update functions of the model\<close>

section \<open>Strings\<close>

text \<open>
  \<open>String.prototype.trim\<close> removes white space and line terminators: below 256 these are
  TAB, LF, VT, FF, CR, SPACE and NBSP.
\<close>

definition js_ws :: "char \<Rightarrow> bool" where
  "js_ws c \<longleftrightarrow> (of_char c :: nat) \<in> {9, 10, 11, 12, 13, 32, 160}"

definition js_trim :: "string \<Rightarrow> string" where
  "js_trim s = rev (dropWhile js_ws (rev (dropWhile js_ws s)))"

lemma js_trim_Nil [simp]: "js_trim [] = []"
  by (simp add: js_trim_def)

lemma js_trim_id:
  assumes "s = [] \<or> \<not> js_ws (hd s) \<and> \<not> js_ws (last s)"
  shows "js_trim s = s"
proof (cases s)
  case Nil
  then show ?thesis by simp
next
  case (Cons a as)
  with assms have "dropWhile js_ws s = s" by simp
  moreover from Cons assms have "dropWhile js_ws (rev s) = rev s"
    by (metis dropWhile_eq_self_iff hd_rev list.distinct(1))
  ultimately show ?thesis by (simp add: js_trim_def)
qed

lemma dropWhile_rev_hd:
  assumes "xs = [] \<or> \<not> P (hd xs)"
  shows "dropWhile P (rev xs) = [] \<and> xs = [] \<or>
    \<not> P (last (dropWhile P (rev xs))) \<and> dropWhile P (rev xs) \<noteq> []"
proof (cases xs)
  case Nil
  then show ?thesis by simp
next
  case (Cons a as)
  with assms have "\<not> P a" by simp
  then show ?thesis using Cons
    by (auto simp: dropWhile_append dropWhile_eq_Nil_conv)
qed

lemma js_trim_ends:
  "js_trim s = [] \<or> \<not> js_ws (hd (js_trim s)) \<and> \<not> js_ws (last (js_trim s))"
proof -
  let ?a = "dropWhile js_ws s"
  let ?b = "dropWhile js_ws (rev ?a)"
  have a: "?a = [] \<or> \<not> js_ws (hd ?a)"
    using hd_dropWhile by blast
  have b: "?b = [] \<or> \<not> js_ws (hd ?b)"
    using hd_dropWhile by blast
  from dropWhile_rev_hd [where xs = ?a and P = js_ws, OF a] b show ?thesis
    by (auto simp: js_trim_def hd_rev last_rev)
qed

lemma js_trim_idem [simp]: "js_trim (js_trim s) = js_trim s"
  by (rule js_trim_id) (rule js_trim_ends)

lemma js_trim_no_ws: "\<forall>c \<in> set s. \<not> js_ws c \<Longrightarrow> js_trim s = s"
  by (rule js_trim_id) (metis hd_in_set last_in_set)

lemma js_trim_snoc: "js_ws c \<Longrightarrow> js_trim (s @ [c]) = js_trim s"
  by (cases "\<forall>x \<in> set s. js_ws x") (auto simp: js_trim_def dropWhile_append2 dropWhile_append1 dest: set_dropWhileD)

text \<open>\<open>toUpperCase\<close> of an ASCII character.\<close>

definition ascii_upper_char :: "char \<Rightarrow> char" where
  "ascii_upper_char c = (let n = (of_char c :: nat) in if 97 \<le> n \<and> n \<le> 122 then char_of (n - 32) else c)"

text \<open>
  \<open>toLowerCase\<close> on the Latin-1 block: the ASCII capitals and the capitals from 192 to 222, without
  the multiplication sign 215, move up by 32; every other character is its own lower case.
\<close>

definition js_lower_char :: "char \<Rightarrow> char" where
  "js_lower_char c =
     (let n = (of_char c :: nat)
      in if 65 \<le> n \<and> n \<le> 90 \<or> 192 \<le> n \<and> n \<le> 222 \<and> n \<noteq> 215 then char_of (n + 32) else c)"

definition js_lower :: "string \<Rightarrow> string" where
  "js_lower = map js_lower_char"

lemma js_lower_Nil [simp]: "js_lower [] = []"
  by (simp add: js_lower_def)

lemma js_lower_eq_Nil [simp]: "js_lower s = [] \<longleftrightarrow> s = []"
  by (simp add: js_lower_def)

text \<open>\<open>s.includes(t)\<close> and \<open>s.startsWith(t)\<close>.\<close>

abbreviation js_includes :: "string \<Rightarrow> string \<Rightarrow> bool" where
  "js_includes s t \<equiv> sublist t s"

abbreviation js_starts_with :: "string \<Rightarrow> string \<Rightarrow> bool" where
  "js_starts_with s t \<equiv> prefix t s"

text \<open>\<open>a || b\<close> on strings: the empty string is falsy.\<close>

definition js_or :: "string \<Rightarrow> string \<Rightarrow> string" where
  "js_or a b = (if a = [] then b else a)"

lemma js_or_simps [simp]: "js_or [] b = b" "a \<noteq> [] \<Longrightarrow> js_or a b = a" "js_or a [] = a"
  by (simp_all add: js_or_def)

text \<open>\<open>(a ?? '')\<close> and \<open>(a || '')\<close> on an optional string.\<close>

definition str_or_empty :: "string option \<Rightarrow> string" where
  "str_or_empty x = (case x of None \<Rightarrow> [] | Some s \<Rightarrow> s)"

lemma str_or_empty_simps [simp]: "str_or_empty None = []" "str_or_empty (Some s) = s"
  by (simp_all add: str_or_empty_def)

text \<open>An optional string read as a condition: missing and empty are falsy.\<close>

definition truthy :: "string option \<Rightarrow> bool" where
  "truthy x \<longleftrightarrow> (case x of None \<Rightarrow> False | Some s \<Rightarrow> s \<noteq> [])"

lemma truthy_simps [simp]: "\<not> truthy None" "truthy (Some s) \<longleftrightarrow> s \<noteq> []"
  by (simp_all add: truthy_def)

section \<open>Decimal printing of indices\<close>

text \<open>The text a template literal makes of a non-negative integer, e.g. in \<open>`nodes.${index}`\<close>.\<close>

definition digit_char :: "nat \<Rightarrow> char" where
  "digit_char d = char_of (48 + d)"

fun show_nat :: "nat \<Rightarrow> string" where
  "show_nat n = (if n < 10 then [digit_char n] else show_nat (n div 10) @ [digit_char (n mod 10)])"

declare show_nat.simps [simp del]

lemma show_nat_small: "n < 10 \<Longrightarrow> show_nat n = [digit_char n]"
  by (subst show_nat.simps) simp

lemma show_nat_large: "10 \<le> n \<Longrightarrow> show_nat n = show_nat (n div 10) @ [digit_char (n mod 10)]"
  by (subst show_nat.simps) simp

lemma show_nat_not_Nil [simp]: "show_nat n \<noteq> []"
  by (cases "n < 10") (simp_all add: show_nat_small show_nat_large)

lemma Nil_not_show_nat [simp]: "[] \<noteq> show_nat n"
  by (metis show_nat_not_Nil)

lemma of_char_digit_char [simp]: "d < 10 \<Longrightarrow> (of_char (digit_char d) :: nat) = 48 + d"
  by (simp add: digit_char_def of_char_of)

lemma digit_char_inject: "a < 10 \<Longrightarrow> b < 10 \<Longrightarrow> digit_char a = digit_char b \<longleftrightarrow> a = b"
  by (metis add_left_cancel of_char_digit_char)

lemma show_nat_inject [simp]: "show_nat m = show_nat n \<longleftrightarrow> m = n"
proof
  show "show_nat m = show_nat n \<Longrightarrow> m = n"
  proof (induction m arbitrary: n rule: less_induct)
    case (less m)
    show ?case
    proof (cases "m < 10 \<or> n < 10")
      case True
      with less.prems show ?thesis
        by (cases "m < 10"; cases "n < 10")
          (auto simp: show_nat_small show_nat_large digit_char_inject)
    next
      case False
      with less.prems have "show_nat (m div 10) = show_nat (n div 10)"
        and d: "m mod 10 = n mod 10"
        by (auto simp: show_nat_large digit_char_inject)
      with False less.IH have "m div 10 = n div 10" by simp
      with d show ?thesis by (metis div_mult_mod_eq)
    qed
  qed
qed simp

lemma show_nat_digits: "c \<in> set (show_nat n) \<Longrightarrow> 48 \<le> (of_char c :: nat) \<and> (of_char c :: nat) \<le> 57"
proof (induction n rule: less_induct)
  case (less n)
  show ?case
  proof (cases "n < 10")
    case True
    with less.prems show ?thesis by (simp add: show_nat_small)
  next
    case False
    with less.prems have "c \<in> set (show_nat (n div 10)) \<or> c = digit_char (n mod 10)"
      by (auto simp: show_nat_large)
    with False less.IH [of "n div 10"] show ?thesis by auto
  qed
qed

text \<open>Reading the digits back.\<close>

lemma fold_show_nat: "fold (\<lambda>c n. 10 * n + (of_char c - 48)) (show_nat n) 0 = (n :: nat)"
proof (induction n rule: less_induct)
  case (less n)
  then show ?case by (cases "n < 10") (simp_all add: show_nat_small show_nat_large)
qed

section \<open>Insertion-ordered maps and sets\<close>

text \<open>
  A JavaScript \<open>Map\<close> iterates its keys in the order of their first insertion; \<open>set\<close> on a present
  key keeps its place.  \<open>AList.update\<close> does exactly that.
\<close>

type_synonym ('k, 'v) js_map = "('k \<times> 'v) list"

abbreviation map_get :: "('k, 'v) js_map \<Rightarrow> 'k \<Rightarrow> 'v option" where
  "map_get m k \<equiv> map_of m k"

abbreviation map_set :: "'k \<Rightarrow> 'v \<Rightarrow> ('k, 'v) js_map \<Rightarrow> ('k, 'v) js_map" where
  "map_set k v m \<equiv> AList.update k v m"

abbreviation map_has :: "('k, 'v) js_map \<Rightarrow> 'k \<Rightarrow> bool" where
  "map_has m k \<equiv> map_of m k \<noteq> None"

abbreviation map_keys :: "('k, 'v) js_map \<Rightarrow> 'k list" where
  "map_keys m \<equiv> map fst m"

lemma map_get_set [js_simps]: "map_get (map_set k v m) k' = (if k' = k then Some v else map_get m k')"
  by (simp add: update_conv')

lemma map_set_new: "k \<notin> set (map_keys m) \<Longrightarrow> map_set k v m = m @ [(k, v)]"
  by (induction m) auto

text \<open>A JavaScript \<open>Set\<close>: iterated in insertion order, \<open>add\<close> of a present element changes nothing.\<close>

definition js_set_add :: "'a \<Rightarrow> 'a list \<Rightarrow> 'a list" where
  "js_set_add x xs = (if x \<in> set xs then xs else xs @ [x])"

definition js_set_of :: "'a list \<Rightarrow> 'a list" where
  "js_set_of ys = fold js_set_add ys []"

lemma set_js_set_add [simp]: "set (js_set_add x xs) = insert x (set xs)"
  by (auto simp: js_set_add_def)

lemma distinct_js_set_add [simp]: "distinct xs \<Longrightarrow> distinct (js_set_add x xs)"
  by (simp add: js_set_add_def)

lemma set_fold_js_set_add [simp]: "set (fold js_set_add ys xs) = set xs \<union> set ys"
  by (induction ys arbitrary: xs) auto

lemma distinct_fold_js_set_add: "distinct xs \<Longrightarrow> distinct (fold js_set_add ys xs)"
  by (induction ys arbitrary: xs) auto

lemma fold_js_set_add_distinct:
  "distinct (xs @ ys) \<Longrightarrow> fold js_set_add ys xs = xs @ ys"
  by (induction ys arbitrary: xs) (auto simp: js_set_add_def)

lemma set_js_set_of [simp]: "set (js_set_of ys) = set ys"
  by (simp add: js_set_of_def)

lemma distinct_js_set_of [simp]: "distinct (js_set_of ys)"
  by (simp add: js_set_of_def distinct_fold_js_set_add)

lemma js_set_of_distinct: "distinct ys \<Longrightarrow> js_set_of ys = ys"
  by (simp add: js_set_of_def fold_js_set_add_distinct)

section \<open>Lists\<close>

text \<open>\<open>forEach((x, index) => ...)\<close>: the elements with their positions.\<close>

abbreviation indexed :: "'a list \<Rightarrow> (nat \<times> 'a) list" where
  "indexed xs \<equiv> enumerate 0 xs"

text \<open>\<open>toggle\<close>: the body the three toggle handlers of the client share.\<close>

definition js_toggle :: "'a \<Rightarrow> 'a list \<Rightarrow> 'a list" where
  "js_toggle x xs = (if x \<in> set xs then filter (\<lambda>y. y \<noteq> x) xs else xs @ [x])"

lemma find_Some_conv: "List.find P xs = Some x \<Longrightarrow> x \<in> set xs \<and> P x"
  by (auto simp: find_Some_iff)

lemma find_append:
  "List.find P (xs @ ys) = (case List.find P xs of None \<Rightarrow> List.find P ys | Some x \<Rightarrow> Some x)"
  by (induction xs) auto

lemma find_unique:
  assumes "distinct (map f xs)" and "x \<in> set xs"
  shows "List.find (\<lambda>y. f y = f x) xs = Some x"
  using assms
proof (induction xs)
  case Nil
  then show ?case by simp
next
  case (Cons a xs)
  then show ?case by (cases "f a = f x") (auto simp: image_iff)
qed

lemma find_map_id:
  assumes "distinct (map f xs)" and "k \<in> f ` set xs"
  obtains x where "List.find (\<lambda>y. f y = k) xs = Some x" and "x \<in> set xs" and "f x = k"
proof -
  from assms(2) obtain x where x: "x \<in> set xs" "f x = k" by auto
  with find_unique [OF assms(1) x(1)] that show ?thesis by auto
qed

section \<open>\<open>join\<close>\<close>

text \<open>\<open>xs.join(sep)\<close>\<close>

fun js_join :: "string \<Rightarrow> string list \<Rightarrow> string" where
  "js_join sep [] = []"
| "js_join sep [s] = s"
| "js_join sep (s # s' # ss) = s @ sep @ js_join sep (s' # ss)"

lemma js_join_Cons: "js_join sep (s # ss) = s @ (if ss = [] then [] else sep @ js_join sep ss)"
  by (cases ss) simp_all

text \<open>\<open>s.split(d)\<close> with a single character: always at least one part.\<close>

fun js_split :: "char \<Rightarrow> string \<Rightarrow> string list" where
  "js_split d [] = [[]]"
| "js_split d (c # s) =
     (if c = d then [] # js_split d s
      else (case js_split d s of [] \<Rightarrow> [[c]] | p # ps \<Rightarrow> (c # p) # ps))"

lemma js_split_Cons: "\<exists>q qs. js_split d s = q # qs"
  by (induction s) auto

lemma js_join_split: "js_join [d] (js_split d s) = s"
proof (induction s)
  case (Cons c s)
  obtain q qs where "js_split d s = q # qs" using js_split_Cons by blast
  with Cons show ?case by (auto simp: js_join_Cons)
qed simp

lemma js_split_app: "d \<notin> set s \<Longrightarrow> js_split d (s @ d # r) = s # js_split d r"
  by (induction s) auto

lemma js_split_none: "d \<notin> set s \<Longrightarrow> js_split d s = [s]"
  by (induction s) auto

lemma js_split_join:
  "xs \<noteq> [] \<Longrightarrow> \<forall>x \<in> set xs. d \<notin> set x \<Longrightarrow> js_split d (js_join [d] xs) = xs"
proof (induction xs)
  case (Cons x xs)
  then show ?case by (cases xs) (simp_all add: js_join_Cons js_split_none js_split_app)
qed simp

section \<open>Randomness\<close>

text \<open>
  Fresh ids are \<open>Math.random().toString(36).slice(i, j)\<close>.  The values \<open>Math.random\<close> returns are the
  environment's choice: the model takes the sequence of the base-36 expansions, \<open>rng 0\<close> for the next
  call, and hands the rest on.
\<close>

type_synonym rng = "nat \<Rightarrow> string"

definition rng_next :: "rng \<Rightarrow> string \<times> rng" where
  "rng_next r = (r 0, \<lambda>n. r (Suc n))"

definition js_slice :: "nat \<Rightarrow> nat \<Rightarrow> string \<Rightarrow> string" where
  "js_slice i j s = take (j - i) (drop i s)"

lemma fst_rng_next [simp]: "fst (rng_next r) = r 0"
  and snd_rng_next [simp]: "snd (rng_next r) = (\<lambda>n. r (Suc n))"
  by (simp_all add: rng_next_def)

section \<open>Components driven by events\<close>

text \<open>
  A component whose operations all keep an invariant: \<open>step e s\<close> is the state after one event, a run
  is a list of events.
\<close>

locale machine =
  fixes step :: "'e \<Rightarrow> 's \<Rightarrow> 's"
    and inv :: "'s \<Rightarrow> bool"
  assumes preserved: "inv s \<Longrightarrow> inv (step e s)"
begin

lemma run: "inv s \<Longrightarrow> inv (fold step es s)"
  by (induction es arbitrary: s) (simp_all add: preserved)

lemma run_snoc: "inv s \<Longrightarrow> inv (step e (fold step es s))"
  by (intro preserved run)

end

end
