(* ===== verification/Js_Regex.thy ===== *)
theory Js_Regex
  imports Prelude
begin

text \<open>
  The part of \<open>RegExp\<close> the client uses: character classes, sequence, alternation, greedy
  repetition, numbered groups and the word boundary.  Matching is the backtracking of the language
  standard, written as the list of all matches in the order the matcher tries them: the head of the
  list is the match JavaScript reports.  An iteration of a repetition that consumes nothing is
  abandoned, as the standard prescribes, so the list is finite.  For patterns without a word
  boundary, a whole-string test is membership in the usual language of the pattern
  (\<open>rx_full_iff\<close>).
\<close>

datatype rx =
    RCls "char \<Rightarrow> bool"
  | RSeq rx rx
  | RAlt rx rx
  | RStar rx
  | RCap nat rx
  | RWordB
  | REps

text \<open>
  A matcher state: the characters already passed (the last one first), the characters ahead, and
  the groups captured so far (a later capture of a group hides an earlier one).
\<close>

type_synonym rx_state = "string \<times> string \<times> (nat \<times> string) list"

definition rx_word :: "char \<Rightarrow> bool" where
  "rx_word c \<longleftrightarrow> (let n = (of_char c :: nat) in 48 \<le> n \<and> n \<le> 57 \<or> 65 \<le> n \<and> n \<le> 90 \<or> n = 95 \<or> 97 \<le> n \<and> n \<le> 122)"

fun rx_at_word :: "string \<Rightarrow> bool" where
  "rx_at_word [] = False"
| "rx_at_word (c # s) = rx_word c"

fun rx_ahead :: "rx_state \<Rightarrow> string" where
  "rx_ahead (b, s, cs) = s"

function rx_star :: "(rx_state \<Rightarrow> rx_state list) \<Rightarrow> rx_state \<Rightarrow> rx_state list" where
  "rx_star m st =
     concat (map (\<lambda>st'. if length (rx_ahead st') < length (rx_ahead st) then rx_star m st' else []) (m st)) @ [st]"
  by pat_completeness auto
termination
  by (relation "measure (\<lambda>(m, st). length (rx_ahead st))") auto

declare rx_star.simps [simp del]

fun rx_cls :: "(char \<Rightarrow> bool) \<Rightarrow> rx_state \<Rightarrow> rx_state list" where
  "rx_cls P (b, [], cs) = []"
| "rx_cls P (b, c # s, cs) = (if P c then [(c # b, s, cs)] else [])"

definition rx_close :: "nat \<Rightarrow> rx_state \<Rightarrow> rx_state \<Rightarrow> rx_state" where
  "rx_close k st st' = (case (st, st') of ((b, s, cs), (b', s', cs')) \<Rightarrow>
     (b', s', (k, take (length s - length s') s) # cs'))"

primrec rx_ms :: "rx \<Rightarrow> rx_state \<Rightarrow> rx_state list" where
  "rx_ms (RCls P) = rx_cls P"
| "rx_ms (RSeq r1 r2) = (\<lambda>st. concat (map (rx_ms r2) (rx_ms r1 st)))"
| "rx_ms (RAlt r1 r2) = (\<lambda>st. rx_ms r1 st @ rx_ms r2 st)"
| "rx_ms (RStar r) = rx_star (rx_ms r)"
| "rx_ms (RCap k r) = (\<lambda>st. map (rx_close k st) (rx_ms r st))"
| "rx_ms RWordB = (\<lambda>st. case st of (b, s, cs) \<Rightarrow> if rx_at_word b \<noteq> rx_at_word s then [st] else [])"
| "rx_ms REps = (\<lambda>st. [st])"

text \<open>Derived forms: literals, one-or-more, optional, bounded repetition, positive and negated sets.\<close>

definition rx_chr :: "char \<Rightarrow> rx" where
  "rx_chr c = RCls (\<lambda>d. d = c)"

definition rx_in :: "string \<Rightarrow> rx" where
  "rx_in cs = RCls (\<lambda>d. d \<in> set cs)"

definition rx_not_in :: "string \<Rightarrow> rx" where
  "rx_not_in cs = RCls (\<lambda>d. d \<notin> set cs)"

primrec rx_lit :: "string \<Rightarrow> rx" where
  "rx_lit [] = REps"
| "rx_lit (c # s) = RSeq (rx_chr c) (rx_lit s)"

definition rx_plus :: "rx \<Rightarrow> rx" where
  "rx_plus r = RSeq r (RStar r)"

definition rx_opt :: "rx \<Rightarrow> rx" where
  "rx_opt r = RAlt r REps"

primrec rx_times :: "nat \<Rightarrow> rx \<Rightarrow> rx" where
  "rx_times 0 r = REps"
| "rx_times (Suc n) r = RSeq r (rx_times n r)"

primrec rx_alts :: "rx list \<Rightarrow> rx" where
  "rx_alts [] = RCls (\<lambda>_. False)"
| "rx_alts (r # rs) = (if rs = [] then r else RAlt r (rx_alts rs))"

primrec rx_seqs :: "rx list \<Rightarrow> rx" where
  "rx_seqs [] = REps"
| "rx_seqs (r # rs) = (if rs = [] then r else RSeq r (rx_seqs rs))"

definition rx_digit :: rx where
  "rx_digit = RCls (\<lambda>c. 48 \<le> (of_char c :: nat) \<and> (of_char c :: nat) \<le> 57)"

text \<open>\<open>/^r$/.test(s)\<close>: some match from the start ends at the end.\<close>

definition rx_full :: "rx \<Rightarrow> string \<Rightarrow> bool" where
  "rx_full r s \<longleftrightarrow> (\<exists>st \<in> set (rx_ms r ([], s, [])). rx_ahead st = [])"

text \<open>
  \<open>s.replace(/r/g, f)\<close>: from left to right, at each position the first match is replaced by what
  \<open>f\<close> makes of the matched text and the groups; without a match the character is copied.  The
  patterns of the client never match the empty string; an empty match is treated as no match.
\<close>

function rx_replace_from :: "rx \<Rightarrow> (string \<Rightarrow> (nat \<times> string) list \<Rightarrow> string) \<Rightarrow> string \<Rightarrow> string \<Rightarrow> string" where
  "rx_replace_from r f b [] = []"
| "rx_replace_from r f b (c # s) =
     (case rx_ms r (b, c # s, []) of
        (b', s', cs) # _ \<Rightarrow>
          (if length s' < length (c # s)
           then f (take (length (c # s) - length s') (c # s)) cs @ rx_replace_from r f b' s'
           else c # rx_replace_from r f (c # b) s)
      | [] \<Rightarrow> c # rx_replace_from r f (c # b) s)"
  by pat_completeness auto
termination
  by (relation "measure (\<lambda>(r, f, b, s). length s)") auto

declare rx_replace_from.simps(2) [simp del]

definition rx_replace :: "rx \<Rightarrow> (string \<Rightarrow> (nat \<times> string) list \<Rightarrow> string) \<Rightarrow> string \<Rightarrow> string" where
  "rx_replace r f s = rx_replace_from r f [] s"

section \<open>The language of a pattern\<close>

text \<open>The words of a repetition.\<close>

inductive_set rx_words_star :: "string set \<Rightarrow> string set" for A :: "string set" where
  star_Nil: "[] \<in> rx_words_star A"
| star_app: "u \<in> A \<Longrightarrow> v \<in> rx_words_star A \<Longrightarrow> u @ v \<in> rx_words_star A"

primrec rx_lang :: "rx \<Rightarrow> string set" where
  "rx_lang (RCls P) = {[c] | c. P c}"
| "rx_lang (RSeq r1 r2) = {u @ v | u v. u \<in> rx_lang r1 \<and> v \<in> rx_lang r2}"
| "rx_lang (RAlt r1 r2) = rx_lang r1 \<union> rx_lang r2"
| "rx_lang (RStar r) = rx_words_star (rx_lang r)"
| "rx_lang (RCap k r) = rx_lang r"
| "rx_lang RWordB = {[]}"
| "rx_lang REps = {[]}"

primrec rx_plain :: "rx \<Rightarrow> bool" where
  "rx_plain (RCls P) = True"
| "rx_plain (RSeq r1 r2) = (rx_plain r1 \<and> rx_plain r2)"
| "rx_plain (RAlt r1 r2) = (rx_plain r1 \<and> rx_plain r2)"
| "rx_plain (RStar r) = rx_plain r"
| "rx_plain (RCap k r) = rx_plain r"
| "rx_plain RWordB = False"
| "rx_plain REps = True"

text \<open>What a matcher that consumes exactly the words of a language does to the text ahead.\<close>

definition rx_consumes :: "(rx_state \<Rightarrow> rx_state list) \<Rightarrow> string set \<Rightarrow> bool" where
  "rx_consumes m A \<longleftrightarrow>
     (\<forall>st s'. s' \<in> rx_ahead ` set (m st) \<longleftrightarrow> (\<exists>w \<in> A. rx_ahead st = w @ s'))"

lemma rx_consumes_D: "rx_consumes m A \<Longrightarrow> st' \<in> set (m st) \<Longrightarrow> \<exists>w \<in> A. rx_ahead st = w @ rx_ahead st'"
  unfolding rx_consumes_def by blast

lemma rx_consumes_I: "rx_consumes m A \<Longrightarrow> w \<in> A \<Longrightarrow> rx_ahead st = w @ s' \<Longrightarrow> \<exists>st' \<in> set (m st). rx_ahead st' = s'"
  unfolding rx_consumes_def by (metis imageE)

lemma rx_star_here: "st \<in> set (rx_star m st)"
  by (subst rx_star.simps) simp

lemma rx_star_more:
  "st1 \<in> set (m st) \<Longrightarrow> length (rx_ahead st1) < length (rx_ahead st) \<Longrightarrow>
    st' \<in> set (rx_star m st1) \<Longrightarrow> st' \<in> set (rx_star m st)"
  by (subst rx_star.simps) auto

lemma rx_star_cases:
  assumes "st' \<in> set (rx_star m st)"
  obtains "st' = st"
  | st1 where "st1 \<in> set (m st)" "length (rx_ahead st1) < length (rx_ahead st)" "st' \<in> set (rx_star m st1)"
  using assms by (subst (asm) rx_star.simps) (auto split: if_splits)

lemma rx_star_sound:
  "rx_consumes m A \<Longrightarrow> st' \<in> set (rx_star m st) \<Longrightarrow> \<exists>w \<in> rx_words_star A. rx_ahead st = w @ rx_ahead st'"
proof (induction m st arbitrary: st' rule: rx_star.induct)
  case (1 m st)
  from "1.prems"(2) show ?case
  proof (cases rule: rx_star_cases)
    case 1
    then show ?thesis using star_Nil by force
  next
    case (2 st1)
    from rx_consumes_D [OF "1.prems"(1) 2(1)] obtain u where u: "u \<in> A" "rx_ahead st = u @ rx_ahead st1"
      by blast
    from "1.IH" [OF 2(1,2) "1.prems"(1) 2(3)] obtain v
      where "v \<in> rx_words_star A" "rx_ahead st1 = v @ rx_ahead st'" by blast
    with u show ?thesis by (metis append_assoc star_app)
  qed
qed

lemma rx_star_complete:
  "w \<in> rx_words_star A \<Longrightarrow> rx_consumes m A \<Longrightarrow> rx_ahead st = w @ s' \<Longrightarrow>
    \<exists>st' \<in> set (rx_star m st). rx_ahead st' = s'"
proof (induction w arbitrary: st rule: rx_words_star.induct)
  case star_Nil
  then show ?case using rx_star_here by fastforce
next
  case (star_app u v)
  show ?case
  proof (cases "u = []")
    case True
    with star_app show ?thesis by simp
  next
    case False
    from star_app.prems(2) have "rx_ahead st = u @ (v @ s')" by simp
    with star_app obtain st1 where st1: "st1 \<in> set (m st)" "rx_ahead st1 = v @ s'"
      by (blast dest: rx_consumes_I)
    with star_app obtain st' where "st' \<in> set (rx_star m st1)" "rx_ahead st' = s'" by blast
    moreover from st1 False star_app.prems(2) have "length (rx_ahead st1) < length (rx_ahead st)" by simp
    ultimately show ?thesis using st1(1) rx_star_more by blast
  qed
qed

lemma rx_consumes_star: "rx_consumes m A \<Longrightarrow> rx_consumes (rx_star m) (rx_words_star A)"
  unfolding rx_consumes_def [of "rx_star m"]
proof (intro allI iffI)
  fix st s'
  assume "rx_consumes m A" and "s' \<in> rx_ahead ` set (rx_star m st)"
  then show "\<exists>w \<in> rx_words_star A. rx_ahead st = w @ s'" using rx_star_sound by blast
next
  fix st s'
  assume "rx_consumes m A" and "\<exists>w \<in> rx_words_star A. rx_ahead st = w @ s'"
  then show "s' \<in> rx_ahead ` set (rx_star m st)" using rx_star_complete by blast
qed

lemma rx_consumes_seq:
  assumes "rx_consumes m1 A" and "rx_consumes m2 B"
  shows "rx_consumes (\<lambda>st. concat (map m2 (m1 st))) {u @ v | u v. u \<in> A \<and> v \<in> B}"
  unfolding rx_consumes_def
proof (intro allI iffI)
  fix st s'
  assume "s' \<in> rx_ahead ` set (concat (map m2 (m1 st)))"
  then obtain st1 st2 where 1: "st1 \<in> set (m1 st)" "st2 \<in> set (m2 st1)" "s' = rx_ahead st2" by auto
  from rx_consumes_D [OF assms(1) 1(1)] rx_consumes_D [OF assms(2) 1(2)] 1(3)
  show "\<exists>w \<in> {u @ v | u v. u \<in> A \<and> v \<in> B}. rx_ahead st = w @ s'" by fastforce
next
  fix st s'
  assume "\<exists>w \<in> {u @ v | u v. u \<in> A \<and> v \<in> B}. rx_ahead st = w @ s'"
  then obtain u v where uv: "u \<in> A" "v \<in> B" "rx_ahead st = u @ (v @ s')" by auto
  from rx_consumes_I [OF assms(1) uv(1,3)] obtain st1
    where st1: "st1 \<in> set (m1 st)" "rx_ahead st1 = v @ s'" by blast
  from rx_consumes_I [OF assms(2) uv(2) st1(2)] st1(1)
  show "s' \<in> rx_ahead ` set (concat (map m2 (m1 st)))" by force
qed

lemma rx_ahead_close [simp]: "rx_ahead (rx_close k st st') = rx_ahead st'"
  by (simp add: rx_close_def split: prod.splits)

lemma rx_consumes_cls: "rx_consumes (rx_cls P) {[c] | c. P c}"
  unfolding rx_consumes_def
proof (intro allI)
  fix st s'
  show "s' \<in> rx_ahead ` set (rx_cls P st) \<longleftrightarrow> (\<exists>w \<in> {[c] | c. P c}. rx_ahead st = w @ s')"
    by (cases "(P, st)" rule: rx_cls.cases) auto
qed

theorem rx_ms_consumes: "rx_plain r \<Longrightarrow> rx_consumes (rx_ms r) (rx_lang r)"
proof (induction r)
  case (RCls P)
  show ?case by (simp add: rx_consumes_cls)
next
  case (RSeq r1 r2)
  then show ?case using rx_consumes_seq by simp
next
  case (RAlt r1 r2)
  then show ?case by (auto simp: rx_consumes_def image_Un)
next
  case (RStar r)
  then show ?case by (simp add: rx_consumes_star)
next
  case (RCap k r)
  then show ?case by (simp add: rx_consumes_def image_image)
next
  case RWordB
  then show ?case by simp
next
  case REps
  show ?case by (auto simp: rx_consumes_def)
qed

theorem rx_full_iff: "rx_plain r \<Longrightarrow> rx_full r s \<longleftrightarrow> s \<in> rx_lang r"
proof -
  assume "rx_plain r"
  from rx_ms_consumes [OF this] have "[] \<in> rx_ahead ` set (rx_ms r ([], s, [])) \<longleftrightarrow>
    (\<exists>w \<in> rx_lang r. rx_ahead ([], s, []) = w @ [])"
    unfolding rx_consumes_def by blast
  moreover have "rx_full r s \<longleftrightarrow> [] \<in> rx_ahead ` set (rx_ms r ([], s, []))"
    unfolding rx_full_def image_iff by (simp only: eq_sym_conv [of "[]"])
  ultimately show ?thesis by simp
qed

lemma rx_plain_derived [simp]:
  "rx_plain (rx_chr c)" "rx_plain (rx_in cs)" "rx_plain (rx_not_in cs)" "rx_plain rx_digit"
  "rx_plain (rx_plus r) \<longleftrightarrow> rx_plain r" "rx_plain (rx_opt r) \<longleftrightarrow> rx_plain r"
  by (simp_all add: rx_chr_def rx_in_def rx_not_in_def rx_plus_def rx_opt_def rx_digit_def)

lemma rx_plain_lit [simp]: "rx_plain (rx_lit s)"
  by (induction s) simp_all

lemma rx_plain_times [simp]: "rx_plain r \<Longrightarrow> rx_plain (rx_times n r)"
  by (induction n) simp_all

lemma rx_plain_alts [simp]: "rx_plain (rx_alts rs) \<longleftrightarrow> list_all rx_plain rs"
  by (induction rs) auto

lemma rx_plain_seqs [simp]: "rx_plain (rx_seqs rs) \<longleftrightarrow> list_all rx_plain rs"
  by (induction rs) auto

lemma rx_lang_chr [simp]: "rx_lang (rx_chr c) = {[c]}"
  and rx_lang_in [simp]: "rx_lang (rx_in cs) = {[c] | c. c \<in> set cs}"
  and rx_lang_not_in [simp]: "rx_lang (rx_not_in cs) = {[c] | c. c \<notin> set cs}"
  and rx_lang_digit [simp]: "rx_lang rx_digit = {[c] | c. 48 \<le> (of_char c :: nat) \<and> (of_char c :: nat) \<le> 57}"
  and rx_lang_opt [simp]: "rx_lang (rx_opt r) = insert [] (rx_lang r)"
  by (auto simp: rx_chr_def rx_in_def rx_not_in_def rx_digit_def rx_opt_def)

lemma rx_lang_lit [simp]: "rx_lang (rx_lit s) = {s}"
  by (induction s) auto

lemma rx_lang_alts: "w \<in> rx_lang (rx_alts rs) \<longleftrightarrow> (\<exists>r \<in> set rs. w \<in> rx_lang r)"
  by (induction rs) auto

text \<open>Repetitions of a single-character class are the words over the class.\<close>

lemma rx_words_star_cls: "w \<in> rx_words_star {[c] | c. P c} \<longleftrightarrow> list_all P w"
proof
  show "w \<in> rx_words_star {[c] | c. P c} \<Longrightarrow> list_all P w"
    by (induction rule: rx_words_star.induct) auto
  show "list_all P w \<Longrightarrow> w \<in> rx_words_star {[c] | c. P c}"
  proof (induction w)
    case Nil
    show ?case by (rule star_Nil)
  next
    case (Cons c w)
    then show ?case using star_app [of "[c]" "{[c] | c. P c}" w] by simp
  qed
qed

lemma rx_lang_plus: "w \<in> rx_lang (rx_plus r) \<longleftrightarrow> (\<exists>u v. w = u @ v \<and> u \<in> rx_lang r \<and> v \<in> rx_words_star (rx_lang r))"
  by (auto simp: rx_plus_def)

lemma rx_lang_plus_one: "w \<in> rx_lang r \<Longrightarrow> w \<in> rx_lang (rx_plus r)"
  using star_Nil by (force simp: rx_lang_plus)

lemma rx_lang_plus_cls: "w \<in> rx_lang (rx_plus (RCls P)) \<longleftrightarrow> w \<noteq> [] \<and> list_all P w"
proof
  show "w \<in> rx_lang (rx_plus (RCls P)) \<Longrightarrow> w \<noteq> [] \<and> list_all P w"
    by (auto simp: rx_lang_plus rx_words_star_cls)
  show "w \<noteq> [] \<and> list_all P w \<Longrightarrow> w \<in> rx_lang (rx_plus (RCls P))"
  proof (cases w)
    case (Cons c v)
    assume "w \<noteq> [] \<and> list_all P w"
    with Cons have "w = [c] @ v" "[c] \<in> rx_lang (RCls P)" "v \<in> rx_words_star (rx_lang (RCls P))"
      by (simp_all add: rx_words_star_cls)
    then show ?thesis unfolding rx_lang_plus by blast
  qed simp
qed

lemma rx_lang_plus_digit:
  "w \<in> rx_lang (rx_plus rx_digit) \<longleftrightarrow>
    w \<noteq> [] \<and> list_all (\<lambda>c. 48 \<le> (of_char c :: nat) \<and> (of_char c :: nat) \<le> 57) w"
  unfolding rx_digit_def by (rule rx_lang_plus_cls)

text \<open>Every character of a matched text satisfies \<open>Q\<close> when every class of the pattern does.\<close>

primrec rx_over :: "(char \<Rightarrow> bool) \<Rightarrow> rx \<Rightarrow> bool" where
  "rx_over Q (RCls P) \<longleftrightarrow> (\<forall>c. P c \<longrightarrow> Q c)"
| "rx_over Q (RSeq r1 r2) \<longleftrightarrow> rx_over Q r1 \<and> rx_over Q r2"
| "rx_over Q (RAlt r1 r2) \<longleftrightarrow> rx_over Q r1 \<and> rx_over Q r2"
| "rx_over Q (RStar r) \<longleftrightarrow> rx_over Q r"
| "rx_over Q (RCap k r) \<longleftrightarrow> rx_over Q r"
| "rx_over Q RWordB \<longleftrightarrow> True"
| "rx_over Q REps \<longleftrightarrow> True"

lemma rx_words_star_all: "w \<in> rx_words_star A \<Longrightarrow> \<forall>v \<in> A. list_all Q v \<Longrightarrow> list_all Q w"
  by (induction rule: rx_words_star.induct) auto

lemma rx_lang_over: "rx_over Q r \<Longrightarrow> w \<in> rx_lang r \<Longrightarrow> list_all Q w"
  by (induction r arbitrary: w) (auto dest: rx_words_star_all)

lemma rx_over_derived [simp]:
  "rx_over Q (rx_in cs) \<longleftrightarrow> list_all Q cs" "rx_over Q (rx_chr c) \<longleftrightarrow> Q c"
  "rx_over Q (rx_plus r) \<longleftrightarrow> rx_over Q r" "rx_over Q (rx_opt r) \<longleftrightarrow> rx_over Q r"
  by (auto simp: rx_in_def rx_chr_def rx_plus_def rx_opt_def list_all_iff)

lemma rx_over_lit [simp]: "rx_over Q (rx_lit s) \<longleftrightarrow> list_all Q s"
  by (induction s) simp_all

lemma rx_over_times [simp]: "rx_over Q r \<Longrightarrow> rx_over Q (rx_times n r)"
  by (induction n) simp_all

lemma rx_over_seqs [simp]: "rx_over Q (rx_seqs rs) \<longleftrightarrow> list_all (rx_over Q) rs"
  by (induction rs) auto

lemma rx_over_alts [simp]: "rx_over Q (rx_alts rs) \<longleftrightarrow> list_all (rx_over Q) rs"
  by (induction rs) auto

end
