(* ===== verification/Workflow_Types.thy ===== *)
theory Workflow_Types
  imports Js_Regex
begin

text \<open>
  The data of the workflow builder: the definition the backend stores
  (\<open>web/src/app/types/workflow.ts\<close>), the draft the builder edits
  (\<open>features/workflows/types/draft.ts\<close>) and the constants both share
  (\<open>features/workflows/constants/index.ts\<close>).

  A stored definition is parsed JSON whose TypeScript type nobody checks at run time.  Where the code
  tests a value before it uses it, the model keeps what is tested: optional fields are options, the
  free-form \<open>config\<close> of a node is a list of keys with JSON values, a channel is a string (the code
  casts it), and a node type outside the four declared ones is \<open>OtherType\<close>, which the code's
  \<open>default\<close> branches handle.
\<close>

section \<open>JSON values\<close>

datatype json =
    JNull
  | JBool bool
  | JNum rat
  | JStr string
  | JArr "json list"
  | JObj "(string \<times> json) list"

text \<open>\<open>typeof o[k] === 'string'\<close> with the string it finds.\<close>

definition obj_str :: "(string \<times> json) list \<Rightarrow> string \<Rightarrow> string option" where
  "obj_str o1 k = (case map_of o1 k of Some (JStr s) \<Rightarrow> Some s | _ \<Rightarrow> None)"

section \<open>The stored workflow definition\<close>

datatype wf_node_type = Trigger | Notification | Delay | Condition | OtherType string

fun type_text :: "wf_node_type \<Rightarrow> string" where
  "type_text Trigger = ''trigger''"
| "type_text Notification = ''notification''"
| "type_text Delay = ''delay''"
| "type_text Condition = ''condition''"
| "type_text (OtherType s) = s"

record wf_trigger =
  wt_event :: "string option"

record wf_node =
  wn_id :: string
  wn_type :: wf_node_type
  wn_config :: "(string \<times> json) list option"

record wf_edge =
  we_source :: string
  we_target :: string
  we_branch :: "string option"

record wf_definition =
  wd_trigger :: "wf_trigger option"
  wd_nodes :: "wf_node list"
  wd_edges :: "wf_edge list"
  wd_payload :: "json option"

record workflow_item =
  wfi_id :: string
  wfi_key :: string
  wfi_name :: string
  wfi_description :: "string option"
  wfi_channels :: "string list option"
  wfi_status :: "string option"
  wfi_triggerEvent :: "string option"
  wfi_definition :: "wf_definition option"
  wfi_createdAt :: string
  wfi_updatedAt :: string

record workflow_payload =
  wp_key :: string
  wp_name :: string
  wp_description :: "string option"
  wp_definition :: wf_definition

text \<open>What a rejected promise carries: an \<open>Error\<close> with its message, or something else.\<close>

datatype thrown = ErrorObj string | OtherThrown

definition error_message :: "thrown \<Rightarrow> string \<Rightarrow> string" where
  "error_message e fallback = (case e of ErrorObj m \<Rightarrow> m | OtherThrown \<Rightarrow> fallback)"

section \<open>The builder's draft\<close>

record node_draft =
  bn_id :: string
  bn_name :: string
  bn_type :: wf_node_type
  bn_duration :: string
  bn_templateId :: string
  bn_channel :: string
  bn_field :: string
  bn_operator :: string
  bn_value :: string

record edge_draft =
  be_source :: string
  be_target :: string
  be_branch :: string

record wf_draft =
  wb_triggerEvent :: string
  wb_nodes :: "node_draft list"
  wb_edges :: "edge_draft list"

record wf_issue =
  wi_path :: string
  wi_message :: string

section \<open>Constants\<close>

definition notificationChannels :: "string list" where
  "notificationChannels = [''email'', ''sms'', ''push'']"

definition rx_hex :: rx where
  "rx_hex = rx_in ''0123456789abcdefABCDEF''"

text \<open>\<open>/^[0-9a-f]{8}-[0-9a-f]{4}-[1-5][0-9a-f]{3}-[89ab][0-9a-f]{3}-[0-9a-f]{12}$/i\<close>\<close>

definition uuidPattern :: rx where
  "uuidPattern = rx_seqs
     [rx_times 8 rx_hex, rx_chr CHR ''-'', rx_times 4 rx_hex, rx_chr CHR ''-'',
      rx_in ''12345'', rx_times 3 rx_hex, rx_chr CHR ''-'',
      rx_in ''89abAB'', rx_times 3 rx_hex, rx_chr CHR ''-'', rx_times 12 rx_hex]"

definition is_uuid :: "string \<Rightarrow> bool" where
  "is_uuid s = rx_full uuidPattern s"

text \<open>\<open>/^(\d+(?:\.\d+)?(?:ns|us|<micro>s|ms|s|m|h))+$/\<close>, the micro sign being the code unit 181.\<close>

definition rx_number :: rx where
  "rx_number = RSeq (rx_plus rx_digit) (rx_opt (RSeq (rx_chr CHR ''.'') (rx_plus rx_digit)))"

definition durationPattern :: rx where
  "durationPattern = rx_plus (RCap 1 (RSeq rx_number
     (rx_alts (map rx_lit [''ns'', ''us'', [CHR 0xB5, CHR ''s''], ''ms'', ''s'', ''m'', ''h'']))))"

definition is_go_duration :: "string \<Rightarrow> bool" where
  "is_go_duration s = rx_full durationPattern s"

definition zeroUUID :: string where
  "zeroUUID = ''00000000-0000-0000-0000-000000000000''"

definition nodeWidth :: rat where
  "nodeWidth = 288"

definition nodeHeight :: rat where
  "nodeHeight = 156"

text \<open>A UUID holds no white space, so trimming keeps it; it is not empty, and not the zero UUID.\<close>

definition uuid_char :: "char \<Rightarrow> bool" where
  "uuid_char c \<longleftrightarrow> c \<in> set ''0123456789abcdefABCDEF-''"

lemma uuid_char_not_ws: "uuid_char c \<Longrightarrow> \<not> js_ws c"
  by (auto simp: uuid_char_def js_ws_def)

lemma uuidPattern_plain: "rx_plain uuidPattern"
  by (simp add: uuidPattern_def rx_hex_def)

lemma uuidPattern_over: "rx_over uuid_char uuidPattern"
  by (simp add: uuidPattern_def rx_hex_def uuid_char_def)

lemma is_uuid_chars: "is_uuid s \<Longrightarrow> list_all uuid_char s"
  using rx_lang_over [OF uuidPattern_over] by (simp add: is_uuid_def rx_full_iff [OF uuidPattern_plain])

lemma is_uuid_trim: "is_uuid s \<Longrightarrow> js_trim s = s"
  using is_uuid_chars uuid_char_not_ws by (intro js_trim_no_ws) (auto simp: list_all_iff)

lemma not_is_uuid_Nil [simp]: "\<not> is_uuid []"
  by code_simp

lemma not_is_uuid_zero [simp]: "\<not> is_uuid zeroUUID"
  by code_simp

end
