(* ===== verification/Draft.thy ===== *)
theory Draft
  imports Workflow_Types
begin

text \<open>
  The builder draft (\<open>features/workflows/draft\<close>, \<open>utils/display\<close>): creating nodes, normalising a
  node for its type, and the two conversions between the draft and the stored definition.  The lemmas
  show what normalisation guarantees, that saving a clean draft and loading it back gives the same
  draft, and that a draft that went through storage once never changes again.
\<close>

section \<open>Names (\<open>utils/display/node-name.ts\<close>)\<close>

definition buildDefaultNodeName :: "wf_node_type \<Rightarrow> string option \<Rightarrow> string" where
  "buildDefaultNodeName t channel =
     (case t of
        Trigger \<Rightarrow> ''Test trigger''
      | Delay \<Rightarrow> ''Delay step''
      | Condition \<Rightarrow> ''Condition step''
      | Notification \<Rightarrow>
          (if channel = Some ''sms'' then ''SMS notification''
           else if channel = Some ''push'' then ''Push notification''
           else ''Email notification'')
      | OtherType _ \<Rightarrow> ''Workflow step'')"

definition getNodeDisplayName :: "node_draft \<Rightarrow> string" where
  "getNodeDisplayName d =
     js_or (js_trim (bn_name d)) (buildDefaultNodeName (bn_type d) (Some (bn_channel d)))"

definition getNodeName :: "wf_node option \<Rightarrow> string \<Rightarrow> string" where
  "getNodeName node fallbackNodeId =
     (let config = (case node of None \<Rightarrow> [] | Some n \<Rightarrow> (case wn_config n of None \<Rightarrow> [] | Some c \<Rightarrow> c))
      in case obj_str config ''name'' of
           Some s \<Rightarrow> if js_trim s \<noteq> [] then js_trim s
                     else js_or (case node of None \<Rightarrow> [] | Some n \<Rightarrow> wn_id n) fallbackNodeId
         | None \<Rightarrow> js_or (case node of None \<Rightarrow> [] | Some n \<Rightarrow> wn_id n) fallbackNodeId)"

section \<open>Creating nodes (\<open>create-node.ts\<close>, \<open>create-default.ts\<close>)\<close>

text \<open>Only a node that is not a trigger draws from the random source.\<close>

definition createNodeDraft :: "wf_node_type \<Rightarrow> string option \<Rightarrow> rng \<Rightarrow> node_draft \<times> rng" where
  "createNodeDraft t channel r =
     (if t = Trigger then
        (\<lparr>bn_id = ''trigger_1'', bn_name = buildDefaultNodeName t None, bn_type = t,
          bn_duration = ''5m'', bn_templateId = [], bn_channel = [],
          bn_field = ''data.plan'', bn_operator = ''equals'', bn_value = ''pro''\<rparr>, r)
      else
        (let (rand, r') = rng_next r; ch = js_or (str_or_empty channel) ''email''
         in (\<lparr>bn_id = (if t = Notification then ch @ ''_'' @ js_slice 2 6 rand
                       else type_text t @ ''_'' @ js_slice 2 6 rand),
              bn_name = buildDefaultNodeName t channel, bn_type = t,
              bn_duration = ''5m'', bn_templateId = [],
              bn_channel = (if t = Notification then ch else []),
              bn_field = ''data.plan'', bn_operator = ''equals'', bn_value = ''pro''\<rparr>, r')))"

text \<open>\<open>createNodeDraft('trigger')\<close>: the random source is not touched, so none is passed.\<close>

definition triggerNodeDraft :: node_draft where
  "triggerNodeDraft = fst (createNodeDraft Trigger None (\<lambda>_. []))"

lemma createNodeDraft_Trigger [simp]: "createNodeDraft Trigger channel r = (triggerNodeDraft, r)"
  by (simp add: createNodeDraft_def triggerNodeDraft_def)

definition createDefaultWorkflowBuilderDraft :: wf_draft where
  "createDefaultWorkflowBuilderDraft =
     \<lparr>wb_triggerEvent = ''user.signup'',
      wb_nodes = [triggerNodeDraft\<lparr>bn_id := ''trigger_1'', bn_name := ''Test trigger''\<rparr>],
      wb_edges = []\<rparr>"

section \<open>Normalisation (\<open>normalize.ts\<close>)\<close>

definition normalizeImportedTemplateId :: "json option \<Rightarrow> string" where
  "normalizeImportedTemplateId v =
     (let templateId = (case v of Some (JStr s) \<Rightarrow> js_trim s | _ \<Rightarrow> [])
      in if templateId = [] then [] else if is_uuid templateId then templateId else [])"

definition normalizeNodeDraftForType :: "node_draft \<Rightarrow> wf_node_type \<Rightarrow> node_draft" where
  "normalizeNodeDraftForType d t =
     (if t = Trigger then
        d\<lparr>bn_name := bn_name d, bn_type := t, bn_duration := ''5m'', bn_templateId := [], bn_channel := [],
          bn_field := ''data.plan'', bn_operator := ''equals'', bn_value := ''pro''\<rparr>
      else
        \<lparr>bn_id = bn_id d, bn_name = bn_name d, bn_type = t,
         bn_duration = (if t = Delay then bn_duration d else ''5m''),
         bn_templateId = (if t = Notification then js_or (bn_templateId d) [] else []),
         bn_channel = (if t = Notification then js_or (bn_channel d) ''email'' else []),
         bn_field = (if t = Condition then js_or (bn_field d) ''data.plan'' else ''data.plan''),
         bn_operator = (if t = Condition then js_or (bn_operator d) ''equals'' else ''equals''),
         bn_value = (if t = Condition then bn_value d else ''pro'')\<rparr>)"

section \<open>Definition to draft (\<open>from-definition.ts\<close>)\<close>

definition importNode :: "wf_node \<Rightarrow> node_draft" where
  "importNode node =
     (let config = (case wn_config node of None \<Rightarrow> [] | Some c \<Rightarrow> c);
          channel = (case map_of config ''channels'' of Some (JArr (JStr c # _)) \<Rightarrow> c | _ \<Rightarrow> []);
          default_name = buildDefaultNodeName (wn_type node) (Some channel)
      in normalizeNodeDraftForType
           \<lparr>bn_id = wn_id node,
            bn_name = (case obj_str config ''name'' of
                         Some s \<Rightarrow> if js_trim s \<noteq> [] then js_trim s else default_name
                       | None \<Rightarrow> default_name),
            bn_type = wn_type node,
            bn_duration = (case obj_str config ''duration'' of Some s \<Rightarrow> s | None \<Rightarrow> ''5m''),
            bn_templateId = normalizeImportedTemplateId (map_of config ''template_id''),
            bn_channel = channel,
            bn_field = (case obj_str config ''field'' of Some s \<Rightarrow> s | None \<Rightarrow> ''data.plan''),
            bn_operator = (case obj_str config ''operator'' of Some s \<Rightarrow> s | None \<Rightarrow> ''equals''),
            bn_value = (case obj_str config ''value'' of Some s \<Rightarrow> s | None \<Rightarrow> [])\<rparr>
           (wn_type node))"

definition importEdge :: "wf_edge \<Rightarrow> edge_draft" where
  "importEdge e = \<lparr>be_source = we_source e, be_target = we_target e, be_branch = str_or_empty (we_branch e)\<rparr>"

definition builderDraftFromDefinition :: "wf_definition option \<Rightarrow> wf_draft" where
  "builderDraftFromDefinition definition0 =
     (case definition0 of
        None \<Rightarrow> createDefaultWorkflowBuilderDraft
      | Some d \<Rightarrow>
          (let event = (case wd_trigger d of None \<Rightarrow> [] | Some t \<Rightarrow> str_or_empty (wt_event t));
               nodes = map importNode (wd_nodes d);
               edges = map importEdge (wd_edges d);
               hasTriggerNode = (\<exists>n \<in> set nodes. bn_type n = Trigger)
           in if hasTriggerNode then \<lparr>wb_triggerEvent = event, wb_nodes = nodes, wb_edges = edges\<rparr>
              else
                (let nodes' = triggerNodeDraft\<lparr>bn_id := ''trigger_1''\<rparr> # nodes
                 in case List.find (\<lambda>n. bn_type n \<noteq> Trigger) nodes' of
                      None \<Rightarrow> \<lparr>wb_triggerEvent = event, wb_nodes = nodes', wb_edges = edges\<rparr>
                    | Some firstNonTrigger \<Rightarrow>
                        \<lparr>wb_triggerEvent = event, wb_nodes = nodes',
                         wb_edges = \<lparr>be_source = ''trigger_1'', be_target = bn_id firstNonTrigger, be_branch = []\<rparr>
                                    # edges\<rparr>)))"

section \<open>Draft to definition (\<open>to-definition.ts\<close>)\<close>

definition exportNode :: "node_draft \<Rightarrow> wf_node" where
  "exportNode node =
     (let nodeName = js_trim (bn_name node);
          namedConfig = (if nodeName \<noteq> [] then [(''name'', JStr nodeName)] else []);
          bare = (if length (map_keys namedConfig) > 0 then Some namedConfig else None);
          config =
            (case bn_type node of
               Trigger \<Rightarrow> bare
             | Delay \<Rightarrow> Some (namedConfig @ [(''duration'', JStr (js_trim (bn_duration node)))])
             | Notification \<Rightarrow>
                 Some (namedConfig @
                   [(''template_id'', JStr (js_trim (bn_templateId node))),
                    (''channels'', JArr (if bn_channel node \<noteq> [] then [JStr (bn_channel node)] else []))])
             | Condition \<Rightarrow>
                 Some (namedConfig @
                   [(''field'', JStr (js_trim (bn_field node))),
                    (''operator'', JStr (js_trim (bn_operator node))),
                    (''value'', JStr (js_trim (bn_value node)))])
             | OtherType _ \<Rightarrow> bare)
      in \<lparr>wn_id = js_trim (bn_id node), wn_type = bn_type node, wn_config = config\<rparr>)"

definition exportEdge :: "edge_draft \<Rightarrow> wf_edge" where
  "exportEdge e =
     \<lparr>we_source = js_trim (be_source e), we_target = js_trim (be_target e),
      we_branch = (if js_trim (be_branch e) = [] then None else Some (js_trim (be_branch e)))\<rparr>"

definition workflowDefinitionFromBuilderDraft :: "wf_draft \<Rightarrow> wf_definition" where
  "workflowDefinitionFromBuilderDraft draft =
     \<lparr>wd_trigger = Some \<lparr>wt_event = Some (js_trim (wb_triggerEvent draft))\<rparr>,
      wd_nodes = map exportNode (wb_nodes draft),
      wd_edges = map exportEdge (wb_edges draft),
      wd_payload = None\<rparr>"

section \<open>What normalisation guarantees\<close>

text \<open>
  A node in normal form has the neutral value in every field its type does not use, and the fields it
  uses are not empty where the code has a fallback for them.
\<close>

definition normal_draft :: "node_draft \<Rightarrow> bool" where
  "normal_draft d \<longleftrightarrow>
     (bn_type d \<noteq> Delay \<longrightarrow> bn_duration d = ''5m'') \<and>
     (bn_type d \<noteq> Notification \<longrightarrow> bn_templateId d = [] \<and> bn_channel d = []) \<and>
     (bn_type d = Notification \<longrightarrow> bn_channel d \<noteq> []) \<and>
     (bn_type d \<noteq> Condition \<longrightarrow> bn_field d = ''data.plan'' \<and> bn_operator d = ''equals'' \<and> bn_value d = ''pro'') \<and>
     (bn_type d = Condition \<longrightarrow> bn_field d \<noteq> [] \<and> bn_operator d \<noteq> [])"

lemma normalize_keeps [record_simps]:
  "bn_id (normalizeNodeDraftForType d t) = bn_id d"
  "bn_name (normalizeNodeDraftForType d t) = bn_name d"
  "bn_type (normalizeNodeDraftForType d t) = t"
  by (simp_all add: normalizeNodeDraftForType_def)

lemma normalize_normal: "normal_draft (normalizeNodeDraftForType d t)"
  by (auto simp: normal_draft_def normalizeNodeDraftForType_def js_or_def)

lemma normalize_fixed: "normalizeNodeDraftForType d (bn_type d) = d \<longleftrightarrow> normal_draft d"
proof
  assume "normalizeNodeDraftForType d (bn_type d) = d"
  then show "normal_draft d" by (metis normalize_normal)
next
  assume "normal_draft d"
  then show "normalizeNodeDraftForType d (bn_type d) = d"
    by (cases d) (auto simp: normal_draft_def normalizeNodeDraftForType_def js_or_def)
qed

lemma createNodeDraft_normal: "normal_draft (fst (createNodeDraft t channel r))"
  by (cases channel)
    (auto simp: createNodeDraft_def normal_draft_def Let_def split_beta js_or_def)

lemma createNodeDraft_type [record_simps]: "bn_type (fst (createNodeDraft t channel r)) = t"
  by (simp add: createNodeDraft_def Let_def split_beta)

lemma triggerNodeDraft_simps [record_simps]:
  "bn_type triggerNodeDraft = Trigger" "bn_id triggerNodeDraft = ''trigger_1''"
  "bn_name triggerNodeDraft = ''Test trigger''"
  by (simp_all add: triggerNodeDraft_def createNodeDraft_def buildDefaultNodeName_def)

lemma normal_triggerNodeDraft: "normal_draft triggerNodeDraft"
  using createNodeDraft_normal [of Trigger] by simp

lemma buildDefaultNodeName_clean [simp]:
  "buildDefaultNodeName t c \<noteq> []" "js_trim (buildDefaultNodeName t c) = buildDefaultNodeName t c"
  by (cases t; simp add: buildDefaultNodeName_def; code_simp)+

section \<open>Storing and loading a draft\<close>

abbreviation trimmed :: "string \<Rightarrow> bool" where
  "trimmed s \<equiv> js_trim s = s"

text \<open>A clean draft: normal nodes with trimmed fields and names, a template id that is empty or a UUID.\<close>

definition clean_node :: "node_draft \<Rightarrow> bool" where
  "clean_node n \<longleftrightarrow>
     normal_draft n \<and> trimmed (bn_id n) \<and> trimmed (bn_name n) \<and> bn_name n \<noteq> [] \<and>
     trimmed (bn_duration n) \<and> (bn_templateId n = [] \<or> is_uuid (bn_templateId n)) \<and>
     trimmed (bn_field n) \<and> trimmed (bn_operator n) \<and> trimmed (bn_value n)"

definition clean_edge :: "edge_draft \<Rightarrow> bool" where
  "clean_edge e \<longleftrightarrow> trimmed (be_source e) \<and> trimmed (be_target e) \<and> trimmed (be_branch e)"

definition clean_draft :: "wf_draft \<Rightarrow> bool" where
  "clean_draft d \<longleftrightarrow>
     (\<forall>n \<in> set (wb_nodes d). clean_node n) \<and> (\<forall>e \<in> set (wb_edges d). clean_edge e) \<and>
     trimmed (wb_triggerEvent d) \<and> (\<exists>n \<in> set (wb_nodes d). bn_type n = Trigger)"

lemma trimmed_constants [simp]:
  "trimmed ''5m''" "trimmed ''data.plan''" "trimmed ''equals''" "trimmed ''pro''"
  "trimmed ''email''" "trimmed ''trigger_1''"
  by (code_simp)+

lemma import_exportNode:
  assumes "clean_node n"
  shows "importNode (exportNode n) = n"
proof -
  from assms have u: "js_trim (bn_templateId n) = bn_templateId n"
    by (auto simp: clean_node_def is_uuid_trim)
  from assms have norm: "normalizeNodeDraftForType n (bn_type n) = n"
    by (simp add: normalize_fixed clean_node_def)
  from assms have n: "trimmed (bn_name n)" "bn_name n \<noteq> []" "trimmed (bn_id n)" "trimmed (bn_duration n)"
    "trimmed (bn_field n)" "trimmed (bn_operator n)" "trimmed (bn_value n)" "normal_draft n"
    by (simp_all add: clean_node_def)
  have t: "normalizeImportedTemplateId (Some (JStr (bn_templateId n))) = bn_templateId n"
    using assms u by (auto simp: clean_node_def normalizeImportedTemplateId_def Let_def)
  have "importNode (exportNode n) = normalizeNodeDraftForType n (bn_type n)"
    by (cases "bn_type n")
      (use n u t in \<open>simp_all add: importNode_def exportNode_def obj_str_def normal_draft_def
        normalizeNodeDraftForType_def\<close>)
  with norm show ?thesis by simp
qed

lemma import_exportEdge: "clean_edge e \<Longrightarrow> importEdge (exportEdge e) = e"
  by (cases e) (auto simp: importEdge_def exportEdge_def clean_edge_def)

lemma draft_roundtrip_clean:
  assumes "clean_draft d"
  shows "builderDraftFromDefinition (Some (workflowDefinitionFromBuilderDraft d)) = d"
proof -
  from assms have n: "map (importNode \<circ> exportNode) (wb_nodes d) = wb_nodes d"
    by (intro map_idI) (simp add: clean_draft_def import_exportNode)
  from assms have e: "map (importEdge \<circ> exportEdge) (wb_edges d) = wb_edges d"
    by (intro map_idI) (simp add: clean_draft_def import_exportEdge)
  from assms n e show ?thesis
    by (cases d) (auto simp: builderDraftFromDefinition_def workflowDefinitionFromBuilderDraft_def
        clean_draft_def Let_def)
qed

text \<open>A definition as the builder writes it: every string the builder keeps is trimmed.\<close>

definition trimmed_node :: "wf_node \<Rightarrow> bool" where
  "trimmed_node n \<longleftrightarrow> trimmed (wn_id n) \<and>
     (\<forall>k \<in> {''duration'', ''field'', ''operator'', ''value''}. \<forall>c s. wn_config n = Some c \<longrightarrow> obj_str c k = Some s \<longrightarrow> trimmed s)"

definition trimmed_edge :: "wf_edge \<Rightarrow> bool" where
  "trimmed_edge e \<longleftrightarrow> trimmed (we_source e) \<and> trimmed (we_target e) \<and> trimmed (str_or_empty (we_branch e))"

definition trimmed_definition :: "wf_definition \<Rightarrow> bool" where
  "trimmed_definition d \<longleftrightarrow>
     (\<forall>n \<in> set (wd_nodes d). trimmed_node n) \<and> (\<forall>e \<in> set (wd_edges d). trimmed_edge e) \<and>
     (\<forall>t. wd_trigger d = Some t \<longrightarrow> trimmed (str_or_empty (wt_event t)))"

lemma importTemplate_clean:
  "normalizeImportedTemplateId v = [] \<or> is_uuid (normalizeImportedTemplateId v)"
  by (auto simp: normalizeImportedTemplateId_def Let_def split: option.split json.split)

lemma normalize_trimmed:
  assumes "trimmed (bn_id d)" "trimmed (bn_name d)" "bn_name d \<noteq> []" "trimmed (bn_duration d)"
    and "bn_templateId d = [] \<or> is_uuid (bn_templateId d)"
    and "trimmed (bn_field d)" "trimmed (bn_operator d)" "trimmed (bn_value d)"
  shows "clean_node (normalizeNodeDraftForType d t)"
  using assms normalize_normal [of d t]
  by (auto simp: clean_node_def normalizeNodeDraftForType_def js_or_def)

lemma importNode_clean:
  assumes "trimmed_node n"
  shows "clean_node (importNode n)"
proof -
  have f: "trimmed (case obj_str c k of Some s \<Rightarrow> s | None \<Rightarrow> dflt)"
    if "k \<in> {''duration'', ''field'', ''operator'', ''value''}" "trimmed dflt"
      "c = (case wn_config n of None \<Rightarrow> [] | Some c \<Rightarrow> c)" for k c dflt
    using assms that by (auto simp: trimmed_node_def obj_str_def split: option.splits)
  show ?thesis
    unfolding importNode_def Let_def
    by (rule normalize_trimmed)
      (use assms f importTemplate_clean in \<open>auto simp: trimmed_node_def split: option.split\<close>)
qed

lemma import_clean:
  assumes "trimmed_definition d"
  shows "clean_draft (builderDraftFromDefinition (Some d))"
proof -
  have tn: "clean_node (triggerNodeDraft\<lparr>bn_id := ''trigger_1''\<rparr>)"
    by code_simp
  have e: "clean_edge (importEdge e)" if "e \<in> set (wd_edges d)" for e
    using assms that by (auto simp: trimmed_definition_def trimmed_edge_def clean_edge_def importEdge_def)
  have n: "clean_node (importNode n)" if "n \<in> set (wd_nodes d)" for n
    using assms that importNode_clean by (auto simp: trimmed_definition_def)
  have ev: "trimmed (case wd_trigger d of None \<Rightarrow> [] | Some t \<Rightarrow> str_or_empty (wt_event t))"
    using assms by (auto simp: trimmed_definition_def split: option.split)
  have ids: "trimmed (bn_id x)" if "clean_node x" for x using that by (simp add: clean_node_def)
  from tn e n ev show ?thesis
    by (auto simp: builderDraftFromDefinition_def clean_draft_def Let_def clean_edge_def ids record_simps
        split: option.splits dest!: find_Some_conv)
qed

lemma export_trimmed: "trimmed_definition (workflowDefinitionFromBuilderDraft d)"
proof -
  have n: "trimmed_node (exportNode n)" for n
    by (cases n) (auto simp: trimmed_node_def exportNode_def Let_def obj_str_def split: wf_node_type.splits if_splits)
  have e: "trimmed_edge (exportEdge e)" for e
    by (auto simp: trimmed_edge_def exportEdge_def)
  from n e show ?thesis
    by (auto simp: trimmed_definition_def workflowDefinitionFromBuilderDraft_def)
qed

section \<open>Properties\<close>

text \<open>Normalising a node draft for a type always gives a node in normal form of that type, with the
  same id and name, and is idempotent.\<close>

theorem normalize_normal_form:
  "normal_draft (normalizeNodeDraftForType d t) \<and> bn_type (normalizeNodeDraftForType d t) = t \<and>
   bn_id (normalizeNodeDraftForType d t) = bn_id d \<and> bn_name (normalizeNodeDraftForType d t) = bn_name d \<and>
   normalizeNodeDraftForType (normalizeNodeDraftForType d t) t = normalizeNodeDraftForType d t"
  using normalize_fixed [of "normalizeNodeDraftForType d t"] by (simp add: normalize_normal record_simps)

text \<open>C35: a clean draft (trimmed fields, nodes in normal form, template ids empty or UUIDs, a trigger
  present) survives the trip through the stored definition unchanged.\<close>

theorem draft_roundtrip:
  assumes "clean_draft d"
  shows "builderDraftFromDefinition (Some (workflowDefinitionFromBuilderDraft d)) = d"
  using assms by (rule draft_roundtrip_clean)

theorem draft_roundtrip_witness:
  "builderDraftFromDefinition (Some (workflowDefinitionFromBuilderDraft createDefaultWorkflowBuilderDraft)) =
     createDefaultWorkflowBuilderDraft"
  by (rule draft_roundtrip) code_simp

text \<open>Whatever the draft, saving it and loading it back gives a draft that every later save and
  load leaves as it is.\<close>

theorem reload_stable:
  "let reload = \<lambda>d. builderDraftFromDefinition (Some (workflowDefinitionFromBuilderDraft d))
   in reload (reload d) = reload d"
  unfolding Let_def by (rule draft_roundtrip_clean [OF import_clean [OF export_trimmed]])

text \<open>A draft loaded from a definition always has a trigger node, keeps the definition's nodes in
  their order after at most one added trigger, and has only nodes in normal form.\<close>

theorem import_has_trigger:
  "(\<exists>n \<in> set (wb_nodes (builderDraftFromDefinition (Some d))). bn_type n = Trigger) \<and>
   wb_nodes (builderDraftFromDefinition (Some d)) \<in>
     {map importNode (wd_nodes d), triggerNodeDraft # map importNode (wd_nodes d)} \<and>
   (\<forall>n \<in> set (wb_nodes (builderDraftFromDefinition (Some d))). normal_draft n)"
proof -
  have t: "triggerNodeDraft\<lparr>bn_id := ''trigger_1''\<rparr> = triggerNodeDraft" by (simp add: record_simps flip: triggerNodeDraft_simps)
  have n: "normal_draft (importNode n)" for n
    by (simp add: importNode_def Let_def normalize_normal)
  show ?thesis
    by (auto simp: builderDraftFromDefinition_def Let_def t n normal_triggerNodeDraft record_simps
        split: option.splits)
qed

theorem import_has_trigger_witness:
  "bn_type (hd (wb_nodes (builderDraftFromDefinition (Some \<lparr>wd_trigger = None,
     wd_nodes = [\<lparr>wn_id = ''a'', wn_type = Delay, wn_config = None\<rparr>], wd_edges = [], wd_payload = None\<rparr>)))) = Trigger"
  using import_has_trigger [of "\<lparr>wd_trigger = None,
     wd_nodes = [\<lparr>wn_id = ''a'', wn_type = Delay, wn_config = None\<rparr>], wd_edges = [], wd_payload = None\<rparr>"]
  by (auto simp: importNode_def Let_def record_simps)

end
