(* ===== verification/Graph_Search.thy ===== *)
theory Graph_Search
  imports Prelude
begin

text \<open>
  The two depth-first searches of \<open>utils/validation/edges.ts\<close> over the adjacency map: \<open>hasCycle\<close>
  (lines 115-138) and \<open>visit\<close> (lines 141-151), with the sets they mutate passed along, and their
  meaning in terms of the edge relation.
\<close>

type_synonym adjacency = "(string, string list) js_map"

text \<open>\<open>adjacency.get(nodeID) || []\<close>\<close>

definition adj_of :: "adjacency \<Rightarrow> string \<Rightarrow> string list" where
  "adj_of adj n = (case map_get adj n of None \<Rightarrow> [] | Some xs \<Rightarrow> xs)"

definition adj_rel :: "adjacency \<Rightarrow> (string \<times> string) set" where
  "adj_rel adj = {(a, b). b \<in> set (adj_of adj a)}"

lemma adj_rel_iff [simp]: "(a, b) \<in> adj_rel adj \<longleftrightarrow> b \<in> set (adj_of adj a)"
  by (simp add: adj_rel_def)

lemma adj_of_not_key: "n \<notin> set (map_keys adj) \<Longrightarrow> adj_of adj n = []"
  using map_of_eq_None_iff [of adj n] by (simp add: adj_of_def)

section \<open>Cycle detection\<close>

text \<open>
  \<open>for (const next of xs) if (hasCycle(next)) return true; return false\<close> with \<open>hasCycle\<close> unfolded:
  the state is the pair of the sets \<open>visiting\<close> and \<open>visited\<close>.
\<close>

function hasCycleAny :: "adjacency \<Rightarrow> string list \<Rightarrow> string list \<times> string list \<Rightarrow> bool \<times> (string list \<times> string list)" where
  "hasCycleAny adj [] st = (False, st)"
| "hasCycleAny adj (n # ns) (visiting, visited) =
     (if n \<in> set visited then hasCycleAny adj ns (visiting, visited)
      else if n \<in> set visiting then (True, (visiting, visited))
      else (case hasCycleAny adj (adj_of adj n) (js_set_add n visiting, visited) of
              (True, st) \<Rightarrow> (True, st)
            | (False, (visiting', visited')) \<Rightarrow>
                hasCycleAny adj ns (removeAll n visiting', js_set_add n visited')))"
  by pat_completeness auto

lemma hasCycleAny_grows:
  "hasCycleAny_dom (adj, ns, st) \<Longrightarrow>
    set (fst st) \<union> set (snd st) \<subseteq> set (fst (snd (hasCycleAny adj ns st))) \<union> set (snd (snd (hasCycleAny adj ns st)))"
proof (induction adj ns st rule: hasCycleAny.pinduct)
  case (1 adj st)
  then show ?case by (simp add: hasCycleAny.psimps)
next
  case (2 adj n ns visiting visited)
  show ?case
  proof (cases "n \<in> set visited \<or> n \<in> set visiting")
    case True
    with 2 show ?thesis by (auto simp: hasCycleAny.psimps)
  next
    case False
    obtain b vg vd where r: "hasCycleAny adj (adj_of adj n) (js_set_add n visiting, visited) = (b, (vg, vd))"
      by (metis prod.collapse)
    with False 2 have g: "insert n (set visiting) \<union> set visited \<subseteq> set vg \<union> set vd" by simp
    show ?thesis
    proof (cases b)
      case True
      with False r g 2(1) show ?thesis by (auto simp: hasCycleAny.psimps)
    next
      case nb: False
      from nb False r 2(4) have "set (removeAll n vg) \<union> insert n (set vd) \<subseteq>
        set (fst (snd (hasCycleAny adj ns (removeAll n vg, js_set_add n vd)))) \<union>
        set (snd (snd (hasCycleAny adj ns (removeAll n vg, js_set_add n vd))))"
        by (auto simp: r)
      with nb False r g 2(1) show ?thesis by (auto simp: hasCycleAny.psimps)
    qed
  qed
qed

termination hasCycleAny
proof (relation "inv_image (finite_psubset <*lex*> less_than)
    (\<lambda>(adj, ns, st). (set (map_keys adj) - (set (fst st) \<union> set (snd st)), length ns))")
  show "wf (inv_image (finite_psubset <*lex*> less_than)
    (\<lambda>(adj, ns, st). (set (map_keys adj) - (set (fst st) \<union> set (snd st)), length ns)))"
    by auto
next
  fix adj :: adjacency and n :: string and ns visiting visited :: "string list"
  assume "n \<notin> set visited" "n \<notin> set visiting"
  then show "((adj, adj_of adj n, js_set_add n visiting, visited), (adj, n # ns, visiting, visited))
    \<in> inv_image (finite_psubset <*lex*> less_than)
    (\<lambda>(adj, ns, st). (set (map_keys adj) - (set (fst st) \<union> set (snd st)), length ns))"
    by (cases "n \<in> set (map_keys adj)") (auto simp: finite_psubset_def adj_of_not_key)
next
  fix adj :: adjacency and n :: string and ns visiting visited vg vd :: "string list" and b y
  assume "n \<notin> set visited" "n \<notin> set visiting"
    and "(b, y) = hasCycleAny adj (adj_of adj n) (js_set_add n visiting, visited)"
    and "b = False" "(vg, vd) = y"
    and "hasCycleAny_dom (adj, adj_of adj n, js_set_add n visiting, visited)"
  then have "hasCycleAny adj (adj_of adj n) (js_set_add n visiting, visited) = (False, (vg, vd))"
    and d: "hasCycleAny_dom (adj, adj_of adj n, js_set_add n visiting, visited)" by auto
  with hasCycleAny_grows [OF d] have "insert n (set visiting) \<union> set visited \<subseteq> set vg \<union> set vd" by simp
  then have "set (map_keys adj) - (set (removeAll n vg) \<union> set (js_set_add n vd))
    \<subseteq> set (map_keys adj) - (set visiting \<union> set visited)" by auto
  then show "((adj, ns, removeAll n vg, js_set_add n vd), (adj, n # ns, visiting, visited))
    \<in> inv_image (finite_psubset <*lex*> less_than)
    (\<lambda>(adj, ns, st). (set (map_keys adj) - (set (fst st) \<union> set (snd st)), length ns))"
    by (simp add: finite_psubset_def psubset_eq del: set_map set_removeAll)
qed (auto simp: finite_psubset_def)

definition hasCycle :: "adjacency \<Rightarrow> string \<Rightarrow> string list \<times> string list \<Rightarrow> bool \<times> (string list \<times> string list)" where
  "hasCycle adj n st = hasCycleAny adj [n] st"

text \<open>What a search that finds nothing leaves behind: the visited nodes are closed under edges and on no cycle.\<close>

definition search_inv :: "adjacency \<Rightarrow> string list \<times> string list \<Rightarrow> bool" where
  "search_inv adj st \<longleftrightarrow>
     set (fst st) \<inter> set (snd st) = {} \<and>
     (\<forall>v \<in> set (snd st). set (adj_of adj v) \<subseteq> set (snd st) \<and> (v, v) \<notin> (adj_rel adj)\<^sup>+)"

lemma hasCycleAny_False_visiting:
  "hasCycleAny adj ns (visiting, visited) = (False, (vg, vd)) \<Longrightarrow> set vg = set visiting"
proof (induction adj ns "(visiting, visited)" arbitrary: visiting visited vg vd rule: hasCycleAny.induct)
  case (2 adj n ns visiting visited)
  show ?case
  proof (cases "n \<in> set visited")
    case True
    with 2(1) [OF True] 2(4) show ?thesis by simp
  next
    case nv: False
    with 2(4) have ng: "n \<notin> set visiting" using nv by (cases "n \<in> set visiting") simp_all
    obtain b vg1 vd1 where r: "hasCycleAny adj (adj_of adj n) (js_set_add n visiting, visited) = (b, (vg1, vd1))"
      by (metis prod.collapse)
    with nv ng 2(4) have b: "\<not> b" by (cases b) auto
    with 2(2) [OF nv ng] r have "set vg1 = insert n (set visiting)" by simp
    with nv ng r b 2(3) [OF nv ng r [symmetric] _ refl] 2(4) show ?thesis by auto
  qed
qed simp

lemma closed_trancl:
  assumes "(a, b) \<in> r\<^sup>+" and "a \<in> V" and "\<And>x y. x \<in> V \<Longrightarrow> (x, y) \<in> r \<Longrightarrow> y \<in> V"
  shows "b \<in> V"
  using assms(1,2) by (induction rule: trancl_induct) (auto intro: assms(3))

lemma search_inv_finish:
  assumes "search_inv adj (vg, vd)" and "set vg = insert n V" and "n \<notin> V"
    and "set (adj_of adj n) \<subseteq> set vd"
  shows "search_inv adj (removeAll n vg, js_set_add n vd)"
proof -
  have n: "n \<notin> set vd" using assms(1,2) by (auto simp: search_inv_def)
  have c: "set (adj_of adj v) \<subseteq> set vd" if "v \<in> set vd" for v
    using assms(1) that by (simp add: search_inv_def)
  have "(n, n) \<notin> (adj_rel adj)\<^sup>+"
  proof
    assume "(n, n) \<in> (adj_rel adj)\<^sup>+"
    then obtain y where y: "y \<in> set (adj_of adj n)" "(y, n) \<in> (adj_rel adj)\<^sup>*"
      by (metis adj_rel_iff tranclD)
    with assms(4) have "y \<in> set vd" by auto
    moreover from y(2) have "y = n \<or> (y, n) \<in> (adj_rel adj)\<^sup>+" by (auto simp: rtrancl_eq_or_trancl)
    ultimately have "n \<in> set vd" using c using closed_trancl [of y n "adj_rel adj" "set vd"] by auto
    with n show False by simp
  qed
  with assms c show ?thesis by (fastforce simp: search_inv_def)
qed

lemma hasCycleAny_False:
  "hasCycleAny adj ns (visiting, visited) = (False, (vg, vd)) \<Longrightarrow> search_inv adj (visiting, visited) \<Longrightarrow>
    set visited \<subseteq> set vd \<and> set ns \<subseteq> set vd \<and> search_inv adj (vg, vd)"
proof (induction adj ns "(visiting, visited)" arbitrary: visiting visited vg vd rule: hasCycleAny.induct)
  case (1 adj visiting visited)
  then show ?case by simp
next
  case (2 adj n ns visiting visited)
  show ?case
  proof (cases "n \<in> set visited")
    case True
    with 2(1) [OF True] 2(4,5) show ?thesis by auto
  next
    case nv: False
    with 2(4) have ng: "n \<notin> set visiting" using nv by (cases "n \<in> set visiting") simp_all
    obtain b vg1 vd1 where r: "hasCycleAny adj (adj_of adj n) (js_set_add n visiting, visited) = (b, (vg1, vd1))"
      by (metis prod.collapse)
    with nv ng 2(4) have b: "\<not> b" by (cases b) auto
    from 2(5) nv ng have "search_inv adj (js_set_add n visiting, visited)" by (auto simp: search_inv_def)
    with 2(2) [OF nv ng] r b have i1: "set visited \<subseteq> set vd1" "set (adj_of adj n) \<subseteq> set vd1" "search_inv adj (vg1, vd1)"
      by auto
    from hasCycleAny_False_visiting r b have g1: "set vg1 = insert n (set visiting)" by fastforce
    from search_inv_finish [OF i1(3) g1 ng i1(2)] have "search_inv adj (removeAll n vg1, js_set_add n vd1)" .
    moreover from nv ng r b 2(4) have "hasCycleAny adj ns (removeAll n vg1, js_set_add n vd1) = (False, (vg, vd))"
      by simp
    ultimately have "set (js_set_add n vd1) \<subseteq> set vd \<and> set ns \<subseteq> set vd \<and> search_inv adj (vg, vd)"
      using 2(3) [OF nv ng r [symmetric] _ refl] b by auto
    with i1(1) show ?thesis by auto
  qed
qed

lemma hasCycleAny_True:
  "hasCycleAny adj ns (visiting, visited) = (True, st) \<Longrightarrow>
    (\<And>n v. n \<in> set ns \<Longrightarrow> v \<in> set visiting \<Longrightarrow> (v, n) \<in> (adj_rel adj)\<^sup>+) \<Longrightarrow>
    \<exists>n. (n, n) \<in> (adj_rel adj)\<^sup>+"
proof (induction adj ns "(visiting, visited)" arbitrary: visiting visited st rule: hasCycleAny.induct)
  case (1 adj visiting visited)
  then show ?case by simp
next
  case (2 adj n ns visiting visited)
  show ?case
  proof (cases "n \<in> set visited")
    case True
    with 2(1) [OF True] 2(4,5) show ?thesis by auto
  next
    case nv: False
    show ?thesis
    proof (cases "n \<in> set visiting")
      case True
      with 2(5) show ?thesis by auto
    next
      case ng: False
      obtain b vg1 vd1 where r: "hasCycleAny adj (adj_of adj n) (js_set_add n visiting, visited) = (b, (vg1, vd1))"
        by (metis prod.collapse)
      show ?thesis
      proof (cases b)
        case True
        have "(v, m) \<in> (adj_rel adj)\<^sup>+" if "m \<in> set (adj_of adj n)" "v \<in> set (js_set_add n visiting)" for v m
        proof (cases "v = n")
          case True
          with that show ?thesis by auto
        next
          case False
          with that 2(5) [of n v] have "(v, n) \<in> (adj_rel adj)\<^sup>+" by auto
          with that(1) show ?thesis by (auto intro: trancl_into_trancl)
        qed
        with 2(2) [OF nv ng] r True show ?thesis by auto
      next
        case False
        with hasCycleAny_False_visiting r have "set vg1 = insert n (set visiting)" by fastforce
        then have "set (removeAll n vg1) = set visiting" using ng by auto
        with 2(3) [OF nv ng r [symmetric] _ refl] False 2(4,5) nv ng r show ?thesis by auto
      qed
    qed
  qed
qed

text \<open>The loop over all keys reports a cycle exactly when the edge relation has one.\<close>

theorem hasCycleAny_correct:
  "fst (hasCycleAny adj (map_keys adj) ([], [])) \<longleftrightarrow> (\<exists>n. (n, n) \<in> (adj_rel adj)\<^sup>+)"
proof -
  obtain b vg vd where r: "hasCycleAny adj (map_keys adj) ([], []) = (b, (vg, vd))" by (metis prod.collapse)
  show ?thesis
  proof (cases b)
    case True
    with hasCycleAny_True [of adj "map_keys adj" "[]" "[]"] r show ?thesis by auto
  next
    case False
    with r hasCycleAny_False [of adj "map_keys adj" "[]" "[]" vg vd]
    have i: "set (map_keys adj) \<subseteq> set vd" "search_inv adj (vg, vd)" by (auto simp: search_inv_def)
    have "(n, n) \<notin> (adj_rel adj)\<^sup>+" for n
    proof
      assume c: "(n, n) \<in> (adj_rel adj)\<^sup>+"
      then obtain m where "m \<in> set (adj_of adj n)" by (metis adj_rel_iff tranclD)
      then have "n \<in> set (map_keys adj)" using adj_of_not_key by fastforce
      with i c show False by (auto simp: search_inv_def)
    qed
    with False r show ?thesis by simp
  qed
qed

section \<open>Reachability\<close>

text \<open>\<open>visit\<close> applied to each node of a list in turn, the set \<open>reachable\<close> passed along.\<close>

function visitAll :: "adjacency \<Rightarrow> string list \<Rightarrow> string list \<Rightarrow> string list" where
  "visitAll adj [] reachable = reachable"
| "visitAll adj (n # ns) reachable =
     (if n \<in> set reachable then visitAll adj ns reachable
      else visitAll adj ns (visitAll adj (adj_of adj n) (js_set_add n reachable)))"
  by pat_completeness auto

lemma visitAll_grows: "visitAll_dom (adj, ns, reachable) \<Longrightarrow> set reachable \<subseteq> set (visitAll adj ns reachable)"
  by (induction adj ns reachable rule: visitAll.pinduct) (auto simp: visitAll.psimps)

termination visitAll
proof (relation "inv_image (finite_psubset <*lex*> less_than)
    (\<lambda>(adj, ns, reachable). (set (map_keys adj) - set reachable, length ns))")
  fix adj :: adjacency and n :: string and ns reachable :: "string list"
  assume "n \<notin> set reachable"
  then show "((adj, adj_of adj n, js_set_add n reachable), (adj, n # ns, reachable))
    \<in> inv_image (finite_psubset <*lex*> less_than)
    (\<lambda>(adj, ns, reachable). (set (map_keys adj) - set reachable, length ns))"
    by (cases "n \<in> set (map_keys adj)") (auto simp: finite_psubset_def adj_of_not_key)
next
  fix adj :: adjacency and n :: string and ns reachable :: "string list"
  assume "visitAll_dom (adj, adj_of adj n, js_set_add n reachable)"
  from visitAll_grows [OF this] have "set (map_keys adj) - set (visitAll adj (adj_of adj n) (js_set_add n reachable))
    \<subseteq> set (map_keys adj) - set reachable" by auto
  then show "((adj, ns, visitAll adj (adj_of adj n) (js_set_add n reachable)), (adj, n # ns, reachable))
    \<in> inv_image (finite_psubset <*lex*> less_than)
    (\<lambda>(adj, ns, reachable). (set (map_keys adj) - set reachable, length ns))"
    by (simp add: finite_psubset_def psubset_eq del: set_map)
qed (auto simp: finite_psubset_def wf_finite_psubset [unfolded finite_psubset_def])

definition visit :: "adjacency \<Rightarrow> string \<Rightarrow> string list \<Rightarrow> string list" where
  "visit adj n reachable = visitAll adj [n] reachable"

lemma visitAll_superset: "set reachable \<union> set ns \<subseteq> set (visitAll adj ns reachable)"
  by (induction adj ns reachable rule: visitAll.induct) auto

lemma visitAll_distinct: "distinct reachable \<Longrightarrow> distinct (visitAll adj ns reachable)"
  by (induction adj ns reachable rule: visitAll.induct) auto

lemma visitAll_sound: "set (visitAll adj ns reachable) \<subseteq> set reachable \<union> (adj_rel adj)\<^sup>* `` set ns"
proof (induction adj ns reachable rule: visitAll.induct)
  case (2 adj n ns reachable)
  have "(adj_rel adj)\<^sup>* `` set (adj_of adj n) \<subseteq> (adj_rel adj)\<^sup>* `` {n}"
    by (auto intro: converse_rtrancl_into_rtrancl)
  moreover have "set ns \<subseteq> set (n # ns)" "n \<in> (adj_rel adj)\<^sup>* `` {n}" by auto
  ultimately show ?case using 2 by (simp add: Image_Un Un_commute) blast
qed simp

lemma visitAll_closed:
  "v \<in> set (visitAll adj ns reachable) \<Longrightarrow> v \<notin> set reachable \<Longrightarrow>
    set (adj_of adj v) \<subseteq> set (visitAll adj ns reachable)"
proof (induction adj ns reachable arbitrary: v rule: visitAll.induct)
  case (2 adj n ns reachable)
  show ?case
  proof (cases "n \<in> set reachable")
    case True
    with 2 show ?thesis by simp
  next
    case False
    let ?r1 = "visitAll adj (adj_of adj n) (js_set_add n reachable)"
    have sub: "set ?r1 \<subseteq> set (visitAll adj ns ?r1)" "set (adj_of adj n) \<subseteq> set ?r1"
      using visitAll_superset by blast+
    show ?thesis
    proof (cases "v \<in> set ?r1")
      case True
      with False 2(2) [OF False, of v] 2(5) sub show ?thesis by (cases "v = n") auto
    next
      case nr: False
      with False 2(3) [OF False, of v] 2(4) show ?thesis by simp
    qed
  qed
qed simp

theorem visit_correct: "set (visit adj n []) = (adj_rel adj)\<^sup>* `` {n}"
proof
  show "set (visit adj n []) \<subseteq> (adj_rel adj)\<^sup>* `` {n}"
    using visitAll_sound [of adj "[n]" "[]"] by (simp add: visit_def)
  have "m \<in> set (visit adj n [])" if "(n, m) \<in> (adj_rel adj)\<^sup>*" for m
    using that
  proof (induction rule: rtrancl_induct)
    case base
    show ?case using visitAll_superset [of "[]" "[n]" adj] by (auto simp: visit_def simp del: visitAll.simps)
  next
    case (step y z)
    then show ?case using visitAll_closed [of y adj "[n]" "[]"] by (auto simp: visit_def simp del: visitAll.simps)
  qed
  then show "(adj_rel adj)\<^sup>* `` {n} \<subseteq> set (visit adj n [])" by auto
qed

lemma visit_distinct: "distinct (visit adj n [])"
  by (simp add: visit_def visitAll_distinct del: visitAll.simps)

section \<open>Properties\<close>

text \<open>C3: the cycle search of the edge validation (a depth-first search with the sets \<open>visiting\<close> and
  \<open>visited\<close>, started from every key of the adjacency map in turn) answers true exactly when some node
  reaches itself along one or more edges.  It terminates on every graph.\<close>

theorem hasCycle_iff_cycle:
  "fst (hasCycleAny adj (map_keys adj) ([], [])) \<longleftrightarrow> (\<exists>n. (n, n) \<in> (adj_rel adj)\<^sup>+)"
  by (rule hasCycleAny_correct)

text \<open>The reachability search of the edge validation collects, without duplicates, exactly the
  nodes that can be reached from its start node.\<close>

theorem visit_reachable:
  "set (visit adj n []) = {m. (n, m) \<in> (adj_rel adj)\<^sup>*} \<and> distinct (visit adj n [])"
  using visit_correct visit_distinct by auto

end
