(* ===== verification/Chain.thy ===== *)
theory Chain
  imports Prelude "HOL-Library.Multiset"
begin

text \<open>
  Chains: the abstract shape of a linear workflow is a list \<open>p\<close> of distinct steps, its edges the
  consecutive pairs \<open>links p\<close>.  The lemmas relate chains to the graphs the validator and the builder
  work on: degrees, acyclicity, reachability, the existence of the chain, and what inserting,
  appending and removing a step does to the links.
\<close>

definition links :: "'a list \<Rightarrow> ('a \<times> 'a) list" where
  "links p = zip p (tl p)"

lemma links_Nil [simp]: "links [] = []"
  and links_single [simp]: "links [a] = []"
  and links_Cons2 [simp]: "links (a # b # p) = (a, b) # links (b # p)"
  by (simp_all add: links_def)

lemma links_append: "p \<noteq> [] \<Longrightarrow> q \<noteq> [] \<Longrightarrow> links (p @ q) = links p @ (last p, hd q) # links q"
proof (induction p)
  case (Cons a p)
  then show ?case by (cases p; cases q) auto
qed simp

lemma links_set: "(a, b) \<in> set (links p) \<Longrightarrow> a \<in> set (butlast p) \<and> b \<in> set (tl p)"
  by (induction p rule: induct_list012) auto

lemma links_in_set: "(a, b) \<in> set (links p) \<Longrightarrow> a \<in> set p \<and> b \<in> set p"
  by (auto dest!: links_set in_set_butlastD list.set_sel(2)) (metis list.set_sel(2) tl_Nil)+

lemma map_snd_links [simp]: "map snd (links p) = tl p"
  by (induction p rule: induct_list012) auto

lemma map_fst_links [simp]: "map fst (links p) = butlast p"
  by (induction p rule: induct_list012) auto

lemma length_links [simp]: "length (links p) = length p - 1"
  by (simp add: links_def)

lemma distinct_links: "distinct p \<Longrightarrow> distinct (links p)"
  by (simp add: links_def distinct_zipI1)

lemma length_filter_map: "length (filter (\<lambda>x. f x = n) xs) = count (mset (map f xs)) n"
  by (induction xs) auto

lemma count_distinct: "distinct xs \<Longrightarrow> count (mset xs) n = (if n \<in> set xs then 1 else 0)"
  by (simp add: distinct_count_atmost_1)

lemma links_in_degree:
  "distinct p \<Longrightarrow> count (mset (map snd (links p))) n = (if n \<in> set (tl p) then 1 else 0)"
  by (simp add: count_distinct distinct_tl)

lemma links_out_degree:
  "distinct p \<Longrightarrow> count (mset (map fst (links p))) n = (if n \<in> set (butlast p) then 1 else 0)"
  by (simp add: count_distinct distinct_butlast)

text \<open>Along the links the position in the chain grows, so there is no cycle.\<close>

lemma links_nth: "(a, b) \<in> set (links p) \<longleftrightarrow> (\<exists>i. Suc i < length p \<and> a = p ! i \<and> b = p ! Suc i)"
proof -
  have "(a, b) \<in> set (links p) \<longleftrightarrow> (\<exists>i. a = p ! i \<and> b = tl p ! i \<and> i < min (length p) (length (tl p)))"
    by (simp add: links_def set_zip)
  also have "\<dots> \<longleftrightarrow> (\<exists>i. Suc i < length p \<and> a = p ! i \<and> b = p ! Suc i)"
    by (rule ex_cong1) (auto simp: nth_tl)
  finally show ?thesis .
qed

lemma links_trancl_nth:
  "(a, b) \<in> (set (links p))\<^sup>+ \<Longrightarrow> distinct p \<Longrightarrow>
    \<exists>i j. i < j \<and> j < length p \<and> a = p ! i \<and> b = p ! j"
proof (induction rule: trancl_induct)
  case (base y)
  then show ?case by (auto simp: links_nth)
next
  case (step y z)
  then obtain i j k where "i < j" "j < length p" "a = p ! i" "y = p ! j"
    "Suc k < length p" "y = p ! k" "z = p ! Suc k" by (auto simp: links_nth)
  moreover from this step.prems have "j = k" by (simp add: nth_eq_iff_index_eq)
  ultimately show ?case by (metis less_Suc_eq)
qed

lemma links_acyclic: "distinct p \<Longrightarrow> (a, a) \<notin> (set (links p))\<^sup>+"
  by (auto dest!: links_trancl_nth simp: nth_eq_iff_index_eq)

lemma links_reach: "p \<noteq> [] \<Longrightarrow> (set (links p))\<^sup>* `` {hd p} = set p"
proof (induction p rule: induct_list012)
  case (3 a b p)
  let ?r = "set (links (b # p))"
  have sub: "?r \<subseteq> set (links (a # b # p))" by auto
  have "c \<in> (set (links (a # b # p)))\<^sup>* `` {a}" if "c \<in> set (b # p)" for c
  proof -
    from that 3(2) have "(b, c) \<in> ?r\<^sup>*" by auto
    then have "(b, c) \<in> (set (links (a # b # p)))\<^sup>*" using rtrancl_mono [OF sub] by auto
    then show ?thesis by (auto intro: converse_rtrancl_into_rtrancl)
  qed
  moreover have "c \<in> set (a # b # p)" if "(a, c) \<in> (set (links (a # b # p)))\<^sup>*" for c
    using that by (induction rule: rtrancl_induct) (auto dest!: links_in_set)
  ultimately show ?case by auto
qed auto

text \<open>
  A finite, acyclic graph in which every node has at most one successor is a chain from any node on.
\<close>

lemma acyclic_reach_less:
  assumes "\<And>x. (x, x) \<notin> E\<^sup>+" and "(s, t) \<in> E"
  shows "E\<^sup>* `` {t} \<subseteq> E\<^sup>* `` {s} - {s}"
  using assms by (auto intro: converse_rtrancl_into_rtrancl) (metis rtrancl_into_trancl2)

lemma chain_exists:
  assumes "single_valued E" and "\<And>x. (x, x) \<notin> E\<^sup>+"
  shows "finite (E\<^sup>* `` {s}) \<Longrightarrow>
    \<exists>p. p \<noteq> [] \<and> hd p = s \<and> distinct p \<and> set p = E\<^sup>* `` {s} \<and> set (links p) = {(a, b) \<in> E. a \<in> set p}"
proof (induction "card (E\<^sup>* `` {s})" arbitrary: s rule: less_induct)
  case less
  show ?case
  proof (cases "\<exists>t. (s, t) \<in> E")
    case False
    then have "E\<^sup>* `` {s} = {s}" by (auto elim: converse_rtranclE)
    with False show ?thesis by (intro exI [of _ "[s]"]) auto
  next
    case True
    then obtain t where t: "(s, t) \<in> E" by blast
    have sub: "E\<^sup>* `` {t} \<subseteq> E\<^sup>* `` {s} - {s}" using acyclic_reach_less [OF assms(2) t] .
    have eq: "E\<^sup>* `` {s} = insert s (E\<^sup>* `` {t})"
    proof
      show "E\<^sup>* `` {s} \<subseteq> insert s (E\<^sup>* `` {t})"
      proof
        fix x assume "x \<in> E\<^sup>* `` {s}"
        then have "(s, x) \<in> E\<^sup>*" by simp
        then show "x \<in> insert s (E\<^sup>* `` {t})"
        proof (cases rule: converse_rtranclE)
          case (step y)
          with t assms(1) have "y = t" by (auto dest: single_valuedD)
          with step show ?thesis by simp
        qed simp
      qed
      show "insert s (E\<^sup>* `` {t}) \<subseteq> E\<^sup>* `` {s}" using sub by auto
    qed
    from sub less.prems have fin: "finite (E\<^sup>* `` {t})" by (meson finite_Diff finite_subset)
    have "card (E\<^sup>* `` {t}) < card (E\<^sup>* `` {s})"
      using sub less.prems by (intro psubset_card_mono) (auto simp: less.prems)
    from less.hyps [OF this fin] obtain p where p: "p \<noteq> []" "hd p = t" "distinct p" "set p = E\<^sup>* `` {t}"
      "set (links p) = {(a, b) \<in> E. a \<in> set p}" by blast
    then obtain q where q: "p = t # q" by (cases p) auto
    have "set (links (s # p)) = {(a, b) \<in> E. a \<in> set (s # p)}"
      using p(5) t assms(1) unfolding q by (auto dest: single_valuedD)
    moreover have "s \<notin> set p" using p(4) sub by auto
    ultimately show ?thesis using p eq by (intro exI [of _ "s # p"]) auto
  qed
qed

end
