(* ===== verification/Validation.thy ===== *)
theory Validation
  imports Workflow_Types Graph_Search Chain
begin

text \<open>
  The validation of a stored workflow definition (\<open>features/workflows/utils/validation\<close>):
  the trigger event, the nodes, the edges, and what an empty list of issues means.
  \<open>linear_workflow\<close> and \<open>valid_workflow\<close> are the abstract specification: a single chain of steps that
  starts at the trigger.  The validators report no issue exactly when it holds.
\<close>

definition issue :: "string \<Rightarrow> string \<Rightarrow> wf_issue" where
  "issue p m = \<lparr>wi_path = p, wi_message = m\<rparr>"

section \<open>The trigger (\<open>trigger.ts\<close>)\<close>

definition validateTrigger :: "wf_definition \<Rightarrow> wf_issue list" where
  "validateTrigger d =
     (if js_trim (case wd_trigger d of None \<Rightarrow> [] | Some t \<Rightarrow> str_or_empty (wt_event t)) = []
      then [issue ''trigger.event'' ''A trigger event is still required by the current backend event API.'']
      else [])"

section \<open>The nodes (\<open>nodes.ts\<close>)\<close>

definition node_path :: "nat \<Rightarrow> string" where
  "node_path i = ''nodes.'' @ show_nat i"

definition validateDelay :: "string \<Rightarrow> (string \<times> json) list \<Rightarrow> wf_issue list" where
  "validateDelay nodePath config =
     (let duration = js_trim (str_or_empty (obj_str config ''duration''))
      in if is_go_duration duration then []
         else [issue (nodePath @ ''.duration'')
                 ''Delay duration must use Go duration syntax like 5m or 1h30m.''])"

fun json_strings :: "json list \<Rightarrow> string list" where
  "json_strings [] = []"
| "json_strings (JStr s # vs) = s # json_strings vs"
| "json_strings (_ # vs) = json_strings vs"

definition validateNotification :: "string \<Rightarrow> (string \<times> json) list \<Rightarrow> wf_issue list" where
  "validateNotification nodePath config =
     (let templateID = js_trim (str_or_empty (obj_str config ''template_id''));
          channels = (case map_of config ''channels'' of Some (JArr vs) \<Rightarrow> json_strings vs | _ \<Rightarrow> [])
      in (if templateID \<noteq> [] \<and> templateID \<noteq> zeroUUID \<and> \<not> is_uuid templateID
          then [issue (nodePath @ ''.template_id'') ''Notification template ID must be a valid UUID.'']
          else []) @
         (if templateID = [] \<or> templateID = zeroUUID
          then [issue (nodePath @ ''.template_id'')
                  ''This notification step has no configured template. Open the channel editor to set it up.'']
          else []) @
         (if length channels \<noteq> 1 \<or> hd channels \<notin> set notificationChannels
          then [issue (nodePath @ ''.channels'')
                  ''Notification steps currently require exactly one supported channel.'']
          else []))"

text \<open>The state of the loop over the nodes: the issues, the ids seen, the ids of the triggers.\<close>

record node_scan =
  ns_issues :: "wf_issue list"
  ns_seen :: "string list"
  ns_triggers :: "string list"

definition validateNode :: "nat \<times> wf_node \<Rightarrow> node_scan \<Rightarrow> node_scan" where
  "validateNode x s = (case x of (index, node) \<Rightarrow>
     (let nodePath = node_path index; nodeID = js_trim (wn_id node)
      in if nodeID = [] then
           s\<lparr>ns_issues := ns_issues s @ [issue (nodePath @ ''.id'') ''Node ID is required.'']\<rparr>
         else
           (let config = (case wn_config node of None \<Rightarrow> [] | Some c \<Rightarrow> c);
                duplicate = (if nodeID \<in> set (ns_seen s)
                   then [issue (nodePath @ ''.id'') (''Duplicate node ID '' @ [CHR 0x27] @ nodeID @ [CHR 0x27] @ ''.'')]
                   else []);
                typed = (if wn_type node = Delay then validateDelay nodePath config
                         else if wn_type node = Notification then validateNotification nodePath config
                         else if wn_type node = Condition
                         then [issue (nodePath @ ''.type'')
                                 ''Condition steps are not supported in the linear workflow builder.'']
                         else [])
            in \<lparr>ns_issues = ns_issues s @ duplicate @ typed,
                ns_seen = js_set_add nodeID (ns_seen s),
                ns_triggers = (if wn_type node = Trigger then js_set_add nodeID (ns_triggers s) else ns_triggers s)\<rparr>)))"

definition validateNodes :: "wf_definition \<Rightarrow> wf_issue list" where
  "validateNodes d =
     (let start = (if length (wd_nodes d) = 0
                   then [issue ''nodes'' ''At least one workflow node is required.''] else []);
          s = fold validateNode (indexed (wd_nodes d)) \<lparr>ns_issues = start, ns_seen = [], ns_triggers = []\<rparr>
      in ns_issues s @
         (if length (ns_triggers s) = 0
          then [issue ''nodes'' ''A workflow should start with a trigger node for testing and flow entry.'']
          else []) @
         (if length (ns_triggers s) > 1
          then [issue ''nodes'' ''Linear workflows support exactly one trigger node.'']
          else []))"

section \<open>The edges (\<open>edges.ts\<close>)\<close>

text \<open>The collections the function builds, and the issues found so far.\<close>

record edge_scan =
  es_issues :: "wf_issue list"
  es_seen :: "string list"
  es_paths :: "(string, string) js_map"
  es_adjacency :: adjacency
  es_incoming :: "(string, nat) js_map"
  es_outgoing :: "(string, nat) js_map"

definition count_of :: "(string, nat) js_map \<Rightarrow> string \<Rightarrow> nat" where
  "count_of m k = (case map_get m k of None \<Rightarrow> 0 | Some n \<Rightarrow> n)"

definition registerNode :: "nat \<times> wf_node \<Rightarrow> edge_scan \<Rightarrow> edge_scan" where
  "registerNode x s = (case x of (index, node) \<Rightarrow>
     (let nodeID = js_trim (wn_id node)
      in s\<lparr>es_seen := js_set_add nodeID (es_seen s),
           es_paths := map_set nodeID (node_path index) (es_paths s),
           es_adjacency := map_set nodeID [] (es_adjacency s),
           es_incoming := map_set nodeID 0 (es_incoming s),
           es_outgoing := map_set nodeID 0 (es_outgoing s)\<rparr>))"

definition scanEdge :: "nat \<times> wf_edge \<Rightarrow> edge_scan \<Rightarrow> edge_scan" where
  "scanEdge x s = (case x of (index, edge) \<Rightarrow>
     (let edgePath = ''edges.'' @ show_nat index;
          source = js_trim (we_source edge);
          target = js_trim (we_target edge);
          branch = js_trim (str_or_empty (we_branch edge))
      in if source = [] \<or> target = [] then
           s\<lparr>es_issues := es_issues s @ [issue edgePath ''Each edge must include both a source and target node.'']\<rparr>
         else if source \<notin> set (es_seen s) \<or> target \<notin> set (es_seen s) then
           s\<lparr>es_issues := es_issues s @ [issue edgePath ''Edges must point to nodes that exist in the builder.'']\<rparr>
         else
           s\<lparr>es_issues := es_issues s @
               (if branch \<noteq> [] then [issue (edgePath @ ''.branch'')
                  ''Branching is not supported in the linear workflow builder.''] else []),
             es_adjacency := map_set source (adj_of (es_adjacency s) source @ [target]) (es_adjacency s),
             es_incoming := map_set target (count_of (es_incoming s) target + 1) (es_incoming s),
             es_outgoing := map_set source (count_of (es_outgoing s) source + 1) (es_outgoing s)\<rparr>))"

definition scanEdges :: "wf_definition \<Rightarrow> edge_scan" where
  "scanEdges d =
     fold scanEdge (indexed (wd_edges d))
       (fold registerNode (indexed (wd_nodes d))
         \<lparr>es_issues = [], es_seen = [], es_paths = [], es_adjacency = [], es_incoming = [], es_outgoing = []\<rparr>)"

definition startNodes :: "edge_scan \<Rightarrow> string list" where
  "startNodes s = filter (\<lambda>n. count_of (es_incoming s) n = 0) (es_seen s)"

definition path_of :: "edge_scan \<Rightarrow> string \<Rightarrow> string" where
  "path_of s n = (case map_get (es_paths s) n of Some p \<Rightarrow> js_or p ''nodes'' | None \<Rightarrow> ''nodes'')"

definition startIssues :: "edge_scan \<Rightarrow> wf_issue list" where
  "startIssues s =
     (if length (es_seen s) > 0 \<and> length (startNodes s) = 0
      then [issue ''edges'' ''Workflow graph must have one start node with no incoming edges.''] else []) @
     (if length (startNodes s) > 1
      then [issue ''edges'' ''Linear workflows must form a single path with exactly one start node.''] else [])"

definition triggerNodeIDs :: "wf_definition \<Rightarrow> string list" where
  "triggerNodeIDs d = js_set_of (map (\<lambda>n. js_trim (wn_id n)) (filter (\<lambda>n. wn_type n = Trigger) (wd_nodes d)))"

definition triggerFirstIssues :: "wf_definition \<Rightarrow> edge_scan \<Rightarrow> wf_issue list" where
  "triggerFirstIssues d s =
     (case triggerNodeIDs d of
        [triggerNodeID] \<Rightarrow>
          (if count_of (es_incoming s) triggerNodeID > 0
           then [issue (path_of s triggerNodeID @ ''.edges'')
                   ''The trigger node must be the first step in the workflow.'']
           else [])
      | _ \<Rightarrow> [])"

definition degreeIssues :: "edge_scan \<Rightarrow> string \<Rightarrow> wf_issue list" where
  "degreeIssues s n =
     (if count_of (es_incoming s) n > 1
      then [issue (path_of s n @ ''.edges'') ''Linear workflows allow only one incoming connection per node.'']
      else []) @
     (if count_of (es_outgoing s) n > 1
      then [issue (path_of s n @ ''.edges'') ''Linear workflows allow only one outgoing connection per node.'']
      else [])"

definition cycleIssues :: "edge_scan \<Rightarrow> wf_issue list" where
  "cycleIssues s =
     (if fst (hasCycleAny (es_adjacency s) (map_keys (es_adjacency s)) ([], []))
      then [issue ''edges'' ''Workflow graph cannot contain cycles.''] else [])"

definition connectivityIssues :: "edge_scan \<Rightarrow> wf_issue list" where
  "connectivityIssues s =
     (case startNodes s of
        [start] \<Rightarrow>
          (if length (visit (es_adjacency s) start []) \<noteq> length (es_seen s)
           then [issue ''edges'' ''All workflow nodes must belong to one connected linear path.'']
           else [])
      | _ \<Rightarrow> [])"

definition validateEdges :: "wf_definition \<Rightarrow> wf_issue list" where
  "validateEdges d =
     (let s = scanEdges d
      in es_issues s @ startIssues s @ triggerFirstIssues d s @
         concat (map (degreeIssues s) (es_seen s)) @ cycleIssues s @ connectivityIssues s)"

section \<open>The whole definition (\<open>index.ts\<close>)\<close>

definition validateWorkflowDefinitionDraft :: "wf_definition option \<Rightarrow> wf_issue list" where
  "validateWorkflowDefinitionDraft d0 =
     (case d0 of
        None \<Rightarrow> [issue ''definition'' ''Workflow definition is required.'']
      | Some d \<Rightarrow> validateTrigger d @ validateNodes d @ validateEdges d)"

section \<open>What the scan collects\<close>

definition node_ids :: "wf_definition \<Rightarrow> string list" where
  "node_ids d = map (\<lambda>n. js_trim (wn_id n)) (wd_nodes d)"

definition edge_pair :: "wf_edge \<Rightarrow> string \<times> string" where
  "edge_pair e = (js_trim (we_source e), js_trim (we_target e))"

definition edge_ok :: "string set \<Rightarrow> wf_edge \<Rightarrow> bool" where
  "edge_ok V e \<longleftrightarrow> fst (edge_pair e) \<noteq> [] \<and> snd (edge_pair e) \<noteq> [] \<and> fst (edge_pair e) \<in> V \<and> snd (edge_pair e) \<in> V"

definition edge_plain :: "wf_edge \<Rightarrow> bool" where
  "edge_plain e \<longleftrightarrow> js_trim (str_or_empty (we_branch e)) = []"

definition ok_pairs :: "string set \<Rightarrow> wf_edge list \<Rightarrow> (string \<times> string) list" where
  "ok_pairs V es = map edge_pair (filter (edge_ok V) es)"

lemma count_of_set [js_simps]: "count_of (map_set k v m) n = (if n = k then v else count_of m n)"
  by (simp add: count_of_def map_get_set)

lemma adj_of_set [js_simps]: "adj_of (map_set k v m) n = (if n = k then v else adj_of m n)"
  by (simp add: adj_of_def map_get_set)

lemma registerNode_scan:
  "es_seen (fold registerNode xs s) = fold js_set_add (map (\<lambda>x. js_trim (wn_id (snd x))) xs) (es_seen s)"
  "es_issues (fold registerNode xs s) = es_issues s"
  "(\<And>n. count_of (es_incoming s) n = 0) \<Longrightarrow> count_of (es_incoming (fold registerNode xs s)) n = 0"
  "(\<And>n. count_of (es_outgoing s) n = 0) \<Longrightarrow> count_of (es_outgoing (fold registerNode xs s)) n = 0"
  "(\<And>n. adj_of (es_adjacency s) n = []) \<Longrightarrow> adj_of (es_adjacency (fold registerNode xs s)) n = []"
  by (induction xs arbitrary: s)
    (simp_all add: registerNode_def Let_def js_simps split: prod.split)

lemma scanEdge_seen [simp]: "es_seen (scanEdge x s) = es_seen s"
  by (simp add: scanEdge_def Let_def split: prod.split)

lemma scanEdge_step:
  "es_adjacency (scanEdge (i, e) s) =
     (if edge_ok (set (es_seen s)) e
      then map_set (fst (edge_pair e)) (adj_of (es_adjacency s) (fst (edge_pair e)) @ [snd (edge_pair e)]) (es_adjacency s)
      else es_adjacency s)"
  "es_incoming (scanEdge (i, e) s) =
     (if edge_ok (set (es_seen s)) e
      then map_set (snd (edge_pair e)) (count_of (es_incoming s) (snd (edge_pair e)) + 1) (es_incoming s)
      else es_incoming s)"
  "es_outgoing (scanEdge (i, e) s) =
     (if edge_ok (set (es_seen s)) e
      then map_set (fst (edge_pair e)) (count_of (es_outgoing s) (fst (edge_pair e)) + 1) (es_outgoing s)
      else es_outgoing s)"
  "es_issues (scanEdge (i, e) s) = [] \<longleftrightarrow> es_issues s = [] \<and> edge_ok (set (es_seen s)) e \<and> edge_plain e"
  by (auto simp: scanEdge_def Let_def edge_ok_def edge_pair_def edge_plain_def)

lemma scanEdge_fold:
  "es_seen (fold scanEdge xs s) = es_seen s"
  "adj_of (es_adjacency (fold scanEdge xs s)) n =
     adj_of (es_adjacency s) n @ map snd (filter (\<lambda>p. fst p = n) (ok_pairs (set (es_seen s)) (map snd xs)))"
  "count_of (es_incoming (fold scanEdge xs s)) n =
     count_of (es_incoming s) n + length (filter (\<lambda>p. snd p = n) (ok_pairs (set (es_seen s)) (map snd xs)))"
  "count_of (es_outgoing (fold scanEdge xs s)) n =
     count_of (es_outgoing s) n + length (filter (\<lambda>p. fst p = n) (ok_pairs (set (es_seen s)) (map snd xs)))"
  "es_issues (fold scanEdge xs s) = [] \<longleftrightarrow>
     es_issues s = [] \<and> (\<forall>e \<in> set (map snd xs). edge_ok (set (es_seen s)) e \<and> edge_plain e)"
proof (induction xs arbitrary: s)
  case (Cons x xs)
  obtain i e where x: "x = (i, e)" by (cases x)
  { case 1 show ?case by (simp add: Cons.IH) }
  { case 2 show ?case by (simp add: Cons.IH x scanEdge_step js_simps ok_pairs_def) }
  { case 3 show ?case by (simp add: Cons.IH x scanEdge_step js_simps ok_pairs_def) }
  { case 4 show ?case by (simp add: Cons.IH x scanEdge_step js_simps ok_pairs_def) }
  { case 5 show ?case by (auto simp: Cons.IH x scanEdge_step) }
qed (simp_all add: ok_pairs_def)

lemma map_trim_indexed: "map (\<lambda>x. f (snd x)) (indexed xs) = map f xs"
  by (metis (no_types, lifting) comp_apply map_eq_conv map_map map_snd_enumerate)

lemma scanEdges_seen: "es_seen (scanEdges d) = js_set_of (node_ids d)"
  by (simp add: scanEdges_def scanEdge_fold registerNode_scan js_set_of_def node_ids_def
      map_trim_indexed [of "\<lambda>n. js_trim (wn_id n)"])

lemma set_es_seen [simp]: "set (es_seen (scanEdges d)) = set (node_ids d)"
  by (simp add: scanEdges_seen)

lemma distinct_es_seen [simp]: "distinct (es_seen (scanEdges d))"
  by (simp add: scanEdges_seen)

abbreviation def_pairs :: "wf_definition \<Rightarrow> (string \<times> string) list" where
  "def_pairs d \<equiv> ok_pairs (set (node_ids d)) (wd_edges d)"

lemma scanEdges_facts:
  "adj_of (es_adjacency (scanEdges d)) n = map snd (filter (\<lambda>p. fst p = n) (def_pairs d))"
  "count_of (es_incoming (scanEdges d)) n = count (mset (map snd (def_pairs d))) n"
  "count_of (es_outgoing (scanEdges d)) n = count (mset (map fst (def_pairs d))) n"
  "es_issues (scanEdges d) = [] \<longleftrightarrow> (\<forall>e \<in> set (wd_edges d). edge_ok (set (node_ids d)) e \<and> edge_plain e)"
proof -
  let ?s = "fold registerNode (indexed (wd_nodes d))
    \<lparr>es_issues = [], es_seen = [], es_paths = [], es_adjacency = [], es_incoming = [], es_outgoing = []\<rparr>"
  have s: "set (es_seen ?s) = set (node_ids d)" "es_issues ?s = []"
    by (simp_all add: registerNode_scan node_ids_def map_trim_indexed [of "\<lambda>n. js_trim (wn_id n)"] image_image
        flip: set_map)
  have z: "adj_of (es_adjacency ?s) n = []" "count_of (es_incoming ?s) n = 0" "count_of (es_outgoing ?s) n = 0" for n
    by (rule registerNode_scan(5,3,4), simp add: adj_of_def count_of_def)+
  show "adj_of (es_adjacency (scanEdges d)) n = map snd (filter (\<lambda>p. fst p = n) (def_pairs d))"
    and "count_of (es_incoming (scanEdges d)) n = count (mset (map snd (def_pairs d))) n"
    and "count_of (es_outgoing (scanEdges d)) n = count (mset (map fst (def_pairs d))) n"
    and "es_issues (scanEdges d) = [] \<longleftrightarrow> (\<forall>e \<in> set (wd_edges d). edge_ok (set (node_ids d)) e \<and> edge_plain e)"
    by (simp_all add: scanEdges_def scanEdge_fold s z length_filter_map)
qed

lemma scanEdges_rel: "adj_rel (es_adjacency (scanEdges d)) = set (def_pairs d)"
  by (force simp: scanEdges_facts image_iff)

section \<open>The abstract specification\<close>

text \<open>
  The steps form one chain \<open>p\<close> that holds every node once and whose links are the edges; no edge has
  a branch or a blank end, and a lone trigger is the head of the chain.
\<close>

definition trigger_set :: "wf_definition \<Rightarrow> string set" where
  "trigger_set d = {js_trim (wn_id n) | n. n \<in> set (wd_nodes d) \<and> wn_type n = Trigger}"

definition linear_chain :: "wf_definition \<Rightarrow> string list \<Rightarrow> bool" where
  "linear_chain d p \<longleftrightarrow>
     distinct p \<and> set p = set (node_ids d) \<and>
     mset (map edge_pair (wd_edges d)) = mset (links p) \<and>
     (\<forall>e \<in> set (wd_edges d). fst (edge_pair e) \<noteq> [] \<and> snd (edge_pair e) \<noteq> [] \<and> edge_plain e) \<and>
     (\<forall>t. trigger_set d = {t} \<longrightarrow> p \<noteq> [] \<and> hd p = t)"

definition linear_workflow :: "wf_definition \<Rightarrow> bool" where
  "linear_workflow d \<longleftrightarrow> (\<exists>p. linear_chain d p)"

lemma set_triggerNodeIDs [simp]: "set (triggerNodeIDs d) = trigger_set d"
  by (auto simp: triggerNodeIDs_def trigger_set_def)

lemma distinct_triggerNodeIDs [simp]: "distinct (triggerNodeIDs d)"
  by (simp add: triggerNodeIDs_def)

lemma triggerNodeIDs_single: "triggerNodeIDs d = [t] \<longleftrightarrow> trigger_set d = {t}"
proof
  assume "trigger_set d = {t}"
  then have "set (triggerNodeIDs d) = {t}" by simp
  then show "triggerNodeIDs d = [t]"
    using distinct_triggerNodeIDs [of d] by (metis distinct_card card_1_singleton_iff length_Suc_conv
        length_0_conv list.set(1,2) One_nat_def insertI1 singletonD)
qed (use set_triggerNodeIDs [of d] in simp)

lemma trigger_set_nodes: "trigger_set d \<subseteq> set (node_ids d)"
  by (auto simp: trigger_set_def node_ids_def)

lemma triggerFirst_iff:
  "triggerFirstIssues d s = [] \<longleftrightarrow> (\<forall>t. trigger_set d = {t} \<longrightarrow> count_of (es_incoming s) t = 0)"
proof (cases "\<exists>t. triggerNodeIDs d = [t]")
  case True
  then show ?thesis by (auto simp: triggerFirstIssues_def triggerNodeIDs_single [symmetric] split: if_splits)
next
  case False
  then have "\<not> (\<exists>t. trigger_set d = {t})" by (simp add: triggerNodeIDs_single)
  with False show ?thesis by (auto simp: triggerFirstIssues_def split: list.split)
qed

text \<open>
  The checks of \<open>validateEdges\<close> in terms of the edges alone: \<open>P\<close> are the pairs, \<open>V\<close> the nodes.
\<close>

definition degree_ok :: "(string \<times> string) list \<Rightarrow> string \<Rightarrow> bool" where
  "degree_ok P n \<longleftrightarrow> count (mset (map snd P)) n \<le> 1 \<and> count (mset (map fst P)) n \<le> 1"

definition starts_of :: "(string \<times> string) list \<Rightarrow> string set \<Rightarrow> string set" where
  "starts_of P V = {n \<in> V. n \<notin> snd ` set P}"

lemma set_startNodes: "set (startNodes (scanEdges d)) = starts_of (def_pairs d) (set (node_ids d))"
  by (auto simp: startNodes_def starts_of_def scanEdges_facts count_eq_zero_iff)

lemma distinct_startNodes: "distinct (startNodes (scanEdges d))"
  by (simp add: startNodes_def)

lemma startNodes_single: "(\<exists>s. startNodes (scanEdges d) = [s]) \<longleftrightarrow> card (starts_of (def_pairs d) (set (node_ids d))) = 1"
  by (metis One_nat_def distinct_card distinct_startNodes length_Suc_conv length_0_conv set_startNodes)

lemma startIssues_iff:
  "startIssues (scanEdges d) = [] \<longleftrightarrow> wd_nodes d = [] \<or> (\<exists>s. startNodes (scanEdges d) = [s])"
proof -
  have "wd_nodes d = [] \<longleftrightarrow> es_seen (scanEdges d) = []"
    by (metis scanEdges_seen node_ids_def map_is_Nil_conv set_empty set_js_set_of)
  moreover have "es_seen (scanEdges d) = [] \<Longrightarrow> startNodes (scanEdges d) = []"
    by (simp add: startNodes_def)
  ultimately show ?thesis
    by (cases "startNodes (scanEdges d)") (auto simp: startIssues_def)
qed

lemma degreeIssues_iff:
  "concat (map (degreeIssues (scanEdges d)) (es_seen (scanEdges d))) = [] \<longleftrightarrow>
    (\<forall>n \<in> set (node_ids d). degree_ok (def_pairs d) n)"
  by (auto simp: degreeIssues_def degree_ok_def scanEdges_facts not_less)

lemma cycleIssues_iff: "cycleIssues (scanEdges d) = [] \<longleftrightarrow> (\<forall>n. (n, n) \<notin> (set (def_pairs d))\<^sup>+)"
  by (simp add: cycleIssues_def hasCycleAny_correct scanEdges_rel del: set_map)

lemma def_pairs_ends: "(a, b) \<in> set (def_pairs d) \<Longrightarrow> a \<in> set (node_ids d) \<and> b \<in> set (node_ids d)"
  by (force simp: ok_pairs_def edge_ok_def dest: sym)

lemma def_pairs_reach:
  "s \<in> set (node_ids d) \<Longrightarrow> (set (def_pairs d))\<^sup>* `` {s} \<subseteq> set (node_ids d)"
proof
  fix x
  assume s: "s \<in> set (node_ids d)" and "x \<in> (set (def_pairs d))\<^sup>* `` {s}"
  then have "(s, x) \<in> (set (def_pairs d))\<^sup>*" by simp
  then show "x \<in> set (node_ids d)" by (induction rule: rtrancl_induct) (auto simp: s dest: def_pairs_ends)
qed

lemma connectivity_iff:
  assumes "startNodes (scanEdges d) = [s]"
  shows "connectivityIssues (scanEdges d) = [] \<longleftrightarrow> (set (def_pairs d))\<^sup>* `` {s} = set (node_ids d)"
proof -
  let ?v = "visit (es_adjacency (scanEdges d)) s []"
  have v: "set ?v = (set (def_pairs d))\<^sup>* `` {s}" by (simp add: visit_correct scanEdges_rel)
  have "s \<in> set (node_ids d)" using set_startNodes [of d] assms by (auto simp: starts_of_def)
  then have sub: "set ?v \<subseteq> set (node_ids d)" using def_pairs_reach v by simp
  have "length ?v = length (es_seen (scanEdges d)) \<longleftrightarrow> card (set ?v) = card (set (node_ids d))"
    using distinct_card [OF visit_distinct [of "es_adjacency (scanEdges d)" s]]
      distinct_card [OF distinct_es_seen [of d]] by simp
  also have "\<dots> \<longleftrightarrow> set ?v = set (node_ids d)"
    using card_subset_eq [OF List.finite_set sub] by metis
  finally show ?thesis by (simp add: connectivityIssues_def assms v)
qed

lemma ok_pairs_all:
  "\<forall>e \<in> set es. edge_ok V e \<Longrightarrow> ok_pairs V es = map edge_pair es"
  by (simp add: ok_pairs_def)

lemma degree_single_valued:
  assumes "\<And>n. n \<in> fst ` set P \<Longrightarrow> degree_ok P n"
  shows "single_valued (set P)" and "distinct P"
proof -
  have d: "distinct (map fst P)"
      unfolding distinct_count_atmost_1
  proof
    fix n
    show "count (mset (map fst P)) n = (if n \<in> set (map fst P) then 1 else 0)"
    proof (cases "n \<in> fst ` set P")
      case True
      with assms have "count (mset (map fst P)) n \<le> 1" by (simp add: degree_ok_def)
      moreover from True have "n \<in># mset (map fst P)" by simp
      then have "count (mset (map fst P)) n > 0" by (simp only: count_greater_zero_iff)
      ultimately have "count (mset (map fst P)) n = 1" by linarith
      with True show ?thesis by (simp del: mset_map)
    next
      case False
      then have "n \<notin># mset (map fst P)" by simp
      with False show ?thesis by (simp add: not_in_iff del: mset_map)
    qed
  qed
  then show "distinct P" by (simp add: distinct_map)
  from d show "single_valued (set P)"
    by (auto simp: single_valued_def) (metis eq_key_imp_eq_value)
qed

text \<open>No issue: the edges form a chain.\<close>

lemma edges_ok_chain:
  assumes "validateEdges d = []"
  shows "linear_workflow d"
proof -
  let ?P = "def_pairs d" and ?s = "scanEdges d"
  from assms have ok: "\<forall>e \<in> set (wd_edges d). edge_ok (set (node_ids d)) e \<and> edge_plain e"
    and start: "wd_nodes d = [] \<or> (\<exists>s. startNodes ?s = [s])"
    and deg: "\<forall>n \<in> set (node_ids d). degree_ok ?P n"
    and acyc: "\<forall>n. (n, n) \<notin> (set ?P)\<^sup>+"
    and trig: "\<forall>t. trigger_set d = {t} \<longrightarrow> count_of (es_incoming ?s) t = 0"
    and conn: "connectivityIssues ?s = []"
    unfolding validateEdges_def Let_def append_is_Nil_conv degreeIssues_iff
      scanEdges_facts(4) startIssues_iff cycleIssues_iff triggerFirst_iff by blast+
  from ok have P: "?P = map edge_pair (wd_edges d)" by (simp add: ok_pairs_all)
  have plain: "\<forall>e \<in> set (wd_edges d). fst (edge_pair e) \<noteq> [] \<and> snd (edge_pair e) \<noteq> [] \<and> edge_plain e"
    using ok by (simp add: edge_ok_def)
  have "n \<in> set (node_ids d)" if "n \<in> fst ` set ?P" for n
    using that def_pairs_ends by fastforce
  with deg have sv: "single_valued (set ?P)" "distinct ?P" by (blast intro: degree_single_valued)+
  show ?thesis
  proof (cases "wd_nodes d = []")
    case True
    with ok have "wd_edges d = []" by (cases "wd_edges d") (auto simp: node_ids_def edge_ok_def)
    with True show ?thesis
      by (auto simp: linear_workflow_def linear_chain_def node_ids_def trigger_set_def intro!: exI [of _ "[]"])
  next
    case False
    with start obtain s where s: "startNodes ?s = [s]" by blast
    from conn s have reach: "(set ?P)\<^sup>* `` {s} = set (node_ids d)" by (simp add: connectivity_iff)
    then have "finite ((set ?P)\<^sup>* `` {s})" by simp
    from chain_exists [OF sv(1) acyc [rule_format] this] obtain p where p: "p \<noteq> []" "hd p = s" "distinct p"
      "set p = set (node_ids d)" "set (links p) = {(a, b) \<in> set ?P. a \<in> set p}" unfolding reach by blast
    have "(a, b) \<in> set ?P \<Longrightarrow> a \<in> set p" for a b unfolding p(4) by (simp add: def_pairs_ends)
    then have "set (links p) = set ?P" unfolding p(5) by auto
    then have "mset (map edge_pair (wd_edges d)) = mset (links p)"
      using set_eq_iff_mset_eq_distinct [OF distinct_links [OF p(3)] sv(2)] P by simp
    moreover have "hd p = t" if "trigger_set d = {t}" for t
    proof -
      from that trig trigger_set_nodes have "t \<in> set (startNodes ?s)"
        by (fastforce simp: startNodes_def)
      with s p(2) show ?thesis by simp
    qed
    ultimately show ?thesis using p plain unfolding linear_workflow_def linear_chain_def by blast
  qed
qed

text \<open>A chain: no issue.\<close>

lemma chain_edges_ok:
  assumes "linear_chain d p"
  shows "validateEdges d = []"
proof -
  let ?P = "def_pairs d" and ?s = "scanEdges d"
  from assms have d: "distinct p" and V: "set p = set (node_ids d)"
    and m: "mset (map edge_pair (wd_edges d)) = mset (links p)"
    and plain: "\<forall>e \<in> set (wd_edges d). fst (edge_pair e) \<noteq> [] \<and> snd (edge_pair e) \<noteq> [] \<and> edge_plain e"
    and trig: "\<forall>t. trigger_set d = {t} \<longrightarrow> p \<noteq> [] \<and> hd p = t"
    unfolding linear_chain_def by blast+
  have "edge_ok (set (node_ids d)) e" if "e \<in> set (wd_edges d)" for e
  proof -
    from that have "edge_pair e \<in> set (links p)" using mset_eq_setD [OF m] by auto
    then have "fst (edge_pair e) \<in> set p \<and> snd (edge_pair e) \<in> set p" by (metis links_in_set prod.collapse)
    with V plain that show ?thesis by (simp add: edge_ok_def)
  qed
  with plain have ok: "\<forall>e \<in> set (wd_edges d). edge_ok (set (node_ids d)) e \<and> edge_plain e" by blast
  then have "?P = map edge_pair (wd_edges d)" by (simp add: ok_pairs_all)
  then have P: "mset ?P = mset (links p)" unfolding m [symmetric] by (rule arg_cong)
  then have sP: "set ?P = set (links p)" by (rule mset_eq_setD)
  from P have fP: "mset (map f ?P) = mset (map f (links p))" for f :: "string \<times> string \<Rightarrow> string" by simp
  have snd_P: "snd ` set ?P = set (tl p)" by (simp add: sP flip: set_map)
  have "starts_of ?P (set (node_ids d)) = {n \<in> set p. n \<notin> set (tl p)}"
    unfolding starts_of_def snd_P V ..
  also have "\<dots> = (if p = [] then {} else {hd p})" using d by (cases p) auto
  finally have st: "starts_of ?P (set (node_ids d)) = (if p = [] then {} else {hd p})" .
  have start: "wd_nodes d = [] \<or> (\<exists>s. startNodes ?s = [s])"
    unfolding startNodes_single st using V by (auto simp: node_ids_def)
  have deg: "\<forall>n \<in> set (node_ids d). degree_ok ?P n"
    unfolding degree_ok_def fP using links_in_degree [OF d] links_out_degree [OF d] by simp
  have acyc: "\<forall>n. (n, n) \<notin> (set ?P)\<^sup>+" using links_acyclic [OF d] sP by simp
  have "count_of (es_incoming ?s) t = 0" if "trigger_set d = {t}" for t
  proof -
    from that trig d have "t \<notin> set (tl p)" by (cases p) auto
    then show ?thesis unfolding scanEdges_facts fP links_in_degree [OF d] by simp
  qed
  then have trg: "\<forall>t. trigger_set d = {t} \<longrightarrow> count_of (es_incoming ?s) t = 0" by blast
  have conn: "connectivityIssues ?s = []"
  proof (cases "\<exists>s. startNodes ?s = [s]")
    case True
    then obtain s where s: "startNodes ?s = [s]" ..
    with set_startNodes [of d] st have p: "p \<noteq> []" "s = hd p" by (auto split: if_splits)
    show ?thesis unfolding connectivity_iff [OF s] sP p(2) links_reach [OF p(1)] V ..
  next
    case False
    then show ?thesis by (auto simp: connectivityIssues_def split: list.split)
  qed
  show ?thesis
    unfolding validateEdges_def Let_def append_is_Nil_conv degreeIssues_iff
      scanEdges_facts(4) startIssues_iff cycleIssues_iff triggerFirst_iff
    using ok start deg acyc trg conn by blast
qed

lemma validateEdges_linear: "validateEdges d = [] \<longleftrightarrow> linear_workflow d"
  using edges_ok_chain chain_edges_ok unfolding linear_workflow_def by blast

text \<open>What the node checks ask of one node.\<close>

definition node_config :: "wf_node \<Rightarrow> (string \<times> json) list" where
  "node_config n = (case wn_config n of None \<Rightarrow> [] | Some c \<Rightarrow> c)"

definition config_channels :: "(string \<times> json) list \<Rightarrow> string list" where
  "config_channels c = (case map_of c ''channels'' of Some (JArr vs) \<Rightarrow> json_strings vs | _ \<Rightarrow> [])"

definition step_ok :: "wf_node \<Rightarrow> bool" where
  "step_ok n \<longleftrightarrow>
     (wn_type n = Delay \<longrightarrow> is_go_duration (js_trim (str_or_empty (obj_str (node_config n) ''duration'')))) \<and>
     (wn_type n = Notification \<longrightarrow>
        is_uuid (js_trim (str_or_empty (obj_str (node_config n) ''template_id''))) \<and>
        (\<exists>c \<in> set notificationChannels. config_channels (node_config n) = [c])) \<and>
     wn_type n \<noteq> Condition"

definition valid_workflow :: "wf_definition \<Rightarrow> bool" where
  "valid_workflow d \<longleftrightarrow>
     js_trim (case wd_trigger d of None \<Rightarrow> [] | Some t \<Rightarrow> str_or_empty (wt_event t)) \<noteq> [] \<and>
     distinct (node_ids d) \<and> [] \<notin> set (node_ids d) \<and> (\<forall>n \<in> set (wd_nodes d). step_ok n) \<and>
     (\<exists>t steps. trigger_set d = {t} \<and> linear_chain d (t # steps))"

lemma validateDelay_iff: "validateDelay p c = [] \<longleftrightarrow> is_go_duration (js_trim (str_or_empty (obj_str c ''duration'')))"
  by (simp add: validateDelay_def Let_def)

lemma validateNotification_iff:
  "validateNotification p c = [] \<longleftrightarrow>
     is_uuid (js_trim (str_or_empty (obj_str c ''template_id''))) \<and>
     (\<exists>ch \<in> set notificationChannels. config_channels c = [ch])"
proof -
  have t: "(if t \<noteq> [] \<and> t \<noteq> zeroUUID \<and> \<not> is_uuid t then [a] else []) = [] \<and>
      (if t = [] \<or> t = zeroUUID then [b] else []) = [] \<longleftrightarrow> is_uuid t"
    for t :: string and a b :: wf_issue
    by (cases "t = [] \<or> t = zeroUUID") (auto simp: not_is_uuid_Nil not_is_uuid_zero)
  have ch: "(if length cs \<noteq> 1 \<or> hd cs \<notin> set notificationChannels then [a] else []) = [] \<longleftrightarrow>
      (\<exists>x \<in> set notificationChannels. cs = [x])" for cs :: "string list" and a :: wf_issue
    by (cases cs) auto
  show ?thesis
    unfolding validateNotification_def Let_def config_channels_def [symmetric] append_is_Nil_conv
      conj_assoc [symmetric] t ch by simp
qed

lemma validateNode_step:
  "ns_issues (validateNode (i, n) s) = [] \<longleftrightarrow>
     ns_issues s = [] \<and> js_trim (wn_id n) \<noteq> [] \<and> js_trim (wn_id n) \<notin> set (ns_seen s) \<and> step_ok n"
  "js_trim (wn_id n) \<noteq> [] \<Longrightarrow>
     set (ns_seen (validateNode (i, n) s)) = insert (js_trim (wn_id n)) (set (ns_seen s))"
  "ns_triggers (validateNode (i, n) s) =
     (if wn_type n = Trigger \<and> js_trim (wn_id n) \<noteq> [] then js_set_add (js_trim (wn_id n)) (ns_triggers s)
      else ns_triggers s)"
proof -
  show "ns_issues (validateNode (i, n) s) = [] \<longleftrightarrow>
     ns_issues s = [] \<and> js_trim (wn_id n) \<noteq> [] \<and> js_trim (wn_id n) \<notin> set (ns_seen s) \<and> step_ok n"
    by (cases "wn_type n")
      (auto simp: validateNode_def Let_def validateDelay_iff validateNotification_iff step_ok_def
        simp flip: node_config_def)
qed (simp_all add: validateNode_def Let_def)

lemma validateNode_fold_issues:
  "ns_issues (fold validateNode xs s) = [] \<longleftrightarrow>
     ns_issues s = [] \<and> [] \<notin> set (map (\<lambda>x. js_trim (wn_id (snd x))) xs) \<and>
     distinct (map (\<lambda>x. js_trim (wn_id (snd x))) xs) \<and>
     set (map (\<lambda>x. js_trim (wn_id (snd x))) xs) \<inter> set (ns_seen s) = {} \<and>
     (\<forall>x \<in> set xs. step_ok (snd x))"
proof (induction xs arbitrary: s)
  case (Cons x xs)
  obtain i n where x: "x = (i, n)" by (cases x)
  show ?case
  proof (cases "js_trim (wn_id n) = []")
    case True
    then show ?thesis by (simp add: Cons.IH x validateNode_step(1))
  next
    case False
    then show ?thesis
      unfolding fold_simps Cons.IH x validateNode_step(1) validateNode_step(2) [OF False] list.map list.set snd_conv
      by (auto simp del: set_map)
  qed
qed simp

lemma validateNode_fold_triggers:
  "set (ns_triggers (fold validateNode xs s)) = set (ns_triggers s) \<union>
     {js_trim (wn_id n) | n. n \<in> snd ` set xs \<and> wn_type n = Trigger \<and> js_trim (wn_id n) \<noteq> []}"
  "distinct (ns_triggers s) \<Longrightarrow> distinct (ns_triggers (fold validateNode xs s))"
proof (induction xs arbitrary: s)
  case (Cons x xs)
  obtain i n where x: "x = (i, n)" by (cases x)
  { case 1 show ?case unfolding fold_simps Cons.IH(1) x validateNode_step(3) by auto }
  { case 2 then show ?case unfolding fold_simps x by (intro Cons.IH(2)) (simp add: validateNode_step(3)) }
qed simp_all

lemma one_element:
  "distinct xs \<Longrightarrow> length xs \<noteq> 0 \<and> \<not> length xs > 1 \<longleftrightarrow> (\<exists>t. set xs = {t})"
proof (cases xs rule: remdups_adj.cases)
  case (3 x y ys)
  moreover assume "distinct xs"
  ultimately have "set xs \<noteq> {t}" for t by (simp add: doubleton_eq_iff) (metis insertI1 insert_commute singletonD)
  then show ?thesis using 3 by simp
qed simp_all

lemma validateNodes_iff:
  "validateNodes d = [] \<longleftrightarrow>
     distinct (node_ids d) \<and> [] \<notin> set (node_ids d) \<and> (\<forall>n \<in> set (wd_nodes d). step_ok n) \<and>
     (\<exists>t. trigger_set d = {t})"
proof -
  let ?st = "if length (wd_nodes d) = 0 then [issue ''nodes'' ''At least one workflow node is required.''] else []"
  let ?s = "fold validateNode (indexed (wd_nodes d)) \<lparr>ns_issues = ?st, ns_seen = [], ns_triggers = []\<rparr>"
  have ids: "map (\<lambda>x. js_trim (wn_id (snd x))) (indexed (wd_nodes d)) = node_ids d"
    by (simp add: map_trim_indexed [of "\<lambda>n. js_trim (wn_id n)"] node_ids_def)
  have nodes: "snd ` set (indexed (wd_nodes d)) = set (wd_nodes d)" by (metis map_snd_enumerate set_map)
  have i: "ns_issues ?s = [] \<longleftrightarrow> wd_nodes d \<noteq> [] \<and> [] \<notin> set (node_ids d) \<and> distinct (node_ids d) \<and>
      (\<forall>n \<in> set (wd_nodes d). step_ok n)"
    unfolding validateNode_fold_issues ids nodes [symmetric] by auto
  have dt: "distinct (ns_triggers ?s)" by (simp add: validateNode_fold_triggers(2))
  have t: "set (ns_triggers ?s) = trigger_set d" if "[] \<notin> set (node_ids d)"
  proof -
    have "js_trim (wn_id n) \<noteq> []" if "n \<in> set (wd_nodes d)" for n
      using that \<open>[] \<notin> set (node_ids d)\<close> by (force simp: node_ids_def)
    then show ?thesis unfolding validateNode_fold_triggers(1) nodes by (auto simp: trigger_set_def)
  qed
  have l: "length (ns_triggers ?s) \<noteq> 0 \<and> \<not> length (ns_triggers ?s) > 1 \<longleftrightarrow> (\<exists>t. set (ns_triggers ?s) = {t})"
    using one_element [OF dt] .
  have ne: "wd_nodes d \<noteq> []" if "\<exists>t. trigger_set d = {t}" using that by (auto simp: trigger_set_def)
  have "validateNodes d = [] \<longleftrightarrow> ns_issues ?s = [] \<and> (\<exists>t. set (ns_triggers ?s) = {t})"
    unfolding l [symmetric] by (simp add: validateNodes_def Let_def)
  then show ?thesis unfolding i using t ne by (metis (no_types, lifting))
qed

lemma validate_valid: "validateWorkflowDefinitionDraft (Some d) = [] \<longleftrightarrow> valid_workflow d"
proof -
  have "linear_workflow d \<longleftrightarrow> (\<exists>t steps. trigger_set d = {t} \<and> linear_chain d (t # steps))"
    if "\<exists>t. trigger_set d = {t}"
  proof -
    from that obtain t where t: "trigger_set d = {t}" ..
    then have "p = t # tl p" if "linear_chain d p" for p
      using that by (auto simp: linear_chain_def)
    then show ?thesis using t by (metis linear_workflow_def)
  qed
  then show ?thesis
    by (auto simp: validateWorkflowDefinitionDraft_def valid_workflow_def validateTrigger_def
        validateNodes_iff validateEdges_linear)
qed

section \<open>Properties\<close>

text \<open>C2: the edge validation reports nothing exactly when the workflow is a linear chain: there is a
  list of all nodes without repetition whose consecutive pairs are the edges, each edge once, without
  branch labels, and it starts with the trigger when there is exactly one.\<close>

theorem validateEdges_iff_linear: "validateEdges d = [] \<longleftrightarrow> linear_workflow d"
  by (rule validateEdges_linear)

text \<open>C1: the whole validation accepts a definition exactly when it is a valid workflow: a trigger
  event, distinct non-empty ids, well configured steps, one trigger id, and a chain that starts there.\<close>

theorem validate_iff_valid: "validateWorkflowDefinitionDraft (Some d) = [] \<longleftrightarrow> valid_workflow d"
  by (rule validate_valid)

end
