(* ===== verification/Canvas.thy ===== *)
theory Canvas
  imports Draft Chain
begin

text \<open>
  The canvas of the builder (\<open>features/workflows/utils/canvas\<close>, \<open>types/canvas.ts\<close>,
  \<open>draft/from-canvas.ts\<close>): React Flow nodes and edges built from a draft, their layout, and the draft
  read back from a canvas.  The layout engine (dagre) is a parameter: from the layout options, the
  sized nodes and the edges it gives the centre of a node, when it knows the node.  The lemmas show
  that a canvas built from a draft still holds that draft.

  Canvas coordinates are rationals; the numbers the code computes with are differences and sums of
  layout coordinates.
\<close>

section \<open>Positions\<close>

text \<open>
  The comparator of \<open>buildDraftFromCanvas\<close> orders positions by \<open>y\<close>, then by \<open>x\<close>.  Its sign is the order of
  the type (\<open>comparePosition_order\<close>), so that the code's stable sort is \<open>sort_key\<close>.
\<close>

datatype position = Position (pos_x: rat) (pos_y: rat)

definition comparePosition :: "position \<Rightarrow> position \<Rightarrow> rat" where
  "comparePosition l r = (if pos_y l \<noteq> pos_y r then pos_y l - pos_y r else pos_x l - pos_x r)"

instantiation position :: linorder
begin

definition less_eq_position :: "position \<Rightarrow> position \<Rightarrow> bool" where
  "less_eq_position l r \<longleftrightarrow> (if pos_y l \<noteq> pos_y r then pos_y l < pos_y r else pos_x l \<le> pos_x r)"

definition less_position :: "position \<Rightarrow> position \<Rightarrow> bool" where
  "less_position l r \<longleftrightarrow> (if pos_y l \<noteq> pos_y r then pos_y l < pos_y r else pos_x l < pos_x r)"

instance
  by standard (auto simp: less_eq_position_def less_position_def position.expand split: if_splits)

end

lemma comparePosition_order:
  "comparePosition l r < 0 \<longleftrightarrow> l < r" "comparePosition l r = 0 \<longleftrightarrow> l = r" "comparePosition l r \<le> 0 \<longleftrightarrow> l \<le> r"
  by (auto simp: comparePosition_def less_position_def less_eq_position_def position.expand)

section \<open>Canvas nodes and edges\<close>

record canvas_node =
  cn_id :: string
  cn_type :: string
  cn_position :: position
  cn_draft :: node_draft

text \<open>\<open>ce_branch\<close> is \<open>edge.data?.branch\<close>.\<close>

record canvas_edge =
  ce_id :: string
  ce_source :: string
  ce_target :: string
  ce_sourceHandle :: "string option"
  ce_type :: string
  ce_label :: "string option"
  ce_branch :: "string option"

abbreviation edge_ends :: "canvas_edge \<Rightarrow> string \<times> string" where
  "edge_ends e \<equiv> (ce_source e, ce_target e)"

definition canvas_id :: "string \<Rightarrow> string" where
  "canvas_id rand = ''canvas_'' @ js_slice 2 10 rand"

definition createCanvasNodeId :: "rng \<Rightarrow> string \<times> rng" where
  "createCanvasNodeId r = (let (rand, r') = rng_next r in (canvas_id rand, r'))"

definition createCanvasEdgeId :: "rng \<Rightarrow> string \<times> rng" where
  "createCanvasEdgeId r = (let (rand, r') = rng_next r in (''edge_'' @ js_slice 2 10 rand, r'))"

text \<open>\<open>None\<close> for the id is the missing argument: the default draws a fresh one.\<close>

definition buildCanvasNode :: "node_draft \<Rightarrow> string option \<Rightarrow> rng \<Rightarrow> canvas_node \<times> rng" where
  "buildCanvasNode draft id0 r =
     (let (nid, r') = (case id0 of Some i \<Rightarrow> (i, r) | None \<Rightarrow> createCanvasNodeId r)
      in (\<lparr>cn_id = nid, cn_type = ''workflow-step'', cn_position = Position 0 0, cn_draft = draft\<rparr>, r'))"

definition buildCanvasEdge :: "string \<Rightarrow> string \<Rightarrow> string \<Rightarrow> rng \<Rightarrow> canvas_edge \<times> rng" where
  "buildCanvasEdge source target branch r =
     (let (eid, r') = createCanvasEdgeId r
      in (\<lparr>ce_id = eid, ce_source = source, ce_target = target, ce_sourceHandle = Some ''default'',
           ce_type = ''workflow-edge'', ce_label = None, ce_branch = Some branch\<rparr>, r'))"

section \<open>Layout (\<open>layout.ts\<close>)\<close>

record layout_options =
  lo_rankdir :: string
  lo_nodesep :: rat
  lo_ranksep :: rat
  lo_marginx :: rat
  lo_marginy :: rat

type_synonym dagre =
  "layout_options \<Rightarrow> (string \<times> rat \<times> rat) list \<Rightarrow> (string \<times> string) list \<Rightarrow> string \<Rightarrow> (rat \<times> rat) option"

definition layoutOptions :: layout_options where
  "layoutOptions = \<lparr>lo_rankdir = ''TB'', lo_nodesep = 40, lo_ranksep = 34, lo_marginx = 24, lo_marginy = 24\<rparr>"

definition layoutCanvasGraph :: "dagre \<Rightarrow> canvas_node list \<Rightarrow> canvas_edge list \<Rightarrow> canvas_node list \<times> canvas_edge list" where
  "layoutCanvasGraph dagre nodes edges =
     (let graph_node = dagre layoutOptions (map (\<lambda>n. (cn_id n, nodeWidth, nodeHeight)) nodes) (map edge_ends edges)
      in (map (\<lambda>node. node\<lparr>cn_position :=
                 (case graph_node (cn_id node) of
                    Some (x, y) \<Rightarrow> Position (x - nodeWidth / 2) (y - nodeHeight / 2)
                  | None \<Rightarrow> cn_position node)\<rparr>) nodes,
          edges))"

section \<open>Draft to canvas (\<open>graph.ts\<close>)\<close>

fun buildCanvasNodes :: "node_draft list \<Rightarrow> rng \<Rightarrow> canvas_node list \<times> rng" where
  "buildCanvasNodes [] r = ([], r)"
| "buildCanvasNodes (d # ds) r =
     (let (n, r1) = buildCanvasNode d None r; (ns, r2) = buildCanvasNodes ds r1 in (n # ns, r2))"

definition registerDraftId :: "canvas_node \<Rightarrow> (string, string) js_map \<Rightarrow> (string, string) js_map" where
  "registerDraftId node m =
     (let draftId = js_trim (bn_id (cn_draft node))
      in if draftId \<noteq> [] \<and> \<not> map_has m draftId then map_set draftId (cn_id node) m else m)"

fun buildCanvasEdges :: "(string, string) js_map \<Rightarrow> edge_draft list \<Rightarrow> rng \<Rightarrow> canvas_edge list \<times> rng" where
  "buildCanvasEdges m [] r = ([], r)"
| "buildCanvasEdges m (e # es) r =
     (let source = str_or_empty (map_get m (js_trim (be_source e)));
          target = str_or_empty (map_get m (js_trim (be_target e)))
      in if source = [] \<or> target = [] then buildCanvasEdges m es r
         else (let (ce, r1) = buildCanvasEdge source target (be_branch e) r;
                   (ces, r2) = buildCanvasEdges m es r1
               in (ce # ces, r2)))"

definition buildCanvasGraphFromDraft :: "dagre \<Rightarrow> wf_draft \<Rightarrow> rng \<Rightarrow> (canvas_node list \<times> canvas_edge list) \<times> rng" where
  "buildCanvasGraphFromDraft dagre draft r =
     (let (nodes, r1) = buildCanvasNodes (wb_nodes draft) r;
          nodeIdByDraftId = fold registerDraftId nodes [];
          (edges, r2) = buildCanvasEdges nodeIdByDraftId (wb_edges draft) r1
      in (layoutCanvasGraph dagre nodes edges, r2))"

section \<open>Canvas to draft (\<open>from-canvas.ts\<close>)\<close>

definition draft_rank :: "node_draft \<Rightarrow> nat" where
  "draft_rank d = (if bn_type d = Trigger then 0 else 1)"

definition buildDraftFromCanvas :: "string \<Rightarrow> canvas_node list \<Rightarrow> canvas_edge list \<Rightarrow> wf_draft" where
  "buildDraftFromCanvas triggerEvent nodes edges =
     (let orderedNodes = sort_key cn_position nodes;
          nodeDraftById = fold (\<lambda>n m. map_set (cn_id n) (cn_draft n) m) orderedNodes [];
          draft_id = (\<lambda>k. case map_get nodeDraftById k of None \<Rightarrow> [] | Some d \<Rightarrow> bn_id d)
      in \<lparr>wb_triggerEvent = triggerEvent,
          wb_nodes = sort_key draft_rank (map cn_draft orderedNodes),
          wb_edges = map (\<lambda>e. \<lparr>be_source = draft_id (ce_source e), be_target = draft_id (ce_target e),
                               be_branch = str_or_empty (ce_branch e)\<rparr>) edges\<rparr>)"

section \<open>Lemmas\<close>

lemma layout_keeps [record_simps]:
  "map cn_id (fst (layoutCanvasGraph dagre ns es)) = map cn_id ns"
  "map cn_draft (fst (layoutCanvasGraph dagre ns es)) = map cn_draft ns"
  "map (\<lambda>n. (cn_id n, cn_draft n)) (fst (layoutCanvasGraph dagre ns es)) = map (\<lambda>n. (cn_id n, cn_draft n)) ns"
  "snd (layoutCanvasGraph dagre ns es) = es"
  by (simp_all add: layoutCanvasGraph_def Let_def)

text \<open>The draft of a canvas node, by the node's id.\<close>

definition draft_at :: "canvas_node list \<Rightarrow> string \<Rightarrow> node_draft option" where
  "draft_at ns = map_of (map (\<lambda>n. (cn_id n, cn_draft n)) ns)"

definition draft_id_at :: "canvas_node list \<Rightarrow> string \<Rightarrow> string" where
  "draft_id_at ns k = (case draft_at ns k of None \<Rightarrow> [] | Some d \<Rightarrow> bn_id d)"

lemma fold_map_set_rev:
  "map_get (fold (\<lambda>x m. map_set (f x) (g x) m) xs m) k = map_of (rev (map (\<lambda>x. (f x, g x)) xs) @ m) k"
  by (induction xs arbitrary: m) (auto simp: map_get_set map_add_def split: option.splits)

lemma map_of_perm:
  assumes "distinct (map f xs)" and "set xs = set ys" and "distinct (map f ys)"
  shows "map_of (map (\<lambda>x. (f x, g x)) xs) = map_of (map (\<lambda>x. (f x, g x)) ys)"
  using assms by (subst map_of_inject_set) (auto simp: comp_def)

lemma draft_map:
  assumes "distinct (map cn_id ns)"
  shows "map_get (fold (\<lambda>n m. map_set (cn_id n) (cn_draft n) m) (sort_key cn_position ns) []) = draft_at ns"
proof
  fix k
  have "distinct (map cn_id (rev (sort_key cn_position ns)))"
    using assms by (simp add: distinct_map rev_map [symmetric] del: rev_map)
  then show "map_get (fold (\<lambda>n m. map_set (cn_id n) (cn_draft n) m) (sort_key cn_position ns) []) k = draft_at ns k"
    using map_of_perm [of cn_id "rev (sort_key cn_position ns)" ns cn_draft] assms
    unfolding fold_map_set_rev draft_at_def by (simp add: rev_map)
qed

text \<open>What reading a canvas with distinct ids gives.\<close>

lemma buildDraftFromCanvas_reads:
  assumes "distinct (map cn_id ns)"
  shows "mset (wb_nodes (buildDraftFromCanvas ev ns es)) = mset (map cn_draft ns)"
    and "wb_edges (buildDraftFromCanvas ev ns es) =
      map (\<lambda>e. \<lparr>be_source = draft_id_at ns (ce_source e), be_target = draft_id_at ns (ce_target e),
                be_branch = str_or_empty (ce_branch e)\<rparr>) es"
    and "wb_triggerEvent (buildDraftFromCanvas ev ns es) = ev"
  using assms by (simp_all add: buildDraftFromCanvas_def Let_def draft_map draft_id_at_def)

lemma buildCanvasNodes_facts:
  "map cn_draft (fst (buildCanvasNodes ds r)) = ds"
  "map cn_id (fst (buildCanvasNodes ds r)) = map (\<lambda>i. canvas_id (r i)) [0..<length ds]"
  "snd (buildCanvasNodes ds r) = (\<lambda>i. r (length ds + i))"
proof -
  have "map cn_draft (fst (buildCanvasNodes ds r)) = ds \<and>
    map cn_id (fst (buildCanvasNodes ds r)) = map (\<lambda>i. canvas_id (r i)) [0..<length ds] \<and>
    snd (buildCanvasNodes ds r) = (\<lambda>i. r (length ds + i))"
  proof (induction ds arbitrary: r)
    case (Cons d ds)
    have "[0..<Suc (length ds)] = 0 # map Suc [0..<length ds]"
      by (simp add: upt_conv_Cons map_Suc_upt del: upt_Suc)
    then show ?case using Cons.IH [of "\<lambda>i. r (Suc i)"]
      by (simp add: buildCanvasNode_def createCanvasNodeId_def Let_def split_beta comp_def del: upt_Suc)
  qed simp
  then show "map cn_draft (fst (buildCanvasNodes ds r)) = ds"
    "map cn_id (fst (buildCanvasNodes ds r)) = map (\<lambda>i. canvas_id (r i)) [0..<length ds]"
    "snd (buildCanvasNodes ds r) = (\<lambda>i. r (length ds + i))" by simp_all
qed

lemma registerDraftId_fold:
  "map_get (fold registerDraftId ns m) =
     map_of (map (\<lambda>n. (js_trim (bn_id (cn_draft n)), cn_id n)) (filter (\<lambda>n. js_trim (bn_id (cn_draft n)) \<noteq> []) ns)) ++ map_get m"
proof (induction ns arbitrary: m)
  case (Cons n ns)
  then show ?case
    by (auto simp: registerDraftId_def Let_def fun_eq_iff map_add_def map_get_set split: option.splits)
qed simp

text \<open>The edges of the canvas: those of the draft whose ends are registered.\<close>

definition registered :: "(string, string) js_map \<Rightarrow> edge_draft \<Rightarrow> string \<times> string" where
  "registered m e = (str_or_empty (map_get m (js_trim (be_source e))), str_or_empty (map_get m (js_trim (be_target e))))"

lemma buildCanvasEdges_facts:
  "map (\<lambda>e. (edge_ends e, ce_branch e)) (fst (buildCanvasEdges m es r)) =
     map (\<lambda>e. (registered m e, Some (be_branch e)))
       (filter (\<lambda>e. fst (registered m e) \<noteq> [] \<and> snd (registered m e) \<noteq> []) es)"
  by (induction m es r rule: buildCanvasEdges.induct)
    (auto simp: Let_def registered_def buildCanvasEdge_def createCanvasEdgeId_def split: prod.splits)

text \<open>
  A draft whose graph is well formed: distinct, trimmed, non-empty ids, and edges between its nodes.
  \<open>fresh_rng\<close>: the first \<open>n\<close> draws give different canvas ids.
\<close>

definition graph_draft :: "wf_draft \<Rightarrow> bool" where
  "graph_draft d \<longleftrightarrow>
     distinct (map bn_id (wb_nodes d)) \<and>
     (\<forall>n \<in> set (wb_nodes d). trimmed (bn_id n) \<and> bn_id n \<noteq> []) \<and>
     (\<forall>e \<in> set (wb_edges d). be_source e \<in> bn_id ` set (wb_nodes d) \<and> be_target e \<in> bn_id ` set (wb_nodes d))"

definition fresh_rng :: "rng \<Rightarrow> nat \<Rightarrow> bool" where
  "fresh_rng r n \<longleftrightarrow> distinct (map (\<lambda>i. canvas_id (r i)) [0..<n])"

lemma canvas_id_not_Nil [simp]: "canvas_id x \<noteq> []"
  by (simp add: canvas_id_def)

lemma register_lookup:
  assumes "distinct (map (bn_id \<circ> cn_draft) ns)" and "\<forall>n \<in> set ns. trimmed (bn_id (cn_draft n)) \<and> bn_id (cn_draft n) \<noteq> []"
    and "n \<in> set ns"
  shows "map_get (fold registerDraftId ns []) (bn_id (cn_draft n)) = Some (cn_id n)"
proof -
  have f: "filter (\<lambda>n. js_trim (bn_id (cn_draft n)) \<noteq> []) ns = ns"
    using assms(2) by (intro filter_True) auto
  have m: "map (\<lambda>n. (js_trim (bn_id (cn_draft n)), cn_id n)) ns = map (\<lambda>n. (bn_id (cn_draft n), cn_id n)) ns"
    using assms(2) by (intro map_cong) auto
  have "distinct (map fst (map (\<lambda>n. (bn_id (cn_draft n), cn_id n)) ns))"
    using assms(1) by (simp add: comp_def)
  then have "map_of (map (\<lambda>n. (bn_id (cn_draft n), cn_id n)) ns) (bn_id (cn_draft n)) = Some (cn_id n)"
    using assms(3) by (intro map_of_is_SomeI) auto
  then show ?thesis unfolding registerDraftId_fold f m by simp
qed

lemma draft_id_at_node:
  assumes "distinct (map cn_id ns)" and "n \<in> set ns"
  shows "draft_id_at ns (cn_id n) = bn_id (cn_draft n)"
proof -
  have "draft_at ns (cn_id n) = Some (cn_draft n)"
    unfolding draft_at_def using assms by (intro map_of_is_SomeI) (auto simp: comp_def)
  then show ?thesis by (simp add: draft_id_at_def)
qed

lemma buildCanvasNodes_ids: "n \<in> set (fst (buildCanvasNodes ds r)) \<Longrightarrow> cn_id n \<noteq> []"
proof -
  assume "n \<in> set (fst (buildCanvasNodes ds r))"
  then have "cn_id n \<in> set (map cn_id (fst (buildCanvasNodes ds r)))" by simp
  then show "cn_id n \<noteq> []" unfolding buildCanvasNodes_facts(2) by (auto simp: canvas_id_def)
qed

lemma buildCanvasNodes_drafts: "n \<in> set (fst (buildCanvasNodes ds r)) \<Longrightarrow> cn_draft n \<in> set ds"
proof -
  assume "n \<in> set (fst (buildCanvasNodes ds r))"
  then have "cn_draft n \<in> set (map cn_draft (fst (buildCanvasNodes ds r)))" by simp
  then show "cn_draft n \<in> set ds" unfolding buildCanvasNodes_facts(1) .
qed

lemma canvas_keeps_draft:
  assumes "graph_draft d" and "fresh_rng r (length (wb_nodes d))"
    and "buildCanvasGraphFromDraft dagre d r = ((ns, es), r')"
  shows "mset (wb_nodes (buildDraftFromCanvas ev ns es)) = mset (wb_nodes d)"
    and "wb_edges (buildDraftFromCanvas ev ns es) = wb_edges d"
proof -
  let ?ns = "fst (buildCanvasNodes (wb_nodes d) r)"
  let ?m = "fold registerDraftId ?ns []"
  let ?es = "fst (buildCanvasEdges ?m (wb_edges d) (snd (buildCanvasNodes (wb_nodes d) r)))"
  from assms(3) have ns: "ns = fst (layoutCanvasGraph dagre ?ns ?es)" and es: "es = ?es"
    using layout_keeps(4) [of dagre ?ns ?es] unfolding buildCanvasGraphFromDraft_def Let_def split_beta
    by (metis fst_conv, metis fst_conv snd_conv)
  have ids: "distinct (map cn_id ?ns)"
    using assms(2) by (simp add: buildCanvasNodes_facts(2) fresh_rng_def)
  then have ids': "distinct (map cn_id ns)" by (simp add: ns record_simps)
  have drafts: "map cn_draft ns = wb_nodes d" by (simp add: ns record_simps buildCanvasNodes_facts(1))
  show "mset (wb_nodes (buildDraftFromCanvas ev ns es)) = mset (wb_nodes d)"
    using buildDraftFromCanvas_reads(1) [OF ids'] drafts by metis
  have same: "draft_id_at ns = draft_id_at ?ns"
    by (simp add: draft_id_at_def draft_at_def ns record_simps fun_eq_iff)
  have canvas: "\<exists>n \<in> set ?ns. bn_id (cn_draft n) = s" if "s \<in> bn_id ` set (wb_nodes d)" for s
  proof -
    from that have "s \<in> bn_id ` set (map cn_draft ?ns)" by (simp only: buildCanvasNodes_facts(1))
    then show ?thesis by auto
  qed
  have look: "trimmed s \<and> str_or_empty (map_get ?m s) \<noteq> [] \<and> draft_id_at ns (str_or_empty (map_get ?m s)) = s"
    if "s \<in> bn_id ` set (wb_nodes d)" for s
  proof -
    from canvas [OF that] obtain n where n: "n \<in> set ?ns" "bn_id (cn_draft n) = s" by blast
    have di: "distinct (map (bn_id \<circ> cn_draft) ?ns)"
      using assms(1) by (simp add: graph_draft_def buildCanvasNodes_facts(1) flip: map_map)
    have ok: "\<forall>n \<in> set ?ns. trimmed (bn_id (cn_draft n)) \<and> bn_id (cn_draft n) \<noteq> []"
      using assms(1) buildCanvasNodes_drafts unfolding graph_draft_def by blast
    have "cn_id n \<noteq> []"
      using n(1) buildCanvasNodes_ids by blast
    moreover have "trimmed s" using ok n by blast
    ultimately show ?thesis
      using register_lookup [OF di ok n(1)] draft_id_at_node [OF ids n(1)] n by (simp add: same)
  qed
  have r: "registered ?m e = (str_or_empty (map_get ?m (be_source e)), str_or_empty (map_get ?m (be_target e)))"
      "fst (registered ?m e) \<noteq> []" "snd (registered ?m e) \<noteq> []"
      "draft_id_at ns (fst (registered ?m e)) = be_source e" "draft_id_at ns (snd (registered ?m e)) = be_target e"
    if "e \<in> set (wb_edges d)" for e
    using assms(1) that look [of "be_source e"] look [of "be_target e"] by (auto simp: graph_draft_def registered_def)
  let ?f = "\<lambda>x. \<lparr>be_source = draft_id_at ns (fst (fst x)), be_target = draft_id_at ns (snd (fst x)), be_branch = str_or_empty (snd x)\<rparr>"
  have "wb_edges (buildDraftFromCanvas ev ns es) = map ?f (map (\<lambda>e. (edge_ends e, ce_branch e)) es)"
    by (simp add: buildDraftFromCanvas_reads(2) [OF ids'])
  also have "\<dots> = map ?f (map (\<lambda>e. (registered ?m e, Some (be_branch e))) (wb_edges d))"
    unfolding es buildCanvasEdges_facts using r by (auto intro!: arg_cong [where f = "map _"] filter_True)
  also have "\<dots> = wb_edges d"
    using r by (auto intro!: map_idI)
  finally show "wb_edges (buildDraftFromCanvas ev ns es) = wb_edges d" .
qed

text \<open>
  The order of the nodes in the draft read back: triggers first; among nodes of the same rank, from
  top to bottom and from left to right.
\<close>

definition canvas_order :: "canvas_node list \<Rightarrow> canvas_node list" where
  "canvas_order ns = sort_key (\<lambda>n. draft_rank (cn_draft n)) (sort_key cn_position ns)"

lemma sort_key_map: "sort_key f (map g xs) = map g (sort_key (\<lambda>x. f (g x)) xs)"
proof -
  have "insort_key f (g x) (map g ys) = map g (insort_key (\<lambda>x. f (g x)) x ys)" for x ys
    by (induction ys) auto
  then show ?thesis unfolding sort_key_def by (induction xs) auto
qed

lemma draft_canvas_order: "wb_nodes (buildDraftFromCanvas ev ns es) = map cn_draft (canvas_order ns)"
  by (simp add: buildDraftFromCanvas_def Let_def canvas_order_def sort_key_map)

lemma canvas_order_mset: "mset (canvas_order ns) = mset ns"
  by (simp add: canvas_order_def)

lemma canvas_order_sorted:
  "sorted (map (\<lambda>n. draft_rank (cn_draft n)) (canvas_order ns))"
  "sorted (map cn_position (filter (\<lambda>n. draft_rank (cn_draft n) = k) (canvas_order ns)))"
proof -
  show "sorted (map (\<lambda>n. draft_rank (cn_draft n)) (canvas_order ns))"
    by (simp add: canvas_order_def)
  have "filter (\<lambda>n. draft_rank (cn_draft n) = k) (canvas_order ns) =
      filter (\<lambda>n. draft_rank (cn_draft n) = k) (sort_key cn_position ns)"
    unfolding canvas_order_def by (rule sort_key_stable)
  then show "sorted (map cn_position (filter (\<lambda>n. draft_rank (cn_draft n) = k) (canvas_order ns)))"
    by (simp add: sorted_filter)
qed

lemma canvas_order_id:
  assumes "sorted (map cn_position ns)" and "sorted (map (\<lambda>n. draft_rank (cn_draft n)) ns)"
  shows "canvas_order ns = ns"
  unfolding canvas_order_def by (simp add: sort_key_id_if_sorted assms)

section \<open>Properties\<close>

text \<open>C30: building the canvas of a draft with a well-formed graph and reading the draft back loses
  nothing: the nodes are the same up to their order, and the edges are the same in the same order,
  whatever the layout engine answers.\<close>

theorem canvas_roundtrip:
  assumes "graph_draft d" and "fresh_rng r (length (wb_nodes d))"
    and "buildCanvasGraphFromDraft dagre d r = ((ns, es), r')"
  shows "mset (wb_nodes (buildDraftFromCanvas ev ns es)) = mset (wb_nodes d) \<and>
    wb_edges (buildDraftFromCanvas ev ns es) = wb_edges d"
  using canvas_keeps_draft [OF assms] by blast

definition example_rng :: rng where
  "example_rng i = ''0.'' @ show_nat i"

definition example_draft :: wf_draft where
  "example_draft = \<lparr>wb_triggerEvent = ''user.signup'',
     wb_nodes = [triggerNodeDraft, triggerNodeDraft\<lparr>bn_id := ''delay_1'', bn_type := Delay\<rparr>],
     wb_edges = [\<lparr>be_source = ''trigger_1'', be_target = ''delay_1'', be_branch = []\<rparr>]\<rparr>"

theorem canvas_roundtrip_witness:
  "\<exists>ns es r'. buildCanvasGraphFromDraft (\<lambda>_ _ _ _. None) example_draft example_rng = ((ns, es), r') \<and>
     wb_edges (buildDraftFromCanvas [] ns es) = wb_edges example_draft"
proof -
  obtain ns es r' where g: "buildCanvasGraphFromDraft (\<lambda>_ _ _ _. None) example_draft example_rng = ((ns, es), r')"
    by (metis prod.collapse)
  have "graph_draft example_draft" by code_simp
  moreover have "fresh_rng example_rng (length (wb_nodes example_draft))" by code_simp
  ultimately show ?thesis using canvas_roundtrip [OF _ _ g] g by blast
qed

text \<open>The draft read from a canvas lists the trigger nodes first; the triggers, and the other nodes,
  are in the canvas order from top to bottom and from left to right.\<close>

theorem canvas_draft_order:
  "\<exists>ms. wb_nodes (buildDraftFromCanvas ev ns es) = map cn_draft ms \<and> mset ms = mset ns \<and>
     sorted (map (\<lambda>n. draft_rank (cn_draft n)) ms) \<and>
     sorted (map cn_position (filter (\<lambda>n. bn_type (cn_draft n) = Trigger) ms)) \<and>
     sorted (map cn_position (filter (\<lambda>n. bn_type (cn_draft n) \<noteq> Trigger) ms))"
proof (intro exI conjI)
  have t: "filter (\<lambda>n. bn_type (cn_draft n) = Trigger) ms = filter (\<lambda>n. draft_rank (cn_draft n) = 0) ms"
    "filter (\<lambda>n. bn_type (cn_draft n) \<noteq> Trigger) ms = filter (\<lambda>n. draft_rank (cn_draft n) = 1) ms" for ms
    by (auto simp: draft_rank_def intro!: filter_cong)
  show "sorted (map cn_position (filter (\<lambda>n. bn_type (cn_draft n) = Trigger) (canvas_order ns)))"
    "sorted (map cn_position (filter (\<lambda>n. bn_type (cn_draft n) \<noteq> Trigger) (canvas_order ns)))"
    unfolding t by (rule canvas_order_sorted(2))+
qed (rule draft_canvas_order canvas_order_mset canvas_order_sorted(1))+

end
