(* ===== verification/Chain_Editor.thy ===== *)
theory Chain_Editor
  imports Builder_Store Validation
begin

text \<open>
  What the builder's operations mean: on a canvas that shows a chain of steps, inserting on an edge,
  adding after the last step, duplicating and removing are the list edits one expects, and the draft
  they leave is a workflow the validation accepts.  The abstract editor works on the list of step ids;
  the store refines it.
\<close>

section \<open>Links around one step\<close>

lemma links_Cons: "q \<noteq> [] \<Longrightarrow> links (a # q) = (a, hd q) # links q"
  by (cases q) auto

lemma links_filter_none:
  "x \<notin> set p \<Longrightarrow> filter (\<lambda>e. fst e \<noteq> x) (links p) = links p"
  "x \<notin> set p \<Longrightarrow> filter (\<lambda>e. snd e \<noteq> x) (links p) = links p"
  "x \<notin> set p \<Longrightarrow> filter (\<lambda>e. fst e \<noteq> x \<and> snd e \<noteq> x) (links p) = links p"
  "x \<notin> set p \<Longrightarrow> filter (\<lambda>e. fst e = x) (links p) = []"
  "x \<notin> set p \<Longrightarrow> filter (\<lambda>e. snd e = x) (links p) = []"
  by (auto intro!: filter_True filter_False dest: links_in_set)

lemma links_split:
  "links (xs @ x # ys) = links xs @ (if xs = [] then [] else [(last xs, x)]) @
     (if ys = [] then [] else [(x, hd ys)]) @ links ys"
  by (cases "xs = []"; cases "ys = []") (simp_all add: links_append links_Cons)

lemma links_split_filter:
  assumes "distinct (xs @ x # ys)"
  shows "filter (\<lambda>e. fst e \<noteq> x) (links (xs @ x # ys)) = links (xs @ [x]) @ links ys"
    and "filter (\<lambda>e. fst e = x) (links (xs @ x # ys)) = (if ys = [] then [] else [(x, hd ys)])"
    and "filter (\<lambda>e. snd e = x) (links (xs @ x # ys)) = (if xs = [] then [] else [(last xs, x)])"
    and "filter (\<lambda>e. fst e \<noteq> x \<and> snd e \<noteq> x) (links (xs @ x # ys)) = links xs @ links ys"
proof -
  have x: "x \<notin> set xs" "x \<notin> set ys" and l: "xs \<noteq> [] \<Longrightarrow> last xs \<noteq> x" and h: "ys \<noteq> [] \<Longrightarrow> hd ys \<noteq> x"
    using assms last_in_set [of xs] hd_in_set [of ys] by auto
  note simps = links_split links_filter_none [OF x(1)] links_filter_none [OF x(2)] l h
  show "filter (\<lambda>e. fst e \<noteq> x) (links (xs @ x # ys)) = links (xs @ [x]) @ links ys"
    by (simp add: simps)
  show "filter (\<lambda>e. fst e = x) (links (xs @ x # ys)) = (if ys = [] then [] else [(x, hd ys)])"
    by (simp add: simps)
  show "filter (\<lambda>e. snd e = x) (links (xs @ x # ys)) = (if xs = [] then [] else [(last xs, x)])"
    by (auto simp: simps)
  show "filter (\<lambda>e. fst e \<noteq> x \<and> snd e \<noteq> x) (links (xs @ x # ys)) = links xs @ links ys"
    by (simp add: simps)
qed

lemma links_map: "links (map f p) = map (\<lambda>e. (f (fst e), f (snd e))) (links p)"
  by (induction p rule: induct_list012) auto

text \<open>Filtering elements by their image, as multisets.\<close>

lemma mset_filter_image:
  assumes "mset (map f xs) = mset ys"
  shows "mset (map f (filter (\<lambda>x. P (f x)) xs)) = mset (filter P ys)"
proof -
  have "mset (map f (filter (\<lambda>x. P (f x)) xs)) = filter_mset P (mset (map f xs))"
    by (induction xs) auto
  then show ?thesis using assms by simp
qed

lemma mset_singleton_map: "mset (map f xs) = {#y#} \<Longrightarrow> \<exists>x. xs = [x] \<and> f x = y"
  by (cases xs) auto

lemma mset_remove_keyed:
  assumes "distinct (map k xs)" and "x \<in> set xs"
  shows "mset (map f xs) = add_mset (f x) (mset (map f (filter (\<lambda>y. k y \<noteq> k x) xs)))"
  using assms
proof (induction xs)
  case (Cons a xs)
  show ?case
  proof (cases "x = a")
    case True
    moreover have "filter (\<lambda>y. k y \<noteq> k a) xs = xs"
      using Cons.prems(1) by (intro filter_True ballI) (metis distinct.simps(2) image_eqI list.set_map list.simps(9))
    ultimately show ?thesis by simp
  next
    case False
    with Cons.prems have x: "x \<in> set xs" by simp
    with Cons.prems have "k a \<noteq> k x" by (metis distinct.simps(2) image_eqI list.set_map list.simps(9))
    with Cons x show ?thesis by simp
  qed
qed simp

section \<open>The canvas shows a chain\<close>

definition shows_chain :: "string list \<Rightarrow> builder_state \<Rightarrow> bool" where
  "shows_chain p s \<longleftrightarrow>
     p \<noteq> [] \<and> distinct p \<and> distinct (map cn_id (bs_nodes s)) \<and> set (map cn_id (bs_nodes s)) = set p \<and>
     distinct (map ce_id (bs_edges s)) \<and> mset (map edge_ends (bs_edges s)) = mset (links p)"

definition edge_id :: "string \<Rightarrow> string" where
  "edge_id rand = ''edge_'' @ js_slice 2 10 rand"

text \<open>The next \<open>k\<close> random suffixes are new: no canvas id and no edge id uses them, and they differ.\<close>

definition fresh_for :: "builder_state \<Rightarrow> rng \<Rightarrow> nat \<Rightarrow> bool" where
  "fresh_for s r k \<longleftrightarrow>
     distinct (map (\<lambda>i. js_slice 2 10 (r i)) [0..<k]) \<and>
     (\<forall>i < k. canvas_id (r i) \<notin> cn_id ` set (bs_nodes s) \<and> edge_id (r i) \<notin> ce_id ` set (bs_edges s))"

lemma edge_id_inject: "edge_id a = edge_id b \<longleftrightarrow> js_slice 2 10 a = js_slice 2 10 b"
  by (simp add: edge_id_def)

lemma fresh_forD:
  assumes "fresh_for s r k"
  shows "i < k \<Longrightarrow> canvas_id (r i) \<notin> cn_id ` set (bs_nodes s)"
    and "i < k \<Longrightarrow> edge_id (r i) \<notin> ce_id ` set (bs_edges s)"
    and "i < k \<Longrightarrow> j < k \<Longrightarrow> i \<noteq> j \<Longrightarrow> edge_id (r i) \<noteq> edge_id (r j)"
proof -
  show "i < k \<Longrightarrow> canvas_id (r i) \<notin> cn_id ` set (bs_nodes s)"
    and "i < k \<Longrightarrow> edge_id (r i) \<notin> ce_id ` set (bs_edges s)"
    using assms by (auto simp: fresh_for_def)
  show "i < k \<Longrightarrow> j < k \<Longrightarrow> i \<noteq> j \<Longrightarrow> edge_id (r i) \<noteq> edge_id (r j)"
    using assms by (auto simp: fresh_for_def edge_id_inject distinct_map inj_on_def)
qed

lemma newCanvasNode_facts:
  assumes "t \<noteq> Trigger"
  shows "newCanvasNode t ch r =
    (\<lparr>cn_id = canvas_id (r 1), cn_type = ''workflow-step'', cn_position = Position 0 0,
      cn_draft = fst (createNodeDraft t ch r)\<rparr>, \<lambda>n. r (Suc (Suc n)))"
  using assms
  by (simp add: newCanvasNode_def createNodeDraft_def buildCanvasNode_def createCanvasNodeId_def Let_def split_beta)

lemma buildCanvasEdge_facts:
  "buildCanvasEdge a b br r =
     (\<lparr>ce_id = edge_id (r 0), ce_source = a, ce_target = b, ce_sourceHandle = Some ''default'',
       ce_type = ''workflow-edge'', ce_label = None, ce_branch = Some br\<rparr>, \<lambda>n. r (Suc n))"
  by (simp add: buildCanvasEdge_def createCanvasEdgeId_def edge_id_def Let_def split_beta)

lemma patch_fields:
  "bs_triggerEvent (setPatch (layoutPatch dagre ns es sel) s) = bs_triggerEvent s"
  "bs_nodes (setPatch (layoutPatch dagre ns es sel) s) = fst (layoutCanvasGraph dagre ns es)"
  "bs_edges (setPatch (layoutPatch dagre ns es sel) s) = es"
  "bs_selectedNodeId (setPatch (layoutPatch dagre ns es sel) s) = sel"
  "bs_selectedEdgeId (setPatch (layoutPatch dagre ns es sel) s) = None"
  using layout_keeps(4) [of dagre ns es]
  by (simp_all add: setPatch_def layoutPatch_def Let_def split_beta)

lemma shows_chain_patch:
  "shows_chain p (setPatch (layoutPatch dagre ns es sel) s) \<longleftrightarrow>
     p \<noteq> [] \<and> distinct p \<and> distinct (map cn_id ns) \<and> set (map cn_id ns) = set p \<and>
     distinct (map ce_id es) \<and> mset (map edge_ends es) = mset (links p)"
  by (simp add: shows_chain_def patch_fields record_simps del: set_map)

lemma setPatch_None [simp]: "setPatch None s = s"
  by (simp add: setPatch_def)

text \<open>One more step with a new id after \<open>xs\<close>, given the edges that result.\<close>

lemma shows_chain_insert:
  assumes "shows_chain (xs @ ys) s" and "cn_id n \<notin> cn_id ` set (bs_nodes s)"
    and "distinct (map ce_id es)" and "mset (map edge_ends es) = mset (links (xs @ cn_id n # ys))"
  shows "shows_chain (xs @ cn_id n # ys) (setPatch (layoutPatch dagre (bs_nodes s @ [n]) es sel) s)"
proof -
  have "cn_id n \<notin> set (xs @ ys)" using assms(1,2) by (simp add: shows_chain_def)
  then show ?thesis using assms unfolding shows_chain_patch by (auto simp: shows_chain_def)
qed

lemma edges_append_fresh:
  assumes "distinct (map ce_id es)" and "distinct is" and "set is \<inter> ce_id ` set es = {}"
    and "map ce_id new = is"
  shows "distinct (map ce_id (filter P es @ new))"
proof -
  have "distinct (map ce_id (filter P es))" using assms(1) by (simp add: distinct_map_filter)
  moreover have "set (map ce_id (filter P es)) \<inter> set is = {}" using assms(3) by auto
  ultimately show ?thesis using assms(2,4) by simp
qed

text \<open>Inserting on an edge (\<open>insertNodeOnEdge\<close>), and at the end of the chain.\<close>

lemma insert_on_edge:
  assumes "shows_chain (xs @ a # b # ys) s" and "e \<in> set (bs_edges s)" and "edge_ends e = (a, b)"
    and "t \<noteq> Trigger" and "fresh_for s r 4"
  shows "shows_chain (xs @ a # canvas_id (r 1) # b # ys) (fst (insertNodeOnEdge dagre (ce_id e) t ch s r))"
proof -
  let ?n = "fst (newCanvasNode t ch r)"
  let ?new = "[fst (buildCanvasEdge a (cn_id ?n) [] (\<lambda>n. r (Suc (Suc n)))), fst (buildCanvasEdge (cn_id ?n) b [] (\<lambda>n. r (Suc (Suc (Suc n)))))]"
  let ?es = "filter (\<lambda>y. ce_id y \<noteq> ce_id e) (bs_edges s) @ ?new"
  have c: "distinct (map ce_id (bs_edges s))" "mset (map edge_ends (bs_edges s)) = mset (links (xs @ a # b # ys))"
    using assms(1) by (simp_all add: shows_chain_def)
  have n: "cn_id ?n = canvas_id (r 1)" using newCanvasNode_facts [OF assms(4)] by simp
  have find: "List.find (\<lambda>y. ce_id y = ce_id e) (bs_edges s) = Some e"
    using find_unique [OF c(1) assms(2)] .
  have st: "fst (insertNodeOnEdge dagre (ce_id e) t ch s r) =
      setPatch (layoutPatch dagre (bs_nodes s @ [?n]) ?es (Some (cn_id ?n))) s"
    using assms(3) unfolding insertNodeOnEdge_def insertNodeOnEdgeAction_def find
    by (simp add: newCanvasNode_facts [OF assms(4)] buildCanvasEdge_facts)
  have "edge_ends e = (a, b)" using assms(3) .
  then have "mset (map edge_ends (filter (\<lambda>y. ce_id y \<noteq> ce_id e) (bs_edges s))) + {#(a, b)#} = mset (links (xs @ a # b # ys))"
    using mset_remove_keyed [OF c(1) assms(2), of edge_ends] c(2) by simp
  then have "mset (map edge_ends ?es) = mset (links ((xs @ [a]) @ cn_id ?n # b # ys))"
    using links_split [of xs a "b # ys"] links_split [of xs a "cn_id ?n # b # ys"]
    by (simp add: buildCanvasEdge_facts)
  moreover have "distinct (map ce_id ?es)"
    by (rule edges_append_fresh [OF c(1), of "[edge_id (r 2), edge_id (r 3)]"])
      (use fresh_forD(2) [OF assms(5), of 2] fresh_forD(2) [OF assms(5), of 3] fresh_forD(3) [OF assms(5), of 2 3]
        in \<open>simp_all add: buildCanvasEdge_facts numeral_2_eq_2 numeral_3_eq_3\<close>)
  moreover have "cn_id ?n \<notin> cn_id ` set (bs_nodes s)" using fresh_forD(1) [OF assms(5), of 1] n by simp
  ultimately have "shows_chain ((xs @ [a]) @ cn_id ?n # b # ys) (fst (insertNodeOnEdge dagre (ce_id e) t ch s r))"
    unfolding st using assms(1) by (intro shows_chain_insert) simp_all
  then show ?thesis by (simp add: n)
qed

text \<open>A new last step: the edges gain the link from the old last step.\<close>

lemma append_step:
  assumes "shows_chain (xs @ [a]) s" and "t \<noteq> Trigger" and "fresh_for s r 4"
    and n: "n = fst (newCanvasNode t ch r)" and e: "e = fst (buildCanvasEdge a (cn_id n) [] (\<lambda>n. r (Suc (Suc n))))"
  shows "shows_chain (xs @ [a, canvas_id (r 1)]) (setPatch (layoutPatch dagre (bs_nodes s @ [n]) (bs_edges s @ [e]) sel) s)"
proof -
  have c: "distinct (map ce_id (bs_edges s))" "mset (map edge_ends (bs_edges s)) = mset (links (xs @ [a]))"
    using assms(1) by (simp_all add: shows_chain_def)
  have i: "cn_id n = canvas_id (r 1)" using newCanvasNode_facts [OF assms(2)] n by simp
  have "distinct (map ce_id (bs_edges s @ [e]))"
    using edges_append_fresh [OF c(1), of "[edge_id (r 2)]" "[e]" "\<lambda>_. True"] fresh_forD(2) [OF assms(3), of 2]
    by (simp add: e buildCanvasEdge_facts numeral_2_eq_2)
  moreover have "mset (map edge_ends (bs_edges s @ [e])) = mset (links ((xs @ [a]) @ [cn_id n]))"
    using c(2) links_append [of "xs @ [a]" "[cn_id n]"] by (simp add: e buildCanvasEdge_facts)
  moreover have "cn_id n \<notin> cn_id ` set (bs_nodes s)" using fresh_forD(1) [OF assms(3), of 1] i by simp
  ultimately show ?thesis
    using shows_chain_insert [of "xs @ [a]" "[]" s n "bs_edges s @ [e]"] assms(1) i by simp
qed

lemma add_connected:
  assumes "shows_chain (xs @ [a]) s" and "t \<noteq> Trigger" and "fresh_for s r 4"
  shows "shows_chain (xs @ [a, canvas_id (r 1)]) (fst (addConnectedNode dagre a t ch s r))"
proof -
  have "fst (addConnectedNode dagre a t ch s r) =
      setPatch (layoutPatch dagre (bs_nodes s @ [fst (newCanvasNode t ch r)])
        (bs_edges s @ [fst (buildCanvasEdge a (cn_id (fst (newCanvasNode t ch r))) [] (\<lambda>n. r (Suc (Suc n))))])
        (Some (cn_id (fst (newCanvasNode t ch r))))) s"
    by (simp add: addConnectedNode_def addConnectedNodeAction_def newCanvasNode_facts [OF assms(2)] buildCanvasEdge_facts)
  with append_step [OF assms refl refl] show ?thesis by simp
qed

lemma chain_node:
  assumes "shows_chain p s" and "x \<in> set p"
  obtains n where "List.find (\<lambda>n. cn_id n = x) (bs_nodes s) = Some n" and "n \<in> set (bs_nodes s)" and "cn_id n = x"
  using find_map_id [of cn_id "bs_nodes s" x] assms by (auto simp: shows_chain_def)

lemma insert_terminal:
  assumes "shows_chain (xs @ [a]) s" and "t \<noteq> Trigger" and "fresh_for s r 4"
    and "terminal_prefix @ a \<notin> ce_id ` set (bs_edges s)"
  shows "shows_chain (xs @ [a, canvas_id (r 1)]) (fst (insertNodeOnEdge dagre (terminal_prefix @ a) t ch s r))"
proof -
  obtain m where m: "List.find (\<lambda>n. cn_id n = a) (bs_nodes s) = Some m"
    using chain_node [OF assms(1), of a] by auto
  have e: "List.find (\<lambda>e. ce_id e = terminal_prefix @ a) (bs_edges s) = None"
    using assms(4) unfolding find_None_iff by (metis imageI)
  have "fst (insertNodeOnEdge dagre (terminal_prefix @ a) t ch s r) =
      setPatch (layoutPatch dagre (bs_nodes s @ [fst (newCanvasNode t ch r)])
        (bs_edges s @ [fst (buildCanvasEdge a (cn_id (fst (newCanvasNode t ch r))) [] (\<lambda>n. r (Suc (Suc n))))])
        (Some (cn_id (fst (newCanvasNode t ch r))))) s"
    unfolding insertNodeOnEdge_def insertNodeOnEdgeAction_def e
    by (simp add: m newCanvasNode_facts [OF assms(2)] buildCanvasEdge_facts)
  with append_step [OF assms(1-3) refl refl] show ?thesis by simp
qed

text \<open>Duplicating a step puts the copy right after it; a trigger is not duplicated.\<close>

definition duplicateOf :: "node_draft \<Rightarrow> rng \<Rightarrow> node_draft" where
  "duplicateOf d r = normalizeNodeDraftForType
     (d\<lparr>bn_id := bn_id (fst (createNodeDraft (bn_type d) (if bn_channel d = [] then None else Some (bn_channel d)) r))\<rparr>)
     (bn_type d)"

lemma duplicate_step:
  assumes "shows_chain (xs @ x # ys) s" and "draft_at (bs_nodes s) x = Some d" and "bn_type d \<noteq> Trigger"
    and "fresh_for s r 4"
  shows "shows_chain (xs @ x # canvas_id (r 1) # ys) (fst (duplicateNode dagre x s r))"
    and "\<exists>es sel. fst (duplicateNode dagre x s r) = setPatch (layoutPatch dagre (bs_nodes s @
      [\<lparr>cn_id = canvas_id (r 1), cn_type = ''workflow-step'', cn_position = Position 0 0, cn_draft = duplicateOf d r\<rparr>]) es sel) s"
proof -
  have c: "distinct (map ce_id (bs_edges s))" "mset (map edge_ends (bs_edges s)) = mset (links (xs @ x # ys))"
    "distinct (xs @ x # ys)" "distinct (map cn_id (bs_nodes s))"
    using assms(1) by (simp_all add: shows_chain_def)
  obtain m where m: "List.find (\<lambda>n. cn_id n = x) (bs_nodes s) = Some m" "m \<in> set (bs_nodes s)" "cn_id m = x"
    using chain_node [OF assms(1), of x] by auto
  have d: "cn_draft m = d"
    using assms(2) m(2,3) c(4) unfolding draft_at_def
    by (metis (mono_tags, lifting) map_of_is_SomeI [of "map (\<lambda>n. (cn_id n, cn_draft n)) (bs_nodes s)"]
        comp_apply fst_conv image_eqI list.map_comp list.set_map map_eq_conv option.inject)
  let ?n = "\<lparr>cn_id = canvas_id (r 1), cn_type = ''workflow-step'', cn_position = Position 0 0, cn_draft = duplicateOf d r\<rparr>"
  let ?out = "filter (\<lambda>e. ce_source e = x) (bs_edges s)"
  let ?rest = "filter (\<lambda>e. ce_source e \<noteq> x) (bs_edges s)"
  let ?mk = "\<lambda>a b i. \<lparr>ce_id = edge_id (r i), ce_source = a, ce_target = b, ce_sourceHandle = Some ''default'',
       ce_type = ''workflow-edge'', ce_label = None, ce_branch = Some []\<rparr>"
  let ?new = "?mk x (cn_id ?n) 2 # (case ?out of [] \<Rightarrow> [] | out # _ \<Rightarrow> [?mk (cn_id ?n) (ce_target out) 3])"
  have cr: "snd (createNodeDraft (bn_type d) ch r) = (\<lambda>n. r (Suc n))" for ch
    using assms(3) by (simp add: createNodeDraft_def Let_def split_beta)
  have st: "fst (duplicateNode dagre x s r) =
      setPatch (layoutPatch dagre (bs_nodes s @ [?n]) (?rest @ ?new) (Some (cn_id ?n))) s"
    unfolding duplicateNode_def duplicateNodeAction_def m(1) option.case Let_def d
    using assms(3) cr
    by (cases ?out) (auto simp: buildCanvasNode_def createCanvasNodeId_def duplicateOf_def Let_def split_beta
        buildCanvasEdge_facts numeral_2_eq_2 numeral_3_eq_3)
  then show "\<exists>es sel. fst (duplicateNode dagre x s r) = setPatch (layoutPatch dagre (bs_nodes s @ [?n]) es sel) s"
    by blast
  have out: "mset (map edge_ends ?out) = mset (if ys = [] then [] else [(x, hd ys)])"
    using mset_filter_image [OF c(2), of "\<lambda>e. fst e = x"] links_split_filter(2) [OF c(3)] by simp
  have rest: "mset (map edge_ends ?rest) = mset (links (xs @ [x]) @ links ys)"
    using mset_filter_image [OF c(2), of "\<lambda>e. fst e \<noteq> x"] links_split_filter(1) [OF c(3)] by simp
  have new: "map edge_ends ?new = (x, cn_id ?n) # (if ys = [] then [] else [(cn_id ?n, hd ys)])"
  proof (cases "ys = []")
    case False
    with out obtain o1 where "?out = [o1]" "edge_ends o1 = (x, hd ys)"
      using mset_singleton_map [of edge_ends ?out] by auto
    with False show ?thesis by simp
  qed (use out in simp)
  have "mset (map edge_ends (?rest @ ?new)) = mset (links ((xs @ [x]) @ cn_id ?n # ys))"
    unfolding map_append mset_append rest new links_split [of "xs @ [x]" "cn_id ?n" ys] by simp
  moreover have "distinct (map ce_id (?rest @ ?new))"
  proof (rule edges_append_fresh [OF c(1), of "map ce_id ?new"])
    have i: "map ce_id ?new = edge_id (r 2) # (if ?out = [] then [] else [edge_id (r 3)])"
      by (cases ?out) simp_all
    show "distinct (map ce_id ?new)" "set (map ce_id ?new) \<inter> ce_id ` set (bs_edges s) = {}"
      unfolding i using fresh_forD(2) [OF assms(4), of 2] fresh_forD(2) [OF assms(4), of 3]
        fresh_forD(3) [OF assms(4), of 2 3] by auto
  qed simp
  moreover have "cn_id ?n \<notin> cn_id ` set (bs_nodes s)" using fresh_forD(1) [OF assms(4), of 1] by simp
  ultimately show "shows_chain (xs @ x # canvas_id (r 1) # ys) (fst (duplicateNode dagre x s r))"
    unfolding st using assms(1) shows_chain_insert [of "xs @ [x]" ys s ?n "?rest @ ?new"] by simp
qed

text \<open>Removing a step joins its neighbours; removing the only step leaves a new trigger.\<close>

lemma remove_step:
  assumes "shows_chain (xs @ x # ys) s" and "xs @ ys \<noteq> []" and "fresh_for s r 1"
  shows "shows_chain (xs @ ys) (fst (removeNode dagre x s r))"
    and "\<exists>es. fst (removeNode dagre x s r) =
      setPatch (layoutPatch dagre (filter (\<lambda>n. cn_id n \<noteq> x) (bs_nodes s)) es None) s"
proof -
  have c: "distinct (map ce_id (bs_edges s))" "mset (map edge_ends (bs_edges s)) = mset (links (xs @ x # ys))"
    "distinct (xs @ x # ys)" "distinct (map cn_id (bs_nodes s))" "set (map cn_id (bs_nodes s)) = set (xs @ x # ys)"
    using assms(1) by (simp_all add: shows_chain_def del: set_map)
  let ?ns = "filter (\<lambda>n. cn_id n \<noteq> x) (bs_nodes s)"
  let ?in = "filter (\<lambda>e. ce_target e = x) (bs_edges s)"
  let ?out = "filter (\<lambda>e. ce_source e = x) (bs_edges s)"
  let ?rest = "filter (\<lambda>e. ce_source e \<noteq> x \<and> ce_target e \<noteq> x) (bs_edges s)"
  let ?mk = "\<lambda>a b. \<lparr>ce_id = edge_id (r 0), ce_source = a, ce_target = b, ce_sourceHandle = Some ''default'',
       ce_type = ''workflow-edge'', ce_label = None, ce_branch = Some []\<rparr>"
  let ?new = "if xs = [] \<or> ys = [] then [] else [?mk (last xs) (hd ys)]"
  have ids: "set (map cn_id ?ns) = set (xs @ ys)"
    using c(3,5) by auto
  have ne: "?ns \<noteq> []" using ids assms(2) by (metis list.set_map set_empty image_is_empty)
  have inn: "mset (map edge_ends ?in) = mset (if xs = [] then [] else [(last xs, x)])"
    using mset_filter_image [OF c(2), of "\<lambda>e. snd e = x"] links_split_filter(3) [OF c(3)] by simp
  have out: "mset (map edge_ends ?out) = mset (if ys = [] then [] else [(x, hd ys)])"
    using mset_filter_image [OF c(2), of "\<lambda>e. fst e = x"] links_split_filter(2) [OF c(3)] by simp
  have rest: "mset (map edge_ends ?rest) = mset (links xs @ links ys)"
    using mset_filter_image [OF c(2), of "\<lambda>e. fst e \<noteq> x \<and> snd e \<noteq> x"] links_split_filter(4) [OF c(3)] by simp
  have hl: "last xs \<noteq> hd ys" if "xs \<noteq> []" "ys \<noteq> []"
    using that c(3) by (metis Int_iff distinct_append empty_iff hd_in_set last_in_set list.set_intros(2))
  have st: "fst (removeNode dagre x s r) = setPatch (layoutPatch dagre ?ns (?rest @ ?new) None) s"
  proof (cases "xs = [] \<or> ys = []")
    case True
    then have "?in = [] \<or> ?out = []" using inn out by auto
    with True ne show ?thesis
      unfolding removeNode_def removeNodeAction_def Let_def by (auto split: list.split)
  next
    case False
    with inn out obtain i o1 where i: "?in = [i]" "edge_ends i = (last xs, x)" and o1: "?out = [o1]" "edge_ends o1 = (x, hd ys)"
      using mset_singleton_map [of edge_ends ?in] mset_singleton_map [of edge_ends ?out] by auto
    then have "ce_source i = last xs" "ce_target o1 = hd ys" by simp_all
    with False ne hl show ?thesis
      unfolding removeNode_def removeNodeAction_def Let_def i(1) o1(1) by (simp add: buildCanvasEdge_facts)
  qed
  then show "\<exists>es. fst (removeNode dagre x s r) = setPatch (layoutPatch dagre ?ns es None) s" by blast
  have "mset (map edge_ends (?rest @ ?new)) = mset (links (xs @ ys))"
    using rest links_append [of xs ys] by auto
  moreover have "distinct (map ce_id (?rest @ ?new))"
    by (rule edges_append_fresh [OF c(1), of "map ce_id ?new"])
      (use fresh_forD(2) [OF assms(3), of 0] in auto)
  ultimately show "shows_chain (xs @ ys) (fst (removeNode dagre x s r))"
    unfolding st shows_chain_patch using ids c(3,4) assms(2) by (auto simp: distinct_map_filter)
qed

lemma remove_last_step:
  assumes "shows_chain [x] s"
  shows "shows_chain [canvas_id (r 0)] (fst (removeNode dagre x s r))"
    and "map cn_draft (bs_nodes (fst (removeNode dagre x s r))) = [triggerNodeDraft]"
proof -
  have n: "filter (\<lambda>n. cn_id n \<noteq> x) (bs_nodes s) = []" and e: "bs_edges s = []"
    using assms by (auto simp: shows_chain_def filter_empty_conv)
  have st: "fst (removeNode dagre x s r) = setPatch (layoutPatch dagre
      [\<lparr>cn_id = canvas_id (r 0), cn_type = ''workflow-step'', cn_position = Position 0 0, cn_draft = triggerNodeDraft\<rparr>] [] None) s"
    unfolding removeNode_def removeNodeAction_def Let_def n e
    by (simp add: buildCanvasNode_def createCanvasNodeId_def split_beta Let_def)
  show "shows_chain [canvas_id (r 0)] (fst (removeNode dagre x s r))"
    unfolding st shows_chain_patch by simp
  show "map cn_draft (bs_nodes (fst (removeNode dagre x s r))) = [triggerNodeDraft]"
    unfolding st patch_fields by (simp add: record_simps)
qed

section \<open>The drafts on the canvas\<close>

definition canvas_pairs :: "builder_state \<Rightarrow> (string \<times> node_draft) list" where
  "canvas_pairs s = map (\<lambda>n. (cn_id n, cn_draft n)) (bs_nodes s)"

text \<open>Distinct, trimmed, non-empty draft ids; the first step of the chain is the only trigger.\<close>

definition drafts_ok :: "string \<Rightarrow> (string \<times> node_draft) list \<Rightarrow> bool" where
  "drafts_ok start ps \<longleftrightarrow>
     distinct (map (\<lambda>x. bn_id (snd x)) ps) \<and>
     (\<forall>x \<in> set ps. trimmed (bn_id (snd x)) \<and> bn_id (snd x) \<noteq> [] \<and> (bn_type (snd x) = Trigger \<longleftrightarrow> fst x = start))"

definition plain_edges :: "builder_state \<Rightarrow> bool" where
  "plain_edges s \<longleftrightarrow> (\<forall>e \<in> set (bs_edges s). js_trim (str_or_empty (ce_branch e)) = [] \<and> prefix ''edge_'' (ce_id e))"

definition editor_inv :: "string list \<Rightarrow> builder_state \<Rightarrow> bool" where
  "editor_inv p s \<longleftrightarrow> shows_chain p s \<and> drafts_ok (hd p) (canvas_pairs s) \<and> plain_edges s"

lemma canvas_pairs_patch:
  "canvas_pairs (setPatch (layoutPatch dagre ns es sel) s) = map (\<lambda>n. (cn_id n, cn_draft n)) ns"
  by (simp add: canvas_pairs_def patch_fields record_simps)

lemma drafts_ok_filter: "drafts_ok a ps \<Longrightarrow> drafts_ok a (filter P ps)"
  by (auto simp: drafts_ok_def distinct_map_filter)

lemma drafts_ok_snoc:
  "drafts_ok a ps \<Longrightarrow> trimmed (bn_id d) \<Longrightarrow> bn_id d \<noteq> [] \<Longrightarrow> bn_id d \<notin> bn_id ` snd ` set ps \<Longrightarrow>
     bn_type d \<noteq> Trigger \<Longrightarrow> i \<noteq> a \<Longrightarrow> drafts_ok a (ps @ [(i, d)])"
  by (auto simp: drafts_ok_def image_image)

lemma edge_id_prefix: "prefix ''edge_'' (edge_id x)"
  by (simp add: edge_id_def)

lemma plain_edges_patch:
  "plain_edges (setPatch (layoutPatch dagre ns es sel) s) \<longleftrightarrow>
     (\<forall>e \<in> set es. js_trim (str_or_empty (ce_branch e)) = [] \<and> prefix ''edge_'' (ce_id e))"
  by (simp add: plain_edges_def patch_fields)

lemma plain_edges_ops:
  assumes "plain_edges s"
  shows "plain_edges (fst (addConnectedNode dagre a t ch s r))"
    and "plain_edges (fst (insertNodeOnEdge dagre eid t ch s r))"
    and "plain_edges (fst (duplicateNode dagre x s r))"
    and "plain_edges (fst (removeNode dagre x s r))"
proof -
  note simps = plain_edges_patch buildCanvasEdge_facts edge_id_prefix
  have o: "\<forall>e \<in> set (bs_edges s). js_trim (str_or_empty (ce_branch e)) = [] \<and> prefix ''edge_'' (ce_id e)"
    using assms by (simp add: plain_edges_def)
  show "plain_edges (fst (addConnectedNode dagre a t ch s r))"
    using o by (auto simp: addConnectedNode_def addConnectedNodeAction_def simps Let_def split_beta)
  show "plain_edges (fst (insertNodeOnEdge dagre eid t ch s r))"
    using o assms by (auto simp: insertNodeOnEdge_def insertNodeOnEdgeAction_def simps Let_def split_beta split: option.splits)
  show "plain_edges (fst (duplicateNode dagre x s r))"
    using o assms by (auto simp: duplicateNode_def duplicateNodeAction_def simps Let_def split_beta split: option.splits list.splits)
  show "plain_edges (fst (removeNode dagre x s r))"
    using o assms by (auto simp: removeNode_def removeNodeAction_def simps Let_def split_beta split: list.splits)
qed

section \<open>The draft of a chain is a linear workflow\<close>

lemma exportNode_fields [record_simps]: "wn_id (exportNode n) = js_trim (bn_id n)" "wn_type (exportNode n) = bn_type n"
  by (simp_all add: exportNode_def Let_def)

lemma trigger_set_export:
  "trigger_set (workflowDefinitionFromBuilderDraft w) =
     {js_trim (bn_id n) | n. n \<in> set (wb_nodes w) \<and> bn_type n = Trigger}"
  by (force simp: trigger_set_def workflowDefinitionFromBuilderDraft_def record_simps)

lemma node_ids_export:
  "node_ids (workflowDefinitionFromBuilderDraft w) = map (\<lambda>n. js_trim (bn_id n)) (wb_nodes w)"
  by (simp add: node_ids_def workflowDefinitionFromBuilderDraft_def record_simps)

lemma linear_chain_of_canvas:
  assumes "editor_inv p s"
  shows "linear_chain (workflowDefinitionFromBuilderDraft (selectCurrentDraft s)) (map (draft_id_at (bs_nodes s)) p)"
proof -
  let ?ns = "bs_nodes s" and ?f = "draft_id_at (bs_nodes s)"
  let ?d = "workflowDefinitionFromBuilderDraft (selectCurrentDraft s)"
  have c: "p \<noteq> []" "distinct p" "distinct (map cn_id ?ns)" "set (map cn_id ?ns) = set p"
    "mset (map edge_ends (bs_edges s)) = mset (links p)"
    using assms by (simp_all add: editor_inv_def shows_chain_def del: set_map)
  have dr: "distinct (map (\<lambda>n. bn_id (cn_draft n)) ?ns)"
    and tr: "\<And>n. n \<in> set ?ns \<Longrightarrow> trimmed (bn_id (cn_draft n)) \<and> bn_id (cn_draft n) \<noteq> [] \<and>
        (bn_type (cn_draft n) = Trigger \<longleftrightarrow> cn_id n = hd p)"
    using assms by (auto simp: editor_inv_def drafts_ok_def canvas_pairs_def comp_def)
  have f: "?f (cn_id n) = bn_id (cn_draft n)" if "n \<in> set ?ns" for n
    using draft_id_at_node [OF c(3) that] .
  have fp: "trimmed (?f x) \<and> ?f x \<noteq> []" if "x \<in> set p" for x
  proof -
    from that c(4) obtain n where "n \<in> set ?ns" "x = cn_id n" by (metis imageE list.set_map)
    then show ?thesis using f tr by simp
  qed
  have "inj_on (\<lambda>n. bn_id (cn_draft n)) (set ?ns)" using dr by (simp add: distinct_map)
  then have "inj_on ?f (cn_id ` set ?ns)" using f by (auto simp: inj_on_def)
  then have dist: "distinct (map ?f p)" using c(2,4) by (simp add: distinct_map)
  have reads: "mset (wb_nodes (selectCurrentDraft s)) = mset (map cn_draft ?ns)"
    "wb_edges (selectCurrentDraft s) = map (\<lambda>e. \<lparr>be_source = ?f (ce_source e), be_target = ?f (ce_target e),
                be_branch = str_or_empty (ce_branch e)\<rparr>) (bs_edges s)"
    using buildDraftFromCanvas_reads [OF c(3)] by (simp_all add: selectCurrentDraft_def)
  have wbn: "set (wb_nodes (selectCurrentDraft s)) = cn_draft ` set ?ns"
    using reads(1) by (metis list.set_map set_mset_mset)
  have "set (node_ids ?d) = (\<lambda>n. js_trim (bn_id n)) ` set (wb_nodes (selectCurrentDraft s))"
    by (simp add: node_ids_export)
  also have "\<dots> = ?f ` (cn_id ` set ?ns)" unfolding wbn image_image using f tr by (intro image_cong) auto
  finally have ids: "set (map ?f p) = set (node_ids ?d)" using c(4) by simp
  have ends: "x \<in> set p \<and> y \<in> set p" if "(x, y) \<in> set (map edge_ends (bs_edges s))" for x y
    using that c(5) links_in_set by (metis set_mset_mset)
  have pairs: "map edge_pair (wd_edges ?d) = map (\<lambda>e. (?f (fst e), ?f (snd e))) (map edge_ends (bs_edges s))"
    unfolding workflowDefinitionFromBuilderDraft_def reads(2) wf_definition.simps map_map
  proof (rule map_cong [OF refl])
    fix e assume "e \<in> set (bs_edges s)"
    then have "(ce_source e, ce_target e) \<in> set (map edge_ends (bs_edges s))" by auto
    from ends [OF this] fp have "trimmed (?f (ce_source e))" "trimmed (?f (ce_target e))" by auto
    then show "(edge_pair \<circ> (exportEdge \<circ> (\<lambda>e. \<lparr>be_source = ?f (ce_source e), be_target = ?f (ce_target e),
        be_branch = str_or_empty (ce_branch e)\<rparr>))) e = ((\<lambda>e. (?f (fst e), ?f (snd e))) \<circ> edge_ends) e"
      by (simp add: exportEdge_def edge_pair_def)
  qed
  have "mset (map edge_pair (wd_edges ?d)) = mset (links (map ?f p))"
    using arg_cong [OF c(5), of "image_mset (\<lambda>e. (?f (fst e), ?f (snd e)))"]
    by (simp only: pairs links_map flip: mset_map)
  moreover have "\<forall>e \<in> set (wd_edges ?d). fst (edge_pair e) \<noteq> [] \<and> snd (edge_pair e) \<noteq> [] \<and> edge_plain e"
  proof
    fix e assume "e \<in> set (wd_edges ?d)"
    then obtain e' where e': "e' \<in> set (bs_edges s)" and
      e: "e = exportEdge \<lparr>be_source = ?f (ce_source e'), be_target = ?f (ce_target e'), be_branch = str_or_empty (ce_branch e')\<rparr>"
      by (auto simp: workflowDefinitionFromBuilderDraft_def reads(2))
    have "(ce_source e', ce_target e') \<in> set (map edge_ends (bs_edges s))" using e' by auto
    from ends [OF this] fp have "js_trim (?f (ce_source e')) \<noteq> []" "js_trim (?f (ce_target e')) \<noteq> []" by auto
    moreover have "js_trim (str_or_empty (ce_branch e')) = []"
      using assms e' by (auto simp: editor_inv_def plain_edges_def)
    ultimately show "fst (edge_pair e) \<noteq> [] \<and> snd (edge_pair e) \<noteq> [] \<and> edge_plain e"
      by (simp add: e exportEdge_def edge_pair_def edge_plain_def)
  qed
  moreover have "hd (map ?f p) = t" if "trigger_set ?d = {t}" for t
  proof -
    have "hd p \<in> cn_id ` set ?ns" using hd_in_set [OF c(1)] c(4) by simp
    then obtain n where n: "n \<in> set ?ns" "cn_id n = hd p" by auto
    then have "bn_type (cn_draft n) = Trigger" using tr by blast
    then have "js_trim (bn_id (cn_draft n)) \<in> trigger_set ?d"
      using n(1) wbn unfolding trigger_set_export by auto
    moreover have "?f (hd p) = bn_id (cn_draft n)" using f [OF n(1)] n(2) by simp
    ultimately show ?thesis using that tr [OF n(1)] c(1) by (simp add: hd_map)
  qed
  ultimately show ?thesis using dist ids c(1) by (auto simp: linear_chain_def)
qed

section \<open>Runs of the editor\<close>

text \<open>The abstract editor: a list of steps; a step may be added after any step, or removed, except the first.\<close>

inductive chain_edit :: "'a list \<Rightarrow> 'a list \<Rightarrow> bool" where
  edit_insert: "xs \<noteq> [] \<Longrightarrow> new \<notin> set (xs @ ys) \<Longrightarrow> chain_edit (xs @ ys) (xs @ new # ys)"
| edit_remove: "xs \<noteq> [] \<Longrightarrow> chain_edit (xs @ x # ys) (xs @ ys)"

inductive_cases chain_editE: "chain_edit p q"

text \<open>The draft id drawn for a new step: trimmed, not empty, and not in use.\<close>

definition fresh_draft :: "builder_state \<Rightarrow> node_draft \<Rightarrow> bool" where
  "fresh_draft s d \<longleftrightarrow> trimmed (bn_id d) \<and> bn_id d \<noteq> [] \<and> bn_id d \<notin> bn_id ` cn_draft ` set (bs_nodes s)"

text \<open>
  The operations the canvas offers (\<open>hooks/use-workflow-builder.ts\<close>): inserting on an edge or on the
  terminal edge of a last node, duplicating and deleting a node that is not the trigger
  (\<open>canDuplicate\<close>, \<open>canDelete\<close>), editing a node's settings, the trigger event, the selection, and the
  layout.  Connecting and dragging are switched off on the canvas.  The random source may differ at
  every step; its draws are new ids.
\<close>

inductive editor_step :: "dagre \<Rightarrow> builder_state \<Rightarrow> builder_state \<Rightarrow> bool" for dagre where
  step_insert: "e \<in> set (bs_edges s) \<Longrightarrow> t \<noteq> Trigger \<Longrightarrow> fresh_for s r 4 \<Longrightarrow> fresh_draft s (fst (createNodeDraft t ch r)) \<Longrightarrow>
     editor_step dagre s (fst (insertNodeOnEdge dagre (ce_id e) t ch s r))"
| step_terminal: "n \<in> set (bs_nodes s) \<Longrightarrow> \<forall>e \<in> set (bs_edges s). ce_source e \<noteq> cn_id n \<Longrightarrow> t \<noteq> Trigger \<Longrightarrow>
     fresh_for s r 4 \<Longrightarrow> fresh_draft s (fst (createNodeDraft t ch r)) \<Longrightarrow>
     editor_step dagre s (fst (insertNodeOnEdge dagre (terminal_prefix @ cn_id n) t ch s r))"
| step_duplicate: "n \<in> set (bs_nodes s) \<Longrightarrow> bn_type (cn_draft n) \<noteq> Trigger \<Longrightarrow> fresh_for s r 4 \<Longrightarrow>
     fresh_draft s (duplicateOf (cn_draft n) r) \<Longrightarrow>
     editor_step dagre s (fst (duplicateNode dagre (cn_id n) s r))"
| step_remove: "n \<in> set (bs_nodes s) \<Longrightarrow> bn_type (cn_draft n) \<noteq> Trigger \<Longrightarrow> fresh_for s r 1 \<Longrightarrow>
     editor_step dagre s (fst (removeNode dagre (cn_id n) s r))"
| step_update: "(\<And>d. bn_id (f d) = bn_id d \<and> bn_type (f d) = bn_type d) \<Longrightarrow>
     editor_step dagre s (updateNodeDraft i f s)"
| step_event: "editor_step dagre s (setTriggerEvent v s)"
| step_select: "editor_step dagre s (setSelection n e s)"
| step_layout: "editor_step dagre s (autoLayout dagre s)"

text \<open>A forward simulation: every concrete step is matched by abstract steps.\<close>

locale simulation =
  fixes rel :: "'a \<Rightarrow> 'c \<Rightarrow> bool"
    and astep :: "'a \<Rightarrow> 'a \<Rightarrow> bool"
    and cstep :: "'c \<Rightarrow> 'c \<Rightarrow> bool"
  assumes simulates: "rel a c \<Longrightarrow> cstep c c' \<Longrightarrow> \<exists>a'. astep\<^sup>*\<^sup>* a a' \<and> rel a' c'"
begin

lemma run: "cstep\<^sup>*\<^sup>* c c' \<Longrightarrow> rel a c \<Longrightarrow> \<exists>a'. astep\<^sup>*\<^sup>* a a' \<and> rel a' c'"
proof (induction rule: rtranclp_induct)
  case (step c1 c2)
  then obtain a1 where "astep\<^sup>*\<^sup>* a a1" "rel a1 c1" by blast
  with simulates [OF _ step.hyps(2)] show ?case by (meson rtranclp_trans)
qed blast

lemma invariant:
  assumes "cstep\<^sup>*\<^sup>* c c'" and "rel a c" and "I a" and "\<And>a a'. I a \<Longrightarrow> astep a a' \<Longrightarrow> I a'"
  shows "\<exists>a'. I a' \<and> rel a' c'"
proof -
  obtain a' where "astep\<^sup>*\<^sup>* a a'" "rel a' c'" using run assms(1,2) by blast
  moreover from this(1) assms(3) have "I a'" by (induction rule: rtranclp_induct) (auto intro: assms(4))
  ultimately show ?thesis by blast
qed

end

lemma canvas_pairs_simps:
  "canvas_pairs (setTriggerEvent v s) = canvas_pairs s" "canvas_pairs (setSelection n e s) = canvas_pairs s"
  "canvas_pairs (autoLayout dagre s) = canvas_pairs s"
  by (simp_all add: canvas_pairs_def setTriggerEvent_def setSelection_def autoLayout_def split_beta Let_def record_simps)

lemma canvas_pairs_member: "n \<in> set (bs_nodes s) \<Longrightarrow> (cn_id n, cn_draft n) \<in> set (canvas_pairs s)"
  by (auto simp: canvas_pairs_def)

lemma editor_inv_neutral:
  assumes "editor_inv p s" and "map cn_id (bs_nodes s') = map cn_id (bs_nodes s)" and "bs_edges s' = bs_edges s"
    and "drafts_ok (hd p) (canvas_pairs s')"
  shows "editor_inv p s'"
  using assms by (simp add: editor_inv_def shows_chain_def plain_edges_def del: set_map)

lemma drafts_ok_update:
  assumes "drafts_ok a (canvas_pairs s)" and "\<And>d. bn_id (f d) = bn_id d \<and> bn_type (f d) = bn_type d"
  shows "drafts_ok a (canvas_pairs (updateNodeDraft i f s))"
proof -
  let ?g = "\<lambda>x. if fst x \<noteq> i then x else (fst x, normalizeNodeDraftForType (f (snd x)) (bn_type (f (snd x))))"
  have p: "canvas_pairs (updateNodeDraft i f s) = map ?g (canvas_pairs s)"
    by (auto simp: canvas_pairs_def updateNodeDraft_def Let_def)
  have g: "fst (?g x) = fst x" "bn_id (snd (?g x)) = bn_id (snd x)" "bn_type (snd (?g x)) = bn_type (snd x)" for x
    using assms(2) by (auto simp: record_simps)
  then have "map (\<lambda>x. bn_id (snd x)) (map ?g (canvas_pairs s)) = map (\<lambda>x. bn_id (snd x)) (canvas_pairs s)"
    by (simp add: comp_def)
  moreover have "\<forall>x \<in> set (map ?g (canvas_pairs s)). trimmed (bn_id (snd x)) \<and> bn_id (snd x) \<noteq> [] \<and>
      (bn_type (snd x) = Trigger \<longleftrightarrow> fst x = a)"
  proof
    fix x assume "x \<in> set (map ?g (canvas_pairs s))"
    then obtain y where "y \<in> set (canvas_pairs s)" "x = ?g y" unfolding list.set_map by blast
    then show "trimmed (bn_id (snd x)) \<and> bn_id (snd x) \<noteq> [] \<and> (bn_type (snd x) = Trigger \<longleftrightarrow> fst x = a)"
      using assms(1) g [of y] unfolding drafts_ok_def by simp
  qed
  ultimately show ?thesis using assms(1) unfolding drafts_ok_def p by (simp only: simp_thms)
qed

lemma links_member_split: "(a, b) \<in> set (links p) \<Longrightarrow> \<exists>xs ys. p = xs @ a # b # ys"
proof (induction p rule: induct_list012)
  case (3 c d p)
  show ?case
  proof (cases "(a, b) = (c, d)")
    case True
    then show ?thesis by (intro exI [of _ "[]"] exI [of _ p]) simp
  next
    case False
    with 3 obtain xs ys where "d # p = xs @ a # b # ys" by auto
    then show ?thesis by (intro exI [of _ "c # xs"] exI [of _ ys]) simp
  qed
qed auto

lemma shows_chain_links: "shows_chain p s \<Longrightarrow> set (links p) = edge_ends ` set (bs_edges s)"
  unfolding shows_chain_def by (metis mset_eq_setD list.set_map)

lemma insert_pairs:
  assumes "distinct (map ce_id (bs_edges s))" and "e \<in> set (bs_edges s)" and "t \<noteq> Trigger"
  shows "canvas_pairs (fst (insertNodeOnEdge dagre (ce_id e) t ch s r)) =
    canvas_pairs s @ [(canvas_id (r 1), fst (createNodeDraft t ch r))]"
  unfolding insertNodeOnEdge_def insertNodeOnEdgeAction_def find_unique [OF assms(1,2)]
  by (simp add: newCanvasNode_facts [OF assms(3)] Let_def split_beta canvas_pairs_patch canvas_pairs_def [of s])

lemma terminal_pairs:
  assumes "shows_chain p s" and "x \<in> set p" and "terminal_prefix @ x \<notin> ce_id ` set (bs_edges s)" and "t \<noteq> Trigger"
  shows "canvas_pairs (fst (insertNodeOnEdge dagre (terminal_prefix @ x) t ch s r)) =
    canvas_pairs s @ [(canvas_id (r 1), fst (createNodeDraft t ch r))]"
proof -
  obtain m where m: "List.find (\<lambda>n. cn_id n = x) (bs_nodes s) = Some m"
    using chain_node [OF assms(1,2)] by auto
  have e: "List.find (\<lambda>e. ce_id e = terminal_prefix @ x) (bs_edges s) = None"
    using assms(3) unfolding find_None_iff by (metis imageI)
  show ?thesis
    unfolding insertNodeOnEdge_def insertNodeOnEdgeAction_def e
    by (simp add: m newCanvasNode_facts [OF assms(4)] Let_def split_beta canvas_pairs_patch canvas_pairs_def [of s])
qed

text \<open>A step with a new draft after a step of the chain keeps the invariant.\<close>

lemma editor_inv_insert:
  assumes "editor_inv (xs @ ys) s" and "xs \<noteq> []" and "shows_chain (xs @ i # ys) s'" and "plain_edges s'"
    and "canvas_pairs s' = canvas_pairs s @ [(i, d)]" and "fresh_draft s d" and "bn_type d \<noteq> Trigger"
  shows "editor_inv (xs @ i # ys) s'" and "chain_edit (xs @ ys) (xs @ i # ys)"
proof -
  have i: "i \<notin> set (xs @ ys)" using assms(3) by (auto simp: shows_chain_def)
  then show "chain_edit (xs @ ys) (xs @ i # ys)" using assms(2) by (intro edit_insert)
  have "snd ` set (canvas_pairs s) = cn_draft ` set (bs_nodes s)" by (force simp: canvas_pairs_def)
  then have "drafts_ok (hd xs) (canvas_pairs s')"
    using assms(1,2,6,7) i hd_in_set [OF assms(2)] unfolding assms(5)
    by (intro drafts_ok_snoc) (auto simp: editor_inv_def fresh_draft_def)
  then show "editor_inv (xs @ i # ys) s'"
    using assms(2-4) by (simp add: editor_inv_def)
qed

lemma chain_split_node:
  assumes "shows_chain p s" and "n \<in> set (bs_nodes s)"
  obtains xs ys where "p = xs @ cn_id n # ys"
proof -
  have "cn_id n \<in> set p" using assms by (auto simp: shows_chain_def)
  then show ?thesis using that by (meson split_list)
qed

lemma editor_inv_not_first:
  assumes "editor_inv (xs @ cn_id n # ys) s" and "n \<in> set (bs_nodes s)" and "bn_type (cn_draft n) \<noteq> Trigger"
  shows "xs \<noteq> []"
  using assms canvas_pairs_member [OF assms(2)] by (force simp: editor_inv_def drafts_ok_def)

lemma editor_simulates:
  assumes "editor_inv p s" and "editor_step dagre s s'"
  shows "\<exists>q. chain_edit\<^sup>*\<^sup>* p q \<and> editor_inv q s'"
  using assms(2)
proof cases
  case (step_insert e t r ch)
  have c: "shows_chain p s" and pe: "plain_edges s" using assms(1) by (simp_all add: editor_inv_def)
  have "(ce_source e, ce_target e) \<in> set (links p)"
    unfolding shows_chain_links [OF c] using step_insert(2) by (intro image_eqI [of _ _ e]) simp_all
  from links_member_split [OF this] obtain xs ys where p: "p = xs @ ce_source e # ce_target e # ys" by (elim exE)
  have inv: "editor_inv ((xs @ [ce_source e]) @ ce_target e # ys) s" using assms(1) p by simp
  have sc: "shows_chain ((xs @ [ce_source e]) @ canvas_id (r 1) # ce_target e # ys) s'"
    using insert_on_edge [OF c [unfolded p] step_insert(2) refl step_insert(3,4)] by (simp add: step_insert(1))
  have cp: "canvas_pairs s' = canvas_pairs s @ [(canvas_id (r 1), fst (createNodeDraft t ch r))]"
    unfolding step_insert(1) using c by (intro insert_pairs step_insert(2,3)) (simp add: shows_chain_def)
  have pl: "plain_edges s'" unfolding step_insert(1) by (rule plain_edges_ops(2) [OF pe])
  have ty: "bn_type (fst (createNodeDraft t ch r)) \<noteq> Trigger" using step_insert(3) by (simp add: record_simps)
  from editor_inv_insert [OF inv _ sc pl cp step_insert(5) ty] show ?thesis unfolding p by auto
next
  case (step_terminal n t r ch)
  have c: "shows_chain p s" and pe: "plain_edges s" using assms(1) by (simp_all add: editor_inv_def)
  obtain xs ys where p: "p = xs @ cn_id n # ys" using chain_split_node [OF c step_terminal(2)] .
  have "ys = []"
  proof (rule ccontr)
    assume "ys \<noteq> []"
    then have "(cn_id n, hd ys) \<in> set (links p)" by (simp add: p links_split)
    then have "(cn_id n, hd ys) \<in> edge_ends ` set (bs_edges s)"
      unfolding shows_chain_links [OF c] .
    then show False using step_terminal(3) by auto
  qed
  note p' = p [unfolded this]
  have nt: "terminal_prefix @ cn_id n \<notin> ce_id ` set (bs_edges s)"
  proof
    assume "terminal_prefix @ cn_id n \<in> ce_id ` set (bs_edges s)"
    with pe have "prefix ''edge_'' (terminal_prefix @ cn_id n)" by (auto simp: plain_edges_def)
    then show False by (simp add: terminal_prefix_def)
  qed
  have inv: "editor_inv ((xs @ [cn_id n]) @ []) s" using assms(1) p' by simp
  have sc: "shows_chain ((xs @ [cn_id n]) @ canvas_id (r 1) # []) s'"
    using insert_terminal [OF c [unfolded p'] step_terminal(4,5) nt] by (simp add: step_terminal(1))
  have cp: "canvas_pairs s' = canvas_pairs s @ [(canvas_id (r 1), fst (createNodeDraft t ch r))]"
    unfolding step_terminal(1) by (rule terminal_pairs [OF c _ nt step_terminal(4)]) (simp add: p)
  have pl: "plain_edges s'" unfolding step_terminal(1) by (rule plain_edges_ops(2) [OF pe])
  have ty: "bn_type (fst (createNodeDraft t ch r)) \<noteq> Trigger" using step_terminal(4) by (simp add: record_simps)
  from editor_inv_insert [OF inv _ sc pl cp step_terminal(6) ty] show ?thesis unfolding p' by auto
next
  case (step_duplicate n r)
  have c: "shows_chain p s" and pe: "plain_edges s" using assms(1) by (simp_all add: editor_inv_def)
  obtain xs ys where p: "p = xs @ cn_id n # ys" using chain_split_node [OF c step_duplicate(2)] .
  have d: "draft_at (bs_nodes s) (cn_id n) = Some (cn_draft n)"
    unfolding draft_at_def using c step_duplicate(2)
    by (intro map_of_is_SomeI) (auto simp: shows_chain_def comp_def)
  note dup = duplicate_step [OF c [unfolded p] d step_duplicate(3,4), of dagre]
  have inv: "editor_inv ((xs @ [cn_id n]) @ ys) s" using assms(1) p by simp
  have sc: "shows_chain ((xs @ [cn_id n]) @ canvas_id (r 1) # ys) s'"
    using dup(1) by (simp add: step_duplicate(1))
  have cp: "canvas_pairs s' = canvas_pairs s @ [(canvas_id (r 1), duplicateOf (cn_draft n) r)]"
    using dup(2) unfolding step_duplicate(1) by (auto simp: canvas_pairs_patch canvas_pairs_def [of s])
  have pl: "plain_edges s'" unfolding step_duplicate(1) by (rule plain_edges_ops(3) [OF pe])
  have ty: "bn_type (duplicateOf (cn_draft n) r) \<noteq> Trigger"
    using step_duplicate(3) by (simp add: duplicateOf_def record_simps)
  from editor_inv_insert [OF inv _ sc pl cp step_duplicate(5) ty] show ?thesis unfolding p by auto
next
  case (step_remove n r)
  have c: "shows_chain p s" and pe: "plain_edges s" using assms(1) by (simp_all add: editor_inv_def)
  obtain xs ys where p: "p = xs @ cn_id n # ys" using chain_split_node [OF c step_remove(2)] .
  have xs: "xs \<noteq> []" using editor_inv_not_first [OF assms(1) [unfolded p] step_remove(2,3)] .
  note rm = remove_step [OF c [unfolded p] _ step_remove(4), of dagre]
  have "canvas_pairs s' = filter (\<lambda>x. fst x \<noteq> cn_id n) (canvas_pairs s)"
    using rm(2) xs unfolding step_remove(1) by (auto simp: canvas_pairs_patch canvas_pairs_def [of s] filter_map comp_def)
  then have "drafts_ok (hd p) (canvas_pairs s')"
    using assms(1) by (simp add: editor_inv_def drafts_ok_filter)
  then have "editor_inv (xs @ ys) s'"
    using rm(1) xs plain_edges_ops(4) [OF pe] by (simp add: editor_inv_def p step_remove(1))
  moreover have "chain_edit p (xs @ ys)" unfolding p using xs by (rule edit_remove)
  ultimately show ?thesis by blast
next
  case (step_update f i)
  then have "editor_inv p s'"
    using assms(1) drafts_ok_update [of "hd p" s f i] unfolding step_update(1)
    by (intro editor_inv_neutral [OF assms(1)]) (auto simp: editor_inv_def updateNodeDraft_def Let_def)
  then show ?thesis by blast
next
  case (step_event v)
  then show ?thesis
    using assms(1) editor_inv_neutral [OF assms(1), of s'] canvas_pairs_simps(1) [of v s]
    by (auto simp: editor_inv_def setTriggerEvent_def)
next
  case (step_select n e)
  then show ?thesis
    using assms(1) editor_inv_neutral [OF assms(1), of s'] canvas_pairs_simps(2) [of n e s]
    by (auto simp: editor_inv_def setSelection_def)
next
  case step_layout
  then show ?thesis
    using assms(1) editor_inv_neutral [OF assms(1), of s'] canvas_pairs_simps(3) [of dagre s]
    by (auto simp: editor_inv_def autoLayout_def split_beta Let_def record_simps)
qed

interpretation editor: simulation editor_inv chain_edit "editor_step dagre" for dagre
  by unfold_locales (rule editor_simulates)

section \<open>Opening a stored workflow\<close>

text \<open>A draft whose steps form the chain \<open>q\<close>, starting with its only trigger.\<close>

definition linear_draft :: "string list \<Rightarrow> wf_draft \<Rightarrow> bool" where
  "linear_draft q d \<longleftrightarrow>
     graph_draft d \<and> q \<noteq> [] \<and> distinct q \<and> set q = bn_id ` set (wb_nodes d) \<and>
     mset (map (\<lambda>e. (be_source e, be_target e)) (wb_edges d)) = mset (links q) \<and>
     (\<forall>e \<in> set (wb_edges d). js_trim (be_branch e) = []) \<and>
     (\<forall>n \<in> set (wb_nodes d). bn_type n = Trigger \<longleftrightarrow> bn_id n = hd q)"

definition fresh_suffixes :: "rng \<Rightarrow> nat \<Rightarrow> bool" where
  "fresh_suffixes r k \<longleftrightarrow> distinct (map (\<lambda>i. js_slice 2 10 (r i)) [0..<k])"

lemma buildCanvasEdges_ids:
  "map ce_id (fst (buildCanvasEdges m es r)) = map (\<lambda>i. edge_id (r i)) [0..<length (fst (buildCanvasEdges m es r))]"
proof (induction m es r rule: buildCanvasEdges.induct)
  case (2 m e es r)
  have "[0..<Suc k] = 0 # map Suc [0..<k]" for k
    by (simp add: upt_conv_Cons map_Suc_upt del: upt_Suc)
  then show ?case using 2
    by (simp add: Let_def buildCanvasEdge_facts split_beta comp_def del: upt_Suc)
qed simp

lemma buildCanvasEdges_length: "length (fst (buildCanvasEdges m es r)) \<le> length es"
  using arg_cong [OF buildCanvasEdges_facts [of m es r], of length] length_filter_le by simp

lemma fresh_suffixes_ids:
  assumes "fresh_suffixes r (a + b)"
  shows "distinct (map (\<lambda>i. canvas_id (r i)) [0..<a])"
    and "k \<le> b \<Longrightarrow> distinct (map (\<lambda>i. edge_id (r (a + i))) [0..<k])"
proof -
  have inj: "i = j" if "i < a + b" "j < a + b" "js_slice 2 10 (r i) = js_slice 2 10 (r j)" for i j
    using assms that unfolding fresh_suffixes_def distinct_map by (auto dest: inj_onD)
  show "distinct (map (\<lambda>i. canvas_id (r i)) [0..<a])"
    unfolding distinct_map by (auto intro!: inj_onI inj simp: canvas_id_def)
  assume "k \<le> b"
  have "inj_on (\<lambda>i. edge_id (r (a + i))) (set [0..<k])"
  proof (rule inj_onI)
    fix i j assume "i \<in> set [0..<k]" "j \<in> set [0..<k]" "edge_id (r (a + i)) = edge_id (r (a + j))"
    with \<open>k \<le> b\<close> inj [of "a + i" "a + j"] show "i = j" by (simp add: edge_id_inject)
  qed
  then show "distinct (map (\<lambda>i. edge_id (r (a + i))) [0..<k])" by (simp add: distinct_map)
qed

lemma opened_store:
  assumes "linear_draft q d" and "fresh_suffixes r (length (wb_nodes d) + length (wb_edges d))"
  shows "\<exists>p. editor_inv p (fst (createWorkflowBuilderStore dagre d r))"
proof -
  let ?ns = "fst (buildCanvasNodes (wb_nodes d) r)"
  let ?m = "fold registerDraftId ?ns []"
  let ?r1 = "snd (buildCanvasNodes (wb_nodes d) r)"
  let ?es = "fst (buildCanvasEdges ?m (wb_edges d) ?r1)"
  let ?s = "fst (createWorkflowBuilderStore dagre d r)"
  let ?g = "\<lambda>x. str_or_empty (map_get ?m x)"
  have s: "bs_nodes ?s = fst (layoutCanvasGraph dagre ?ns ?es)" "bs_edges ?s = ?es"
    using layout_keeps(4) [of dagre ?ns ?es]
    by (simp_all add: createWorkflowBuilderStore_def buildCanvasGraphFromDraft_def Let_def split_beta)
  have g: "graph_draft d" and q: "q \<noteq> []" "distinct q" "set q = bn_id ` set (wb_nodes d)"
    "mset (map (\<lambda>e. (be_source e, be_target e)) (wb_edges d)) = mset (links q)"
    using assms(1) by (simp_all add: linear_draft_def)
  have ids: "distinct (map cn_id ?ns)"
    using fresh_suffixes_ids(1) [OF assms(2)] by (simp add: buildCanvasNodes_facts(2))
  have di: "distinct (map (bn_id \<circ> cn_draft) ?ns)"
    using g by (simp add: graph_draft_def buildCanvasNodes_facts(1) flip: map_map)
  have ok: "\<forall>n \<in> set ?ns. trimmed (bn_id (cn_draft n)) \<and> bn_id (cn_draft n) \<noteq> []"
    using g buildCanvasNodes_drafts unfolding graph_draft_def by blast
  have look: "?g (bn_id (cn_draft n)) = cn_id n" if "n \<in> set ?ns" for n
    using register_lookup [OF di ok that] by simp
  have nodes: "set (wb_nodes d) = cn_draft ` set ?ns"
    using buildCanvasNodes_facts(1) [of "wb_nodes d" r] by (metis list.set_map)
  have gq: "?g ` set q = cn_id ` set ?ns"
    unfolding q(3) nodes image_image using look by (intro image_cong) auto
  have "inj_on ?g (set q)"
  proof (rule inj_onI)
    fix x y assume "x \<in> set q" "y \<in> set q" "?g x = ?g y"
    then obtain n n' where n: "n \<in> set ?ns" "x = bn_id (cn_draft n)" "n' \<in> set ?ns" "y = bn_id (cn_draft n')"
      unfolding q(3) nodes by blast
    with \<open>?g x = ?g y\<close> have "cn_id n = cn_id n'" using look by metis
    then show "x = y" using n ids by (metis distinct_map inj_onD)
  qed
  then have dist: "distinct (map ?g q)" using q(2) by (simp add: distinct_map)
  have gne: "?g x \<noteq> []" "trimmed x" if "x \<in> bn_id ` set (wb_nodes d)" for x
  proof -
    from that obtain n where n: "n \<in> set ?ns" "x = bn_id (cn_draft n)" unfolding nodes by blast
    with look buildCanvasNodes_ids ok show "?g x \<noteq> []" "trimmed x" by auto
  qed
  have reg: "registered ?m e = (?g (be_source e), ?g (be_target e)) \<and> fst (registered ?m e) \<noteq> [] \<and> snd (registered ?m e) \<noteq> []"
    if "e \<in> set (wb_edges d)" for e
    using g that gne by (simp add: graph_draft_def registered_def)
  have em: "map (\<lambda>e. (edge_ends e, ce_branch e)) ?es =
      map (\<lambda>e. ((?g (be_source e), ?g (be_target e)), Some (be_branch e))) (wb_edges d)"
    unfolding buildCanvasEdges_facts using reg by (auto intro!: map_cong filter_True)
  have "map edge_ends ?es = map fst (map (\<lambda>e. (edge_ends e, ce_branch e)) ?es)" by simp
  also have "\<dots> = map (\<lambda>x. (?g (fst x), ?g (snd x))) (map (\<lambda>e. (be_source e, be_target e)) (wb_edges d))"
    unfolding em by simp
  finally have "mset (map edge_ends ?es) = mset (links (map ?g q))"
    using arg_cong [OF q(4), of "image_mset (\<lambda>x. (?g (fst x), ?g (snd x)))"]
    by (simp only: links_map flip: mset_map)
  moreover have eid: "map ce_id ?es = map (\<lambda>i. edge_id (r (length (wb_nodes d) + i))) [0..<length ?es]"
    using buildCanvasEdges_ids [of ?m "wb_edges d" ?r1] by (simp add: buildCanvasNodes_facts(3))
  moreover have "distinct (map ce_id ?es)"
    unfolding eid by (rule fresh_suffixes_ids(2) [OF assms(2) buildCanvasEdges_length])
  ultimately have sc: "shows_chain (map ?g q) ?s"
    using q(1) dist ids gq unfolding shows_chain_def s by (simp add: record_simps del: set_map) simp
  have "set (map ce_branch ?es) = set (map snd (map (\<lambda>e. (edge_ends e, ce_branch e)) ?es))" by simp
  also have "\<dots> = (\<lambda>e. Some (be_branch e)) ` set (wb_edges d)" unfolding em by (simp add: image_image)
  finally have br: "ce_branch ` set ?es = (\<lambda>e. Some (be_branch e)) ` set (wb_edges d)" by simp
  have "js_trim (str_or_empty (ce_branch e)) = [] \<and> prefix ''edge_'' (ce_id e)" if "e \<in> set ?es" for e
  proof
    from that br obtain e' where "e' \<in> set (wb_edges d)" "ce_branch e = Some (be_branch e')" by blast
    then show "js_trim (str_or_empty (ce_branch e)) = []" using assms(1) by (simp add: linear_draft_def)
    have "ce_id e \<in> set (map ce_id ?es)" using that by simp
    then show "prefix ''edge_'' (ce_id e)" unfolding eid using edge_id_prefix by auto
  qed
  then have pl: "plain_edges ?s" by (simp add: plain_edges_def s)
  have ps: "canvas_pairs ?s = map (\<lambda>n. (cn_id n, cn_draft n)) ?ns"
    by (simp add: canvas_pairs_def s record_simps)
  have "hd (map ?g q) = ?g (hd q)" using q(1) by (simp add: hd_map)
  moreover have "bn_type (cn_draft n) = Trigger \<longleftrightarrow> cn_id n = ?g (hd q)" if "n \<in> set ?ns" for n
  proof -
    have "bn_type (cn_draft n) = Trigger \<longleftrightarrow> bn_id (cn_draft n) = hd q"
      using assms(1) nodes that by (simp add: linear_draft_def)
    also have "\<dots> \<longleftrightarrow> ?g (bn_id (cn_draft n)) = ?g (hd q)"
      using \<open>inj_on ?g (set q)\<close> q(1,3) nodes that by (metis hd_in_set image_eqI inj_on_eq_iff)
    finally show ?thesis using look [OF that] by simp
  qed
  ultimately have "drafts_ok (hd (map ?g q)) (canvas_pairs ?s)"
    unfolding drafts_ok_def ps using di ok by (simp add: comp_def)
  with sc pl show ?thesis unfolding editor_inv_def by blast
qed

lemma importNode_fields [record_simps]: "bn_id (importNode n) = wn_id n" "bn_type (importNode n) = wn_type n"
  by (simp_all add: importNode_def Let_def record_simps)

lemma import_with_trigger:
  assumes "\<exists>n \<in> set (wd_nodes d). wn_type n = Trigger"
  shows "wb_nodes (builderDraftFromDefinition (Some d)) = map importNode (wd_nodes d)"
    and "wb_edges (builderDraftFromDefinition (Some d)) = map importEdge (wd_edges d)"
  using assms by (auto simp: builderDraftFromDefinition_def Let_def record_simps)

lemma valid_import_linear:
  assumes "valid_workflow d" and "trimmed_definition d"
  shows "\<exists>q. linear_draft q (builderDraftFromDefinition (Some d))"
    and "length (wb_nodes (builderDraftFromDefinition (Some d))) = length (wd_nodes d)"
    and "length (wb_edges (builderDraftFromDefinition (Some d))) = length (wd_edges d)"
proof -
  obtain t steps where ts: "trigger_set d = {t}" and lc: "linear_chain d (t # steps)"
    using assms(1) by (auto simp: valid_workflow_def)
  then have tr: "\<exists>n \<in> set (wd_nodes d). wn_type n = Trigger" by (auto simp: trigger_set_def)
  note imp = import_with_trigger [OF tr]
  show "length (wb_nodes (builderDraftFromDefinition (Some d))) = length (wd_nodes d)"
    "length (wb_edges (builderDraftFromDefinition (Some d))) = length (wd_edges d)" by (simp_all add: imp)
  have tn: "trimmed (wn_id n)" if "n \<in> set (wd_nodes d)" for n
    using assms(2) that by (simp add: trimmed_definition_def trimmed_node_def)
  have te: "trimmed (we_source e)" "trimmed (we_target e)" "trimmed (str_or_empty (we_branch e))"
    if "e \<in> set (wd_edges d)" for e
    using assms(2) that by (simp_all add: trimmed_definition_def trimmed_edge_def)
  have ids: "map bn_id (map importNode (wd_nodes d)) = node_ids d"
    using tn by (simp add: node_ids_def record_simps)
  have idset: "bn_id ` set (map importNode (wd_nodes d)) = set (node_ids d)"
    using ids by (metis list.set_map)
  have pairs: "map (\<lambda>e. (be_source e, be_target e)) (map importEdge (wd_edges d)) = map edge_pair (wd_edges d)"
    using te by (simp add: importEdge_def edge_pair_def)
  have lc': "distinct (t # steps)" "set (t # steps) = set (node_ids d)"
    "mset (map edge_pair (wd_edges d)) = mset (links (t # steps))" "\<forall>e \<in> set (wd_edges d). edge_plain e"
    using lc by (simp_all add: linear_chain_def)
  have ends: "be_source e \<in> set (node_ids d) \<and> be_target e \<in> set (node_ids d)"
    if "e \<in> set (map importEdge (wd_edges d))" for e
  proof -
    from that have "(be_source e, be_target e) \<in> set (map edge_pair (wd_edges d))"
      unfolding pairs [symmetric] by auto
    then have "(be_source e, be_target e) \<in> set (links (t # steps))" unfolding mset_eq_setD [OF lc'(3)] .
    from links_in_set [OF this] show ?thesis unfolding lc'(2) .
  qed
  have gd: "graph_draft (builderDraftFromDefinition (Some d))"
    unfolding graph_draft_def imp ids idset
    using assms(1) tn ends idset by (auto simp: valid_workflow_def record_simps node_ids_def) (metis imageI)
  have trig: "bn_type n = Trigger \<longleftrightarrow> bn_id n = t" if "n \<in> set (map importNode (wd_nodes d))" for n
  proof -
    from that obtain m where m: "m \<in> set (wd_nodes d)" "n = importNode m" by auto
    have "js_trim (wn_id m) \<in> trigger_set d" if "wn_type m = Trigger"
      using m(1) that by (auto simp: trigger_set_def)
    then have "wn_type m = Trigger \<Longrightarrow> wn_id m = t" using ts tn [OF m(1)] by simp
    moreover have "wn_type m = Trigger" if "wn_id m = t"
    proof -
      obtain k where k: "k \<in> set (wd_nodes d)" "wn_type k = Trigger" "js_trim (wn_id k) = t"
      proof -
        have "t \<in> trigger_set d" using ts by simp
        then show thesis unfolding trigger_set_def using that by blast
      qed
      have "distinct (map (\<lambda>n. js_trim (wn_id n)) (wd_nodes d))"
        using assms(1) by (simp add: valid_workflow_def node_ids_def)
      then have "k = m" using k m(1) that tn by (metis distinct_map inj_onD)
      then show ?thesis using k(2) by simp
    qed
    ultimately show ?thesis by (auto simp: m(2) record_simps)
  qed
  have br: "\<forall>e \<in> set (map importEdge (wd_edges d)). js_trim (be_branch e) = []"
    using lc'(4) by (simp add: importEdge_def edge_plain_def)
  have "linear_draft (t # steps) (builderDraftFromDefinition (Some d))"
    unfolding linear_draft_def imp pairs
    using gd lc'(1-3) trig br idset by simp
  then show "\<exists>q. linear_draft q (builderDraftFromDefinition (Some d))" by blast
qed

lemma edits_linear:
  assumes "editor_inv p s" and "(editor_step dagre)\<^sup>*\<^sup>* s s'"
  shows "validateEdges (workflowDefinitionFromBuilderDraft (selectCurrentDraft s')) = []"
proof -
  obtain q where "editor_inv q s'" using editor.run [OF assms(2,1)] by blast
  then show ?thesis using linear_chain_of_canvas unfolding validateEdges_linear linear_workflow_def by blast
qed

section \<open>Properties\<close>

text \<open>C4: open a stored workflow the validation accepts (with trimmed strings, as the builder stores
  it), and perform any sequence of the operations the canvas offers: the draft read from the canvas
  always exports to a definition whose edges the validation accepts, i.e. a chain of steps.\<close>

theorem editing_keeps_linear:
  assumes "validateWorkflowDefinitionDraft (Some d) = []" and "trimmed_definition d"
    and "fresh_suffixes r (length (wd_nodes d) + length (wd_edges d))"
    and "(editor_step dagre)\<^sup>*\<^sup>* (fst (createWorkflowBuilderStore dagre (builderDraftFromDefinition (Some d)) r)) s"
  shows "validateEdges (workflowDefinitionFromBuilderDraft (selectCurrentDraft s)) = []"
proof -
  have v: "valid_workflow d" using assms(1) unfolding validate_valid .
  obtain q where "linear_draft q (builderDraftFromDefinition (Some d))"
    using valid_import_linear(1) [OF v assms(2)] by blast
  then obtain p where "editor_inv p (fst (createWorkflowBuilderStore dagre (builderDraftFromDefinition (Some d)) r))"
    using opened_store assms(3) valid_import_linear(2,3) [OF v assms(2)] by metis
  from edits_linear [OF this assms(4)] show ?thesis .
qed

definition example_definition :: wf_definition where
  "example_definition = \<lparr>wd_trigger = Some \<lparr>wt_event = Some ''user.signup''\<rparr>,
     wd_nodes = [\<lparr>wn_id = ''trigger_1'', wn_type = Trigger, wn_config = None\<rparr>,
                 \<lparr>wn_id = ''delay_a'', wn_type = Delay, wn_config = Some [(''duration'', JStr ''5m'')]\<rparr>],
     wd_edges = [\<lparr>we_source = ''trigger_1'', we_target = ''delay_a'', we_branch = None\<rparr>], wd_payload = None\<rparr>"

theorem editing_keeps_linear_witness:
  "validateEdges (workflowDefinitionFromBuilderDraft (selectCurrentDraft
     (setSelection (Some ''x'') None
       (fst (createWorkflowBuilderStore (\<lambda>_ _ _ _. None) (builderDraftFromDefinition (Some example_definition)) example_rng))))) = []"
proof (rule editing_keeps_linear [where d = example_definition and r = example_rng])
  show "validateWorkflowDefinitionDraft (Some example_definition) = []" by code_simp
  show "trimmed_definition example_definition"
    by (simp add: trimmed_definition_def example_definition_def trimmed_node_def trimmed_edge_def obj_str_def) code_simp
  show "fresh_suffixes example_rng (length (wd_nodes example_definition) + length (wd_edges example_definition))"
    by code_simp
qed (rule r_into_rtranclp, rule step_select)

text \<open>C5: on a canvas that shows the chain \<open>... a b ...\<close>, inserting a step on the edge from \<open>a\<close> to
  \<open>b\<close> shows the chain with the new step between them, selects the new node and clears the edge selection.\<close>

theorem insertNodeOnEdge_refines:
  assumes "shows_chain (xs @ a # b # ys) s" and "e \<in> set (bs_edges s)" and "edge_ends e = (a, b)"
    and "t \<noteq> Trigger" and "fresh_for s r 4"
  shows "shows_chain (xs @ a # canvas_id (r 1) # b # ys) (fst (insertNodeOnEdge dagre (ce_id e) t ch s r)) \<and>
    bs_selectedNodeId (fst (insertNodeOnEdge dagre (ce_id e) t ch s r)) = Some (canvas_id (r 1)) \<and>
    bs_selectedEdgeId (fst (insertNodeOnEdge dagre (ce_id e) t ch s r)) = None"
proof -
  have "List.find (\<lambda>y. ce_id y = ce_id e) (bs_edges s) = Some e"
    using find_unique [of ce_id "bs_edges s" e] assms(1,2) by (simp add: shows_chain_def)
  then show ?thesis using insert_on_edge [OF assms]
    by (simp add: insertNodeOnEdge_def insertNodeOnEdgeAction_def newCanvasNode_facts [OF assms(4)] Let_def split_beta patch_fields)
qed

definition example_state :: builder_state where
  "example_state = fst (createWorkflowBuilderStore (\<lambda>_ _ _ _. None) example_draft example_rng)"

definition shifted_rng :: rng where
  "shifted_rng i = ''0.'' @ show_nat (i + 10)"

lemma example_chain: "shows_chain [''canvas_0'', ''canvas_1''] example_state"
  by code_simp

lemma example_fresh: "fresh_for example_state shifted_rng 4"
proof -
  have "\<forall>i \<in> set [0..<4]. canvas_id (shifted_rng i) \<notin> set (map cn_id (bs_nodes example_state)) \<and>
      edge_id (shifted_rng i) \<notin> set (map ce_id (bs_edges example_state))" by code_simp
  moreover have "distinct (map (\<lambda>i. js_slice 2 10 (shifted_rng i)) [0..<4])" by code_simp
  ultimately show ?thesis by (simp add: fresh_for_def)
qed

theorem insertNodeOnEdge_refines_witness:
  "shows_chain [''canvas_0'', ''canvas_11'', ''canvas_1'']
     (fst (insertNodeOnEdge (\<lambda>_ _ _ _. None) ''edge_2'' Delay None example_state shifted_rng))"
proof -
  have e: "hd (bs_edges example_state) \<in> set (bs_edges example_state)" "edge_ends (hd (bs_edges example_state)) = (''canvas_0'', ''canvas_1'')"
    "ce_id (hd (bs_edges example_state)) = ''edge_2''" "canvas_id (shifted_rng (Suc 0)) = ''canvas_11''"
    by code_simp+
  show ?thesis
    using insertNodeOnEdge_refines [of "[]" "''canvas_0''" "''canvas_1''" "[]", OF _ e(1,2) _ example_fresh, of Delay]
      example_chain by (simp add: e(3,4))
qed

text \<open>C6: duplicating a step of the chain puts the copy right after it; the copy has a new id and the
  settings of the original.  A trigger is not duplicated.\<close>

theorem duplicateNode_refines:
  assumes "shows_chain (xs @ x # ys) s" and "draft_at (bs_nodes s) x = Some d" and "fresh_for s r 4"
  shows "if bn_type d = Trigger then duplicateNode dagre x s r = (s, r)
    else shows_chain (xs @ x # canvas_id (r 1) # ys) (fst (duplicateNode dagre x s r)) \<and>
      draft_at (bs_nodes (fst (duplicateNode dagre x s r))) (canvas_id (r 1)) = Some (duplicateOf d r)"
proof (cases "bn_type d = Trigger")
  case True
  obtain m where m: "List.find (\<lambda>n. cn_id n = x) (bs_nodes s) = Some m" "m \<in> set (bs_nodes s)" "cn_id m = x"
    using chain_node [OF assms(1), of x] by auto
  have "draft_at (bs_nodes s) (cn_id m) = Some (cn_draft m)"
    unfolding draft_at_def using assms(1) m(2) by (intro map_of_is_SomeI) (auto simp: shows_chain_def comp_def)
  with True m assms(2) show ?thesis by (simp add: duplicateNode_def duplicateNodeAction_def)
next
  case False
  let ?s = "fst (duplicateNode dagre x s r)"
  note dup = duplicate_step [OF assms(1,2) False assms(3), of dagre]
  have "canvas_pairs ?s = canvas_pairs s @ [(canvas_id (r 1), duplicateOf d r)]"
    using dup(2) by (auto simp: canvas_pairs_patch canvas_pairs_def [of s])
  then have "map (\<lambda>n. (cn_id n, cn_draft n)) (bs_nodes ?s) = canvas_pairs s @ [(canvas_id (r 1), duplicateOf d r)]"
    by (simp add: canvas_pairs_def)
  moreover have "distinct (map fst (map (\<lambda>n. (cn_id n, cn_draft n)) (bs_nodes ?s)))"
    using dup(1) by (simp add: shows_chain_def comp_def)
  ultimately have "draft_at (bs_nodes ?s) (canvas_id (r 1)) = Some (duplicateOf d r)"
    unfolding draft_at_def by (intro map_of_is_SomeI) simp_all
  with False dup(1) show ?thesis by simp
qed

theorem duplicateNode_refines_witness:
  "shows_chain [''canvas_0'', ''canvas_1'', ''canvas_11'']
     (fst (duplicateNode (\<lambda>_ _ _ _. None) ''canvas_1'' example_state shifted_rng))"
proof -
  have d: "draft_at (bs_nodes example_state) ''canvas_1'' = Some (triggerNodeDraft\<lparr>bn_id := ''delay_1'', bn_type := Delay\<rparr>)"
    "canvas_id (shifted_rng (Suc 0)) = ''canvas_11''" by code_simp+
  show ?thesis
    using duplicateNode_refines [of "[''canvas_0'']" "''canvas_1''" "[]", OF _ d(1) example_fresh] example_chain
    by (simp add: d(2))
qed

text \<open>C7: removing a step of a chain of several steps joins its neighbours and clears the selection;
  removing the only step leaves a canvas with one new trigger.\<close>

theorem removeNode_refines:
  assumes "shows_chain (xs @ x # ys) s" and "fresh_for s r 1"
  shows "if xs @ ys \<noteq> [] then shows_chain (xs @ ys) (fst (removeNode dagre x s r))
    else shows_chain [canvas_id (r 0)] (fst (removeNode dagre x s r)) \<and>
      map cn_draft (bs_nodes (fst (removeNode dagre x s r))) = [triggerNodeDraft]"
  using remove_step(1) [OF assms(1) _ assms(2)] remove_last_step [of x s] assms(1) by auto

theorem removeNode_refines_witness:
  "shows_chain [''canvas_1''] (fst (removeNode (\<lambda>_ _ _ _. None) ''canvas_0'' example_state shifted_rng))"
proof -
  have "fresh_for example_state shifted_rng 1"
    using example_fresh by (auto simp: fresh_for_def)
  then show ?thesis
    using removeNode_refines [of "[]" "''canvas_0''" "[''canvas_1'']" example_state shifted_rng] example_chain by simp
qed

end
