(* ===== verification/Selectors.thy ===== *)
theory Selectors
  imports Builder_Store Validation
begin

text \<open>
  What the builder shows (\<open>store/builder/selectors.ts\<close>): the issues of each node, the nodes and edges as
  the canvas draws them, the selected node and edge with their labels and degrees.  The callbacks a
  node carries are parameters of type \<open>'a\<close>, the action the client runs.

  Issues are matched to nodes by a string prefix.  The lemmas say when that is right (at most ten
  nodes) and what it does beyond.
\<close>

section \<open>Issues of a node\<close>

text \<open>\<open>issue.path.startsWith(`nodes.${index}`)\<close>\<close>

definition issue_of :: "nat \<Rightarrow> wf_issue \<Rightarrow> bool" where
  "issue_of index i \<longleftrightarrow> js_starts_with (wi_path i) (node_path index)"

definition addNodeIssues :: "wf_issue list \<Rightarrow> nat \<times> node_draft \<Rightarrow> (string, wf_issue list) js_map \<Rightarrow> (string, wf_issue list) js_map" where
  "addNodeIssues issues x m = (case x of (index, draftNode) \<Rightarrow>
     (let nodeIssues = filter (issue_of index) issues
      in if length nodeIssues > 0 then map_set (bn_id draftNode) nodeIssues m else m))"

definition buildNodeIssuesMap :: "node_draft list \<Rightarrow> wf_issue list \<Rightarrow> (string, wf_issue list) js_map" where
  "buildNodeIssuesMap nodes issues = fold (addNodeIssues issues) (indexed nodes) []"

section \<open>Canvas enrichment\<close>

record 'a enriched_node = canvas_node +
  en_triggerEvent :: string
  en_onEditNode :: "string \<Rightarrow> 'a"
  en_onRemoveNode :: "string \<Rightarrow> 'a"
  en_onDuplicateNode :: "string \<Rightarrow> 'a"
  en_canDelete :: bool
  en_canDuplicate :: bool
  en_nodeIssues :: "wf_issue list"

definition enrichCanvasNodes ::
  "canvas_node list \<Rightarrow> string \<Rightarrow> (string \<Rightarrow> 'a) \<Rightarrow> (string \<Rightarrow> 'a) \<Rightarrow> (string option \<Rightarrow> string option \<Rightarrow> 'a)
     \<Rightarrow> (string, wf_issue list) js_map \<Rightarrow> rat \<Rightarrow> rat \<Rightarrow> 'a enriched_node list" where
  "enrichCanvasNodes nodes triggerEvent remove duplicate select nodeIssuesMap dx dy =
     map (\<lambda>node. \<lparr>cn_id = cn_id node, cn_type = cn_type node,
            cn_position = Position (pos_x (cn_position node) + dx) (pos_y (cn_position node) + dy),
            cn_draft = cn_draft node,
            en_triggerEvent = triggerEvent,
            en_onEditNode = (\<lambda>nodeId. select (Some nodeId) None),
            en_onRemoveNode = remove,
            en_onDuplicateNode = duplicate,
            en_canDelete = (bn_type (cn_draft node) \<noteq> Trigger),
            en_canDuplicate = (bn_type (cn_draft node) \<noteq> Trigger),
            en_nodeIssues = (case map_get nodeIssuesMap (bn_id (cn_draft node)) of None \<Rightarrow> [] | Some is \<Rightarrow> is)\<rparr>) nodes"

record 'a enriched_edge = canvas_edge +
  ee_onInsertNode :: "string \<Rightarrow> wf_node_type \<Rightarrow> string option \<Rightarrow> 'a"
  ee_isTerminal :: bool

text \<open>\<open>edge.data?.branch || ''\<close> keeps \<open>sourceHandle\<close>, \<open>type\<close> and \<open>label\<close> of the edge.\<close>

definition enrichCanvasEdges ::
  "canvas_edge list \<Rightarrow> canvas_node list \<Rightarrow> (string \<Rightarrow> wf_node_type \<Rightarrow> string option \<Rightarrow> 'a) \<Rightarrow> 'a enriched_edge list" where
  "enrichCanvasEdges edges nodes onInsert =
     (let mappedEdges = map (\<lambda>edge. \<lparr>ce_id = ce_id edge, ce_source = ce_source edge, ce_target = ce_target edge,
            ce_sourceHandle = ce_sourceHandle edge, ce_type = ce_type edge, ce_label = ce_label edge,
            ce_branch = Some (str_or_empty (ce_branch edge)),
            ee_onInsertNode = onInsert, ee_isTerminal = False\<rparr>) edges
      in case List.find (\<lambda>node. \<not> (\<exists>edge \<in> set edges. ce_source edge = cn_id node)) nodes of
           None \<Rightarrow> mappedEdges
         | Some lastNode \<Rightarrow> mappedEdges @
             [\<lparr>ce_id = terminal_prefix @ cn_id lastNode, ce_source = cn_id lastNode, ce_target = cn_id lastNode,
               ce_sourceHandle = Some ''default'', ce_type = ''workflow-edge'', ce_label = None, ce_branch = Some [],
               ee_onInsertNode = onInsert, ee_isTerminal = True\<rparr>])"

section \<open>Selection helpers\<close>

definition findSelectedNode :: "canvas_node list \<Rightarrow> string option \<Rightarrow> canvas_node option" where
  "findSelectedNode nodes selectedNodeId = List.find (\<lambda>n. Some (cn_id n) = selectedNodeId) nodes"

definition findSelectedEdge :: "canvas_edge list \<Rightarrow> string option \<Rightarrow> canvas_edge option" where
  "findSelectedEdge edges selectedEdgeId = List.find (\<lambda>e. Some (ce_id e) = selectedEdgeId) edges"

text \<open>\<open>findIndex\<close>: \<open>-1\<close> when nothing matches.\<close>

fun find_index :: "('a \<Rightarrow> bool) \<Rightarrow> 'a list \<Rightarrow> int" where
  "find_index P [] = -1"
| "find_index P (x # xs) = (if P x then 0 else (let i = find_index P xs in if i < 0 then -1 else i + 1))"

definition findSelectedNodeIndex :: "node_draft list \<Rightarrow> canvas_node option \<Rightarrow> int" where
  "findSelectedNodeIndex draftNodes selectedNode =
     (case selectedNode of None \<Rightarrow> -1
      | Some n \<Rightarrow> find_index (\<lambda>d. bn_id d = bn_id (cn_draft n)) draftNodes)"

definition getNodeIssueCount :: "wf_issue list \<Rightarrow> int \<Rightarrow> wf_issue list" where
  "getNodeIssueCount issues selectedNodeIndex =
     (if selectedNodeIndex < 0 then [] else filter (issue_of (nat selectedNodeIndex)) issues)"

record edge_counts =
  ec_incoming :: nat
  ec_outgoing :: nat

definition getConnectedEdgeCounts :: "canvas_edge list \<Rightarrow> canvas_node option \<Rightarrow> edge_counts" where
  "getConnectedEdgeCounts edges selectedNode =
     (case selectedNode of
        None \<Rightarrow> \<lparr>ec_incoming = 0, ec_outgoing = 0\<rparr>
      | Some n \<Rightarrow> \<lparr>ec_incoming = length (filter (\<lambda>e. ce_target e = cn_id n) edges),
                  ec_outgoing = length (filter (\<lambda>e. ce_source e = cn_id n) edges)\<rparr>)"

definition fallbackDraft :: node_draft where
  "fallbackDraft = \<lparr>bn_id = [], bn_name = [], bn_type = Delay, bn_duration = [], bn_templateId = [],
     bn_channel = [], bn_field = [], bn_operator = [], bn_value = []\<rparr>"

definition nodeLabel :: "canvas_node list \<Rightarrow> string \<Rightarrow> string" where
  "nodeLabel nodes i = getNodeDisplayName
     (case List.find (\<lambda>n. cn_id n = i) nodes of None \<Rightarrow> fallbackDraft | Some n \<Rightarrow> cn_draft n)"

definition getEdgeNodeLabels :: "canvas_edge option \<Rightarrow> canvas_node list \<Rightarrow> string \<times> string" where
  "getEdgeNodeLabels edge nodes =
     (case edge of None \<Rightarrow> ([], []) | Some e \<Rightarrow> (nodeLabel nodes (ce_source e), nodeLabel nodes (ce_target e)))"

section \<open>Prefixes and indices\<close>

lemma node_path_prefix: "prefix (node_path i) (node_path k @ s) \<longleftrightarrow> prefix (show_nat i) (show_nat k @ s)"
  by (simp add: node_path_def)

text \<open>The suffixes the validation appends to a node's path: nothing, or a dot and a field name.\<close>

definition dotted :: "string \<Rightarrow> bool" where
  "dotted s \<longleftrightarrow> s = [] \<or> hd s = CHR ''.''"

lemma prefix_digits:
  assumes "i < 10" and "k < 10"
  shows "prefix (show_nat i) (show_nat k @ s) \<longleftrightarrow> i = k"
  using assms by (auto simp: show_nat_small digit_char_inject)

lemma show_nat_extend: "0 < i \<Longrightarrow> j < 10 \<Longrightarrow> show_nat (10 * i + j) = show_nat i @ [digit_char j]"
  by (simp add: show_nat_large)

lemma issue_of_small:
  assumes "i < 10" and "k < 10"
  shows "issue_of i \<lparr>wi_path = node_path k @ s, wi_message = msg\<rparr> \<longleftrightarrow> i = k"
  using prefix_digits [OF assms] by (simp add: issue_of_def node_path_prefix)

lemma issue_of_extend:
  assumes "0 < i" and "j < 10"
  shows "issue_of i \<lparr>wi_path = node_path (10 * i + j) @ s, wi_message = msg\<rparr>"
  by (simp add: issue_of_def node_path_prefix show_nat_extend [OF assms])

lemma buildNodeIssuesMap_get:
  assumes "distinct (map bn_id nodes)" and "i < length nodes"
  shows "map_get (buildNodeIssuesMap nodes issues) (bn_id (nodes ! i)) =
    (if filter (issue_of i) issues = [] then None else Some (filter (issue_of i) issues))"
proof -
  have "map_get (fold (addNodeIssues issues) (enumerate k xs) m) b =
      (case List.find (\<lambda>x. bn_id (snd x) = b \<and> filter (issue_of (fst x)) issues \<noteq> []) (rev (enumerate k xs)) of
         None \<Rightarrow> map_get m b | Some x \<Rightarrow> Some (filter (issue_of (fst x)) issues))" for k xs m b
    by (induction xs arbitrary: k m)
      (auto simp: addNodeIssues_def Let_def map_get_set find_append split: option.split)
  note get = this [of 0 nodes "[]", folded buildNodeIssuesMap_def]
  have el: "x = (i, nodes ! i)" if "x \<in> set (rev (indexed nodes))" "bn_id (snd x) = bn_id (nodes ! i)" for x
  proof -
    have j: "fst x < length nodes" "x = (fst x, nodes ! fst x)"
      using that(1) by (auto simp: in_set_enumerate_eq prod_eq_iff)
    then have "snd x = nodes ! fst x" by (metis snd_conv)
    with that(2) assms(2) j(1) have "map bn_id nodes ! fst x = map bn_id nodes ! i" by simp
    then have "fst x = i" using nth_eq_iff_index_eq [OF assms(1)] j(1) assms(2) by simp
    then show ?thesis using j(2) by simp
  qed
  have mem: "(i, nodes ! i) \<in> set (rev (indexed nodes))" using assms(2) by (simp add: in_set_enumerate_eq)
  show ?thesis
  proof (cases "filter (issue_of i) issues = []")
    case True
    then have "List.find (\<lambda>x. bn_id (snd x) = bn_id (nodes ! i) \<and> filter (issue_of (fst x)) issues \<noteq> []) (rev (indexed nodes)) = None"
      unfolding find_None_iff using el by fastforce
    then show ?thesis unfolding get using True by simp
  next
    case False
    then obtain x where x: "List.find (\<lambda>x. bn_id (snd x) = bn_id (nodes ! i) \<and> filter (issue_of (fst x)) issues \<noteq> []) (rev (indexed nodes)) = Some x"
      using mem by (cases "List.find (\<lambda>x. bn_id (snd x) = bn_id (nodes ! i) \<and> filter (issue_of (fst x)) issues \<noteq> []) (rev (indexed nodes))")
        (auto simp: find_None_iff)
    from find_Some_conv [OF this] el have "x = (i, nodes ! i)" by blast
    then show ?thesis unfolding get x using False by simp
  qed
qed

section \<open>Properties\<close>

text \<open>With at most ten nodes of different ids, the issues the builder shows at a node are exactly
  those the validation filed under the node's own path.\<close>

theorem node_issues_exact:
  assumes "distinct (map bn_id nodes)" and "length nodes \<le> 10" and "i < length nodes"
    and "\<forall>x \<in> set issues. \<exists>k < length nodes. \<exists>s. dotted s \<and> wi_path x = node_path k @ s"
  shows "getNodeIssueCount issues (int i) =
      filter (\<lambda>x. \<exists>s. dotted s \<and> wi_path x = node_path i @ s) issues \<and>
    map_get (buildNodeIssuesMap nodes issues) (bn_id (nodes ! i)) =
      (if getNodeIssueCount issues (int i) = [] then None else Some (getNodeIssueCount issues (int i)))"
proof -
  have "issue_of i x \<longleftrightarrow> (\<exists>s. dotted s \<and> wi_path x = node_path i @ s)" if x: "x \<in> set issues" for x
  proof -
    from assms(4) x obtain k s where k: "k < length nodes" "dotted s" "wi_path x = node_path k @ s" by blast
    have "issue_of i x \<longleftrightarrow> i = k"
      using issue_of_small [of i k s "wi_message x"] k(1,3) assms(2,3) by (simp add: issue_of_def)
    moreover have "(\<exists>s. dotted s \<and> wi_path x = node_path i @ s) \<longrightarrow> issue_of i x"
      by (auto simp: issue_of_def)
    ultimately show ?thesis using k by blast
  qed
  then have "filter (issue_of i) issues = filter (\<lambda>x. \<exists>s. dotted s \<and> wi_path x = node_path i @ s) issues"
    by (intro filter_cong) auto
  then show ?thesis using buildNodeIssuesMap_get [OF assms(1,3), of issues] by (simp add: getNodeIssueCount_def)
qed

definition example_issues :: "wf_issue list" where
  "example_issues = [issue ''nodes.0.id'' ''Node ID is required.'', issue ''nodes.1'' ''x'']"

theorem node_issues_exact_witness:
  "map_get (buildNodeIssuesMap [fallbackDraft, fallbackDraft\<lparr>bn_id := ''b''\<rparr>] example_issues) ''b'' =
     Some [issue ''nodes.1'' ''x'']"
proof -
  have "\<forall>x \<in> set example_issues. \<exists>k < length [fallbackDraft, fallbackDraft\<lparr>bn_id := ''b''\<rparr>]. \<exists>s. dotted s \<and> wi_path x = node_path k @ s"
  proof -
    have "wi_path (issue ''nodes.0.id'' ''Node ID is required.'') = node_path 0 @ ''.id'' \<and> dotted ''.id''" by code_simp
    moreover have "wi_path (issue ''nodes.1'' ''x'') = node_path 1 @ [] \<and> dotted []" by code_simp
    ultimately have "\<exists>k<2. \<exists>s. dotted s \<and> wi_path (issue ''nodes.0.id'' ''Node ID is required.'') = node_path k @ s"
      "\<exists>k<2. \<exists>s. dotted s \<and> wi_path (issue ''nodes.1'' ''x'') = node_path k @ s"
      by (metis zero_less_numeral, metis one_less_numeral_iff semiring_norm(76))
    then show ?thesis by (simp add: example_issues_def numeral_2_eq_2)
  qed
  moreover have "distinct (map bn_id [fallbackDraft, fallbackDraft\<lparr>bn_id := ''b''\<rparr>])" by code_simp
  moreover have "getNodeIssueCount example_issues (int 1) = [issue ''nodes.1'' ''x'']" by code_simp
  ultimately show ?thesis
    using node_issues_exact [of "[fallbackDraft, fallbackDraft\<lparr>bn_id := ''b''\<rparr>]" 1 example_issues] by simp
qed

text \<open>Beyond ten nodes the prefix test files issues under the wrong node as well: every issue of node
  \<open>10 i + j\<close> is also counted for node \<open>i\<close>, for example those of node 10 for node 1.\<close>

theorem node_issues_misfiled:
  assumes "0 < i" and "j < 10" and "x \<in> set issues" and "wi_path x = node_path (10 * i + j) @ s"
  shows "x \<in> set (getNodeIssueCount issues (int i))"
  using assms issue_of_extend [OF assms(1,2), of s "wi_message x"] by (simp add: getNodeIssueCount_def issue_of_def)

theorem node_issues_misfiled_witness:
  "issue ''nodes.10.id'' ''m'' \<in> set (getNodeIssueCount [issue ''nodes.10.id'' ''m''] 1)"
proof -
  have "wi_path (issue ''nodes.10.id'' ''m'') = node_path (10 * 1 + 0) @ ''.id''" by code_simp
  then show ?thesis using node_issues_misfiled [of 1 0 "issue ''nodes.10.id'' ''m''" "[issue ''nodes.10.id'' ''m'']"] by simp
qed

text \<open>The canvas offers exactly one insertion point after the last step of a chain: the terminal edge
  is drawn from the last node, and every other edge is drawn with its id and ends.\<close>

theorem enrichCanvasEdges_chain:
  assumes "distinct p" and "p \<noteq> []" and "distinct (map cn_id nodes)" and "set (map cn_id nodes) = set p"
    and "mset (map edge_ends edges) = mset (links p)"
  shows "map (\<lambda>e. (ce_id e, edge_ends (canvas_edge.truncate e), ee_isTerminal e)) (enrichCanvasEdges edges nodes ins) =
    map (\<lambda>e. (ce_id e, edge_ends e, False)) edges @ [(terminal_prefix @ last p, (last p, last p), True)]"
proof -
  have src: "set (map ce_source edges) = set (butlast p)"
  proof -
    have "set (map edge_ends edges) = set (links p)" using assms(5) by (rule mset_eq_setD)
    then have "fst ` set (map edge_ends edges) = set (butlast p)" by (metis list.set_map map_fst_links)
    then show ?thesis by (simp add: image_image)
  qed
  have last: "x \<in> set p \<Longrightarrow> x \<notin> set (butlast p) \<longleftrightarrow> x = last p" for x
    using assms(1,2) by (cases p rule: rev_cases) auto
  have P: "(\<not> (\<exists>edge \<in> set edges. ce_source edge = cn_id n)) \<longleftrightarrow> cn_id n = last p" if "n \<in> set nodes" for n
  proof -
    have "cn_id n \<in> set p" using that assms(4) by auto
    moreover have "(\<exists>edge \<in> set edges. ce_source edge = cn_id n) \<longleftrightarrow> cn_id n \<in> set (butlast p)"
      unfolding src [symmetric] list.set_map image_iff by metis
    ultimately show ?thesis using last by blast
  qed
  have "last p \<in> cn_id ` set nodes" using assms(2,4) by (metis last_in_set list.set_map)
  then obtain m where m: "m \<in> set nodes" "cn_id m = last p" by auto
  have "List.find (\<lambda>node. \<not> (\<exists>edge \<in> set edges. ce_source edge = cn_id node)) nodes = List.find (\<lambda>n. cn_id n = cn_id m) nodes"
    using P m(2) by (intro find_cong refl) auto
  then have "List.find (\<lambda>node. \<not> (\<exists>edge \<in> set edges. ce_source edge = cn_id node)) nodes = Some m"
    using find_unique [OF assms(3) m(1)] by simp
  then show ?thesis by (simp add: enrichCanvasEdges_def Let_def m(2) canvas_edge.defs)
qed

theorem enrichCanvasEdges_chain_witness:
  "length (enrichCanvasEdges [] [\<lparr>cn_id = ''a'', cn_type = [], cn_position = Position 0 0, cn_draft = fallbackDraft\<rparr>] (\<lambda>_ _ _. ())) = 1"
  using arg_cong [OF enrichCanvasEdges_chain [of "[''a'']" "[\<lparr>cn_id = ''a'', cn_type = [], cn_position = Position 0 0, cn_draft = fallbackDraft\<rparr>]" "[]" "\<lambda>_ _ _. ()"], of length]
  by simp

end
