(* ===== verification/Backend_Proxy.thy ===== *)
theory Backend_Proxy
  imports Workflow_Types
begin

text \<open>
  The server side of the web client: the configuration (\<open>lib/config.ts\<close>), the session cookies
  (\<open>lib/auth-session.ts\<close>) and the proxy in front of the backend with its one-shot token refresh
  (\<open>lib/backend-api.ts\<close>).

  The network is a parameter: \<open>fetch w req\<close> gives the answer to one request (\<open>None\<close> when the promise is
  rejected) and the next state of the world.  JSON text is a parameter too: \<open>jparse\<close> is \<open>JSON.parse\<close>
  (\<open>None\<close> for a \<open>SyntaxError\<close>) and \<open>jprint\<close> is \<open>JSON.stringify\<close>.
\<close>

section \<open>Configuration\<close>

definition env_or :: "(string \<Rightarrow> string option) \<Rightarrow> string \<Rightarrow> string \<Rightarrow> string" where
  "env_or env key fallback = (case env key of None \<Rightarrow> fallback | Some v \<Rightarrow> v)"

record web_config =
  cf_apiUrl :: string
  cf_apiPort :: string
  cf_environment :: string

definition config_of :: "(string \<Rightarrow> string option) \<Rightarrow> web_config" where
  "config_of env = \<lparr>
     cf_apiUrl = env_or env ''API_URL'' (''http://localhost:'' @ env_or env ''API_PORT'' ''8080''),
     cf_apiPort = env_or env ''API_PORT'' ''8080'',
     cf_environment = env_or env ''ENVIRONMENT'' ''development''\<rparr>"

section \<open>Requests and responses\<close>

text \<open>Header names are case-insensitive: a \<open>Headers\<close> object keeps them in lower case.\<close>

type_synonym headers = "(string, string) js_map"

definition headers_set :: "string \<Rightarrow> string \<Rightarrow> headers \<Rightarrow> headers" where
  "headers_set k v h = map_set (js_lower k) v h"

definition headers_get :: "headers \<Rightarrow> string \<Rightarrow> string option" where
  "headers_get h k = map_get h (js_lower k)"

record request_init =
  ri_method :: string
  ri_headers :: headers
  ri_body :: "string option"

record http_request =
  hq_url :: string
  hq_method :: string
  hq_headers :: headers
  hq_body :: "string option"
  hq_cache :: string

record http_response =
  hr_status :: int
  hr_text :: string

type_synonym 'w fetch = "'w \<Rightarrow> http_request \<Rightarrow> http_response option \<times> 'w"

text \<open>An incoming request of the web server.\<close>

record next_request =
  rq_headers :: headers
  rq_cookies :: "(string, string) js_map"
  rq_body :: string
  rq_search :: string
  rq_query :: "(string, string) js_map"
  rq_protocol :: string

record cookie =
  ck_value :: string
  ck_httpOnly :: bool
  ck_path :: string
  ck_sameSite :: string
  ck_secure :: bool
  ck_maxAge :: "nat option"

record next_response =
  nr_status :: int
  nr_body :: "string option"
  nr_location :: "string option"
  nr_cookies :: "(string, cookie) js_map"

definition response_json :: "(json \<Rightarrow> string) \<Rightarrow> json \<Rightarrow> int \<Rightarrow> next_response" where
  "response_json jprint payload status =
     \<lparr>nr_status = status, nr_body = Some (jprint payload), nr_location = None, nr_cookies = []\<rparr>"

definition response_empty :: "int \<Rightarrow> next_response" where
  "response_empty status = \<lparr>nr_status = status, nr_body = None, nr_location = None, nr_cookies = []\<rparr>"

definition response_ok :: "next_response \<Rightarrow> bool" where
  "response_ok r \<longleftrightarrow> 200 \<le> nr_status r \<and> nr_status r < 300"

definition response_text :: "next_response \<Rightarrow> string" where
  "response_text r = str_or_empty (nr_body r)"

definition set_cookie :: "string \<Rightarrow> cookie \<Rightarrow> next_response \<Rightarrow> next_response" where
  "set_cookie name c r = r\<lparr>nr_cookies := map_set name c (nr_cookies r)\<rparr>"

section \<open>Session cookies (\<open>auth-session.ts\<close>)\<close>

definition sessionCookie :: "bool \<Rightarrow> string \<Rightarrow> cookie" where
  "sessionCookie production v = \<lparr>ck_value = v, ck_httpOnly = True, ck_path = ''/'', ck_sameSite = ''lax'',
     ck_secure = production, ck_maxAge = None\<rparr>"

definition expiredCookie :: "bool \<Rightarrow> cookie" where
  "expiredCookie production = (sessionCookie production [])\<lparr>ck_maxAge := Some 0\<rparr>"

record session_payload =
  sp_access_token :: string
  sp_refresh_token :: string
  sp_needs_onboarding :: bool

text \<open>\<open>isSessionPayload\<close> with the fields the caller reads; \<open>needs_onboarding === true\<close>.\<close>

definition session_of :: "json \<Rightarrow> session_payload option" where
  "session_of payload =
     (case payload of
        JObj o1 \<Rightarrow>
          (case (obj_str o1 ''access_token'', obj_str o1 ''refresh_token'') of
             (Some a, Some r) \<Rightarrow>
               Some \<lparr>sp_access_token = a, sp_refresh_token = r,
                     sp_needs_onboarding = (case map_of o1 ''needs_onboarding'' of Some (JBool b) \<Rightarrow> b | _ \<Rightarrow> False)\<rparr>
           | _ \<Rightarrow> None)
      | _ \<Rightarrow> None)"

definition setOnboardingCookie :: "bool \<Rightarrow> bool \<Rightarrow> next_response \<Rightarrow> next_response" where
  "setOnboardingCookie production needsOnboarding r =
     (if needsOnboarding then set_cookie ''needs_onboarding'' (sessionCookie production ''true'') r
      else set_cookie ''needs_onboarding'' (expiredCookie production) r)"

definition setSessionCookies :: "bool \<Rightarrow> session_payload \<Rightarrow> next_response \<Rightarrow> next_response" where
  "setSessionCookies production p r =
     (let r1 = (if sp_access_token p \<noteq> [] then set_cookie ''access_token'' (sessionCookie production (sp_access_token p)) r else r);
          r2 = (if sp_refresh_token p \<noteq> [] then set_cookie ''refresh_token'' (sessionCookie production (sp_refresh_token p)) r1 else r1)
      in setOnboardingCookie production (sp_needs_onboarding p) r2)"

definition clearSessionCookies :: "bool \<Rightarrow> next_response \<Rightarrow> next_response" where
  "clearSessionCookies production r =
     set_cookie ''needs_onboarding'' (expiredCookie production)
       (set_cookie ''refresh_token'' (expiredCookie production)
         (set_cookie ''access_token'' (expiredCookie production) r))"

text \<open>The text of a response as JSON: nothing is \<open>{}\<close>, a text that does not parse an error object.\<close>

definition payload_of_text :: "(string \<Rightarrow> json option) \<Rightarrow> string \<Rightarrow> json" where
  "payload_of_text jparse raw =
     (if raw = [] then JObj []
      else case jparse raw of Some v \<Rightarrow> v | None \<Rightarrow> JObj [(''error'', JStr (js_or raw ''Request failed''))])"

definition withSessionCookies ::
  "(string \<Rightarrow> json option) \<Rightarrow> (json \<Rightarrow> string) \<Rightarrow> bool \<Rightarrow> next_response \<Rightarrow> next_response" where
  "withSessionCookies jparse jprint production response =
     (let payload = payload_of_text jparse (response_text response);
          nextResponse = response_json jprint payload (nr_status response)
      in case session_of payload of
           Some p \<Rightarrow> setSessionCookies production p nextResponse
         | None \<Rightarrow> nextResponse)"

section \<open>The proxy (\<open>backend-api.ts\<close>)\<close>

record backend_result =
  br_status :: int
  br_payload :: json

definition resolveAuthHeader :: "next_request \<Rightarrow> string option" where
  "resolveAuthHeader req =
     (case headers_get (rq_headers req) ''authorization'' of
        Some a \<Rightarrow> if a \<noteq> [] then Some a
                  else (case map_get (rq_cookies req) ''access_token'' of
                          Some t \<Rightarrow> if t \<noteq> [] then Some (''Bearer '' @ t) else None | None \<Rightarrow> None)
      | None \<Rightarrow> (case map_get (rq_cookies req) ''access_token'' of
                   Some t \<Rightarrow> if t \<noteq> [] then Some (''Bearer '' @ t) else None | None \<Rightarrow> None))"

definition normalizePath :: "string \<Rightarrow> string" where
  "normalizePath path = (if js_starts_with path ''/'' then path else ''/'' @ path)"

definition getErrorMessage :: "json \<Rightarrow> string" where
  "getErrorMessage payload =
     (case payload of
        JObj o1 \<Rightarrow> str_or_empty (obj_str o1 ''error'')
      | JStr s \<Rightarrow> s
      | _ \<Rightarrow> [])"

definition shouldAttemptRefresh :: "backend_result \<Rightarrow> bool" where
  "shouldAttemptRefresh result =
     (if br_status result \<noteq> 401 then False
      else js_includes (js_lower (getErrorMessage (br_payload result))) ''bearer token'')"

definition toNextResponse :: "(json \<Rightarrow> string) \<Rightarrow> backend_result \<Rightarrow> next_response" where
  "toNextResponse jprint result =
     (if br_status result = 204 then response_empty 204
      else response_json jprint (br_payload result) (br_status result))"

definition backendRequest :: "string \<Rightarrow> string \<Rightarrow> request_init \<Rightarrow> string option \<Rightarrow> http_request" where
  "backendRequest base path init authHeader =
     (let h1 = ri_headers init;
          h2 = (if truthy authHeader then headers_set ''Authorization'' (str_or_empty authHeader) h1 else h1);
          h3 = headers_set ''Accept'' ''application/json'' h2;
          h4 = (if truthy (ri_body init) \<and> headers_get h3 ''Content-Type'' = None
                then headers_set ''Content-Type'' ''application/json'' h3 else h3)
      in \<lparr>hq_url = base @ normalizePath path, hq_method = ri_method init, hq_headers = h4,
          hq_body = ri_body init, hq_cache = ''no-store''\<rparr>)"

definition backendResult :: "(string \<Rightarrow> json option) \<Rightarrow> http_response option \<Rightarrow> backend_result" where
  "backendResult jparse answer =
     (case answer of
        None \<Rightarrow> \<lparr>br_status = 502, br_payload = JObj [(''error'', JStr ''Failed to reach backend service'')]\<rparr>
      | Some response \<Rightarrow>
          if hr_status response = 204 then \<lparr>br_status = 204, br_payload = JNull\<rparr>
          else \<lparr>br_status = hr_status response, br_payload = payload_of_text jparse (hr_text response)\<rparr>)"

record 'w web_env =
  we_fetch :: "'w fetch"
  we_jparse :: "string \<Rightarrow> json option"
  we_jprint :: "json \<Rightarrow> string"
  we_base :: string
  we_production :: bool

definition sendToBackend ::
  "'w web_env \<Rightarrow> string \<Rightarrow> request_init \<Rightarrow> string option \<Rightarrow> 'w \<Rightarrow> backend_result \<times> 'w" where
  "sendToBackend env path init authHeader w =
     (let (answer, w') = we_fetch env w (backendRequest (we_base env) path init authHeader)
      in (backendResult (we_jparse env) answer, w'))"

definition post_init :: "string \<Rightarrow> request_init" where
  "post_init body = \<lparr>ri_method = ''POST'', ri_headers = [], ri_body = Some body\<rparr>"

definition refreshInit :: "'w web_env \<Rightarrow> string \<Rightarrow> request_init" where
  "refreshInit env refreshToken = post_init (we_jprint env (JObj [(''refresh_token'', JStr refreshToken)]))"

definition refreshSession ::
  "'w web_env \<Rightarrow> next_request \<Rightarrow> 'w \<Rightarrow> (session_payload option \<times> bool) \<times> 'w" where
  "refreshSession env req w =
     (case map_get (rq_cookies req) ''refresh_token'' of
        None \<Rightarrow> ((None, False), w)
      | Some refreshToken \<Rightarrow>
          if refreshToken = [] then ((None, False), w)
          else
            (let (result, w') = sendToBackend env ''/auth/refresh'' (refreshInit env refreshToken) None w
             in if 200 \<le> br_status result \<and> br_status result < 300 \<and> session_of (br_payload result) \<noteq> None
                then ((session_of (br_payload result), False), w')
                else ((None, br_status result = 400 \<or> br_status result = 401), w')))"

definition missingToken :: "(json \<Rightarrow> string) \<Rightarrow> next_response" where
  "missingToken jprint = response_json jprint (JObj [(''error'', JStr ''Missing bearer token'')]) 401"

definition applySession :: "bool \<Rightarrow> session_payload option \<Rightarrow> bool \<Rightarrow> next_response \<Rightarrow> next_response" where
  "applySession production refreshedSession shouldClear response =
     (case refreshedSession of
        Some p \<Rightarrow> setSessionCookies production p response
      | None \<Rightarrow> if shouldClear then clearSessionCookies production response else response)"

definition proxyBackend ::
  "'w web_env \<Rightarrow> next_request \<Rightarrow> string \<Rightarrow> request_init \<Rightarrow> 'w \<Rightarrow> next_response \<times> 'w" where
  "proxyBackend env req path init w =
     (case resolveAuthHeader req of
        None \<Rightarrow>
          (let ((refreshedSession, shouldClear), w1) = refreshSession env req w
           in case refreshedSession of
                None \<Rightarrow>
                  (let response = missingToken (we_jprint env)
                   in (if shouldClear then clearSessionCookies (we_production env) response else response, w1))
              | Some s \<Rightarrow>
                  (let (result, w2) = sendToBackend env path init (Some (''Bearer '' @ sp_access_token s)) w1
                   in (applySession (we_production env) refreshedSession shouldClear
                         (toNextResponse (we_jprint env) result), w2)))
      | Some authHeader \<Rightarrow>
          (let (result, w1) = sendToBackend env path init (Some authHeader) w
           in if shouldAttemptRefresh result then
                (let ((refreshedSession, shouldClear), w2) = refreshSession env req w1;
                     (result', w3) =
                       (case refreshedSession of
                          Some s \<Rightarrow> sendToBackend env path init (Some (''Bearer '' @ sp_access_token s)) w2
                        | None \<Rightarrow> (result, w2))
                 in (applySession (we_production env) refreshedSession shouldClear
                       (toNextResponse (we_jprint env) result'), w3))
              else (toNextResponse (we_jprint env) result, w1)))"

definition proxyBackendPublic :: "'w web_env \<Rightarrow> string \<Rightarrow> request_init \<Rightarrow> 'w \<Rightarrow> next_response \<times> 'w" where
  "proxyBackendPublic env path init w =
     (let (result, w') = sendToBackend env path init None w in (toNextResponse (we_jprint env) result, w'))"

section \<open>The requests a handler makes\<close>

text \<open>The same network, with every request recorded.\<close>

definition logged :: "'w web_env \<Rightarrow> ('w \<times> http_request list) web_env" where
  "logged env = \<lparr>we_fetch = (\<lambda>(w, lg) q. let (a, w') = we_fetch env w q in (a, (w', lg @ [q]))),
     we_jparse = we_jparse env, we_jprint = we_jprint env, we_base = we_base env, we_production = we_production env\<rparr>"

definition refreshRequest :: "'w web_env \<Rightarrow> string \<Rightarrow> http_request" where
  "refreshRequest env t = backendRequest (we_base env) ''/auth/refresh'' (refreshInit env t) None"

lemma logged_fields [simp]:
  "we_jparse (logged env) = we_jparse env" "we_jprint (logged env) = we_jprint env"
  "we_base (logged env) = we_base env" "we_production (logged env) = we_production env"
  "refreshInit (logged env) t = refreshInit env t"
  by (simp_all add: logged_def refreshInit_def)

lemma sendToBackend_logged:
  "sendToBackend (logged env) path init a (w, lg) =
     (let (r, w') = sendToBackend env path init a w
      in (r, (w', lg @ [backendRequest (we_base env) path init a])))"
  by (simp add: sendToBackend_def Let_def split_beta) (simp add: logged_def Let_def split_beta)

lemma refreshSession_logged:
  "refreshSession (logged env) req (w, lg) =
     (let (s, w') = refreshSession env req w
      in (s, (w', lg @ (case map_get (rq_cookies req) ''refresh_token'' of
                           None \<Rightarrow> [] | Some t \<Rightarrow> if t = [] then [] else [refreshRequest env t]))))"
  by (auto simp: refreshSession_def sendToBackend_logged refreshRequest_def Let_def split_beta split: option.splits)

lemma headers_get_set: "headers_get (headers_set k v h) k' = (if js_lower k' = js_lower k then Some v else headers_get h k')"
  by (simp add: headers_get_def headers_set_def map_get_set)

lemma header_names:
  "js_lower ''Authorization'' \<noteq> js_lower ''Accept''" "js_lower ''Authorization'' \<noteq> js_lower ''Content-Type''"
  "js_lower ''Content-Type'' \<noteq> js_lower ''Authorization''" "js_lower ''Content-Type'' \<noteq> js_lower ''Accept''"
  by code_simp+

lemma backendRequest_authorization:
  "a \<noteq> [] \<Longrightarrow> headers_get (hq_headers (backendRequest base path init (Some a))) ''Authorization'' = Some a"
  by (simp add: backendRequest_def Let_def headers_get_set header_names)

lemma backendRequest_fields [record_simps]:
  "hq_url (backendRequest base path init a) = base @ normalizePath path"
  "hq_method (backendRequest base path init a) = ri_method init"
  "hq_body (backendRequest base path init a) = ri_body init"
  by (simp_all add: backendRequest_def Let_def)

lemma resolveAuthHeader_not_Nil: "resolveAuthHeader req = Some a \<Longrightarrow> a \<noteq> []"
  by (auto simp: resolveAuthHeader_def split: option.splits if_splits)

text \<open>The two kinds of requests the proxy sends: the caller's request with a token, and the refresh.\<close>

definition main_request :: "'w web_env \<Rightarrow> string \<Rightarrow> request_init \<Rightarrow> http_request \<Rightarrow> bool" where
  "main_request env path init q \<longleftrightarrow> (\<exists>a. a \<noteq> [] \<and> q = backendRequest (we_base env) path init (Some a))"

definition refresh_request :: "'w web_env \<Rightarrow> next_request \<Rightarrow> http_request \<Rightarrow> bool" where
  "refresh_request env req q \<longleftrightarrow>
     (\<exists>t. map_get (rq_cookies req) ''refresh_token'' = Some t \<and> t \<noteq> [] \<and> q = refreshRequest env t)"

text \<open>The log of one proxied call: the request itself, at most one refresh, at most one repetition.\<close>

definition proxy_log :: "'w web_env \<Rightarrow> next_request \<Rightarrow> string \<Rightarrow> request_init \<Rightarrow> http_request list \<Rightarrow> bool" where
  "proxy_log env req path init lg \<longleftrightarrow>
     (\<exists>ms rs ms'. lg = ms @ rs @ ms' \<and> length ms \<le> 1 \<and> length rs \<le> 1 \<and> length ms' \<le> length rs \<and>
        list_all (main_request env path init) (ms @ ms') \<and> list_all (refresh_request env req) rs)"

lemma proxy_logI:
  "list_all (main_request env path init) (ms @ ms') \<Longrightarrow> list_all (refresh_request env req) rs \<Longrightarrow>
     length ms \<le> 1 \<Longrightarrow> length rs \<le> 1 \<Longrightarrow> length ms' \<le> length rs \<Longrightarrow> proxy_log env req path init (ms @ rs @ ms')"
  unfolding proxy_log_def by blast

lemma refreshSession_no_cookie:
  "map_get (rq_cookies req) ''refresh_token'' \<in> {None, Some []} \<Longrightarrow> refreshSession env req w = ((None, False), w)"
  by (auto simp: refreshSession_def)

lemma main_requestI: "main_request env path init (backendRequest (we_base env) path init (Some (''Bearer '' @ t)))"
  unfolding main_request_def by (rule exI [of _ "''Bearer '' @ t"]) simp

lemma proxyBackend_log: "proxy_log env req path init (snd (snd (proxyBackend (logged env) req path init (w, []))))"
proof -
  let ?ref = "case map_get (rq_cookies req) ''refresh_token'' of None \<Rightarrow> [] | Some t \<Rightarrow> if t = [] then [] else [refreshRequest env t]"
  let ?again = "\<lambda>s. case s of None \<Rightarrow> []
    | Some s \<Rightarrow> [backendRequest (we_base env) path init (Some (''Bearer '' @ sp_access_token s))]"
  have ref: "list_all (refresh_request env req) ?ref" "length ?ref \<le> 1"
    by (auto simp: refresh_request_def split: option.splits)
  have again: "list_all (main_request env path init) (?again s)" for s :: "session_payload option"
    using main_requestI by (auto split: option.splits)
  have len: "length (?again s) \<le> length ?ref" if "refreshSession env req w = ((s, c), w')" for s c w w'
    using that refreshSession_no_cookie [of req env w] by (auto split: option.splits)
  show ?thesis
  proof (cases "resolveAuthHeader req")
    case None
    obtain s c w1 where rs: "refreshSession env req w = ((s, c), w1)" by (metis prod.collapse)
    have lg: "snd (snd (proxyBackend (logged env) req path init (w, []))) = [] @ ?ref @ ?again s"
      using None rs
      by (auto simp: proxyBackend_def refreshSession_logged sendToBackend_logged Let_def split_beta split: option.splits)
    show ?thesis unfolding lg using ref again len [OF rs] by (intro proxy_logI) simp_all
  next
    case (Some a)
    let ?first = "[backendRequest (we_base env) path init (Some a)]"
    have first: "list_all (main_request env path init) ?first"
      using resolveAuthHeader_not_Nil [OF Some] by (auto simp: main_request_def)
    obtain r w1 where r: "sendToBackend env path init (Some a) w = (r, w1)" by (metis prod.collapse)
    obtain s c w2 where rs: "refreshSession env req w1 = ((s, c), w2)" by (metis prod.collapse)
    have lg: "snd (snd (proxyBackend (logged env) req path init (w, []))) =
        (if shouldAttemptRefresh r then ?first @ ?ref @ ?again s else ?first @ [] @ [])"
      using Some r rs
      by (auto simp: proxyBackend_def refreshSession_logged sendToBackend_logged Let_def split_beta split: option.splits)
    show ?thesis
    proof (cases "shouldAttemptRefresh r")
      case True
      then show ?thesis unfolding lg using first ref again len [OF rs] by (simp only: if_True) (intro proxy_logI; simp)
    next
      case False
      then show ?thesis unfolding lg using first by (simp only: if_False) (intro proxy_logI; simp)
    qed
  qed
qed

section \<open>The cookies of a response\<close>

definition safe_cookies :: "bool \<Rightarrow> next_response \<Rightarrow> bool" where
  "safe_cookies production r \<longleftrightarrow>
     (\<forall>k c. map_get (nr_cookies r) k = Some c \<longrightarrow>
        ck_httpOnly c \<and> ck_path c = ''/'' \<and> ck_sameSite c = ''lax'' \<and> (production \<longrightarrow> ck_secure c))"

lemma safe_cookies_set:
  "safe_cookies production r \<Longrightarrow> c \<in> {sessionCookie production v, expiredCookie production} \<Longrightarrow>
     safe_cookies production (set_cookie k c r)"
  by (auto simp: safe_cookies_def set_cookie_def map_get_set sessionCookie_def expiredCookie_def)

lemma safe_cookies_session:
  "safe_cookies production r \<Longrightarrow> safe_cookies production (setSessionCookies production p r)"
  "safe_cookies production r \<Longrightarrow> safe_cookies production (clearSessionCookies production r)"
  "safe_cookies production r \<Longrightarrow> safe_cookies production (setOnboardingCookie production b r)"
  by (auto simp: setSessionCookies_def setOnboardingCookie_def clearSessionCookies_def Let_def
      intro!: safe_cookies_set [where v = "sp_access_token p"] safe_cookies_set [where v = "sp_refresh_token p"]
        safe_cookies_set [where v = "''true''"] safe_cookies_set)

lemma safe_cookies_plain:
  "safe_cookies production (response_json jprint v n)" "safe_cookies production (response_empty n)"
  by (simp_all add: safe_cookies_def response_json_def response_empty_def)

lemma proxyBackend_safe_cookies: "safe_cookies (we_production env) (fst (proxyBackend env req path init w))"
proof -
  have t: "safe_cookies p (toNextResponse jp r)" for p jp r
    by (simp add: toNextResponse_def safe_cookies_plain)
  have m: "safe_cookies p (missingToken jp)" for p jp
    by (simp add: missingToken_def safe_cookies_plain)
  have a: "safe_cookies p (applySession p s c (toNextResponse jp r))" for p s c jp r
    using t by (auto simp: applySession_def intro: safe_cookies_session split: option.split)
  show ?thesis
    by (auto simp: proxyBackend_def Let_def t m a safe_cookies_session split: option.splits prod.splits)
qed

section \<open>Properties\<close>

text \<open>C16: a proxied call never talks to the backend without a token, and sends at most three requests: the
  caller's request, one token refresh, and one repetition of the request after the refresh.  The refresh
  carries the caller's refresh cookie; every other request carries a non-empty \<open>Authorization\<close> header,
  the caller's method and body, and the route's path.\<close>

theorem proxy_requests:
  "\<exists>ms rs ms'. snd (snd (proxyBackend (logged env) req path init (w, []))) = ms @ rs @ ms' \<and>
     length ms \<le> 1 \<and> length rs \<le> 1 \<and> length ms' \<le> length rs \<and>
     list_all (refresh_request env req) rs \<and>
     list_all (\<lambda>q. hq_url q = we_base env @ normalizePath path \<and> hq_method q = ri_method init \<and> hq_body q = ri_body init \<and>
       truthy (headers_get (hq_headers q) ''Authorization'')) (ms @ ms')"
proof -
  have m: "hq_url q = we_base env @ normalizePath path \<and> hq_method q = ri_method init \<and> hq_body q = ri_body init \<and>
       truthy (headers_get (hq_headers q) ''Authorization'')" if "main_request env path init q" for q
    using that by (auto simp: main_request_def record_simps backendRequest_authorization)
  from proxyBackend_log [of env req path init w, unfolded proxy_log_def]
  obtain ms rs ms' where "snd (snd (proxyBackend (logged env) req path init (w, []))) = ms @ rs @ ms'"
    "length ms \<le> 1" "length rs \<le> 1" "length ms' \<le> length rs"
    "list_all (main_request env path init) (ms @ ms')" "list_all (refresh_request env req) rs" by blast
  then show ?thesis
    by (intro exI [of _ ms] exI [of _ rs] exI [of _ ms'] conjI) (auto simp: list_all_iff dest: m)
qed

text \<open>C38: every cookie a proxied response sets is http-only, for the whole site, same-site lax, and secure in
  production.\<close>

theorem proxy_cookies_safe:
  "safe_cookies (we_production env) (fst (proxyBackend env req path init w))"
  by (rule proxyBackend_safe_cookies)

text \<open>C18: when the backend cannot be reached, a proxied call answers 502, or 401 when the caller has no
  token, and sets and clears no cookie: an outage never ends a session.\<close>

theorem proxy_outage:
  assumes "\<And>w q. fst (we_fetch env w q) = None"
  shows "nr_cookies (fst (proxyBackend env req path init w)) = [] \<and>
    nr_status (fst (proxyBackend env req path init w)) = (if resolveAuthHeader req = None then 401 else 502)"
proof -
  have s: "fst (sendToBackend env p i a w) = \<lparr>br_status = 502, br_payload = JObj [(''error'', JStr ''Failed to reach backend service'')]\<rparr>"
    for p i a w using assms by (simp add: sendToBackend_def backendResult_def Let_def split_beta)
  have r: "fst (refreshSession env req w) = (None, False)" for w
    using s by (auto simp: refreshSession_def Let_def split_beta split: option.splits)
  have n: "\<not> shouldAttemptRefresh \<lparr>br_status = 502, br_payload = v\<rparr>" for v
    by (simp add: shouldAttemptRefresh_def)
  show ?thesis
    using s r n
    by (auto simp: proxyBackend_def Let_def split_beta toNextResponse_def response_json_def missingToken_def split: option.splits)
qed

definition offline_env :: "unit web_env" where
  "offline_env = \<lparr>we_fetch = (\<lambda>_ _. (None, ())), we_jparse = (\<lambda>_. None), we_jprint = (\<lambda>_. []),
     we_base = ''http://localhost:8080'', we_production = True\<rparr>"

definition token_request :: next_request where
  "token_request = \<lparr>rq_headers = [(''authorization'', ''Bearer a'')], rq_cookies = [(''refresh_token'', ''r'')],
     rq_body = [], rq_search = [], rq_query = [], rq_protocol = ''http:''\<rparr>"

theorem proxy_outage_witness:
  "nr_status (fst (proxyBackend offline_env token_request ''/stats'' \<lparr>ri_method = ''GET'', ri_headers = [], ri_body = None\<rparr> ())) = 502"
proof -
  have "resolveAuthHeader token_request \<noteq> None" by code_simp
  moreover have "\<And>w q. fst (we_fetch offline_env w q) = None" by (simp add: offline_env_def)
  ultimately show ?thesis using proxy_outage [of offline_env token_request] by simp
qed

end
