(* ===== verification/Routes.thy ===== *)
theory Routes
  imports Backend_Proxy
begin

text \<open>
  The route handlers of the web server (\<open>web/src/app/api/**/route.ts\<close>) and \<open>lib/wrap-data.ts\<close>.  A
  handler gets the request, the value of its dynamic path segment (\<open>i\<close>; handlers without one ignore
  it) and the world; \<open>None\<close> is a rejected promise.  The lemmas show that every protected route talks to
  the backend only through the proxy, what happens to the session cookies on each route, and the
  redirects of the social sign-in.
\<close>

type_synonym 'w handler = "'w web_env \<Rightarrow> next_request \<Rightarrow> string \<Rightarrow> 'w \<Rightarrow> next_response option \<times> 'w"

definition bare_init :: "string \<Rightarrow> request_init" where
  "bare_init m = \<lparr>ri_method = m, ri_headers = [], ri_body = None\<rparr>"

definition body_init :: "string \<Rightarrow> next_request \<Rightarrow> request_init" where
  "body_init m req = \<lparr>ri_method = m, ri_headers = [], ri_body = Some (rq_body req)\<rparr>"

section \<open>Helpers of the handlers\<close>

definition proxied :: "'w web_env \<Rightarrow> next_request \<Rightarrow> string \<Rightarrow> request_init \<Rightarrow> 'w \<Rightarrow> next_response option \<times> 'w" where
  "proxied env req path init w = (let (r, w') = proxyBackend env req path init w in (Some r, w'))"

definition wrapData :: "'w web_env \<Rightarrow> next_response \<Rightarrow> next_response option" where
  "wrapData env response =
     (if \<not> response_ok response \<or> nr_status response = 204 then Some response
      else case we_jparse env (response_text response) of
             None \<Rightarrow> None
           | Some payload \<Rightarrow> Some (response_json (we_jprint env) (JObj [(''data'', payload)]) (nr_status response)))"

definition wrapped :: "'w web_env \<Rightarrow> next_request \<Rightarrow> string \<Rightarrow> request_init \<Rightarrow> 'w \<Rightarrow> next_response option \<times> 'w" where
  "wrapped env req path init w = (let (r, w') = proxyBackend env req path init w in (wrapData env r, w'))"

definition public_call :: "'w web_env \<Rightarrow> string \<Rightarrow> request_init \<Rightarrow> 'w \<Rightarrow> next_response option \<times> 'w" where
  "public_call env path init w = (let (r, w') = proxyBackendPublic env path init w in (Some r, w'))"

definition session_call :: "'w web_env \<Rightarrow> string \<Rightarrow> request_init \<Rightarrow> 'w \<Rightarrow> next_response option \<times> 'w" where
  "session_call env path init w =
     (let (r, w') = proxyBackendPublic env path init w
      in (Some (if \<not> response_ok r then r
                else withSessionCookies (we_jparse env) (we_jprint env) (we_production env) r), w'))"

section \<open>The handlers\<close>

definition apikeys_id_DELETE :: "'w handler" where
  "apikeys_id_DELETE env req i = proxied env req (''/apikeys/'' @ i) (bare_init ''DELETE'')"

definition apikeys_GET :: "'w handler" where
  "apikeys_GET env req i = proxied env req (''/apikeys'') (bare_init ''GET'')"

definition apikeys_POST :: "'w handler" where
  "apikeys_POST env req i = proxied env req (''/apikeys'') (body_init ''POST'' req)"

definition auth_me_GET :: "'w handler" where
  "auth_me_GET env req i = proxied env req (''/auth/me'') (bare_init ''GET'')"

definition events_POST :: "'w handler" where
  "events_POST env req i = proxied env req (''/events'') (body_init ''POST'' req)"

definition integrations_id_DELETE :: "'w handler" where
  "integrations_id_DELETE env req i = proxied env req (''/integrations/'' @ i) (bare_init ''DELETE'')"

definition integrations_id_PUT :: "'w handler" where
  "integrations_id_PUT env req i = proxied env req (''/integrations/'' @ i) (body_init ''PUT'' req)"

definition integrations_id_PATCH :: "'w handler" where
  "integrations_id_PATCH env req i = proxied env req (''/integrations/'' @ i) (body_init ''PATCH'' req)"

definition integrations_GET :: "'w handler" where
  "integrations_GET env req i = proxied env req (''/integrations'') (bare_init ''GET'')"

definition integrations_POST :: "'w handler" where
  "integrations_POST env req i = proxied env req (''/integrations'') (body_init ''POST'' req)"

definition notifications_id_poll_GET :: "'w handler" where
  "notifications_id_poll_GET env req i = proxied env req (''/notifications/'' @ i @ ''/poll'') (bare_init ''GET'')"

definition notifications_id_GET :: "'w handler" where
  "notifications_id_GET env req i = proxied env req (''/notifications/'' @ i) (bare_init ''GET'')"

definition notifications_GET :: "'w handler" where
  "notifications_GET env req i = proxied env req (''/notifications'') (bare_init ''GET'')"

definition notifications_POST :: "'w handler" where
  "notifications_POST env req i = proxied env req (''/notifications'') (body_init ''POST'' req)"

definition notifications_test_send_POST :: "'w handler" where
  "notifications_test_send_POST env req i = proxied env req (''/notifications/test-send'') (body_init ''POST'' req)"

definition notifications_trigger_POST :: "'w handler" where
  "notifications_trigger_POST env req i = proxied env req (''/notifications/trigger'') (body_init ''POST'' req)"

definition stats_GET :: "'w handler" where
  "stats_GET env req i = proxied env req (''/stats'') (bare_init ''GET'')"

definition subscriber_id_GET :: "'w handler" where
  "subscriber_id_GET env req i = wrapped env req (''/subscribers/'' @ i) (bare_init ''GET'')"

definition subscriber_id_PUT :: "'w handler" where
  "subscriber_id_PUT env req i = wrapped env req (''/subscribers/'' @ i) (body_init ''PUT'' req)"

definition subscriber_id_DELETE :: "'w handler" where
  "subscriber_id_DELETE env req i = proxied env req (''/subscribers/'' @ i) (bare_init ''DELETE'')"

definition subscriber_GET :: "'w handler" where
  "subscriber_GET env req i = wrapped env req (''/subscribers'') (bare_init ''GET'')"

definition subscriber_POST :: "'w handler" where
  "subscriber_POST env req i = wrapped env req (''/subscribers'') (body_init ''POST'' req)"

definition templates_id_GET :: "'w handler" where
  "templates_id_GET env req i = proxied env req (''/templates/'' @ i) (bare_init ''GET'')"

definition templates_id_PATCH :: "'w handler" where
  "templates_id_PATCH env req i = proxied env req (''/templates/'' @ i) (body_init ''PATCH'' req)"

definition templates_id_DELETE :: "'w handler" where
  "templates_id_DELETE env req i = proxied env req (''/templates/'' @ i) (bare_init ''DELETE'')"

definition templates_GET :: "'w handler" where
  "templates_GET env req i = proxied env req (''/templates'') (bare_init ''GET'')"

definition templates_POST :: "'w handler" where
  "templates_POST env req i = proxied env req (''/templates'') (body_init ''POST'' req)"

definition templates_upsert_POST :: "'w handler" where
  "templates_upsert_POST env req i = proxied env req (''/templates/upsert'') (body_init ''POST'' req)"

definition workflow_executions_id_GET :: "'w handler" where
  "workflow_executions_id_GET env req i = proxied env req (''/workflow-executions/'' @ i) (bare_init ''GET'')"

definition workflow_executions_GET :: "'w handler" where
  "workflow_executions_GET env req i = proxied env req (''/workflow-executions'' @ rq_search req) (bare_init ''GET'')"

definition workflows_id_activities_GET :: "'w handler" where
  "workflows_id_activities_GET env req i = proxied env req (''/workflows/'' @ i @ ''/activities'' @ rq_search req) (bare_init ''GET'')"

definition workflows_id_pause_POST :: "'w handler" where
  "workflows_id_pause_POST env req i = proxied env req (''/workflows/'' @ i @ ''/pause'') (bare_init ''POST'')"

definition workflows_id_resume_POST :: "'w handler" where
  "workflows_id_resume_POST env req i = proxied env req (''/workflows/'' @ i @ ''/resume'') (bare_init ''POST'')"

definition workflows_id_GET :: "'w handler" where
  "workflows_id_GET env req i = proxied env req (''/workflows/'' @ i) (bare_init ''GET'')"

definition workflows_id_PUT :: "'w handler" where
  "workflows_id_PUT env req i = proxied env req (''/workflows/'' @ i) (body_init ''PUT'' req)"

definition workflows_id_DELETE :: "'w handler" where
  "workflows_id_DELETE env req i = proxied env req (''/workflows/'' @ i) (bare_init ''DELETE'')"

definition workflows_GET :: "'w handler" where
  "workflows_GET env req i = proxied env req (''/workflows'') (bare_init ''GET'')"

definition workflows_POST :: "'w handler" where
  "workflows_POST env req i = proxied env req (''/workflows'') (body_init ''POST'' req)"

definition forgot_password_POST :: "'w handler" where
  "forgot_password_POST env req i w = public_call env ''/auth/forgot-password'' (body_init ''POST'' req) w"

definition resend_verification_POST :: "'w handler" where
  "resend_verification_POST env req i w = public_call env ''/auth/resend-verification'' (body_init ''POST'' req) w"

definition reset_password_POST :: "'w handler" where
  "reset_password_POST env req i w = public_call env ''/auth/reset-password'' (body_init ''POST'' req) w"

definition verify_reset_code_POST :: "'w handler" where
  "verify_reset_code_POST env req i w = public_call env ''/auth/verify-reset-code'' (body_init ''POST'' req) w"

definition signin_POST :: "'w handler" where
  "signin_POST env req i w = session_call env ''/auth/signin'' (body_init ''POST'' req) w"

definition signup_POST :: "'w handler" where
  "signup_POST env req i w = session_call env ''/auth/signup'' (body_init ''POST'' req) w"

definition verify_email_POST :: "'w handler" where
  "verify_email_POST env req i w = session_call env ''/auth/verify-email'' (body_init ''POST'' req) w"

section \<open>Handlers with logic of their own\<close>

text \<open>\<open>(await req.json().catch(() => null))?.refresh_token\<close>, else the cookie.\<close>

definition requestRefreshToken :: "'w web_env \<Rightarrow> next_request \<Rightarrow> string option" where
  "requestRefreshToken env req =
     (case we_jparse env (rq_body req) of
        Some (JObj o1) \<Rightarrow>
          (case obj_str o1 ''refresh_token'' of Some t \<Rightarrow> Some t | None \<Rightarrow> map_get (rq_cookies req) ''refresh_token'')
      | _ \<Rightarrow> map_get (rq_cookies req) ''refresh_token'')"

definition logout_POST :: "'w handler" where
  "logout_POST env req i w =
     (let refreshToken = requestRefreshToken env req;
          w' = (if truthy refreshToken
                then snd (proxyBackendPublic env ''/auth/logout'' (refreshInit env (str_or_empty refreshToken)) w)
                else w)
      in (Some (clearSessionCookies (we_production env) (response_empty 204)), w'))"

definition refresh_POST :: "'w handler" where
  "refresh_POST env req i w =
     (let refreshToken = requestRefreshToken env req
      in if \<not> truthy refreshToken then
           (Some (response_json (we_jprint env) (JObj [(''error'', JStr ''Refresh token is required'')]) 400), w)
         else session_call env ''/auth/refresh'' (refreshInit env (str_or_empty refreshToken)) w)"

definition onboarding_POST :: "'w handler" where
  "onboarding_POST env req i w =
     (let (response, w') = proxyBackend env req ''/auth/onboarding'' (body_init ''POST'' req) w
      in if \<not> response_ok response then (Some response, w')
         else (Some (setOnboardingCookie (we_production env) False
                 (response_json (we_jprint env) (payload_of_text (we_jparse env) (response_text response))
                   (nr_status response))), w'))"

definition isSupportedProvider :: "string \<Rightarrow> bool" where
  "isSupportedProvider provider \<longleftrightarrow> provider = ''google'' \<or> provider = ''github''"

definition response_redirect :: "string \<Rightarrow> next_response" where
  "response_redirect url = \<lparr>nr_status = 307, nr_body = None, nr_location = Some url, nr_cookies = []\<rparr>"

definition social_provider_GET :: "'w handler" where
  "social_provider_GET env req provider w =
     (if \<not> isSupportedProvider provider
      then (Some (response_json (we_jprint env) (JObj [(''error'', JStr ''Unsupported social provider'')]) 400), w)
      else (Some (response_redirect (we_base env @ ''/auth/social/'' @ provider)), w))"

definition callbackOrigin :: "next_request \<Rightarrow> string" where
  "callbackOrigin req =
     rq_protocol req @ ''//'' @ (case headers_get (rq_headers req) ''host'' of Some h \<Rightarrow> h | None \<Rightarrow> ''localhost:3000'')"

definition social_callback_GET :: "'w handler" where
  "social_callback_GET env req i w =
     (let accessToken = map_get (rq_query req) ''access_token'';
          refreshToken = map_get (rq_query req) ''refresh_token'';
          needsOnboarding = map_get (rq_query req) ''needs_onboarding'';
          origin = callbackOrigin req;
          secure = (rq_protocol req = ''https:'')
      in if \<not> truthy accessToken \<or> \<not> truthy refreshToken
         then (Some (response_redirect (origin @ ''/auth/login?error=missing_tokens'')), w)
         else
           (let response = response_redirect (origin @ (if needsOnboarding = Some ''true'' then ''/auth/onboarding'' else ''/dashboard''));
                r1 = set_cookie ''access_token'' (sessionCookie secure (str_or_empty accessToken)) response;
                r2 = set_cookie ''refresh_token'' (sessionCookie secure (str_or_empty refreshToken)) r1;
                r3 = (if needsOnboarding = Some ''true''
                      then set_cookie ''needs_onboarding'' (sessionCookie secure ''true'') r2
                      else set_cookie ''needs_onboarding'' (expiredCookie secure) r2)
            in (Some r3, w)))"

section \<open>The routes\<close>

text \<open>
  The handlers by method and directory (\<open>app/api/...\<close>); \<open>None\<close> is a dynamic directory \<open>[id]\<close>.  A
  static directory wins over a dynamic one, so the static paths come first.
\<close>

definition route_table :: "(string \<times> string option list \<times> 'w handler) list" where
  "route_table =
    [(''GET'', [Some ''api'', Some ''apikeys''], apikeys_GET),
     (''POST'', [Some ''api'', Some ''apikeys''], apikeys_POST),
     (''GET'', [Some ''api'', Some ''auth'', Some ''me''], auth_me_GET),
     (''POST'', [Some ''api'', Some ''events''], events_POST),
     (''GET'', [Some ''api'', Some ''integrations''], integrations_GET),
     (''POST'', [Some ''api'', Some ''integrations''], integrations_POST),
     (''GET'', [Some ''api'', Some ''notifications''], notifications_GET),
     (''POST'', [Some ''api'', Some ''notifications''], notifications_POST),
     (''POST'', [Some ''api'', Some ''notifications'', Some ''test-send''], notifications_test_send_POST),
     (''POST'', [Some ''api'', Some ''notifications'', Some ''trigger''], notifications_trigger_POST),
     (''GET'', [Some ''api'', Some ''stats''], stats_GET),
     (''GET'', [Some ''api'', Some ''subscriber''], subscriber_GET),
     (''POST'', [Some ''api'', Some ''subscriber''], subscriber_POST),
     (''GET'', [Some ''api'', Some ''templates''], templates_GET),
     (''POST'', [Some ''api'', Some ''templates''], templates_POST),
     (''POST'', [Some ''api'', Some ''templates'', Some ''upsert''], templates_upsert_POST),
     (''GET'', [Some ''api'', Some ''workflow-executions''], workflow_executions_GET),
     (''GET'', [Some ''api'', Some ''workflows''], workflows_GET),
     (''POST'', [Some ''api'', Some ''workflows''], workflows_POST),
     (''POST'', [Some ''api'', Some ''auth'', Some ''forgot-password''], forgot_password_POST),
     (''POST'', [Some ''api'', Some ''auth'', Some ''resend-verification''], resend_verification_POST),
     (''POST'', [Some ''api'', Some ''auth'', Some ''reset-password''], reset_password_POST),
     (''POST'', [Some ''api'', Some ''auth'', Some ''verify-reset-code''], verify_reset_code_POST),
     (''POST'', [Some ''api'', Some ''auth'', Some ''signin''], signin_POST),
     (''POST'', [Some ''api'', Some ''auth'', Some ''signup''], signup_POST),
     (''POST'', [Some ''api'', Some ''auth'', Some ''verify-email''], verify_email_POST),
     (''POST'', [Some ''api'', Some ''auth'', Some ''logout''], logout_POST),
     (''POST'', [Some ''api'', Some ''auth'', Some ''refresh''], refresh_POST),
     (''POST'', [Some ''api'', Some ''auth'', Some ''onboarding''], onboarding_POST),
     (''GET'', [Some ''api'', Some ''auth'', Some ''social'', Some ''callback''], social_callback_GET),
     (''DELETE'', [Some ''api'', Some ''apikeys'', None], apikeys_id_DELETE),
     (''DELETE'', [Some ''api'', Some ''integrations'', None], integrations_id_DELETE),
     (''PUT'', [Some ''api'', Some ''integrations'', None], integrations_id_PUT),
     (''PATCH'', [Some ''api'', Some ''integrations'', None], integrations_id_PATCH),
     (''GET'', [Some ''api'', Some ''notifications'', None, Some ''poll''], notifications_id_poll_GET),
     (''GET'', [Some ''api'', Some ''notifications'', None], notifications_id_GET),
     (''GET'', [Some ''api'', Some ''subscriber'', None], subscriber_id_GET),
     (''PUT'', [Some ''api'', Some ''subscriber'', None], subscriber_id_PUT),
     (''DELETE'', [Some ''api'', Some ''subscriber'', None], subscriber_id_DELETE),
     (''GET'', [Some ''api'', Some ''templates'', None], templates_id_GET),
     (''PATCH'', [Some ''api'', Some ''templates'', None], templates_id_PATCH),
     (''DELETE'', [Some ''api'', Some ''templates'', None], templates_id_DELETE),
     (''GET'', [Some ''api'', Some ''workflow-executions'', None], workflow_executions_id_GET),
     (''GET'', [Some ''api'', Some ''workflows'', None, Some ''activities''], workflows_id_activities_GET),
     (''POST'', [Some ''api'', Some ''workflows'', None, Some ''pause''], workflows_id_pause_POST),
     (''POST'', [Some ''api'', Some ''workflows'', None, Some ''resume''], workflows_id_resume_POST),
     (''GET'', [Some ''api'', Some ''workflows'', None], workflows_id_GET),
     (''PUT'', [Some ''api'', Some ''workflows'', None], workflows_id_PUT),
     (''DELETE'', [Some ''api'', Some ''workflows'', None], workflows_id_DELETE),
     (''GET'', [Some ''api'', Some ''auth'', Some ''social'', None], social_provider_GET)]"

text \<open>The routes anyone may call: signing in and up, and what precedes a session or ends it.\<close>

definition public_routes :: "string option list list" where
  "public_routes =
     map ((@) [Some ''api'', Some ''auth''])
       [[Some ''signin''], [Some ''signup''], [Some ''logout''], [Some ''refresh''], [Some ''verify-email''],
        [Some ''resend-verification''], [Some ''forgot-password''], [Some ''verify-reset-code''],
        [Some ''reset-password''], [Some ''social'', Some ''callback''], [Some ''social'', None]]"

text \<open>
  What a route should ask the backend for.  Its path is the one of its directory without \<open>api\<close>, with the
  value \<open>i\<close> of the dynamic directory; the backend names the subscribers in the plural.  The query string
  is passed on by the lists of executions and of activities.
\<close>

definition route_path :: "string option list \<Rightarrow> string \<Rightarrow> string" where
  "route_path ds i =
     concat (map (\<lambda>d. ''/'' @ (case d of None \<Rightarrow> i | Some s \<Rightarrow> if s = ''subscriber'' then ''subscribers'' else s)) (tl ds))"

definition route_query :: "string option list \<Rightarrow> next_request \<Rightarrow> string" where
  "route_query ds req =
     (if ds \<in> {[Some ''api'', Some ''workflow-executions''], [Some ''api'', Some ''workflows'', None, Some ''activities'']}
      then rq_search req else [])"

definition route_body :: "string \<Rightarrow> string option list \<Rightarrow> next_request \<Rightarrow> string option" where
  "route_body m ds req =
     (if m \<in> {''POST'', ''PUT'', ''PATCH''} \<and> last ds \<notin> {Some ''pause'', Some ''resume''} then Some (rq_body req) else None)"

definition route_request ::
  "'w web_env \<Rightarrow> next_request \<Rightarrow> string \<Rightarrow> string option list \<Rightarrow> string \<Rightarrow> http_request \<Rightarrow> bool" where
  "route_request env req m ds i q \<longleftrightarrow>
     truthy (headers_get (hq_headers q) ''Authorization'') \<and> hq_method q = m \<and>
     hq_url q = we_base env @ route_path ds i @ route_query ds req \<and> hq_body q = route_body m ds req"

section \<open>Every protected route goes through the proxy\<close>

text \<open>A handler that sends nothing but the caller's refresh and one kind of authorised request.\<close>

definition sends_only :: "('w \<times> http_request list) handler \<Rightarrow> ('w web_env \<Rightarrow> next_request \<Rightarrow> string \<Rightarrow> http_request \<Rightarrow> bool) \<Rightarrow> bool" where
  "sends_only h P \<longleftrightarrow>
     (\<forall>env req i w. list_all (\<lambda>q. refresh_request env req q \<or> P env req i q) (snd (snd (h (logged env) req i (w, [])))))"

lemma proxy_sends:
  assumes "\<And>q. main_request env path init q \<Longrightarrow> P q"
  shows "list_all (\<lambda>q. refresh_request env req q \<or> P q) (snd (snd (proxyBackend (logged env) req path init (w, []))))"
  using proxyBackend_log [of env req path init w] assms unfolding proxy_log_def by (auto simp: list_all_iff)

lemma route_requestI:
  assumes "normalizePath path = route_path ds i @ route_query ds req" and "ri_method init = m" and "ri_body init = route_body m ds req"
    and "main_request env path init q"
  shows "route_request env req m ds i q"
  using assms by (auto simp: main_request_def route_request_def record_simps backendRequest_authorization)

lemma sends_onlyI:
  assumes "\<And>env req i w. snd (h (logged env) req i (w, [])) = snd (proxyBackend (logged env) req (path req i) (init req) (w, []))"
    and "\<And>req i. normalizePath (path req i) = route_path ds i @ route_query ds req"
    and "\<And>req. ri_method (init req) = m \<and> ri_body (init req) = route_body m ds req"
  shows "sends_only h (\<lambda>env req. route_request env req m ds)"
  unfolding sends_only_def assms(1) using assms(2,3) by (blast intro: proxy_sends route_requestI)

lemma sends_proxied:
  "(\<And>req i. normalizePath (path req i) = route_path ds i @ route_query ds req) \<Longrightarrow>
   (\<And>req. ri_method (init req) = m \<and> ri_body (init req) = route_body m ds req) \<Longrightarrow>
   sends_only (\<lambda>env req i. proxied env req (path req i) (init req)) (\<lambda>env req. route_request env req m ds)"
  by (rule sends_onlyI [where path = path and init = init]) (simp_all add: proxied_def split_beta)

lemma sends_wrapped:
  "(\<And>req i. normalizePath (path req i) = route_path ds i @ route_query ds req) \<Longrightarrow>
   (\<And>req. ri_method (init req) = m \<and> ri_body (init req) = route_body m ds req) \<Longrightarrow>
   sends_only (\<lambda>env req i. wrapped env req (path req i) (init req)) (\<lambda>env req. route_request env req m ds)"
  by (rule sends_onlyI [where path = path and init = init]) (simp_all add: wrapped_def split_beta)

lemma sends_onboarding:
  "sends_only onboarding_POST (\<lambda>env req. route_request env req ''POST'' [Some ''api'', Some ''auth'', Some ''onboarding''])"
  by (rule sends_onlyI [where path = "\<lambda>_ _. ''/auth/onboarding''" and init = "body_init ''POST''"])
    (simp_all add: onboarding_POST_def Let_def split_beta normalizePath_def route_path_def route_query_def route_body_def body_init_def)

lemmas protected_defs =
  apikeys_id_DELETE_def apikeys_GET_def apikeys_POST_def auth_me_GET_def
  events_POST_def integrations_id_DELETE_def integrations_id_PUT_def integrations_id_PATCH_def
  integrations_GET_def integrations_POST_def notifications_id_poll_GET_def notifications_id_GET_def
  notifications_GET_def notifications_POST_def notifications_test_send_POST_def notifications_trigger_POST_def
  stats_GET_def subscriber_id_GET_def subscriber_id_PUT_def subscriber_id_DELETE_def
  subscriber_GET_def subscriber_POST_def templates_id_GET_def templates_id_PATCH_def
  templates_id_DELETE_def templates_GET_def templates_POST_def templates_upsert_POST_def
  workflow_executions_id_GET_def workflow_executions_GET_def workflows_id_activities_GET_def workflows_id_pause_POST_def
  workflows_id_resume_POST_def workflows_id_GET_def workflows_id_PUT_def workflows_id_DELETE_def
  workflows_GET_def workflows_POST_def

lemmas route_spec_defs =
  normalizePath_def route_path_def route_query_def route_body_def bare_init_def body_init_def

lemma protected_rows:
  "list_all (\<lambda>(m, ds, h). ds \<in> set public_routes \<or> sends_only h (\<lambda>env req. route_request env req m ds)) route_table"
  unfolding route_table_def list.pred_inject(2) prod.case
  by (intro conjI list.pred_inject(1))
    ((rule disjI1, (simp add: public_routes_def; fail)) | (rule disjI2, rule sends_onboarding) |
     (rule disjI2, subst protected_defs [abs_def], (rule sends_proxied | rule sends_wrapped),
      (simp add: route_spec_defs; fail), (simp add: route_spec_defs; fail)))+

section \<open>Properties\<close>

text \<open>C17: every route of the server except the public ones of signing in, whatever the request, sends the
  backend only the caller's own token refresh and requests with a non-empty \<open>Authorization\<close> header, and
  the latter ask for exactly what the route stands for: its method, its own path with the value of the
  dynamic directory, and the caller's body.\<close>

theorem protected_routes_authorised:
  assumes "(m, ds, h) \<in> set route_table" and "ds \<notin> set public_routes"
  shows "list_all (\<lambda>q. refresh_request env req q \<or>
      truthy (headers_get (hq_headers q) ''Authorization'') \<and> hq_method q = m \<and>
      hq_url q = we_base env @ route_path ds i @ route_query ds req \<and> hq_body q = route_body m ds req)
    (snd (snd (h (logged env) req i (w, []))))"
  using protected_rows assms unfolding sends_only_def route_request_def by (fastforce simp: list_all_iff)

theorem protected_routes_authorised_witness:
  "list_all (\<lambda>q. refresh_request offline_env token_request q \<or>
      truthy (headers_get (hq_headers q) ''Authorization'') \<and> hq_method q = ''PATCH'' \<and>
      hq_url q = ''http://localhost:8080/templates/t1'' \<and> hq_body q = Some (rq_body token_request))
    (snd (snd (templates_id_PATCH (logged offline_env) token_request ''t1'' ((), []))))"
  using protected_routes_authorised [of "''PATCH''" "[Some ''api'', Some ''templates'', None]" templates_id_PATCH
      offline_env token_request "''t1''" "()"]
  by (simp add: route_table_def public_routes_def route_path_def route_query_def route_body_def offline_env_def)

text \<open>The list of subscribers is asked for without the query, so a search for subscribers finds all of them.\<close>

lemma subscriber_search_dropped: "subscriber_GET env (req\<lparr>rq_search := s, rq_query := qs\<rparr>) i w = subscriber_GET env req i w"
proof -
  have "resolveAuthHeader (req\<lparr>rq_search := s, rq_query := qs\<rparr>) = resolveAuthHeader req"
    by (simp add: resolveAuthHeader_def cong: option.case_cong if_cong)
  moreover have "refreshSession env (req\<lparr>rq_search := s, rq_query := qs\<rparr>) = refreshSession env req"
    by (intro ext) (simp add: refreshSession_def cong: option.case_cong if_cong)
  ultimately show ?thesis by (simp only: subscriber_GET_def wrapped_def proxyBackend_def)
qed

text \<open>C39: the handlers that rebuild the proxied response lose the renewed session: a successful answer of the
  subscriber routes (except 204) has no cookie, and one of the onboarding route only the onboarding cookie,
  even when the proxy has just refreshed the caller's tokens.\<close>

theorem rebuilt_response_drops_session:
  assumes "response_ok (fst (proxyBackend env req path init w))" and "nr_status (fst (proxyBackend env req path init w)) \<noteq> 204"
    and "fst (wrapped env req path init w) = Some r"
  shows "nr_cookies r = [] \<and>
    (path = ''/auth/onboarding'' \<and> init = body_init ''POST'' req \<longrightarrow>
       (\<exists>r'. fst (onboarding_POST env req i w) = Some r' \<and> map_keys (nr_cookies r') = [''needs_onboarding'']))"
proof -
  have "nr_cookies r = []"
    using assms by (auto simp: wrapped_def wrapData_def Let_def split_beta response_json_def split: option.splits)
  then show ?thesis
    using assms(1) by (auto simp: onboarding_POST_def Let_def split_beta setOnboardingCookie_def set_cookie_def response_json_def)
qed

definition renewing_env :: "unit web_env" where
  "renewing_env = \<lparr>we_fetch = (\<lambda>_ _. (Some \<lparr>hr_status = 200, hr_text = ''s''\<rparr>, ())),
     we_jparse = (\<lambda>_. Some (JObj [(''access_token'', JStr ''a''), (''refresh_token'', JStr ''b'')])),
     we_jprint = (\<lambda>_. ''s''), we_base = [], we_production = True\<rparr>"

definition cookie_request :: next_request where
  "cookie_request = \<lparr>rq_headers = [], rq_cookies = [(''refresh_token'', ''r'')],
     rq_body = [], rq_search = [], rq_query = [], rq_protocol = ''http:''\<rparr>"

theorem rebuilt_response_drops_session_witness:
  "map_get (nr_cookies (fst (proxyBackend renewing_env cookie_request ''/subscribers'' (bare_init ''GET'') ()))) ''access_token'' \<noteq> None \<and>
   (\<exists>r. fst (subscriber_GET renewing_env cookie_request [] ()) = Some r \<and> nr_cookies r = [])"
proof
  show "map_get (nr_cookies (fst (proxyBackend renewing_env cookie_request ''/subscribers'' (bare_init ''GET'') ()))) ''access_token'' \<noteq> None"
    by code_simp
  have "response_ok (fst (proxyBackend renewing_env cookie_request ''/subscribers'' (bare_init ''GET'') ()))"
    "nr_status (fst (proxyBackend renewing_env cookie_request ''/subscribers'' (bare_init ''GET'') ())) \<noteq> 204"
    "fst (wrapped renewing_env cookie_request ''/subscribers'' (bare_init ''GET'') ()) \<noteq> None"
    by code_simp+
  then show "\<exists>r. fst (subscriber_GET renewing_env cookie_request [] ()) = Some r \<and> nr_cookies r = []"
    using rebuilt_response_drops_session [of renewing_env cookie_request "''/subscribers''" "bare_init ''GET''" "()"]
    unfolding subscriber_GET_def by blast
qed

text \<open>Logging out always answers 204 and expires the three session cookies, whether the backend could be
  told or not; the backend is told exactly when a refresh token is known.\<close>

theorem logout_clears:
  "\<exists>r. fst (logout_POST (logged env) req i (w, [])) = Some r \<and> nr_status r = 204 \<and>
     (\<forall>k \<in> {''access_token'', ''refresh_token'', ''needs_onboarding''}.
        map_get (nr_cookies r) k = Some (expiredCookie (we_production env))) \<and>
     length (snd (snd (logout_POST (logged env) req i (w, [])))) =
       (if truthy (requestRefreshToken env req) then 1 else 0)"
proof -
  have q: "requestRefreshToken (logged env) req = requestRefreshToken env req"
    by (simp add: requestRefreshToken_def)
  have l: "length (snd (snd (proxyBackendPublic (logged env) p ini (w, [])))) = 1" for p ini
    by (simp add: proxyBackendPublic_def sendToBackend_logged Let_def split_beta)
  show ?thesis
    by (simp add: logout_POST_def Let_def clearSessionCookies_def set_cookie_def response_empty_def map_get_set q l)
qed

theorem logout_clears_witness:
  "\<exists>r. fst (logout_POST (logged offline_env) token_request [] ((), [])) = Some r \<and> nr_status r = 204"
  using logout_clears [of offline_env token_request "[]" "()"] by blast

text \<open>The social sign-in callback redirects inside the site only; without both tokens it goes to the login
  page and sets no cookie, with them it goes to the dashboard, or to onboarding when asked, with http-only
  cookies holding exactly the two tokens.\<close>

theorem social_callback_redirects:
  "\<exists>r p. fst (social_callback_GET env req i w) = Some r \<and> nr_location r = Some (callbackOrigin req @ p) \<and>
     safe_cookies (rq_protocol req = ''https:'') r \<and>
     (if truthy (map_get (rq_query req) ''access_token'') \<and> truthy (map_get (rq_query req) ''refresh_token'')
      then p = (if map_get (rq_query req) ''needs_onboarding'' = Some ''true'' then ''/auth/onboarding'' else ''/dashboard'') \<and>
        map_option ck_value (map_get (nr_cookies r) ''access_token'') = map_get (rq_query req) ''access_token'' \<and>
        map_option ck_value (map_get (nr_cookies r) ''refresh_token'') = map_get (rq_query req) ''refresh_token''
      else p = ''/auth/login?error=missing_tokens'' \<and> nr_cookies r = [])"
proof (cases "truthy (map_get (rq_query req) ''access_token'') \<and> truthy (map_get (rq_query req) ''refresh_token'')")
  case False
  then show ?thesis
    by (simp add: social_callback_GET_def Let_def response_redirect_def safe_cookies_def)
next
  case True
  then obtain a r where ar: "map_get (rq_query req) ''access_token'' = Some a" "map_get (rq_query req) ''refresh_token'' = Some r"
    "a \<noteq> []" "r \<noteq> []" by (auto simp: truthy_def split: option.splits)
  have base: "safe_cookies s (response_redirect u)" for s u
    by (simp add: safe_cookies_def response_redirect_def)
  have safe: "safe_cookies s (set_cookie k1 c1 (set_cookie ''refresh_token'' (sessionCookie s r) (set_cookie ''access_token'' (sessionCookie s a) (response_redirect u))))"
    if "c1 \<in> {sessionCookie s ''true'', expiredCookie s}" for s u k1 c1
    by (rule safe_cookies_set [OF _ that], rule safe_cookies_set [where v = r], rule safe_cookies_set [where v = a])
      (simp_all add: base)
  show ?thesis using ar safe
    by (simp add: social_callback_GET_def Let_def)
      (auto simp: set_cookie_def map_get_set response_redirect_def sessionCookie_def)
qed

end
