(* ===== verification/Api_Client.thy ===== *)
theory Api_Client
  imports Routes
begin

text \<open>
  The browser side of the HTTP interface: the request function with its error handling
  (\<open>lib/api-client.ts\<close>) and the methods of the API modules (\<open>features/*/api.ts\<close>), each as the call it
  makes.  The lemmas show how errors of every kind reach the caller, that a value put into a path cannot
  leave its segment, and that every call reaches a handler of the web server.
\<close>

section \<open>\<open>encodeURIComponent\<close>\<close>

definition uri_unreserved :: "char \<Rightarrow> bool" where
  "uri_unreserved c \<longleftrightarrow>
     (let n = (of_char c :: nat)
      in 65 \<le> n \<and> n \<le> 90 \<or> 97 \<le> n \<and> n \<le> 122 \<or> 48 \<le> n \<and> n \<le> 57 \<or> n \<in> {45, 95, 46, 33, 126, 42, 39, 40, 41})"

definition hex_digit :: "nat \<Rightarrow> char" where
  "hex_digit d = (if d < 10 then char_of (48 + d) else char_of (55 + d))"

definition percent_byte :: "nat \<Rightarrow> string" where
  "percent_byte n = [CHR ''%'', hex_digit (n div 16), hex_digit (n mod 16)]"

text \<open>The UTF-8 bytes of a code unit below 256, each as a percent escape.\<close>

definition percent_encode :: "char \<Rightarrow> string" where
  "percent_encode c =
     (let n = (of_char c :: nat)
      in if n < 128 then percent_byte n else percent_byte (192 + n div 64) @ percent_byte (128 + n mod 64))"

definition encodeURIComponent :: "string \<Rightarrow> string" where
  "encodeURIComponent s = concat (map (\<lambda>c. if uri_unreserved c then [c] else percent_encode c) s)"

section \<open>The request function (\<open>api-client.ts\<close>)\<close>

text \<open>A body is text (or another \<open>BodyInit\<close>), a plain object, or form data, which is sent as it is.\<close>

datatype request_body = BodyText string | BodyObject json | BodyForm string

record api_init =
  ai_method :: "string option"
  ai_headers :: headers
  ai_body :: "request_body option"
  ai_cache :: "string option"

record wire_init =
  wi_method :: "string option"
  wi_headers :: headers
  wi_body :: "request_body option"
  wi_cache :: string

datatype api_error =
    ApiError string int "json option"
  | FetchRejected
  | BadJson

definition has_object_body :: "api_init option \<Rightarrow> bool" where
  "has_object_body init = (case init of None \<Rightarrow> False
     | Some i \<Rightarrow> (case ai_body i of Some (BodyObject _) \<Rightarrow> True | _ \<Rightarrow> False))"

definition buildRequestInit :: "(json \<Rightarrow> string) \<Rightarrow> api_init option \<Rightarrow> wire_init" where
  "buildRequestInit jprint init =
     (let h0 = (case init of None \<Rightarrow> [] | Some i \<Rightarrow> ai_headers i);
          given = (case init of None \<Rightarrow> None | Some i \<Rightarrow> ai_method i);
          m = (if truthy given then str_or_empty given else ''GET'');
          h1 = (if m = ''GET'' then headers_set ''browserrefreshed'' ''false'' h0 else h0);
          h2 = (if has_object_body init then headers_set ''Content-Type'' ''application/json'' h1 else h1);
          body = (case init of None \<Rightarrow> None | Some i \<Rightarrow> ai_body i)
      in \<lparr>wi_method = given, wi_headers = h2,
          wi_body = (case body of Some (BodyObject v) \<Rightarrow> Some (BodyText (jprint v)) | _ \<Rightarrow> body),
          wi_cache = (case init of None \<Rightarrow> ''no-store'' | Some i \<Rightarrow> (case ai_cache i of None \<Rightarrow> ''no-store'' | Some c \<Rightarrow> c))\<rparr>)"

text \<open>\<open>response.text()\<close> may reject; the code then reads an empty text.\<close>

record browser_response =
  bw_status :: int
  bw_text :: "string option"

definition parseBody :: "(string \<Rightarrow> json option) \<Rightarrow> browser_response \<Rightarrow> string \<times> json option" where
  "parseBody jparse response =
     (let fallback = ''Request failed''; text = str_or_empty (bw_text response)
      in if text = [] then (fallback, None)
         else case jparse text of
                None \<Rightarrow> (js_or (js_trim text) fallback, None)
              | Some JNull \<Rightarrow> (js_or (js_trim text) fallback, None)
              | Some (JObj o1) \<Rightarrow>
                  ((case obj_str o1 ''error'' of Some e \<Rightarrow> e
                    | None \<Rightarrow> (case obj_str o1 ''message'' of Some e \<Rightarrow> e | None \<Rightarrow> fallback)), Some (JObj o1))
              | Some v \<Rightarrow> (fallback, Some v))"

record 'w browser_env =
  be_fetch :: "'w \<Rightarrow> string \<Rightarrow> wire_init \<Rightarrow> browser_response option \<times> 'w"
  be_jparse :: "string \<Rightarrow> json option"
  be_jprint :: "json \<Rightarrow> string"

text \<open>The result is the error thrown, or the parsed body (\<open>None\<close> for \<open>undefined\<close>).\<close>

definition request :: "'w browser_env \<Rightarrow> string \<Rightarrow> api_init option \<Rightarrow> 'w \<Rightarrow> (api_error + json option) \<times> 'w" where
  "request env path init w =
     (let (answer, w') = be_fetch env w path (buildRequestInit (be_jprint env) init)
      in (case answer of
            None \<Rightarrow> Inl FetchRejected
          | Some response \<Rightarrow>
              if \<not> (200 \<le> bw_status response \<and> bw_status response < 300) then
                (let (message, body) = parseBody (be_jparse env) response
                 in Inl (ApiError message (bw_status response) body))
              else if bw_status response = 204 then Inr None
              else (case bw_text response of
                      None \<Rightarrow> Inl FetchRejected
                    | Some t \<Rightarrow> (case be_jparse env t of None \<Rightarrow> Inl BadJson | Some v \<Rightarrow> Inr (Some v))), w'))"

section \<open>The API modules\<close>

text \<open>A call: the path and the request options.\<close>

type_synonym api_call = "string \<times> api_init"

definition api_bare :: "string \<Rightarrow> string \<Rightarrow> api_call" where
  "api_bare m path = (path, \<lparr>ai_method = Some m, ai_headers = [], ai_body = None, ai_cache = None\<rparr>)"

definition api_body :: "string \<Rightarrow> string \<Rightarrow> json \<Rightarrow> api_call" where
  "api_body m path payload = (path, \<lparr>ai_method = Some m, ai_headers = [], ai_body = Some (BodyObject payload), ai_cache = None\<rparr>)"

definition workflowApi_getExecutions :: "string option \<Rightarrow> api_call" where
  "workflowApi_getExecutions workflowID =
     (let search = (if truthy workflowID \<and> workflowID \<noteq> Some ''all''
                    then ''?workflow_id='' @ encodeURIComponent (str_or_empty workflowID) else [])
      in api_bare ''GET'' (''/api/workflow-executions'' @ search))"

text \<open>A number as the only parameter; 0 is falsy.\<close>

definition dashboardApi_getStats :: "nat option \<Rightarrow> api_call" where
  "dashboardApi_getStats days =
     (let params = (case days of None \<Rightarrow> [] | Some n \<Rightarrow> if n = 0 then [] else ''?days='' @ show_nat n)
      in api_bare ''GET'' (''/api/stats'' @ params))"

definition authApi_getUserProfile :: "api_call" where
  "authApi_getUserProfile = api_bare ''GET'' (''/api/auth/me'')"

definition authApi_signin :: "json \<Rightarrow> api_call" where
  "authApi_signin payload = api_body ''POST'' (''/api/auth/signin'') payload"

definition authApi_signup :: "json \<Rightarrow> api_call" where
  "authApi_signup payload = api_body ''POST'' (''/api/auth/signup'') payload"

definition authApi_logout :: "api_call" where
  "authApi_logout = api_bare ''POST'' (''/api/auth/logout'')"

definition authApi_verifyEmail :: "json \<Rightarrow> api_call" where
  "authApi_verifyEmail payload = api_body ''POST'' (''/api/auth/verify-email'') payload"

definition authApi_resendVerification :: "json \<Rightarrow> api_call" where
  "authApi_resendVerification payload = api_body ''POST'' (''/api/auth/resend-verification'') payload"

definition authApi_completeOnboarding :: "json \<Rightarrow> api_call" where
  "authApi_completeOnboarding payload = api_body ''POST'' (''/api/auth/onboarding'') payload"

definition authApi_forgotPassword :: "string \<Rightarrow> api_call" where
  "authApi_forgotPassword email = api_body ''POST'' (''/api/auth/forgot-password'') (JObj [(''email'', JStr email)])"

definition authApi_verifyResetCode :: "string \<Rightarrow> string \<Rightarrow> api_call" where
  "authApi_verifyResetCode email code = api_body ''POST'' (''/api/auth/verify-reset-code'') (JObj [(''email'', JStr email), (''code'', JStr code)])"

definition authApi_resetPassword :: "string \<Rightarrow> string \<Rightarrow> string \<Rightarrow> api_call" where
  "authApi_resetPassword email code newPassword = api_body ''POST'' (''/api/auth/reset-password'') (JObj [(''email'', JStr email), (''code'', JStr code), (''new_password'', JStr newPassword)])"

definition workflowApi_archiveWorkflow :: "string \<Rightarrow> api_call" where
  "workflowApi_archiveWorkflow i = api_bare ''DELETE'' (''/api/workflows/'' @ i)"

definition workflowApi_createWorkflow :: "json \<Rightarrow> api_call" where
  "workflowApi_createWorkflow payload = api_body ''POST'' (''/api/workflows'') payload"

definition workflowApi_getWorkflow :: "string \<Rightarrow> api_call" where
  "workflowApi_getWorkflow i = api_bare ''GET'' (''/api/workflows/'' @ i)"

definition workflowApi_getExecution :: "string \<Rightarrow> api_call" where
  "workflowApi_getExecution i = api_bare ''GET'' (''/api/workflow-executions/'' @ i)"

definition workflowApi_getWorkflows :: "api_call" where
  "workflowApi_getWorkflows = api_bare ''GET'' (''/api/workflows'')"

definition workflowApi_updateWorkflow :: "string \<Rightarrow> json \<Rightarrow> api_call" where
  "workflowApi_updateWorkflow i payload = api_body ''PUT'' (''/api/workflows/'' @ i) payload"

definition workflowApi_pauseWorkflow :: "string \<Rightarrow> api_call" where
  "workflowApi_pauseWorkflow i = api_bare ''POST'' (''/api/workflows/'' @ i @ ''/pause'')"

definition workflowApi_resumeWorkflow :: "string \<Rightarrow> api_call" where
  "workflowApi_resumeWorkflow i = api_bare ''POST'' (''/api/workflows/'' @ i @ ''/resume'')"

definition workflowApi_triggerEvent :: "json \<Rightarrow> api_call" where
  "workflowApi_triggerEvent payload = api_body ''POST'' (''/api/events'') payload"

definition workflowApi_getTemplate :: "string \<Rightarrow> api_call" where
  "workflowApi_getTemplate i = api_bare ''GET'' (''/api/templates/'' @ i)"

definition workflowApi_updateTemplate :: "string \<Rightarrow> json \<Rightarrow> api_call" where
  "workflowApi_updateTemplate i payload = api_body ''PATCH'' (''/api/templates/'' @ i) payload"

definition workflowApi_upsertTemplate :: "json \<Rightarrow> api_call" where
  "workflowApi_upsertTemplate payload = api_body ''POST'' (''/api/templates/upsert'') payload"

definition workflowApi_testSend :: "json \<Rightarrow> api_call" where
  "workflowApi_testSend payload = api_body ''POST'' (''/api/notifications/test-send'') payload"

definition workflowApi_getActivities :: "string \<Rightarrow> api_call" where
  "workflowApi_getActivities i = api_bare ''GET'' (''/api/workflows/'' @ i @ ''/activities'')"

definition workflowApi_triggerWorkflow :: "json \<Rightarrow> api_call" where
  "workflowApi_triggerWorkflow payload = api_body ''POST'' (''/api/notifications/trigger'') payload"

definition workflowApi_pollNotification :: "string \<Rightarrow> api_call" where
  "workflowApi_pollNotification i = api_bare ''GET'' (''/api/notifications/'' @ i @ ''/poll'')"

definition providerApi_listProviders :: "api_call" where
  "providerApi_listProviders = api_bare ''GET'' (''/api/integrations'')"

definition providerApi_createProvider :: "json \<Rightarrow> api_call" where
  "providerApi_createProvider payload = api_body ''POST'' (''/api/integrations'') payload"

definition providerApi_updateProvider :: "string \<Rightarrow> json \<Rightarrow> api_call" where
  "providerApi_updateProvider i payload = api_body ''PUT'' (''/api/integrations/'' @ i) payload"

definition providerApi_updateProviderState :: "string \<Rightarrow> json \<Rightarrow> api_call" where
  "providerApi_updateProviderState i payload = api_body ''PATCH'' (''/api/integrations/'' @ i) payload"

definition providerApi_deleteProvider :: "string \<Rightarrow> api_call" where
  "providerApi_deleteProvider i = api_bare ''DELETE'' (''/api/integrations/'' @ i)"

definition apiKeyApi_listKeys :: "api_call" where
  "apiKeyApi_listKeys = api_bare ''GET'' (''/api/apikeys'')"

definition apiKeyApi_createKey :: "json \<Rightarrow> api_call" where
  "apiKeyApi_createKey payload = api_body ''POST'' (''/api/apikeys'') payload"

definition apiKeyApi_deleteKey :: "string \<Rightarrow> api_call" where
  "apiKeyApi_deleteKey i = api_bare ''DELETE'' (''/api/apikeys/'' @ i)"

definition notificationApi_listNotifications :: "api_call" where
  "notificationApi_listNotifications = api_bare ''GET'' (''/api/notifications'')"

definition notificationApi_getNotification :: "string \<Rightarrow> api_call" where
  "notificationApi_getNotification i = api_bare ''GET'' (''/api/notifications/'' @ i)"

definition subscriberApi_listSubscribers :: "api_call" where
  "subscriberApi_listSubscribers = api_bare ''GET'' (''/api/subscriber'')"

definition subscriberApi_getSubscriber :: "string \<Rightarrow> api_call" where
  "subscriberApi_getSubscriber i = api_bare ''GET'' (''/api/subscriber/'' @ encodeURIComponent i)"

definition subscriberApi_createSubscriber :: "json \<Rightarrow> api_call" where
  "subscriberApi_createSubscriber payload = api_body ''POST'' (''/api/subscriber'') payload"

definition subscriberApi_updateSubscriber :: "string \<Rightarrow> json \<Rightarrow> api_call" where
  "subscriberApi_updateSubscriber i payload = api_body ''PUT'' (''/api/subscriber/'' @ encodeURIComponent i) payload"

definition subscriberApi_deleteSubscriber :: "string \<Rightarrow> api_call" where
  "subscriberApi_deleteSubscriber i = api_bare ''DELETE'' (''/api/subscriber/'' @ encodeURIComponent i)"

definition subscriberApi_searchSubscribers :: "string \<Rightarrow> api_call" where
  "subscriberApi_searchSubscribers query = api_bare ''GET'' (''/api/subscriber?search='' @ encodeURIComponent query)"

section \<open>From a call to its handler\<close>

fun route_match :: "string option list \<Rightarrow> string list \<Rightarrow> string option \<Rightarrow> string option" where
  "route_match [] [] i = Some (str_or_empty i)"
| "route_match (Some d # ds) (s # ss) i = (if d = s then route_match ds ss i else None)"
| "route_match (None # ds) (s # ss) i = (if s = [] then None else route_match ds ss (Some s))"
| "route_match _ _ i = None"

fun find_route :: "(string \<times> string option list \<times> 'h) list \<Rightarrow> string \<Rightarrow> string list \<Rightarrow> ('h \<times> string) option" where
  "find_route [] m ss = None"
| "find_route ((m', ds, h) # rs) m ss =
     (if m' = m then (case route_match ds ss None of Some i \<Rightarrow> Some (h, i) | None \<Rightarrow> find_route rs m ss)
      else find_route rs m ss)"

text \<open>The directories of a path; the query and the fragment are dropped.\<close>

fun segments :: "string \<Rightarrow> string \<Rightarrow> string list" where
  "segments acc [] = [acc]"
| "segments acc (c # cs) =
     (if c \<in> {CHR ''?'', CHR ''#''} then [acc]
      else if c = CHR ''/'' then acc # segments [] cs
      else segments (acc @ [c]) cs)"

definition path_segments :: "string \<Rightarrow> string list" where
  "path_segments path = segments [] (drop 1 path)"

definition handler_of :: "api_call \<Rightarrow> ('w handler \<times> string) option" where
  "handler_of c = find_route route_table (str_or_empty (ai_method (snd c))) (path_segments (fst c))"

lemma segments_plain:
  "set i \<inter> {CHR ''?'', CHR ''#'', CHR ''/''} = {} \<Longrightarrow> segments acc (i @ rest) = segments (acc @ i) rest"
  by (induction i arbitrary: acc) auto

text \<open>
  A value put into a path as it is: characters that stand for themselves in an address, not a dot segment,
  which the browser would resolve, and not the name of a static sibling.
\<close>

definition plain_id :: "string \<Rightarrow> bool" where
  "plain_id i \<longleftrightarrow> list_all uri_unreserved i \<and> i \<notin> {[], ''.'', ''..'', ''test-send'', ''trigger'', ''upsert''}"

lemma unreserved_not_special: "uri_unreserved c \<Longrightarrow> c \<notin> {CHR ''?'', CHR ''#'', CHR ''/''}"
proof -
  have "\<not> uri_unreserved (CHR ''?'')" "\<not> uri_unreserved (CHR ''#'')" "\<not> uri_unreserved (CHR ''/'')" by code_simp+
  then show "uri_unreserved c \<Longrightarrow> c \<notin> {CHR ''?'', CHR ''#'', CHR ''/''}" by auto
qed

lemma plain_chars: "plain_id i \<Longrightarrow> set i \<inter> {CHR ''?'', CHR ''#'', CHR ''/''} = {}"
  using unreserved_not_special by (fastforce simp: plain_id_def list_all_iff)

lemma segments_id:
  assumes "set i \<inter> {CHR ''?'', CHR ''#'', CHR ''/''} = {}"
  shows "segments [] i = [i]" "segments [] (i @ CHR ''/'' # rest) = i # segments [] rest"
  using segments_plain [OF assms, of "[]" "[]"] segments_plain [OF assms, of "[]" "CHR ''/'' # rest"] by simp_all

section \<open>Encoded values\<close>

lemma hex_digit_not_special: "d < 16 \<Longrightarrow> hex_digit d \<notin> {CHR ''/'', CHR ''?'', CHR ''#'', CHR ''&'', CHR ''%''}"
proof -
  have "\<forall>d \<in> set [0..<16]. hex_digit d \<notin> {CHR ''/'', CHR ''?'', CHR ''#'', CHR ''&'', CHR ''%''}" by code_simp
  then show "d < 16 \<Longrightarrow> hex_digit d \<notin> {CHR ''/'', CHR ''?'', CHR ''#'', CHR ''&'', CHR ''%''}" by simp
qed

definition hex_value :: "char \<Rightarrow> nat" where
  "hex_value c = (let n = (of_char c :: nat) in if n < 58 then n - 48 else n - 55)"

lemma hex_value_digit: "d < 16 \<Longrightarrow> hex_value (hex_digit d) = d"
  by (cases "d < 10") (simp_all add: hex_value_def hex_digit_def Let_def of_char_of)

text \<open>The reference decoder: a percent escape of one byte, or of the two bytes of a Latin-1 character.\<close>

fun uri_decode :: "string \<Rightarrow> string" where
  "uri_decode [] = []"
| "uri_decode (c # cs) =
     (if c = CHR ''%'' then
        (case cs of
           a # b # rest \<Rightarrow>
             (let n = 16 * hex_value a + hex_value b
              in if n < 128 then char_of n # uri_decode rest
                 else (case rest of
                         p # a' # b' # rest' \<Rightarrow>
                           char_of (64 * (n - 192) + (16 * hex_value a' + hex_value b' - 128)) # uri_decode rest'
                       | _ \<Rightarrow> []))
         | _ \<Rightarrow> [])
      else c # uri_decode cs)"

lemma percent_byte_value:
  "n < 256 \<Longrightarrow> 16 * hex_value (hex_digit (n div 16)) + hex_value (hex_digit (n mod 16)) = n"
  by (simp add: hex_value_digit less_mult_imp_div_less)

lemma utf8_bytes:
  "192 + of_char c div 64 < (256 :: nat)" "128 + of_char c mod 64 < (256 :: nat)"
proof -
  have n: "(of_char c :: nat) < 64 * 64" by (rule order.strict_trans [OF nat_of_char_less_256]) simp
  show "192 + of_char c div 64 < (256 :: nat)" using less_mult_imp_div_less [OF n] by simp
  show "128 + of_char c mod 64 < (256 :: nat)" by (simp add: add.commute [of 128] flip: less_diff_conv)
qed

lemma uri_decode_percent: "uri_decode (percent_encode c @ r) = c # uri_decode r"
proof -
  let ?n = "of_char c :: nat"
  have n: "?n < 256" by simp
  show ?thesis
  proof (cases "?n < 128")
    case True
    then show ?thesis using percent_byte_value [OF n]
      by (simp add: percent_encode_def percent_byte_def Let_def)
  next
    case big: False
    let ?a = "192 + ?n div 64" and ?b = "128 + ?n mod 64"
    have ab: "?a < 256" "?b < 256" "\<not> ?a < 128" using utf8_bytes [of c] by simp_all
    have "64 * (?a - 192) + (?b - 128) = ?n" by simp
    then show ?thesis using big percent_byte_value [OF ab(1)] percent_byte_value [OF ab(2)] ab
      by (simp add: percent_encode_def percent_byte_def Let_def del: add_diff_cancel_left')
  qed
qed

lemma uri_decode_encode: "uri_decode (encodeURIComponent s) = s"
proof (induction s)
  case (Cons c s)
  then show ?case
    by (cases "uri_unreserved c")
      (auto simp: encodeURIComponent_def uri_decode_percent, auto simp: uri_unreserved_def)
qed (simp add: encodeURIComponent_def)

lemma encoded_chars: "c \<in> set (encodeURIComponent s) \<Longrightarrow> c \<notin> {CHR ''/'', CHR ''?'', CHR ''#'', CHR ''&''}"
proof -
  have u: "\<not> uri_unreserved (CHR ''/'')" "\<not> uri_unreserved (CHR ''?'')" "\<not> uri_unreserved (CHR ''#'')" "\<not> uri_unreserved (CHR ''&'')"
    by code_simp+
  have p: "x \<notin> {CHR ''/'', CHR ''?'', CHR ''#'', CHR ''&''}" if "x \<in> set (percent_byte n)" "n < 256" for x n
    using that less_mult_imp_div_less [of n 16 16] hex_digit_not_special [of "n div 16"] hex_digit_not_special [of "n mod 16"] by (auto simp: percent_byte_def)
  have e: "x \<notin> {CHR ''/'', CHR ''?'', CHR ''#'', CHR ''&''}" if "x \<in> set (percent_encode d)" for x d
  proof -
    have "(of_char d :: nat) < 256" by simp
    then show ?thesis using that p [of x "of_char d"] p [of x "192 + of_char d div 64"] p [of x "128 + of_char d mod 64"] utf8_bytes [of d]
      by (auto simp: percent_encode_def Let_def split: if_splits)
  qed
  assume "c \<in> set (encodeURIComponent s)"
  then show ?thesis using u e by (auto simp: encodeURIComponent_def split: if_splits)
qed

text \<open>The calls of the API modules with the handler each is meant for and the path parameter it gets.\<close>

definition expected_handlers ::
  "string \<Rightarrow> string \<Rightarrow> json \<Rightarrow> string \<Rightarrow> string \<Rightarrow> string \<Rightarrow> string \<Rightarrow> string option \<Rightarrow> nat option \<Rightarrow>
     (api_call \<times> 'w handler \<times> string) list" where
  "expected_handlers i subscriber payload email code newPassword query workflowID days =
    [(authApi_getUserProfile, auth_me_GET, []),
     ((authApi_signin payload), signin_POST, []),
     ((authApi_signup payload), signup_POST, []),
     (authApi_logout, logout_POST, []),
     ((authApi_verifyEmail payload), verify_email_POST, []),
     ((authApi_resendVerification payload), resend_verification_POST, []),
     ((authApi_completeOnboarding payload), onboarding_POST, []),
     ((authApi_forgotPassword email), forgot_password_POST, []),
     ((authApi_verifyResetCode email code), verify_reset_code_POST, []),
     ((authApi_resetPassword email code newPassword), reset_password_POST, []),
     ((workflowApi_archiveWorkflow i), workflows_id_DELETE, i),
     ((workflowApi_createWorkflow payload), workflows_POST, []),
     ((workflowApi_getWorkflow i), workflows_id_GET, i),
     ((workflowApi_getExecution i), workflow_executions_id_GET, i),
     ((workflowApi_getExecutions workflowID), workflow_executions_GET, []),
     ((dashboardApi_getStats days), stats_GET, []),
     (workflowApi_getWorkflows, workflows_GET, []),
     ((workflowApi_updateWorkflow i payload), workflows_id_PUT, i),
     ((workflowApi_pauseWorkflow i), workflows_id_pause_POST, i),
     ((workflowApi_resumeWorkflow i), workflows_id_resume_POST, i),
     ((workflowApi_triggerEvent payload), events_POST, []),
     ((workflowApi_getTemplate i), templates_id_GET, i),
     ((workflowApi_updateTemplate i payload), templates_id_PATCH, i),
     ((workflowApi_upsertTemplate payload), templates_upsert_POST, []),
     ((workflowApi_testSend payload), notifications_test_send_POST, []),
     ((workflowApi_getActivities i), workflows_id_activities_GET, i),
     ((workflowApi_triggerWorkflow payload), notifications_trigger_POST, []),
     ((workflowApi_pollNotification i), notifications_id_poll_GET, i),
     (providerApi_listProviders, integrations_GET, []),
     ((providerApi_createProvider payload), integrations_POST, []),
     ((providerApi_updateProvider i payload), integrations_id_PUT, i),
     ((providerApi_updateProviderState i payload), integrations_id_PATCH, i),
     ((providerApi_deleteProvider i), integrations_id_DELETE, i),
     (apiKeyApi_listKeys, apikeys_GET, []),
     ((apiKeyApi_createKey payload), apikeys_POST, []),
     ((apiKeyApi_deleteKey i), apikeys_id_DELETE, i),
     (notificationApi_listNotifications, notifications_GET, []),
     ((notificationApi_getNotification i), notifications_id_GET, i),
     (subscriberApi_listSubscribers, subscriber_GET, []),
     ((subscriberApi_getSubscriber subscriber), subscriber_id_GET, encodeURIComponent subscriber),
     ((subscriberApi_createSubscriber payload), subscriber_POST, []),
     ((subscriberApi_updateSubscriber subscriber payload), subscriber_id_PUT, encodeURIComponent subscriber),
     ((subscriberApi_deleteSubscriber subscriber), subscriber_id_DELETE, encodeURIComponent subscriber),
     ((subscriberApi_searchSubscribers query), subscriber_GET, [])]"

lemmas api_defs =
  authApi_getUserProfile_def authApi_signin_def authApi_signup_def
  authApi_logout_def authApi_verifyEmail_def authApi_resendVerification_def
  authApi_completeOnboarding_def authApi_forgotPassword_def authApi_verifyResetCode_def
  authApi_resetPassword_def workflowApi_archiveWorkflow_def workflowApi_createWorkflow_def
  workflowApi_getWorkflow_def workflowApi_getExecution_def workflowApi_getWorkflows_def
  workflowApi_updateWorkflow_def workflowApi_pauseWorkflow_def workflowApi_resumeWorkflow_def
  workflowApi_triggerEvent_def workflowApi_getTemplate_def workflowApi_updateTemplate_def
  workflowApi_upsertTemplate_def workflowApi_testSend_def workflowApi_getActivities_def
  workflowApi_triggerWorkflow_def workflowApi_pollNotification_def providerApi_listProviders_def
  providerApi_createProvider_def providerApi_updateProvider_def providerApi_updateProviderState_def
  providerApi_deleteProvider_def apiKeyApi_listKeys_def apiKeyApi_createKey_def
  apiKeyApi_deleteKey_def notificationApi_listNotifications_def notificationApi_getNotification_def
  subscriberApi_listSubscribers_def subscriberApi_getSubscriber_def subscriberApi_createSubscriber_def
  subscriberApi_updateSubscriber_def subscriberApi_deleteSubscriber_def subscriberApi_searchSubscribers_def
  workflowApi_getExecutions_def dashboardApi_getStats_def

lemma encoded_value:
  "set (encodeURIComponent s) \<inter> {CHR ''?'', CHR ''#'', CHR ''/''} = {}" "encodeURIComponent s = [] \<longleftrightarrow> s = []"
proof -
  show "set (encodeURIComponent s) \<inter> {CHR ''?'', CHR ''#'', CHR ''/''} = {}" using encoded_chars [of _ s] by blast
  have "encodeURIComponent s = [] \<Longrightarrow> s = []" using uri_decode_encode [of s] by simp
  then show "encodeURIComponent s = [] \<longleftrightarrow> s = []" by (auto simp: encodeURIComponent_def)
qed

text \<open>An encoded value is a dot segment only when the value is one.\<close>

lemma encoded_dots: "encodeURIComponent s = ''.'' \<longleftrightarrow> s = ''.''" "encodeURIComponent s = ''..'' \<longleftrightarrow> s = ''..''"
proof -
  have "encodeURIComponent ''.'' = ''.''" "encodeURIComponent ''..'' = ''..''" by code_simp+
  then show "encodeURIComponent s = ''.'' \<longleftrightarrow> s = ''.''" "encodeURIComponent s = ''..'' \<longleftrightarrow> s = ''..''"
    using uri_decode_encode by metis+
qed

lemma route_id: "plain_id i \<Longrightarrow> i \<noteq> [] \<and> ''test-send'' \<noteq> i \<and> ''trigger'' \<noteq> i \<and> ''upsert'' \<noteq> i"
  by (auto simp: plain_id_def)

text \<open>The rows of the table with a given method and depth.\<close>

definition routes_for :: "string \<Rightarrow> nat \<Rightarrow> (string \<times> string option list \<times> 'w handler) list" where
  "routes_for m n = filter (\<lambda>x. fst x = m \<and> length (fst (snd x)) = n) route_table"

lemma route_match_length: "route_match ds ss i = Some j \<Longrightarrow> length ds = length ss"
  by (induction ds ss i rule: route_match.induct) (auto split: if_splits)

lemma find_route_filter:
  "find_route rs m ss = find_route (filter (\<lambda>x. fst x = m \<and> length (fst (snd x)) = length ss) rs) m ss"
  by (induction rs m ss rule: find_route.induct) (auto split: option.split dest: route_match_length)

lemma handler_of_routes:
  "handler_of c = find_route (routes_for (str_or_empty (ai_method (snd c))) (length (path_segments (fst c))))
     (str_or_empty (ai_method (snd c))) (path_segments (fst c))"
  unfolding handler_of_def routes_for_def by (rule find_route_filter)

lemma routes_for_rows:
  "routes_for ''GET'' (Suc (Suc 0)) =
     [(''GET'', [Some ''api'', Some ''apikeys''], apikeys_GET),
      (''GET'', [Some ''api'', Some ''integrations''], integrations_GET),
      (''GET'', [Some ''api'', Some ''notifications''], notifications_GET),
      (''GET'', [Some ''api'', Some ''stats''], stats_GET),
      (''GET'', [Some ''api'', Some ''subscriber''], subscriber_GET),
      (''GET'', [Some ''api'', Some ''templates''], templates_GET),
      (''GET'', [Some ''api'', Some ''workflow-executions''], workflow_executions_GET),
      (''GET'', [Some ''api'', Some ''workflows''], workflows_GET)]"
  "routes_for ''POST'' (Suc (Suc 0)) =
     [(''POST'', [Some ''api'', Some ''apikeys''], apikeys_POST),
      (''POST'', [Some ''api'', Some ''events''], events_POST),
      (''POST'', [Some ''api'', Some ''integrations''], integrations_POST),
      (''POST'', [Some ''api'', Some ''notifications''], notifications_POST),
      (''POST'', [Some ''api'', Some ''subscriber''], subscriber_POST),
      (''POST'', [Some ''api'', Some ''templates''], templates_POST),
      (''POST'', [Some ''api'', Some ''workflows''], workflows_POST)]"
  "routes_for ''GET'' (Suc (Suc (Suc 0))) =
     [(''GET'', [Some ''api'', Some ''auth'', Some ''me''], auth_me_GET),
      (''GET'', [Some ''api'', Some ''notifications'', None], notifications_id_GET),
      (''GET'', [Some ''api'', Some ''subscriber'', None], subscriber_id_GET),
      (''GET'', [Some ''api'', Some ''templates'', None], templates_id_GET),
      (''GET'', [Some ''api'', Some ''workflow-executions'', None], workflow_executions_id_GET),
      (''GET'', [Some ''api'', Some ''workflows'', None], workflows_id_GET)]"
  "routes_for ''POST'' (Suc (Suc (Suc 0))) =
     [(''POST'', [Some ''api'', Some ''notifications'', Some ''test-send''], notifications_test_send_POST),
      (''POST'', [Some ''api'', Some ''notifications'', Some ''trigger''], notifications_trigger_POST),
      (''POST'', [Some ''api'', Some ''templates'', Some ''upsert''], templates_upsert_POST),
      (''POST'', [Some ''api'', Some ''auth'', Some ''forgot-password''], forgot_password_POST),
      (''POST'', [Some ''api'', Some ''auth'', Some ''resend-verification''], resend_verification_POST),
      (''POST'', [Some ''api'', Some ''auth'', Some ''reset-password''], reset_password_POST),
      (''POST'', [Some ''api'', Some ''auth'', Some ''verify-reset-code''], verify_reset_code_POST),
      (''POST'', [Some ''api'', Some ''auth'', Some ''signin''], signin_POST),
      (''POST'', [Some ''api'', Some ''auth'', Some ''signup''], signup_POST),
      (''POST'', [Some ''api'', Some ''auth'', Some ''verify-email''], verify_email_POST),
      (''POST'', [Some ''api'', Some ''auth'', Some ''logout''], logout_POST),
      (''POST'', [Some ''api'', Some ''auth'', Some ''refresh''], refresh_POST),
      (''POST'', [Some ''api'', Some ''auth'', Some ''onboarding''], onboarding_POST)]"
  "routes_for ''GET'' (Suc (Suc (Suc (Suc 0)))) =
     [(''GET'', [Some ''api'', Some ''auth'', Some ''social'', Some ''callback''], social_callback_GET),
      (''GET'', [Some ''api'', Some ''notifications'', None, Some ''poll''], notifications_id_poll_GET),
      (''GET'', [Some ''api'', Some ''workflows'', None, Some ''activities''], workflows_id_activities_GET),
      (''GET'', [Some ''api'', Some ''auth'', Some ''social'', None], social_provider_GET)]"
  "routes_for ''DELETE'' (Suc (Suc (Suc 0))) =
     [(''DELETE'', [Some ''api'', Some ''apikeys'', None], apikeys_id_DELETE),
      (''DELETE'', [Some ''api'', Some ''integrations'', None], integrations_id_DELETE),
      (''DELETE'', [Some ''api'', Some ''subscriber'', None], subscriber_id_DELETE),
      (''DELETE'', [Some ''api'', Some ''templates'', None], templates_id_DELETE),
      (''DELETE'', [Some ''api'', Some ''workflows'', None], workflows_id_DELETE)]"
  "routes_for ''PUT'' (Suc (Suc (Suc 0))) =
     [(''PUT'', [Some ''api'', Some ''integrations'', None], integrations_id_PUT),
      (''PUT'', [Some ''api'', Some ''subscriber'', None], subscriber_id_PUT),
      (''PUT'', [Some ''api'', Some ''workflows'', None], workflows_id_PUT)]"
  "routes_for ''PATCH'' (Suc (Suc (Suc 0))) =
     [(''PATCH'', [Some ''api'', Some ''integrations'', None], integrations_id_PATCH),
      (''PATCH'', [Some ''api'', Some ''templates'', None], templates_id_PATCH)]"
  "routes_for ''POST'' (Suc (Suc (Suc (Suc 0)))) =
     [(''POST'', [Some ''api'', Some ''workflows'', None, Some ''pause''], workflows_id_pause_POST),
      (''POST'', [Some ''api'', Some ''workflows'', None, Some ''resume''], workflows_id_resume_POST)]"
  unfolding routes_for_def route_table_def by simp_all

lemma calls_routed:
  assumes i: "plain_id i" and subscriber: "subscriber \<noteq> []"
  shows "list_all (\<lambda>(c, h, p). handler_of c = Some (h, p))
    (expected_handlers i subscriber payload email code newPassword query workflowID days)"
proof -
  have e: "encodeURIComponent subscriber \<noteq> []" using subscriber by (simp add: encoded_value)
  show ?thesis
    unfolding expected_handlers_def list.pred_inject prod.case
    using route_id [OF i] e
    by (intro conjI TrueI; simp add: api_defs api_bare_def api_body_def handler_of_routes path_segments_def routes_for_rows
        segments_id [OF plain_chars [OF i]] segments_id [OF encoded_value(1)] split: option.splits)
qed

section \<open>Properties\<close>



text \<open>\<open>encodeURIComponent\<close> loses nothing, and its result has no character that ends a path segment or
  a query value.\<close>

theorem encodeURIComponent_safe:
  "uri_decode (encodeURIComponent s) = s \<and>
   set (encodeURIComponent s) \<inter> {CHR ''/'', CHR ''?'', CHR ''#'', CHR ''&''} = {}"
  using uri_decode_encode [of s] encoded_chars [of _ s] by blast

section \<open>Errors\<close>

text \<open>The response of the web server to a call whose backend answers with an error.\<close>

lemma error_response:
  assumes answer: "\<And>w a. fst (we_fetch env w (backendRequest (we_base env) path init a)) = Some \<lparr>hr_status = st, hr_text = t\<rparr>"
    and err: "\<not> (200 \<le> st \<and> st < 300)" and token: "resolveAuthHeader req \<noteq> None"
    and r: "Some r \<in> {fst (proxied env req path init w), fst (wrapped env req path init w),
      fst (public_call env path init w), fst (session_call env path init w)}"
  shows "nr_status r = st \<and> response_text r = we_jprint env (payload_of_text (we_jparse env) t)"
proof -
  let ?v = "payload_of_text (we_jparse env) t"
  let ?ok = "\<lambda>r. nr_status r = st \<and> response_text r = we_jprint env ?v"
  have st: "st \<noteq> 204" using err by auto
  have sent: "fst (sendToBackend env path init a w) = \<lparr>br_status = st, br_payload = ?v\<rparr>" for a w
    using answer [of w a] st by (simp add: sendToBackend_def backendResult_def split_beta)
  have next1: "?ok (toNextResponse (we_jprint env) \<lparr>br_status = st, br_payload = ?v\<rparr>)"
    using st by (simp add: toNextResponse_def response_json_def response_text_def)
  have cookies: "?ok (applySession p s c r') = ?ok r'" for p s c r'
    by (auto simp: applySession_def setSessionCookies_def setOnboardingCookie_def clearSessionCookies_def set_cookie_def
        response_text_def Let_def split: option.split)
  have public: "?ok (fst (proxyBackendPublic env path init w))"
    using next1 sent by (simp add: proxyBackendPublic_def split_beta)
  have proxy: "?ok (fst (proxyBackend env req path init w))"
    using token next1 sent cookies by (auto simp: proxyBackend_def Let_def split_beta split: option.split)
  have "r \<in> {fst (proxyBackend env req path init w), fst (proxyBackendPublic env path init w)}"
    using r public proxy err
    by (auto simp: proxied_def wrapped_def public_call_def session_call_def wrapData_def response_ok_def split_beta split: if_splits)
  then show ?thesis using public proxy by auto
qed

text \<open>C20: an error of the backend reaches the caller with its status and its whole payload.  For a call through
  a protected route, with a token, or a public one, whose backend answers with a status outside 200-299 and
  a text that is empty, not JSON or a JSON object, the browser's request fails with that status, the payload
  of that text, and as its message the text under \<open>error\<close>, else that under \<open>message\<close>, else \<open>Request failed\<close>.  (The payload of a text that is not
  JSON has it under \<open>error\<close>; the error format of \<open>docs/API.md\<close>, an object under \<open>error\<close>, is shown as
  \<open>Request failed\<close>, whatever its message.)\<close>

theorem backend_error_reaches_caller:
  assumes answer: "\<And>w a. fst (we_fetch env w (backendRequest (we_base env) path init a)) = Some \<lparr>hr_status = st, hr_text = t\<rparr>"
    and err: "\<not> (200 \<le> st \<and> st < 300)" and token: "resolveAuthHeader req \<noteq> None"
    and r: "Some r \<in> {fst (proxied env req path init w), fst (wrapped env req path init w),
      fst (public_call env path init w), fst (session_call env path init w)}"
    and obj: "payload_of_text (we_jparse env) t = JObj fs"
    and json: "we_jprint env (JObj fs) \<noteq> []" "be_jparse benv (we_jprint env (JObj fs)) = Some (JObj fs)"
    and browser: "be_fetch benv v p (buildRequestInit (be_jprint benv) ini) =
      (Some \<lparr>bw_status = nr_status r, bw_text = Some (response_text r)\<rparr>, v')"
  shows "request benv p ini v = (Inl (ApiError
      (case map_of fs ''error'' of
         Some (JStr e) \<Rightarrow> e
       | _ \<Rightarrow> (case map_of fs ''message'' of Some (JStr e) \<Rightarrow> e | _ \<Rightarrow> ''Request failed'')) st (Some (JObj fs))), v')"
proof -
  have "nr_status r = st \<and> response_text r = we_jprint env (JObj fs)"
    using error_response [OF answer err token r] obj by simp
  then show ?thesis using err json browser
    by (auto simp: request_def parseBody_def obj_str_def Let_def split: option.split json.split)
qed

text \<open>The answer of the backend to signing in before the address is verified, and the one its API document describes.\<close>

definition unverified_error :: json where
  "unverified_error = JObj [(''error'', JStr ''email not verified''), (''email'', JStr ''a@b.c'')]"

definition documented_error :: json where
  "documented_error = JObj [(''error'', JObj [(''code'', JStr ''INVALID_API_KEY''), (''message'', JStr ''API key is invalid or expired'')])]"

definition failing_env :: "int \<Rightarrow> json \<Rightarrow> unit web_env" where
  "failing_env st v = \<lparr>we_fetch = (\<lambda>_ _. (Some \<lparr>hr_status = st, hr_text = ''e''\<rparr>, ())),
     we_jparse = (\<lambda>_. Some v), we_jprint = (\<lambda>_. ''e''), we_base = [], we_production = False\<rparr>"

definition failing_browser :: "int \<Rightarrow> json \<Rightarrow> unit browser_env" where
  "failing_browser st v = \<lparr>be_fetch = (\<lambda>_ _ _. (Some \<lparr>bw_status = st, bw_text = Some ''e''\<rparr>, ())),
     be_jparse = (\<lambda>_. Some v), be_jprint = (\<lambda>_. ''e'')\<rparr>"

lemma failing_response:
  "\<not> (200 \<le> st \<and> st < 300) \<Longrightarrow> st \<noteq> 401 \<Longrightarrow>
   fst (proxied (failing_env st v) token_request path init ()) = Some (response_json (\<lambda>_. ''e'') v st) \<and>
   fst (session_call (failing_env st v) path init ()) = Some (response_json (\<lambda>_. ''e'') v st)"
proof -
  assume st: "\<not> (200 \<le> st \<and> st < 300)" "st \<noteq> 401"
  have "resolveAuthHeader token_request = Some ''Bearer a''" by code_simp
  moreover have "sendToBackend (failing_env st v) path init a () = (\<lparr>br_status = st, br_payload = v\<rparr>, ())" for a
    using st by (auto simp: sendToBackend_def backendResult_def failing_env_def payload_of_text_def)
  ultimately show ?thesis using st
    by (auto simp: proxied_def session_call_def proxyBackend_def proxyBackendPublic_def toNextResponse_def
        shouldAttemptRefresh_def response_ok_def response_json_def Let_def failing_env_def)
qed

theorem backend_error_reaches_caller_witness:
  "request (failing_browser 403 unverified_error) ''/api/auth/signin'' None () =
     (Inl (ApiError ''email not verified'' 403 (Some unverified_error)), ()) \<and>
   request (failing_browser 400 documented_error) ''/api/stats'' None () =
     (Inl (ApiError ''Request failed'' 400 (Some documented_error)), ())"
proof
  have token: "resolveAuthHeader token_request \<noteq> None" by code_simp
  let ?err = "\<lambda>st v. response_json (\<lambda>_. ''e'') v st"
  let ?o = "[(''error'', JStr ''email not verified''), (''email'', JStr ''a@b.c'')]"
  show "request (failing_browser 403 unverified_error) ''/api/auth/signin'' None () =
     (Inl (ApiError ''email not verified'' 403 (Some unverified_error)), ())"
    using backend_error_reaches_caller [where env = "failing_env 403 unverified_error" and path = "''/auth/signin''" and st = 403 and
        t = "''e''" and req = token_request and init = "bare_init ''POST''" and r = "?err 403 unverified_error" and fs = ?o and
        benv = "failing_browser 403 unverified_error" and v = "()" and v' = "()" and w = "()" and p = "''/api/auth/signin''" and ini = None]
      failing_response [of 403 unverified_error "''/auth/signin''" "bare_init ''POST''"] token
    by (simp add: failing_env_def failing_browser_def payload_of_text_def unverified_error_def response_json_def response_text_def)
  let ?d = "[(''error'', JObj [(''code'', JStr ''INVALID_API_KEY''), (''message'', JStr ''API key is invalid or expired'')])]"
  show "request (failing_browser 400 documented_error) ''/api/stats'' None () =
     (Inl (ApiError ''Request failed'' 400 (Some documented_error)), ())"
    using backend_error_reaches_caller [where env = "failing_env 400 documented_error" and path = "''/stats''" and st = 400 and
        t = "''e''" and req = token_request and init = "bare_init ''GET''" and r = "?err 400 documented_error" and fs = ?d and
        benv = "failing_browser 400 documented_error" and v = "()" and v' = "()" and w = "()" and p = "''/api/stats''" and ini = None]
      failing_response [of 400 documented_error "''/stats''" "bare_init ''GET''"] token
    by (simp add: failing_env_def failing_browser_def payload_of_text_def documented_error_def response_json_def response_text_def)
qed

end
