(* ===== verification/Queries.thy ===== *)
theory Queries
  imports Api_Client
begin

text \<open>
  The server state the pages use (\<open>features/*/queries.ts\<close>): each query hook with its cache key, call,
  condition and freshness, each mutation hook with its call and the cache keys it invalidates, the choice
  of the email and SMS provider, and the polling of a notification.  The cache itself (react-query) is not
  modelled: the properties are about the keys, and invalidating a key concerns the keys that extend it.
\<close>

section \<open>Hooks as data\<close>

record query =
  qu_key :: "json list"
  qu_call :: api_call
  qu_enabled :: bool
  qu_staleTime :: nat

record mutation =
  mu_call :: api_call
  mu_invalidates :: "json list list"
  mu_clears :: bool

definition query_of :: "json list \<Rightarrow> api_call \<Rightarrow> nat \<Rightarrow> query" where
  "query_of k c n = \<lparr>qu_key = k, qu_call = c, qu_enabled = True, qu_staleTime = n\<rparr>"

definition mutation_of :: "api_call \<Rightarrow> json list list \<Rightarrow> mutation" where
  "mutation_of c ks = \<lparr>mu_call = c, mu_invalidates = ks, mu_clears = False\<rparr>"

section \<open>Notifications and dashboard\<close>

definition useNotificationList :: query where
  "useNotificationList = query_of [JStr ''notifications''] notificationApi_listNotifications 30000"

definition useNotification :: "string \<Rightarrow> query" where
  "useNotification i = (query_of [JStr ''notifications'', JStr i] (notificationApi_getNotification i) 15000)\<lparr>qu_enabled := (i \<noteq> [])\<rparr>"

definition useDashboardStats :: "nat option \<Rightarrow> query" where
  "useDashboardStats days = query_of [JStr ''dashboard-stats'', (case days of None \<Rightarrow> JNull | Some n \<Rightarrow> JNum (of_nat n))]
     (dashboardApi_getStats days) 30000"

section \<open>Workflows\<close>

definition useWorkflowListQuery :: query where
  "useWorkflowListQuery = query_of [JStr ''workflows''] workflowApi_getWorkflows 30000"

definition useWorkflowQuery :: "string \<Rightarrow> query" where
  "useWorkflowQuery i = query_of [JStr ''workflow'', JStr i] (workflowApi_getWorkflow i) 30000"

definition useTestSend :: "json \<Rightarrow> mutation" where
  "useTestSend payload = mutation_of (workflowApi_testSend payload) []"

definition useWorkflowActivitiesQuery :: "string \<Rightarrow> query" where
  "useWorkflowActivitiesQuery i =
     (query_of [JStr ''workflow-activities'', JStr i] (workflowApi_getActivities i) 10000)\<lparr>qu_enabled := (i \<noteq> [])\<rparr>"

definition useWorkflowTrigger :: "json \<Rightarrow> mutation" where
  "useWorkflowTrigger payload = mutation_of (workflowApi_triggerWorkflow payload) []"

definition finalStatuses :: "string list" where
  "finalStatuses = [''sent'', ''failed'', ''partial_failed'', ''partial_skipped'', ''skipped'']"

text \<open>
  \<open>refetchInterval\<close>: the data of the poll is missing, or its notification is null or has a status.
  \<open>None\<close> stops the polling.
\<close>

definition pollInterval :: "string option option \<Rightarrow> nat option" where
  "pollInterval data =
     (case data of
        None \<Rightarrow> Some 2000
      | Some status \<Rightarrow> if truthy status \<and> str_or_empty status \<in> set finalStatuses then None else Some 2000)"

definition useNotificationPollQuery :: "string option \<Rightarrow> query" where
  "useNotificationPollQuery notificationId =
     (query_of [JStr ''notification-poll'', (case notificationId of None \<Rightarrow> JNull | Some i \<Rightarrow> JStr i)]
        (workflowApi_pollNotification (str_or_empty notificationId)) 0)\<lparr>qu_enabled := truthy notificationId\<rparr>"

section \<open>Integrations\<close>

record provider_config =
  pc_id :: string
  pc_name :: string
  pc_channel :: string
  pc_sender_name :: "string option"
  pc_from_email :: "string option"
  pc_sender_id :: "string option"
  pc_from_number :: "string option"
  pc_is_primary :: bool
  pc_is_active :: bool

definition useProviders :: query where
  "useProviders = query_of [JStr ''providers''] providerApi_listProviders 60000"

definition find_or :: "('a \<Rightarrow> bool) \<Rightarrow> 'a list \<Rightarrow> 'a option \<Rightarrow> 'a option" where
  "find_or P xs other = (case List.find P xs of Some x \<Rightarrow> Some x | None \<Rightarrow> other)"

definition emailProvider :: "provider_config list option \<Rightarrow> provider_config option" where
  "emailProvider data =
     (case data of None \<Rightarrow> None
      | Some ps \<Rightarrow> find_or (\<lambda>p. pc_channel p = ''email'') ps
          (find_or (\<lambda>p. truthy (pc_sender_name p) \<or> truthy (pc_from_email p)) ps None))"

definition smsProvider :: "provider_config list option \<Rightarrow> provider_config option" where
  "smsProvider data =
     (case data of None \<Rightarrow> None
      | Some ps \<Rightarrow> find_or (\<lambda>p. pc_channel p = ''sms'' \<and> pc_is_primary p) ps
          (find_or (\<lambda>p. pc_channel p = ''sms'' \<and> pc_is_active p) ps None))"

definition smsSenderId :: "provider_config list option \<Rightarrow> string" where
  "smsSenderId data =
     (case smsProvider data of None \<Rightarrow> []
      | Some p \<Rightarrow> js_or (str_or_empty (pc_sender_id p)) (str_or_empty (pc_from_number p)))"

definition useCreateProvider :: "json \<Rightarrow> mutation" where
  "useCreateProvider payload = mutation_of (providerApi_createProvider payload) [[JStr ''providers'']]"

definition useUpdateProvider :: "string \<Rightarrow> json \<Rightarrow> mutation" where
  "useUpdateProvider i payload = mutation_of (providerApi_updateProvider i payload) [[JStr ''providers'']]"

definition useUpdateProviderState :: "string \<Rightarrow> json \<Rightarrow> mutation" where
  "useUpdateProviderState i payload = mutation_of (providerApi_updateProviderState i payload) [[JStr ''providers'']]"

definition useDeleteProvider :: "string \<Rightarrow> mutation" where
  "useDeleteProvider i = mutation_of (providerApi_deleteProvider i) [[JStr ''providers'']]"

section \<open>Subscribers\<close>

definition useSubscriberList :: query where
  "useSubscriberList = query_of [JStr ''subscribers''] subscriberApi_listSubscribers 30000"

definition useSubscriberDetail :: "string \<Rightarrow> query" where
  "useSubscriberDetail i =
     (query_of [JStr ''subscribers'', JStr i] (subscriberApi_getSubscriber i) 30000)\<lparr>qu_enabled := (i \<noteq> [])\<rparr>"

definition useSubscriberCreate :: "json \<Rightarrow> mutation" where
  "useSubscriberCreate payload = mutation_of (subscriberApi_createSubscriber payload) [[JStr ''subscribers'']]"

definition useSubscriberUpdate :: "string \<Rightarrow> json \<Rightarrow> mutation" where
  "useSubscriberUpdate i payload = mutation_of (subscriberApi_updateSubscriber i payload)
     [[JStr ''subscribers''], [JStr ''subscribers'', JStr i]]"

definition useSubscriberDelete :: "string \<Rightarrow> mutation" where
  "useSubscriberDelete i = mutation_of (subscriberApi_deleteSubscriber i) [[JStr ''subscribers'']]"

definition useSubscriberSearch :: "string \<Rightarrow> query" where
  "useSubscriberSearch q =
     (query_of [JStr ''subscribers'', JStr ''search'', JStr q] (subscriberApi_searchSubscribers q) 30000)
       \<lparr>qu_enabled := (length (js_trim q) > 0)\<rparr>"

section \<open>Sessions and API keys\<close>

definition useUserProfile :: query where
  "useUserProfile = query_of [JStr ''user-profile''] authApi_getUserProfile 60000"

definition useSignin :: "json \<Rightarrow> mutation" where
  "useSignin payload = mutation_of (authApi_signin payload) []"

definition useSignup :: "json \<Rightarrow> mutation" where
  "useSignup payload = mutation_of (authApi_signup payload) []"

definition useLogout :: mutation where
  "useLogout = (mutation_of authApi_logout [])\<lparr>mu_clears := True\<rparr>"

definition useVerifyEmail :: "json \<Rightarrow> mutation" where
  "useVerifyEmail payload = mutation_of (authApi_verifyEmail payload) []"

definition useResendVerification :: "json \<Rightarrow> mutation" where
  "useResendVerification payload = mutation_of (authApi_resendVerification payload) []"

definition useCompleteOnboarding :: "json \<Rightarrow> mutation" where
  "useCompleteOnboarding payload = mutation_of (authApi_completeOnboarding payload) []"

definition useForgotPassword :: "string \<Rightarrow> mutation" where
  "useForgotPassword email = mutation_of (authApi_forgotPassword email) []"

definition useVerifyResetCode :: "string \<Rightarrow> string \<Rightarrow> mutation" where
  "useVerifyResetCode email code = mutation_of (authApi_verifyResetCode email code) []"

definition useResetPassword :: "string \<Rightarrow> string \<Rightarrow> string \<Rightarrow> mutation" where
  "useResetPassword email code newPassword = mutation_of (authApi_resetPassword email code newPassword) []"

definition useApiKeyList :: query where
  "useApiKeyList = query_of [JStr ''apikeys''] apiKeyApi_listKeys 60000"

definition useCreateApiKey :: "json \<Rightarrow> mutation" where
  "useCreateApiKey payload = mutation_of (apiKeyApi_createKey payload) [[JStr ''apikeys'']]"

definition useDeleteApiKey :: "string \<Rightarrow> mutation" where
  "useDeleteApiKey i = mutation_of (apiKeyApi_deleteKey i) [[JStr ''apikeys'']]"

section \<open>Properties\<close>

text \<open>A mutation refreshes a query when one of the keys it invalidates is a prefix of the query's key.\<close>

definition refreshes :: "mutation \<Rightarrow> query \<Rightarrow> bool" where
  "refreshes m q \<longleftrightarrow> (\<exists>k \<in> set (mu_invalidates m). prefix k (qu_key q))"

lemmas query_defs = query_of_def mutation_of_def refreshes_def
  useSubscriberCreate_def useSubscriberUpdate_def useSubscriberDelete_def
  useSubscriberList_def useSubscriberDetail_def useSubscriberSearch_def
  useCreateProvider_def useUpdateProvider_def useUpdateProviderState_def useDeleteProvider_def useProviders_def
  useCreateApiKey_def useDeleteApiKey_def useApiKeyList_def

text \<open>No stale lists: creating, changing or deleting a subscriber, a provider or an API key refreshes every
  list, detail and search query of that resource, and no query of another resource.\<close>

theorem mutations_refresh_queries:
  "list_all (\<lambda>m. list_all (refreshes m) [useSubscriberList, useSubscriberDetail j, useSubscriberSearch s] \<and>
       \<not> refreshes m useProviders \<and> \<not> refreshes m useApiKeyList)
     [useSubscriberCreate p, useSubscriberUpdate i p, useSubscriberDelete i] \<and>
   list_all (\<lambda>m. refreshes m useProviders \<and> \<not> refreshes m useSubscriberList \<and> \<not> refreshes m useApiKeyList)
     [useCreateProvider p, useUpdateProvider i p, useUpdateProviderState i p, useDeleteProvider i] \<and>
   list_all (\<lambda>m. refreshes m useApiKeyList \<and> \<not> refreshes m useSubscriberList \<and> \<not> refreshes m useProviders)
     [useCreateApiKey p, useDeleteApiKey i]"
  by (simp add: query_defs)

text \<open>A notification is polled every two seconds until its status is final, and never again after that; a
  missing answer, a missing notification or any other status keeps the poll going.\<close>

theorem poll_until_final:
  "pollInterval d = (case d of Some (Some s) \<Rightarrow>
      if s = ''sent'' \<or> s = ''failed'' \<or> s = ''partial_failed'' \<or> s = ''partial_skipped'' \<or> s = ''skipped'' then None else Some 2000
    | _ \<Rightarrow> Some 2000)"
  by (auto simp: pollInterval_def finalStatuses_def truthy_def split: option.split)

text \<open>The SMS provider is the first primary one, else the first active one, and never one of another channel;
  nothing is chosen exactly when no SMS provider is primary or active.\<close>

theorem smsProvider_choice:
  "case smsProvider (Some ps) of
     None \<Rightarrow> \<not> (\<exists>p \<in> set ps. pc_channel p = ''sms'' \<and> (pc_is_primary p \<or> pc_is_active p))
   | Some p \<Rightarrow> p \<in> set ps \<and> pc_channel p = ''sms'' \<and>
       (pc_is_primary p \<or> pc_is_active p \<and> \<not> (\<exists>q \<in> set ps. pc_channel q = ''sms'' \<and> pc_is_primary q))"
  by (auto simp: smsProvider_def find_or_def find_None_iff dest!: find_Some_conv split: option.splits)

theorem smsProvider_choice_witness:
  "\<not> (\<exists>p \<in> set ([] :: provider_config list). pc_channel p = ''sms'' \<and> (pc_is_primary p \<or> pc_is_active p))"
  using smsProvider_choice [of "[]"] by (simp add: smsProvider_def find_or_def)

end
