(* ===== verification/Encode.thy ===== *)
theory Encode
  imports Workflow_Types
begin

text \<open>
  The editor's variable syntax (\<open>features/workflows/editors/encode.ts\<close>): a template stores a variable
  as \<open>{{path}}\<close>, the Maily editor as a \<open>span\<close> element with a \<open>data-id\<close> attribute.  The four
  functions are the two regular expressions of the file run by the matcher of \<open>Js_Regex\<close>.

  The lemmas first describe the matches of the two patterns, then give what a global replacement does
  to a text made of literal pieces and placeholders; the round trip through the editor and the
  behaviour of the two previews follow from it.  How JavaScript prints a number is a parameter
  (\<open>num_text\<close>).
\<close>

section \<open>The program\<close>

record variable_definition =
  vd_path :: string
  vd_label :: string
  vd_type :: string
  vd_description :: string

definition rx_span_or_div :: rx where
  "rx_span_or_div = rx_alts [rx_lit ''span'', rx_lit ''div'']"

text \<open>\<open>/<(?:span|div)\b[^>]*\bdata-id="([^"]*)"[^>]*>[^<]*<\/(?:span|div)>/g\<close>\<close>

definition MAILY_VARIABLE_RE :: rx where
  "MAILY_VARIABLE_RE = rx_seqs
     [rx_lit ''<'', rx_span_or_div, RWordB, RStar (rx_not_in ''>''), RWordB, rx_lit ''data-id=\"'',
      RCap 1 (RStar (rx_not_in ''\"'')), rx_lit ''\"'', RStar (rx_not_in ''>''), rx_lit ''>'',
      RStar (rx_not_in ''<''), rx_lit ''</'', rx_span_or_div, rx_lit ''>'']"

text \<open>\<open>/\{\{([^}]+)\}\}/g\<close>\<close>

definition TEMPLATE_VARIABLE_RE :: rx where
  "TEMPLATE_VARIABLE_RE = rx_seqs [rx_lit ''{{'', RCap 1 (rx_plus (rx_not_in ''}'')), rx_lit ''}}'']"

text \<open>The first parameter after the matched text that a replacer function takes: group 1.\<close>

definition rx_group1 :: "(nat \<times> string) list \<Rightarrow> string" where
  "rx_group1 cs = str_or_empty (map_of cs 1)"

definition mailyVariablesToText :: "string \<Rightarrow> string" where
  "mailyVariablesToText html =
     rx_replace MAILY_VARIABLE_RE (\<lambda>_ cs. ''{{'' @ rx_group1 cs @ ''}}'') html"

definition variable_lookup :: "variable_definition list \<Rightarrow> (string, string) js_map" where
  "variable_lookup defs = fold (\<lambda>v m. map_set (vd_path v) (vd_label v) m) defs []"

definition variable_span :: "variable_definition list \<Rightarrow> string \<Rightarrow> string" where
  "variable_span defs path =
     (let label = js_or (str_or_empty (map_get (variable_lookup defs) path)) path
      in ''<span data-type=\"variable\" data-id=\"'' @ path @ ''\">'' @ label @ ''</span>'')"

definition textToMailyVariables :: "string \<Rightarrow> variable_definition list \<Rightarrow> string" where
  "textToMailyVariables html defs =
     rx_replace TEMPLATE_VARIABLE_RE (\<lambda>_ cs. variable_span defs (rx_group1 cs)) html"

text \<open>The text of a value the previews insert: strings, numbers and booleans have one.\<close>

definition context_text :: "(rat \<Rightarrow> string) \<Rightarrow> (string \<times> json) list \<Rightarrow> string \<Rightarrow> string option" where
  "context_text num_text ctx path =
     (case map_of ctx path of
        Some (JStr s) \<Rightarrow> Some s
      | Some (JNum x) \<Rightarrow> Some (num_text x)
      | Some (JBool b) \<Rightarrow> Some (if b then ''true'' else ''false'')
      | _ \<Rightarrow> None)"

definition renderPreview :: "(rat \<Rightarrow> string) \<Rightarrow> string \<Rightarrow> (string \<times> json) list \<Rightarrow> string" where
  "renderPreview num_text html ctx =
     rx_replace TEMPLATE_VARIABLE_RE
       (\<lambda>_ cs. let path = rx_group1 cs in
          case context_text num_text ctx path of
            Some v \<Rightarrow> v
          | None \<Rightarrow> ''<strong>{{'' @ path @ ''}}</strong>'') html"

definition resolveTemplateVariables :: "(rat \<Rightarrow> string) \<Rightarrow> string \<Rightarrow> (string \<times> json) list \<Rightarrow> string" where
  "resolveTemplateVariables num_text txt ctx =
     rx_replace TEMPLATE_VARIABLE_RE
       (\<lambda>matched cs. case context_text num_text ctx (rx_group1 cs) of Some v \<Rightarrow> v | None \<Rightarrow> matched) txt"

section \<open>Matches\<close>

text \<open>What each kind of pattern does to a matcher state, as elimination and introduction rules.\<close>

lemma rx_lit_match: "st' \<in> set (rx_ms (rx_lit w) (b, s, cs)) \<longleftrightarrow> (\<exists>s'. s = w @ s' \<and> st' = (rev w @ b, s', cs))"
proof (induction w arbitrary: b s)
  case Nil
  then show ?case by auto
next
  case (Cons c w)
  then show ?case by (cases s) (auto simp: rx_chr_def)
qed

lemma rx_star_cls_match:
  "st' \<in> set (rx_star (rx_cls P) (b, s, cs)) \<longleftrightarrow> (\<exists>w s'. s = w @ s' \<and> list_all P w \<and> st' = (rev w @ b, s', cs))"
proof (induction s arbitrary: b)
  case Nil
  show ?case by (subst rx_star.simps) auto
next
  case (Cons c s)
  show ?case
  proof (cases "P c")
    case False
    then show ?thesis by (subst rx_star.simps) (auto simp: Cons_eq_append_conv)
  next
    case True
    then have "st' \<in> set (rx_star (rx_cls P) (b, c # s, cs)) \<longleftrightarrow>
        st' \<in> set (rx_star (rx_cls P) (c # b, s, cs)) \<or> st' = (b, c # s, cs)"
      by (subst rx_star.simps) auto
    also have "\<dots> \<longleftrightarrow> (\<exists>w s'. c # s = w @ s' \<and> list_all P w \<and> st' = (rev w @ b, s', cs))"
      unfolding Cons.IH using True by (fastforce simp: Cons_eq_append_conv)
    finally show ?thesis .
  qed
qed

lemma rx_star_not_in_match:
  "st' \<in> set (rx_ms (RStar (rx_not_in ds)) (b, s, cs)) \<longleftrightarrow>
    (\<exists>w s'. s = w @ s' \<and> set w \<inter> set ds = {} \<and> st' = (rev w @ b, s', cs))"
  by (auto simp: rx_not_in_def rx_star_cls_match list_all_iff)

lemma rx_seq_match:
  "st' \<in> set (rx_ms (RSeq r1 r2) st) \<longleftrightarrow> (\<exists>st1 \<in> set (rx_ms r1 st). st' \<in> set (rx_ms r2 st1))"
  by auto

lemma rx_span_or_div_match:
  "st' \<in> set (rx_ms rx_span_or_div (b, s, cs)) \<longleftrightarrow>
    (\<exists>w s'. s = w @ s' \<and> w \<in> {''span'', ''div''} \<and> st' = (rev w @ b, s', cs))"
  by (auto simp: rx_span_or_div_def rx_lit_match simp del: rx_lit.simps)

lemma rx_wordb_match:
  "st' \<in> set (rx_ms RWordB (b, s, cs)) \<longleftrightarrow> rx_at_word b \<noteq> rx_at_word s \<and> st' = (b, s, cs)"
  by auto

lemma rx_cap_match: "st' \<in> set (rx_ms (RCap k r) st) \<longleftrightarrow> (\<exists>st1 \<in> set (rx_ms r st). st' = rx_close k st st1)"
  by auto

lemma rx_seqs2: "rx_seqs [a, b] = RSeq a b" "rx_seqs (a # b # c # rs) = RSeq a (rx_seqs (b # c # rs))"
  by simp_all

lemma rx_close_app [simp]: "rx_close k (b, w @ s', cs) (b', s', cs') = (b', s', (k, w) # cs')"
  by (simp add: rx_close_def)

lemma rx_cap_match_words:
  assumes "\<And>st1. st1 \<in> set (rx_ms r (b, s, cs)) \<longleftrightarrow> (\<exists>w s'. s = w @ s' \<and> Q w \<and> st1 = (rev w @ b, s', cs))"
  shows "st' \<in> set (rx_ms (RCap k r) (b, s, cs)) \<longleftrightarrow>
    (\<exists>w s'. s = w @ s' \<and> Q w \<and> st' = (rev w @ b, s', (k, w) # cs))"
proof -
  have "st' \<in> set (rx_ms (RCap k r) (b, s, cs)) \<longleftrightarrow>
      (\<exists>st1. (\<exists>w s'. s = w @ s' \<and> Q w \<and> st1 = (rev w @ b, s', cs)) \<and> st' = rx_close k (b, s, cs) st1)"
    unfolding rx_cap_match Bex_def assms ..
  also have "\<dots> \<longleftrightarrow> (\<exists>w s'. s = w @ s' \<and> Q w \<and> st' = rx_close k (b, s, cs) (rev w @ b, s', cs))"
    by blast
  also have "\<dots> \<longleftrightarrow> (\<exists>w s'. s = w @ s' \<and> Q w \<and> st' = (rev w @ b, s', (k, w) # cs))"
    by (metis rx_close_app)
  finally show ?thesis .
qed

lemma rx_cap_star_match:
  "st' \<in> set (rx_ms (RCap k (RStar (rx_not_in ds))) (b, s, cs)) \<longleftrightarrow>
    (\<exists>w s'. s = w @ s' \<and> set w \<inter> set ds = {} \<and> st' = (rev w @ b, s', (k, w) # cs))"
  by (rule rx_cap_match_words) (rule rx_star_not_in_match)

lemma rx_plus_cls_match:
  "st' \<in> set (rx_ms (rx_plus (RCls P)) (b, s, cs)) \<longleftrightarrow>
    (\<exists>c w s'. s = (c # w) @ s' \<and> P c \<and> list_all P w \<and> st' = (rev (c # w) @ b, s', cs))"
  by (cases s) (auto simp: rx_plus_def rx_star_cls_match)

lemma rx_plus_not_in_match:
  "st' \<in> set (rx_ms (rx_plus (rx_not_in ds)) (b, s, cs)) \<longleftrightarrow>
    (\<exists>w s'. s = w @ s' \<and> (w \<noteq> [] \<and> set w \<inter> set ds = {}) \<and> st' = (rev w @ b, s', cs))"
    (is "?l \<longleftrightarrow> ?r")
proof
  assume ?l
  then obtain c w s' where "s = (c # w) @ s'" "c \<notin> set ds" "list_all (\<lambda>d. d \<notin> set ds) w"
      "st' = (rev (c # w) @ b, s', cs)"
    unfolding rx_not_in_def rx_plus_cls_match by (elim exE conjE)
  then show ?r by (intro exI [of _ "c # w"] exI [of _ s']) (auto simp: list_all_iff)
next
  assume ?r
  then obtain w s' where w: "s = w @ s'" "w \<noteq> []" "set w \<inter> set ds = {}" "st' = (rev w @ b, s', cs)"
    by (elim exE conjE)
  then obtain c v where "w = c # v" by (cases w) simp_all
  with w show ?l
    unfolding rx_not_in_def rx_plus_cls_match
    by (intro exI [of _ c] exI [of _ v] exI [of _ s']) (auto simp: list_all_iff)
qed

lemma rx_cap_plus_match:
  "st' \<in> set (rx_ms (RCap k (rx_plus (rx_not_in ds))) (b, s, cs)) \<longleftrightarrow>
    (\<exists>w s'. s = w @ s' \<and> (w \<noteq> [] \<and> set w \<inter> set ds = {}) \<and> st' = (rev w @ b, s', (k, w) # cs))"
  by (rule rx_cap_match_words) (rule rx_plus_not_in_match)

lemmas rx_matches = rx_seq_match rx_lit_match rx_wordb_match rx_span_or_div_match
  rx_star_not_in_match rx_cap_star_match rx_cap_plus_match

text \<open>The place of the first occurrence of a character is determined by the text.\<close>

lemma first_split:
  "w @ c # x = p @ c # y \<Longrightarrow> c \<notin> set w \<Longrightarrow> c \<notin> set p \<Longrightarrow> w = p \<and> x = y"
proof (induction w arbitrary: p)
  case Nil
  then show ?case by (cases p) auto
next
  case (Cons a w)
  then show ?case by (cases p) auto
qed

lemma first_split_at:
  "c \<in> set u \<Longrightarrow> u @ x = p @ c # y \<Longrightarrow> c \<notin> set p \<Longrightarrow> \<exists>u'. u = p @ c # u' \<and> u' @ x = y"
proof (induction u arbitrary: p)
  case Nil
  then show ?case by simp
next
  case (Cons a u)
  show ?case
  proof (cases p)
    case Nil
    with Cons.prems show ?thesis by simp
  next
    case p: (Cons d q)
    with Cons.prems have "c \<in> set u" "u @ x = q @ c # y" "c \<notin> set q" "a = d" by auto
    from Cons.IH [OF this(1-3)] this(4) p show ?thesis by simp
  qed
qed

text \<open>A non-empty list of equal elements.\<close>

lemma all_equal_Cons: "x \<in> set xs \<Longrightarrow> (\<And>y. y \<in> set xs \<Longrightarrow> y = x) \<Longrightarrow> \<exists>ys. xs = x # ys"
  by (cases xs) (simp, metis list.set_intros(1))

section \<open>Replacing placeholders between literal text\<close>

datatype piece = Lit string | Hole string

primrec piece_text :: "(string \<Rightarrow> string) \<Rightarrow> piece \<Rightarrow> string" where
  "piece_text h (Lit s) = s"
| "piece_text h (Hole p) = h p"

definition pieces_text :: "(string \<Rightarrow> string) \<Rightarrow> piece list \<Rightarrow> string" where
  "pieces_text h ps = concat (map (piece_text h) ps)"

lemma pieces_text_simps [simp]:
  "pieces_text h [] = []" "pieces_text h (p # ps) = piece_text h p @ pieces_text h ps"
  by (simp_all add: pieces_text_def)

primrec piece_ok :: "(string \<Rightarrow> bool) \<Rightarrow> (string \<Rightarrow> bool) \<Rightarrow> piece \<Rightarrow> bool" where
  "piece_ok L H (Lit s) = L s"
| "piece_ok L H (Hole p) = H p"

lemma rx_replace_skip:
  "(\<And>b u v. s = u @ v \<Longrightarrow> v \<noteq> [] \<Longrightarrow> rx_ms r (b, v @ t, []) = []) \<Longrightarrow>
    rx_replace_from r f b (s @ t) = s @ rx_replace_from r f (rev s @ b) t"
proof (induction s arbitrary: b)
  case Nil
  then show ?case by simp
next
  case (Cons c s)
  from Cons.prems [of "[]" "c # s"] have "rx_ms r (b, c # s @ t, []) = []" by simp
  moreover have "rx_replace_from r f (c # b) (s @ t) = s @ rx_replace_from r f (rev s @ c # b) t"
    by (rule Cons.IH) (use Cons.prems [of "c # _"] in auto)
  ultimately show ?case by (simp add: rx_replace_from.simps(2))
qed

lemma rx_replace_hit:
  "rx_ms r (b, w @ t, []) = (b', t, cs) # ms \<Longrightarrow> w \<noteq> [] \<Longrightarrow>
    rx_replace_from r f b (w @ t) = f w cs @ rx_replace_from r f b' t"
  by (cases w) (simp_all add: rx_replace_from.simps(2))

text \<open>
  The contract between a pattern and the text it is run on: nothing starts to match inside an
  acceptable literal, and the written form of a hole is matched whole, its name being group 1.
\<close>

locale placeholder =
  fixes r :: rx and lit_ok :: "string \<Rightarrow> bool" and hole :: "string \<Rightarrow> string" and hole_ok :: "string \<Rightarrow> bool"
  assumes lit_skip: "lit_ok (u @ v) \<Longrightarrow> v \<noteq> [] \<Longrightarrow> rx_ms r (b, v @ t, []) = []"
    and hole_hit: "hole_ok p \<Longrightarrow> \<exists>b' ms. rx_ms r (b, hole p @ t, []) = (b', t, [(1, p)]) # ms"
    and hole_not_Nil: "hole_ok p \<Longrightarrow> hole p \<noteq> []"
begin

lemma replace_pieces_from:
  "list_all (piece_ok lit_ok hole_ok) ps \<Longrightarrow>
    rx_replace_from r f b (pieces_text hole ps) = pieces_text (\<lambda>p. f (hole p) [(1, p)]) ps"
proof (induction ps arbitrary: b)
  case Nil
  then show ?case by simp
next
  case (Cons p ps)
  then have IH: "rx_replace_from r f b' (pieces_text hole ps) = pieces_text (\<lambda>p. f (hole p) [(1, p)]) ps" for b'
    by simp
  show ?case
  proof (cases p)
    case (Lit s)
    with Cons.prems have "lit_ok s" by simp
    then have "rx_replace_from r f b (s @ pieces_text hole ps) =
        s @ rx_replace_from r f (rev s @ b) (pieces_text hole ps)"
      by (intro rx_replace_skip) (use lit_skip in blast)
    then show ?thesis using Lit IH by simp
  next
    case (Hole q)
    with Cons.prems have q: "hole_ok q" by simp
    from hole_hit [OF q] obtain b' ms
      where "rx_ms r (b, hole q @ pieces_text hole ps, []) = (b', pieces_text hole ps, [(1, q)]) # ms" by blast
    from rx_replace_hit [OF this hole_not_Nil [OF q]] show ?thesis using Hole IH by simp
  qed
qed

lemma replace_pieces:
  "list_all (piece_ok lit_ok hole_ok) ps \<Longrightarrow>
    rx_replace r f (pieces_text hole ps) = pieces_text (\<lambda>p. f (hole p) [(1, p)]) ps"
  by (simp add: rx_replace_def replace_pieces_from)

end

section \<open>The two written forms of a variable\<close>

definition braced :: "string \<Rightarrow> string" where
  "braced p = ''{{'' @ p @ ''}}''"

definition braces_free :: "string \<Rightarrow> bool" where
  "braces_free s \<longleftrightarrow> \<not> sublist ''{{'' s \<and> (s = [] \<or> last s \<noteq> CHR ''{'')"

definition path_braced :: "string \<Rightarrow> bool" where
  "path_braced p \<longleftrightarrow> p \<noteq> [] \<and> CHR ''}'' \<notin> set p"

text \<open>Literal HTML: each tag that is opened is closed, and no attribute is a \<open>data-id\<close>.\<close>

fun tags_closed :: "string \<Rightarrow> bool" where
  "tags_closed [] = True"
| "tags_closed (c # s) = ((c = CHR ''<'' \<longrightarrow> CHR ''>'' \<in> set s) \<and> tags_closed s)"

definition data_id_free :: "string \<Rightarrow> bool" where
  "data_id_free s \<longleftrightarrow> tags_closed s \<and> \<not> sublist ''data-id=\"'' s"

definition variable_label :: "variable_definition list \<Rightarrow> string \<Rightarrow> string" where
  "variable_label defs path = js_or (str_or_empty (map_get (variable_lookup defs) path)) path"

definition path_tagged :: "variable_definition list \<Rightarrow> string \<Rightarrow> bool" where
  "path_tagged defs p \<longleftrightarrow> set p \<inter> {CHR ''\"'', CHR ''=''} = {} \<and> CHR ''<'' \<notin> set (variable_label defs p)"

lemma variable_span_eq:
  "variable_span defs p =
    ''<span data-type=\"variable\" data-id=\"'' @ p @ ''\">'' @ variable_label defs p @ ''</span>''"
  by (simp add: variable_span_def variable_label_def Let_def)

lemma tags_closed_split: "tags_closed (u @ CHR ''<'' # v) \<Longrightarrow> CHR ''>'' \<in> set v"
  by (induction u) auto

lemma tags_closed_app: "tags_closed (u @ v) \<Longrightarrow> tags_closed v"
  by (induction u) auto

subsection \<open>Braces\<close>

lemma template_matches:
  "st' \<in> set (rx_ms TEMPLATE_VARIABLE_RE (b, s, cs)) \<longleftrightarrow>
    (\<exists>w s'. s = ''{{'' @ w @ ''}}'' @ s' \<and> w \<noteq> [] \<and> CHR ''}'' \<notin> set w \<and>
      st' = (rev (''{{'' @ w @ ''}}'') @ b, s', (1, w) # cs))"
  unfolding TEMPLATE_VARIABLE_RE_def rx_seqs2 rx_seq_match Bex_def
  by (auto simp: rx_matches simp del: rx_lit.simps rx_ms.simps)

lemma template_hit:
  assumes "path_braced p"
  shows "\<exists>b' ms. rx_ms TEMPLATE_VARIABLE_RE (b, braced p @ t, []) = (b', t, [(1, p)]) # ms"
proof -
  let ?x = "(rev (braced p) @ b, t, [(1, p)])"
  have "?x \<in> set (rx_ms TEMPLATE_VARIABLE_RE (b, braced p @ t, []))"
    unfolding template_matches using assms by (auto simp: path_braced_def braced_def)
  moreover have "y = ?x" if y: "y \<in> set (rx_ms TEMPLATE_VARIABLE_RE (b, braced p @ t, []))" for y
  proof -
    from y [unfolded template_matches] obtain w s' where w: "braced p @ t = ''{{'' @ w @ ''}}'' @ s'"
      "CHR ''}'' \<notin> set w" "y = (rev (''{{'' @ w @ ''}}'') @ b, s', [(1, w)])" by blast
    then have "p @ CHR ''}'' # CHR ''}'' # t = w @ CHR ''}'' # CHR ''}'' # s'" by (simp add: braced_def)
    from first_split [OF this] assms w(2) have "p = w" "t = s'" by (auto simp: path_braced_def)
    with w(3) show ?thesis by (simp add: braced_def)
  qed
  ultimately show ?thesis using all_equal_Cons by metis
qed

lemma template_skip:
  assumes "braces_free (u @ v)" and "v \<noteq> []"
  shows "rx_ms TEMPLATE_VARIABLE_RE (b, v @ t, []) = []"
proof -
  have False if y: "y \<in> set (rx_ms TEMPLATE_VARIABLE_RE (b, v @ t, []))" for y
  proof -
    from y [unfolded template_matches] obtain x where x: "v @ t = CHR ''{'' # CHR ''{'' # x" by auto
    with assms(2) obtain v' where v: "v = CHR ''{'' # v'" by (cases v) auto
    show False
    proof (cases v')
      case Nil
      with v assms(1) show ?thesis by (simp add: braces_free_def)
    next
      case (Cons d w)
      with x v have "u @ v = u @ ''{{'' @ w" by simp
      then have "sublist ''{{'' (u @ v)" unfolding sublist_def by blast
      with assms(1) show ?thesis by (simp add: braces_free_def)
    qed
  qed
  then show ?thesis by (metis list.set_intros(1) neq_Nil_conv)
qed

interpretation braces: placeholder TEMPLATE_VARIABLE_RE braces_free braced path_braced
proof
  fix u v b t p
  show "braces_free (u @ v) \<Longrightarrow> v \<noteq> [] \<Longrightarrow> rx_ms TEMPLATE_VARIABLE_RE (b, v @ t, []) = []"
    by (rule template_skip)
  show "path_braced p \<Longrightarrow> \<exists>b' ms. rx_ms TEMPLATE_VARIABLE_RE (b, braced p @ t, []) = (b', t, [(1, p)]) # ms"
    by (rule template_hit)
  show "braced p \<noteq> []" by (simp add: braced_def)
qed

subsection \<open>Tags\<close>

lemma rx_seq_word:
  assumes "\<And>st1. st1 \<in> set (rx_ms r1 (b, s, cs)) \<longleftrightarrow> (\<exists>w s'. s = w @ s' \<and> Q w \<and> st1 = (rev w @ b, s', f w cs))"
  shows "st' \<in> set (rx_ms (RSeq r1 r2) (b, s, cs)) \<longleftrightarrow>
    (\<exists>w s'. s = w @ s' \<and> Q w \<and> st' \<in> set (rx_ms r2 (rev w @ b, s', f w cs)))"
  unfolding rx_seq_match Bex_def assms by blast

lemma rx_seq_lit:
  "st' \<in> set (rx_ms (RSeq (rx_lit w) r) (b, s, cs)) \<longleftrightarrow>
    (\<exists>s'. s = w @ s' \<and> st' \<in> set (rx_ms r (rev w @ b, s', cs)))"
  unfolding rx_seq_match Bex_def rx_lit_match by blast

lemma rx_seq_wordb:
  "st' \<in> set (rx_ms (RSeq RWordB r) (b, s, cs)) \<longleftrightarrow>
    rx_at_word b \<noteq> rx_at_word s \<and> st' \<in> set (rx_ms r (b, s, cs))"
  unfolding rx_seq_match Bex_def rx_wordb_match by blast

lemmas rx_seq_tag = rx_seq_word [where f = "\<lambda>w cs. cs" and Q = "\<lambda>w. w \<in> {''span'', ''div''}", OF rx_span_or_div_match]
lemmas rx_seq_star = rx_seq_word [where f = "\<lambda>w cs. cs" and Q = "\<lambda>w. set w \<inter> set ds = {}" for ds, OF rx_star_not_in_match]
lemmas rx_seq_cap = rx_seq_word [where f = "\<lambda>w cs. (k, w) # cs" and Q = "\<lambda>w. set w \<inter> set ds = {}" for k ds, OF rx_cap_star_match]

lemmas maily_decomp = MAILY_VARIABLE_RE_def rx_seqs2 rx_seq_lit rx_seq_wordb rx_seq_tag rx_seq_star
  rx_seq_cap rx_lit_match

lemma maily_matchE:
  assumes "st' \<in> set (rx_ms MAILY_VARIABLE_RE (b, s, cs))"
  obtains tag u p v l tag' t b' where
    "s = ''<'' @ tag @ u @ ''data-id=\"'' @ p @ ''\"'' @ v @ ''>'' @ l @ ''</'' @ tag' @ ''>'' @ t"
    "st' = (b', t, (1, p) # cs)"
    "tag \<in> {''span'', ''div''}" "tag' \<in> {''span'', ''div''}"
    "set u \<inter> set ''>'' = {}" "set p \<inter> set ''\"'' = {}" "set v \<inter> set ''>'' = {}" "set l \<inter> set ''<'' = {}"
  using assms
  apply (simp only: maily_decomp)
  apply (elim exE conjE)
  apply hypsubst
  subgoal premises prems
    by (rule prems(1) [OF refl refl]) (rule prems)+
  done

lemma maily_tag_text:
  assumes "set p \<inter> {CHR ''\"'', CHR ''=''} = {}" and "CHR ''<'' \<notin> set l"
  shows "\<exists>b'. (b', t, [(1, p)]) \<in> set (rx_ms MAILY_VARIABLE_RE
    (b, ''<'' @ ''span'' @ '' data-type=\"variable\" '' @ ''data-id=\"'' @ p @ ''\"'' @ [] @ ''>'' @ l @ ''</'' @ ''span'' @ ''>'' @ t, []))"
  apply (simp only: maily_decomp)
  apply (intro exI conjI)
                      apply ((rule refl | simp add: assms rx_word_def)+)[20]
  using assms by auto

text \<open>The attribute the pattern looks for is the last one of the element's opening tag.\<close>

lemma maily_attr_unique:
  assumes e: "u @ ''data-id=\"'' @ x = '' data-type=\"variable\" '' @ ''data-id=\"'' @ p @ ''\">'' @ y"
    and u: "CHR ''>'' \<notin> set u" and p: "CHR ''='' \<notin> set p"
  shows "u = '' data-type=\"variable\" ''"
proof -
  have e1: "u @ ''data-id=\"'' @ x = '' data-type'' @ CHR ''='' # ''\"variable\" data-id=\"'' @ p @ ''\">'' @ y"
    using e by simp
  have "CHR ''='' \<in> set u"
  proof (rule ccontr)
    assume "CHR ''='' \<notin> set u"
    then have "u @ ''data-id'' = '' data-type''"
      using first_split [of "u @ ''data-id''" "CHR ''=''" "''\"'' @ x"] e1 by simp
    then have "last (u @ ''data-id'') = last '' data-type''" by simp
    then show False by simp
  qed
  from first_split_at [OF this e1] obtain u2 where u2: "u = '' data-type'' @ CHR ''='' # u2"
    and e2: "u2 @ ''data-id=\"'' @ x = ''\"variable\" data-id'' @ CHR ''='' # ''\"'' @ p @ ''\">'' @ y"
    by auto
  have "CHR ''='' \<notin> set u2"
  proof
    assume "CHR ''='' \<in> set u2"
    from first_split_at [OF this e2] obtain u4 where u4: "u2 = ''\"variable\" data-id'' @ CHR ''='' # u4"
      and e4: "u4 @ ''data-id=\"'' @ x = ''\"'' @ p @ ''\">'' @ y" by auto
    have gt: "CHR ''>'' \<notin> set u4" using u u2 u4 by simp
    let ?w = "takeWhile (\<lambda>c. c \<noteq> CHR ''='') (u4 @ ''data-id=\"'' @ x)"
    have "set ?w \<subseteq> set (u4 @ ''data-id'')"
      by (cases "CHR ''='' \<in> set u4") (auto simp: takeWhile_append dest: set_takeWhileD)
    then have "CHR ''>'' \<notin> set ?w" using gt by auto
    moreover have "CHR ''>'' \<in> set (takeWhile (\<lambda>c. c \<noteq> CHR ''='') (''\"'' @ p @ ''\">'' @ y))"
      using p by (simp add: takeWhile_append)
    ultimately show False unfolding e4 by simp
  qed
  then have "u2 @ ''data-id'' = ''\"variable\" data-id''"
    using first_split [of "u2 @ ''data-id''" "CHR ''=''" "''\"'' @ x"] e2 by simp
  then have "u2 @ ''data-id'' = ''\"variable\" '' @ ''data-id''" by simp
  then have "u2 = ''\"variable\" ''" by (simp only: append_same_eq)
  with u2 show ?thesis by simp
qed

lemma maily_hit:
  assumes "path_tagged defs p"
  shows "\<exists>b' ms. rx_ms MAILY_VARIABLE_RE (b, variable_span defs p @ t, []) = (b', t, [(1, p)]) # ms"
proof -
  let ?A = "'' data-type=\"variable\" ''" and ?D = "''data-id=\"''" and ?l = "variable_label defs p"
  have p: "CHR ''\"'' \<notin> set p" "CHR ''='' \<notin> set p" and l: "CHR ''<'' \<notin> set ?l"
    using assms by (auto simp: path_tagged_def)
  have T: "variable_span defs p @ t =
      ''<'' @ ''span'' @ ?A @ ?D @ p @ ''\"'' @ [] @ ''>'' @ ?l @ ''</'' @ ''span'' @ ''>'' @ t"
    by (simp add: variable_span_eq)
  from maily_tag_text [of p ?l t b] p l
  obtain b1 where "(b1, t, [(1, p)]) \<in> set (rx_ms MAILY_VARIABLE_RE (b, variable_span defs p @ t, []))"
    unfolding T by auto
  moreover have "fst (snd y) = t \<and> snd (snd y) = [(1, p)]"
    if y: "y \<in> set (rx_ms MAILY_VARIABLE_RE (b, variable_span defs p @ t, []))" for y
  proof -
    from y obtain tag u q v k tag' t' b' where eq: "variable_span defs p @ t =
        ''<'' @ tag @ u @ ?D @ q @ ''\"'' @ v @ ''>'' @ k @ ''</'' @ tag' @ ''>'' @ t'"
      and y: "y = (b', t', [(1, q)])" and tags: "tag \<in> {''span'', ''div''}" "tag' \<in> {''span'', ''div''}"
      and set: "set u \<inter> set ''>'' = {}" "set q \<inter> set ''\"'' = {}" "set v \<inter> set ''>'' = {}" "set k \<inter> set ''<'' = {}"
      by (rule maily_matchE)
    from eq tags have e1: "u @ ?D @ q @ ''\"'' @ v @ ''>'' @ k @ ''</'' @ tag' @ ''>'' @ t' =
        ?A @ ?D @ p @ ''\">'' @ ?l @ ''</span>'' @ t"
      unfolding T by auto
    have u: "u = ?A" by (rule maily_attr_unique [OF e1 _ p(2)]) (use set(1) in simp)
    with e1 have "q @ CHR ''\"'' # v @ ''>'' @ k @ ''</'' @ tag' @ ''>'' @ t' =
        p @ CHR ''\"'' # ''>'' @ ?l @ ''</span>'' @ t" by simp
    from first_split [OF this] set(2) p(1) have q: "q = p"
      and e2: "v @ CHR ''>'' # k @ ''</'' @ tag' @ ''>'' @ t' = [] @ CHR ''>'' # ?l @ ''</span>'' @ t" by simp_all
    from first_split [OF e2] set(3)
    have "k @ CHR ''<'' # ''/'' @ tag' @ ''>'' @ t' = ?l @ CHR ''<'' # ''/span>'' @ t" by simp
    from first_split [OF this] set(4) l have "''/'' @ tag' @ ''>'' @ t' = ''/span>'' @ t" by simp
    with tags(2) have "t' = t" by auto
    with q y show ?thesis by simp
  qed
  ultimately obtain y ys where ys: "rx_ms MAILY_VARIABLE_RE (b, variable_span defs p @ t, []) = y # ys"
    and "fst (snd y) = t \<and> snd (snd y) = [(1, p)]"
    by (metis list.set_cases list.set_intros(1))
  then have "y = (fst y, t, [(1, p)])" by (metis prod.collapse)
  with ys show ?thesis by metis
qed

lemma common_prefix:
  "c \<in> set a \<Longrightarrow> a @ t = m @ r \<Longrightarrow> c \<notin> set m \<Longrightarrow> \<exists>z. a = m @ z"
  by (auto simp: append_eq_append_conv2)

lemma maily_skip:
  assumes "data_id_free (u @ v)" and "v \<noteq> []"
  shows "rx_ms MAILY_VARIABLE_RE (b, v @ t, []) = []"
proof -
  let ?D = "''data-id=\"''"
  have False if y: "y \<in> set (rx_ms MAILY_VARIABLE_RE (b, v @ t, []))" for y
  proof -
    from y obtain tag w q x k tag' t' b' where eq: "v @ t =
        ''<'' @ tag @ w @ ?D @ q @ ''\"'' @ x @ ''>'' @ k @ ''</'' @ tag' @ ''>'' @ t'"
      and tag: "tag \<in> {''span'', ''div''}" and w: "set w \<inter> set ''>'' = {}"
      by (rule maily_matchE)
    from eq assms(2) obtain v' where v: "v = CHR ''<'' # v'" by (cases v) auto
    have "CHR ''>'' \<in> set v'"
      using assms(1) tags_closed_split [of u v'] v by (simp add: data_id_free_def)
    moreover have e: "v' @ t = (tag @ w @ ?D) @ (q @ ''\"'' @ x @ ''>'' @ k @ ''</'' @ tag' @ ''>'' @ t')"
      using eq v by simp
    moreover have "CHR ''>'' \<notin> set (tag @ w @ ?D)" using tag w by auto
    ultimately have "\<exists>z. v' = (tag @ w @ ?D) @ z"
      by (rule common_prefix)
    then obtain z where "v' = (tag @ w) @ ?D @ z" by auto
    with v have "u @ v = (u @ ''<'' @ tag @ w) @ ?D @ z" by simp
    then have "sublist ?D (u @ v)" unfolding sublist_def by blast
    with assms(1) show False by (simp add: data_id_free_def)
  qed
  then show ?thesis by (metis list.set_intros(1) neq_Nil_conv)
qed

interpretation tags: placeholder MAILY_VARIABLE_RE data_id_free "variable_span defs" "path_tagged defs" for defs
proof
  fix u v b t p
  show "data_id_free (u @ v) \<Longrightarrow> v \<noteq> [] \<Longrightarrow> rx_ms MAILY_VARIABLE_RE (b, v @ t, []) = []"
    by (rule maily_skip)
  show "path_tagged defs p \<Longrightarrow>
      \<exists>b' ms. rx_ms MAILY_VARIABLE_RE (b, variable_span defs p @ t, []) = (b', t, [(1, p)]) # ms"
    by (rule maily_hit)
  show "variable_span defs p \<noteq> []" by (simp add: variable_span_def Let_def)
qed

section \<open>The four functions on a template\<close>

definition template_piece_ok :: "variable_definition list \<Rightarrow> piece \<Rightarrow> bool" where
  "template_piece_ok defs = piece_ok (\<lambda>s. braces_free s \<and> data_id_free s) (\<lambda>p. path_braced p \<and> path_tagged defs p)"

lemma template_piece_okD:
  "list_all (template_piece_ok defs) ps \<Longrightarrow> list_all (piece_ok braces_free path_braced) ps"
  "list_all (template_piece_ok defs) ps \<Longrightarrow> list_all (piece_ok data_id_free (path_tagged defs)) ps"
proof -
  have "template_piece_ok defs x \<Longrightarrow> piece_ok braces_free path_braced x \<and> piece_ok data_id_free (path_tagged defs) x" for x
    by (cases x) (simp_all add: template_piece_ok_def)
  then show "list_all (template_piece_ok defs) ps \<Longrightarrow> list_all (piece_ok braces_free path_braced) ps"
    "list_all (template_piece_ok defs) ps \<Longrightarrow> list_all (piece_ok data_id_free (path_tagged defs)) ps"
    by (auto simp: list_all_iff)
qed

lemma rx_group1_one [simp]: "rx_group1 [(Suc 0, p)] = p"
  by (simp add: rx_group1_def)

lemma textToMailyVariables_pieces:
  "list_all (piece_ok braces_free path_braced) ps \<Longrightarrow>
    textToMailyVariables (pieces_text braced ps) defs = pieces_text (variable_span defs) ps"
  by (simp add: textToMailyVariables_def braces.replace_pieces)

text \<open>C21: A template loaded into the editor and saved again is the same template: turning every placeholder
  of its text into a variable element and every variable element back gives the text it came from,
  whatever the labels, for literal HTML with closed tags around paths without quotes or equals signs.\<close>

theorem editor_roundtrip:
  assumes "list_all (template_piece_ok defs) ps"
  shows "mailyVariablesToText (textToMailyVariables (pieces_text braced ps) defs) = pieces_text braced ps"
proof -
  have "mailyVariablesToText (pieces_text (variable_span defs) ps) = pieces_text (\<lambda>p. ''{{'' @ p @ ''}}'') ps"
    using template_piece_okD(2) [OF assms] by (simp add: mailyVariablesToText_def tags.replace_pieces)
  then show ?thesis
    unfolding textToMailyVariables_pieces [OF template_piece_okD(1) [OF assms]]
    by (simp only: braced_def [abs_def])
qed

definition sample_template :: "piece list" where
  "sample_template = [Lit ''<p>Hi '', Hole ''subscriber.firstName'', Lit ''!</p><br>'', Hole ''order'']"

lemma sample_template_ok:
  "list_all (template_piece_ok [\<lparr>vd_path = ''order'', vd_label = ''Order no'', vd_type = ''string'', vd_description = []\<rparr>]) sample_template"
  by code_simp

theorem editor_roundtrip_witness:
  "mailyVariablesToText (textToMailyVariables ''<p>Hi {{subscriber.firstName}}!</p><br>{{order}}''
     [\<lparr>vd_path = ''order'', vd_label = ''Order no'', vd_type = ''string'', vd_description = []\<rparr>]) =
   ''<p>Hi {{subscriber.firstName}}!</p><br>{{order}}''"
  using editor_roundtrip [OF sample_template_ok] by (simp add: sample_template_def braced_def)

text \<open>The two previews agree wherever the context has a text for the variable, which they put in its
  place; an unknown variable stays as it is written in one and is highlighted in the other, and the
  text between the variables is copied.\<close>

theorem previews_substitute:
  assumes "list_all (piece_ok braces_free path_braced) ps"
  shows "resolveTemplateVariables num_text (pieces_text braced ps) ctx =
      pieces_text (\<lambda>p. case context_text num_text ctx p of Some v \<Rightarrow> v | None \<Rightarrow> braced p) ps \<and>
    renderPreview num_text (pieces_text braced ps) ctx =
      pieces_text (\<lambda>p. case context_text num_text ctx p of Some v \<Rightarrow> v
        | None \<Rightarrow> ''<strong>'' @ braced p @ ''</strong>'') ps"
  using assms
  by (simp add: resolveTemplateVariables_def renderPreview_def braces.replace_pieces Let_def braced_def
      cong: option.case_cong)

theorem previews_substitute_witness:
  "resolveTemplateVariables (\<lambda>_. ''7'') ''Hi {{a}}, {{b}}'' [(''a'', JStr ''Ann'')] = ''Hi Ann, {{b}}'' \<and>
   renderPreview (\<lambda>_. ''7'') ''Hi {{a}}, {{b}}'' [(''b'', JNum 7)] = ''Hi <strong>{{a}}</strong>, 7''"
proof -
  let ?ps = "[Lit ''Hi '', Hole ''a'', Lit '', '', Hole ''b'']"
  have ok: "list_all (piece_ok braces_free path_braced) ?ps" by code_simp
  show ?thesis
    using previews_substitute [OF ok, of "\<lambda>_. ''7''" "[(''a'', JStr ''Ann'')]"]
      previews_substitute [OF ok, of "\<lambda>_. ''7''" "[(''b'', JNum 7)]"]
    by (simp add: braced_def context_text_def)
qed

end
