(* ===== verification/Display.thy ===== *)
theory Display
  imports Draft Encode
begin

text \<open>
  The texts the builder and the previews show: names, descriptions, tones and badges of nodes
  (\<open>features/workflows/utils/display\<close>), sender lines and card sizes (\<open>utils/preview.ts\<close>), the preview
  context and the values of the data panel (\<open>utils/preview-context.ts\<close>, \<open>utils/data-panel.ts\<close>), the
  object printer (\<open>utils/colorize-object.ts\<close>) and the variables the editor offers
  (\<open>constants/variables.ts\<close>).

  The lemmas show that the variables the editor offers for a subscriber or a workflow are the ones
  the preview context fills, with the two exceptions proved as such.  What \<open>JSON.parse\<close> makes of the
  payload text and how a number is printed are parameters.
\<close>

section \<open>Nodes (\<open>utils/display\<close>)\<close>

record channel_labels =
  cl_subject :: string
  cl_body :: string
  cl_hint :: string

definition channelConfigLabels :: "(string \<times> channel_labels) list" where
  "channelConfigLabels =
     [(''email'', \<lparr>cl_subject = ''Email subject'', cl_body = ''Email body'',
         cl_hint = ''Write the outgoing email subject and body used for this node.''\<rparr>),
      (''sms'', \<lparr>cl_subject = ''SMS label'', cl_body = ''SMS body'',
         cl_hint = ''Write the SMS content that will be sent when this step runs.''\<rparr>),
      (''push'', \<lparr>cl_subject = ''Push title'', cl_body = ''Push message'',
         cl_hint = ''Write the push title and message for this notification step.''\<rparr>)]"

definition buildNodeDescription :: "node_draft \<Rightarrow> string" where
  "buildNodeDescription draft =
     (case bn_type draft of
        Trigger \<Rightarrow> ''Starts the workflow when you test or receive the trigger event.''
      | Delay \<Rightarrow> ''Waits for a fixed amount of time before the next step runs.''
      | Notification \<Rightarrow> ''Sends a channel message using the content configured for this step.''
      | Condition \<Rightarrow> ''Legacy branching step retained for compatibility.''
      | OtherType _ \<Rightarrow> ''Configure the behavior for this workflow step.'')"

datatype node_icon =
    Icon_BellRing | Icon_Clock3 | Icon_GitBranch | Icon_Mail | Icon_MessageSquare | Icon_Rocket | Icon_Smartphone

record node_meta =
  nm_icon :: node_icon
  nm_description :: string
  nm_iconClassName :: string
  nm_label :: string
  nm_status :: string
  nm_statusClassName :: string

definition notificationIcon :: "string \<Rightarrow> node_icon" where
  "notificationIcon channel =
     (if channel = ''sms'' then Icon_MessageSquare
      else if channel = ''push'' then Icon_Smartphone
      else Icon_Mail)"

definition notificationIconClass :: "string \<Rightarrow> string" where
  "notificationIconClass channel =
     (if channel = ''sms'' then ''border border-success/25 bg-lightsuccess/80 text-success''
      else if channel = ''push'' then ''border border-warning/25 bg-lightwarning/80 text-warning''
      else ''border border-primary/25 bg-lightprimary/80 text-primary'')"

definition getNodeMeta :: "node_draft \<Rightarrow> node_meta" where
  "getNodeMeta node =
     (case bn_type node of
        Trigger \<Rightarrow> \<lparr>nm_icon = Icon_Rocket, nm_description = ''Starts the workflow run.'',
          nm_iconClassName = ''border border-success/25 bg-lightsuccess/80 text-success'',
          nm_label = ''Trigger'', nm_status = [], nm_statusClassName = []\<rparr>
      | Delay \<Rightarrow> \<lparr>nm_icon = Icon_Clock3, nm_description = ''Pauses before the next step.'',
          nm_iconClassName = ''border border-warning/25 bg-lightwarning/80 text-warning'',
          nm_label = ''Delay'', nm_status = [], nm_statusClassName = []\<rparr>
      | Condition \<Rightarrow> \<lparr>nm_icon = Icon_GitBranch, nm_description = ''Legacy branching step.'',
          nm_iconClassName = ''border border-info/25 bg-lightinfo/80 text-info'',
          nm_label = ''Condition'', nm_status = [], nm_statusClassName = []\<rparr>
      | Notification \<Rightarrow> \<lparr>nm_icon = notificationIcon (bn_channel node),
          nm_description = ''Sends a configured channel message.'',
          nm_iconClassName = notificationIconClass (bn_channel node),
          nm_label = ''Notification'', nm_status = [], nm_statusClassName = []\<rparr>
      | OtherType _ \<Rightarrow> \<lparr>nm_icon = Icon_BellRing, nm_description = ''Workflow step'',
          nm_iconClassName = ''border border-primary/25 bg-lightprimary/80 text-primary'',
          nm_label = ''Step'', nm_status = [], nm_statusClassName = []\<rparr>)"

definition hasConfiguredTemplateId :: "string \<Rightarrow> bool" where
  "hasConfiguredTemplateId templateId =
     (let normalized = js_trim templateId
      in normalized \<noteq> [] \<and> normalized \<noteq> zeroUUID \<and> is_uuid normalized)"

definition buildNodeSubtitle :: "node_draft \<Rightarrow> string \<Rightarrow> string" where
  "buildNodeSubtitle draft triggerEvent =
     (case bn_type draft of
        Trigger \<Rightarrow> []
      | Delay \<Rightarrow> if bn_duration draft \<noteq> [] then ''Wait '' @ bn_duration draft else ''Configure delay''
      | Condition \<Rightarrow> ''Unsupported in linear workflows''
      | _ \<Rightarrow> [])"

definition getNodeTone :: "wf_node_type \<Rightarrow> string" where
  "getNodeTone t =
     (case t of
        Notification \<Rightarrow> ''border-primary/40 bg-primary/8 text-primary''
      | Delay \<Rightarrow> ''border-warning/35 bg-warning/10 text-warningemphasis''
      | Condition \<Rightarrow> ''border-info/35 bg-info/10 text-infoemphasis''
      | Trigger \<Rightarrow> ''border-success/35 bg-success/10 text-successemphasis''
      | OtherType _ \<Rightarrow> ''border-border bg-muted/40 text-foreground'')"

section \<open>Sender lines and cards (\<open>utils/preview.ts\<close>)\<close>

definition formatSenderLine :: "string option \<Rightarrow> string option \<Rightarrow> string" where
  "formatSenderLine senderName senderEmail =
     (if truthy senderName \<and> truthy senderEmail
      then str_or_empty senderName @ '' <'' @ str_or_empty senderEmail @ ''>'' else [])"

definition getDisplaySenderName :: "string option \<Rightarrow> string" where
  "getDisplaySenderName senderName = js_or (str_or_empty senderName) ''Sender''"

definition getDisplaySenderLine :: "string \<Rightarrow> string" where
  "getDisplaySenderLine senderLine = js_or senderLine ''sender@example.com''"

text \<open>\<open>[a, b].filter(Boolean).join(' ')\<close>\<close>

definition join_present :: "string option list \<Rightarrow> string" where
  "join_present xs = js_join '' '' (map str_or_empty (filter truthy xs))"

definition buildSubscriberDisplayName :: "string option \<Rightarrow> string option \<Rightarrow> string" where
  "buildSubscriberDisplayName firstName lastName =
     js_or (join_present [firstName, lastName]) ''Selected subscriber''"

text \<open>\<open>s.replace(pattern, t)\<close> with a string pattern: the first occurrence is replaced.\<close>

fun js_replace_first :: "string \<Rightarrow> string \<Rightarrow> string \<Rightarrow> string" where
  "js_replace_first p t [] = (if p = [] then t else [])"
| "js_replace_first p t (c # s) =
     (if prefix p (c # s) then t @ drop (length p) (c # s) else c # js_replace_first p t s)"

definition disableMobileBreakpoint :: "string \<Rightarrow> string" where
  "disableMobileBreakpoint emailHtml = js_replace_first ''max-width:425px'' ''max-width:1px'' emailHtml"

record card_sizes =
  cs_avatar :: string
  cs_headerPad :: string
  cs_gap :: string
  cs_nameSize :: string
  cs_emailSize :: string
  cs_timeSize :: string
  cs_subjectSize :: string
  cs_bodyHeight :: string
  cs_emptyPad :: string

definition getCardSizes :: "bool \<Rightarrow> card_sizes" where
  "getCardSizes small =
     \<lparr>cs_avatar = (if small then ''h-7 w-7 text-[11px]'' else ''h-9 w-9 text-[13px]''),
      cs_headerPad = (if small then ''px-4 py-3'' else ''px-5 py-4''),
      cs_gap = (if small then ''gap-2'' else ''gap-3''),
      cs_nameSize = (if small then ''text-xs'' else ''text-sm''),
      cs_emailSize = (if small then ''text-[11px]'' else ''text-[13px]''),
      cs_timeSize = (if small then ''text-[10px]'' else ''text-[11px]''),
      cs_subjectSize = (if small then ''text-xs'' else ''text-[13px]''),
      cs_bodyHeight = (if small then ''h-75'' else ''h-105''),
      cs_emptyPad = (if small then ''px-4 py-8 text-xs'' else ''px-4 py-8 text-sm'')\<rparr>"

section \<open>Subscribers in the previews\<close>

record preview_subscriber =
  ps_id :: string
  ps_firstName :: "string option"
  ps_lastName :: "string option"
  ps_email :: "string option"
  ps_phone :: "string option"
  ps_metadata :: "(string \<times> json) list option"

record workflow_ref =
  wr_id :: string
  wr_key :: string
  wr_name :: string

definition set_present :: "string \<Rightarrow> string option \<Rightarrow> (string, json) js_map \<Rightarrow> (string, json) js_map" where
  "set_present k v ctx = (if truthy v then map_set k (JStr (str_or_empty v)) ctx else ctx)"

text \<open>
  \<open>Object.entries\<close> of a parsed value: the properties of an object, the elements of an array under
  their positions; the code skips every other value.
\<close>

definition json_entries :: "json \<Rightarrow> (string \<times> json) list" where
  "json_entries v =
     (case v of
        JObj kvs \<Rightarrow> kvs
      | JArr xs \<Rightarrow> map (\<lambda>(i, x). (show_nat i, x)) (indexed xs)
      | _ \<Rightarrow> [])"

text \<open>The name a payload entry has in a template.\<close>

definition payload_key :: "string \<Rightarrow> string" where
  "payload_key key = ''payload.'' @ key"

definition buildPreviewContext ::
  "(string \<Rightarrow> json option) \<Rightarrow> preview_subscriber option \<Rightarrow> workflow_ref option \<Rightarrow> string \<Rightarrow> (string, json) js_map" where
  "buildPreviewContext parse subscriber workflow payloadJson =
     (let ctx1 = (case subscriber of None \<Rightarrow> [] | Some s \<Rightarrow>
            set_present ''subscriber.phone'' (ps_phone s)
              (set_present ''subscriber.email'' (ps_email s)
                (set_present ''subscriber.lastName'' (ps_lastName s)
                  (set_present ''subscriber.firstName'' (ps_firstName s)
                    (map_set ''subscriber.id'' (JStr (ps_id s)) [])))));
          ctx2 = (case workflow of None \<Rightarrow> ctx1 | Some w \<Rightarrow>
            map_set ''workflow.name'' (JStr (wr_name w))
              (map_set ''workflow.key'' (JStr (wr_key w)) (map_set ''workflow.id'' (JStr (wr_id w)) ctx1)))
      in case parse payloadJson of
           None \<Rightarrow> ctx2
         | Some payloadObj \<Rightarrow>
             fold (\<lambda>(key, value) ctx. map_set (payload_key key) value ctx) (json_entries payloadObj) ctx2)"

text \<open>\<open>String(v)\<close> of a JSON value: an array joins its elements, \<open>null\<close> among them being empty.\<close>

fun js_String :: "(rat \<Rightarrow> string) \<Rightarrow> json \<Rightarrow> string" where
  "js_String num_text JNull = ''null''"
| "js_String num_text (JBool b) = (if b then ''true'' else ''false'')"
| "js_String num_text (JNum x) = num_text x"
| "js_String num_text (JStr s) = s"
| "js_String num_text (JArr xs) =
     js_join '','' (map (\<lambda>x. if x = JNull then [] else js_String num_text x) xs)"
| "js_String num_text (JObj kvs) = ''[object Object]''"

text \<open>\<open>field in metadata\<close> is read on the object's own properties.\<close>

definition getPreviewValue :: "(rat \<Rightarrow> string) \<Rightarrow> string \<Rightarrow> preview_subscriber option \<Rightarrow> string option" where
  "getPreviewValue num_text path subscriber =
     (case subscriber of
        None \<Rightarrow> None
      | Some s \<Rightarrow>
          (let parts = js_split CHR ''.'' path
           in if length parts < 2 then None
              else
                (let group = parts ! 0; field = js_join ''.'' (drop 1 parts)
                 in if group = ''subscriber'' then
                      (if field = ''firstName'' then ps_firstName s
                       else if field = ''lastName'' then ps_lastName s
                       else if field = ''email'' then ps_email s
                       else if field = ''phone'' then ps_phone s
                       else if field = ''name'' then
                         (let full = join_present [ps_firstName s, ps_lastName s]
                          in if full = [] then None else Some full)
                       else (case ps_metadata s of
                               None \<Rightarrow> None
                             | Some md \<Rightarrow>
                                 (case map_of md field of
                                    None \<Rightarrow> None
                                  | Some v \<Rightarrow> Some (js_String num_text v))))
                    else None)))"

text \<open>\<open>key.padEnd(n)\<close>\<close>

definition js_padEnd :: "nat \<Rightarrow> string \<Rightarrow> string" where
  "js_padEnd n s = s @ replicate (n - length s) CHR '' ''"

definition colorizeObject :: "(rat \<Rightarrow> string) \<Rightarrow> (string \<times> json) list \<Rightarrow> string" where
  "colorizeObject num_text data =
     (let entries = filter (\<lambda>(k, v). v \<noteq> JNull) data
      in if length entries = 0 then ''{ }''
         else
           (let maxKeyLen = Max (set (map (\<lambda>(k, v). length k) entries));
                lines = map (\<lambda>(key, value).
                  (let val = (case value of
                       JStr s \<Rightarrow> ''<span style=\"color:#16a34a\">\"'' @ s @ ''\"</span>''
                     | _ \<Rightarrow> ''<span style=\"color:#d97706\">'' @ js_String num_text value @ ''</span>'')
                   in ''  '' @ js_padEnd maxKeyLen key @ '': '' @ val)) entries
            in ''{\<newline>'' @ js_join '',\<newline>'' lines @ ''\<newline>}''))"

section \<open>The variables the editor offers (\<open>constants/variables.ts\<close>)\<close>

record variable_group =
  vg_id :: string
  vg_label :: string
  vg_variables :: "variable_definition list"

definition variable_def :: "string \<Rightarrow> string \<Rightarrow> string \<Rightarrow> string \<Rightarrow> variable_definition" where
  "variable_def p l t d = \<lparr>vd_path = p, vd_label = l, vd_type = t, vd_description = d\<rparr>"

definition DEFAULT_VARIABLE_GROUPS :: "variable_group list" where
  "DEFAULT_VARIABLE_GROUPS =
     [\<lparr>vg_id = ''subscriber'', vg_label = ''Subscriber'', vg_variables =
        [variable_def ''subscriber.id'' ''Subscriber ID'' ''string'' ''Unique subscriber identifier'',
         variable_def ''subscriber.firstName'' ''First Name'' ''string'' ''Subscriber first name'',
         variable_def ''subscriber.lastName'' ''Last Name'' ''string'' ''Subscriber last name'',
         variable_def ''subscriber.email'' ''Email'' ''string'' ''Subscriber email address'',
         variable_def ''subscriber.phone'' ''Phone'' ''string'' ''Subscriber phone number'',
         variable_def ''subscriber.name'' ''Full Name'' ''string'' ''Subscriber full display name'',
         variable_def ''subscriber.tags'' ''Tags'' ''array'' ''Subscriber tags'']\<rparr>,
      \<lparr>vg_id = ''workflow'', vg_label = ''Workflow'', vg_variables =
        [variable_def ''workflow.id'' ''Workflow ID'' ''string'' ''Workflow unique identifier'',
         variable_def ''workflow.key'' ''Workflow Key'' ''string'' ''Workflow unique key'',
         variable_def ''workflow.name'' ''Workflow Name'' ''string'' ''Workflow display name'']\<rparr>]"

section \<open>What the previews know about the offered variables\<close>

text \<open>The payload of the preview never hides a variable of the subscriber or the workflow.\<close>

lemma payload_entries_other:
  "\<not> prefix ''payload.'' k \<Longrightarrow>
    map_get (fold (\<lambda>(key, value) ctx. map_set (payload_key key) value ctx) kvs ctx) k = map_get ctx k"
proof (induction kvs arbitrary: ctx)
  case (Cons kv kvs)
  from Cons.prems have "k \<noteq> payload_key (fst kv)" by (auto simp: payload_key_def)
  with Cons show ?case by (cases kv) (simp add: map_get_set)
qed simp

lemma set_present_get:
  "map_get (set_present k v ctx) k' = (if k' = k \<and> truthy v then Some (JStr (str_or_empty v)) else map_get ctx k')"
  by (simp add: set_present_def map_get_set)

lemma context_of_subscriber:
  assumes "\<not> prefix ''payload.'' k"
  shows "map_get (buildPreviewContext parse (Some s) (Some w) txt) k =
    (if k = ''subscriber.id'' then Some (JStr (ps_id s))
     else if k = ''subscriber.firstName'' \<and> truthy (ps_firstName s) then Some (JStr (str_or_empty (ps_firstName s)))
     else if k = ''subscriber.lastName'' \<and> truthy (ps_lastName s) then Some (JStr (str_or_empty (ps_lastName s)))
     else if k = ''subscriber.email'' \<and> truthy (ps_email s) then Some (JStr (str_or_empty (ps_email s)))
     else if k = ''subscriber.phone'' \<and> truthy (ps_phone s) then Some (JStr (str_or_empty (ps_phone s)))
     else if k = ''workflow.id'' then Some (JStr (wr_id w))
     else if k = ''workflow.key'' then Some (JStr (wr_key w))
     else if k = ''workflow.name'' then Some (JStr (wr_name w))
     else None)"
  by (cases "parse txt")
    (simp_all add: buildPreviewContext_def Let_def payload_entries_other [OF assms] map_get_set set_present_get)

definition offered_paths :: "string list" where
  "offered_paths = map vd_path (concat (map vg_variables DEFAULT_VARIABLE_GROUPS))"

lemma offered_paths_eq:
  "offered_paths = [''subscriber.id'', ''subscriber.firstName'', ''subscriber.lastName'', ''subscriber.email'',
     ''subscriber.phone'', ''subscriber.name'', ''subscriber.tags'', ''workflow.id'', ''workflow.key'', ''workflow.name'']"
  by (simp add: offered_paths_def DEFAULT_VARIABLE_GROUPS_def variable_def_def)

text \<open>For a subscriber whose fields are all filled in, the preview resolves every variable the editor
  offers except two, the full name and the tags, whatever the payload; these two are offered but never
  substituted.\<close>

theorem offered_variables_resolved:
  assumes "truthy (ps_firstName s)" "truthy (ps_lastName s)" "truthy (ps_email s)" "truthy (ps_phone s)"
  shows "filter (\<lambda>p. context_text num_text (buildPreviewContext parse (Some s) (Some w) txt) p = None) offered_paths =
    [''subscriber.name'', ''subscriber.tags'']"
  by (simp add: offered_paths_eq context_text_def context_of_subscriber assms)

theorem offered_variables_resolved_witness:
  "let s = \<lparr>ps_id = ''1'', ps_firstName = Some ''Ann'', ps_lastName = Some ''Lee'', ps_email = Some ''a@b.c'',
         ps_phone = Some ''1'', ps_metadata = None\<rparr>;
       w = \<lparr>wr_id = ''w'', wr_key = ''k'', wr_name = ''n''\<rparr>
   in filter (\<lambda>p. context_text (\<lambda>_. []) (buildPreviewContext (\<lambda>_. None) (Some s) (Some w) ''{}'') p = None) offered_paths =
     [''subscriber.name'', ''subscriber.tags'']"
  unfolding Let_def by (rule offered_variables_resolved) simp_all

end
