(* ===== verification/Sms.thy ===== *)
theory Sms
  imports Prelude "HOL-Library.Word"
begin

text \<open>
  SMS segments (\<open>features/workflows/utils/sms.ts\<close>).  The character classes here go beyond Latin-1, so
  a text is the list of its UTF-16 code units, 16-bit words, and \<open>length\<close> counts them as JavaScript
  does.  The capacities of an alphabet, that of a message alone and that of a part of a longer one, form
  an interface (\<open>sms_capacity\<close>); both alphabets are instances.  The number of segments shown is compared
  with the parts a message is really sent in, where a character of the extension table takes two septets.
\<close>

type_synonym code_unit = "16 word"

section \<open>The alphabet\<close>

definition gsm7_ranges :: "(code_unit \<times> code_unit) list" where
  "gsm7_ranges = [(0x41, 0x5A), (0x61, 0x7A), (0x30, 0x39)]"

text \<open>The single characters of the class, in the order of the pattern.\<close>

definition gsm7_singles :: "code_unit list" where
  "gsm7_singles =
     [0x20, 0x0D, 0x0A, 0x40, 0xA3, 0x24, 0xA5, 0xE8, 0xE9, 0xF9, 0xEC, 0xF2, 0xC7, 0xD8, 0xF8, 0xC5, 0xE5,
      0x394, 0x5F, 0x3A6, 0x393, 0x39B, 0x3A9, 0x3A0, 0x3A8, 0x3A3, 0x398, 0x39E, 0xC6, 0xE6, 0xDF, 0xC9,
      0x21, 0x22, 0x23, 0x24, 0x25, 0x26, 0x27, 0x28, 0x29, 0x2A, 0x2B, 0x2C, 0x2D, 0x2E, 0x2F, 0x3A, 0x3B,
      0x3C, 0x3D, 0x3E, 0x3F, 0xA1, 0xBF, 0xC4, 0xD6, 0xD1, 0xDC, 0xA7, 0xBF, 0xE4, 0xF6, 0xF1, 0xFC, 0xE0,
      0x5E, 0x7B, 0x7D, 0x5C, 0x5B, 0x7E, 0x5D, 0x7C, 0x20AC, 0x20]"

definition gsm7_unit :: "code_unit \<Rightarrow> bool" where
  "gsm7_unit u \<longleftrightarrow> list_ex (\<lambda>(lo, hi). lo \<le> u \<and> u \<le> hi) gsm7_ranges \<or> u \<in> set gsm7_singles"

datatype sms_charset = GSM_7 | UCS_2

definition getSmsCharset :: "code_unit list \<Rightarrow> sms_charset" where
  "getSmsCharset txt = (if list_all gsm7_unit txt then GSM_7 else UCS_2)"

section \<open>Segments\<close>

record sms_segment_info =
  si_chars :: nat
  si_segments :: nat
  si_perSegment :: nat
  si_charset :: sms_charset

definition calcSegments :: "nat \<Rightarrow> nat \<Rightarrow> nat \<Rightarrow> nat" where
  "calcSegments chars perSegment multiPerSegment =
     (if chars = 0 then 0
      else if chars \<le> perSegment then 1
      else nat \<lceil>of_nat chars / (of_nat multiPerSegment :: rat)\<rceil>)"

definition getSmsSegmentInfo :: "code_unit list \<Rightarrow> sms_segment_info" where
  "getSmsSegmentInfo txt =
     (let charset = getSmsCharset txt;
          perSegment = (if charset = GSM_7 then 160 else 70);
          multiPerSegment = (if charset = GSM_7 then 153 else 67);
          chars = length txt;
          segments = calcSegments chars perSegment multiPerSegment
      in \<lparr>si_chars = chars, si_segments = segments, si_perSegment = perSegment, si_charset = charset\<rparr>)"

section \<open>The parts of a message\<close>

text \<open>
  A message in the GSM alphabet is measured in septets, two for a character of the extension table,
  which the alphabet of the code includes; any other message in 16-bit units.  It is cut into consecutive
  parts: one part alone may be longer than each of several.
\<close>

definition gsm7_extension :: "code_unit list" where
  "gsm7_extension = [0x5E, 0x7B, 0x7D, 0x5C, 0x5B, 0x7E, 0x5D, 0x7C, 0x20AC]"

definition septets :: "code_unit list \<Rightarrow> nat" where
  "septets txt = sum_list (map (\<lambda>u. if u \<in> set gsm7_extension then 2 else 1) txt)"

definition parts_fit :: "(code_unit list \<Rightarrow> nat) \<Rightarrow> nat \<Rightarrow> nat \<Rightarrow> code_unit list list \<Rightarrow> bool" where
  "parts_fit weight only each ps \<longleftrightarrow>
     (case ps of [p] \<Rightarrow> weight p \<le> only | _ \<Rightarrow> list_all (\<lambda>p. weight p \<le> each) ps)"

definition sms_parts :: "code_unit list \<Rightarrow> code_unit list list \<Rightarrow> bool" where
  "sms_parts txt ps \<longleftrightarrow> concat ps = txt \<and>
     (if list_all gsm7_unit txt then parts_fit septets 160 153 ps else parts_fit length 70 67 ps)"

lemma septets_ge: "length xs \<le> septets xs"
  by (induction xs) (auto simp: septets_def)

lemma septets_plain_iff: "septets xs = length xs \<longleftrightarrow> set xs \<inter> set gsm7_extension = {}"
proof (induction xs)
  case (Cons u xs)
  have "septets (u # xs) = (if u \<in> set gsm7_extension then 2 else 1) + septets xs" by (simp add: septets_def)
  then show ?case using Cons septets_ge [of xs] by simp
qed (simp add: septets_def)

lemma septets_concat_le: "list_all (\<lambda>p. septets p \<le> m) ps \<Longrightarrow> septets (concat ps) \<le> length ps * m"
  by (induction ps) (auto simp: septets_def)

lemma parts_fit_mono:
  "parts_fit f only each ps \<Longrightarrow> (\<And>p. p \<in> set ps \<Longrightarrow> g p \<le> f p) \<Longrightarrow> parts_fit g only each ps"
  by (auto simp: parts_fit_def list_all_iff split: list.splits intro: order_trans)

lemma length_concat_le: "list_all (\<lambda>p. length p \<le> m) ps \<Longrightarrow> length (concat ps) \<le> length ps * m"
  by (induction ps) auto

text \<open>A text cut into \<open>n\<close> pieces of \<open>m\<close> units, the last ones possibly shorter.\<close>

fun pieces :: "nat \<Rightarrow> nat \<Rightarrow> 'a list \<Rightarrow> 'a list list" where
  "pieces m 0 xs = []"
| "pieces m (Suc n) xs = take m xs # pieces m n (drop m xs)"

lemma length_pieces [simp]: "length (pieces m n xs) = n"
  by (induction m n xs rule: pieces.induct) simp_all

lemma concat_pieces: "length xs \<le> n * m \<Longrightarrow> concat (pieces m n xs) = xs"
  by (induction m n xs rule: pieces.induct) simp_all

lemma pieces_le: "list_all (\<lambda>p. length p \<le> m) (pieces m n xs)"
  by (induction m n xs rule: pieces.induct) simp_all

section \<open>The least number of segments\<close>

text \<open>The code units \<open>n\<close> segments hold: one segment alone holds more than each part of a longer message.\<close>

definition sms_capacity_of :: "nat \<Rightarrow> nat \<Rightarrow> nat \<Rightarrow> nat" where
  "sms_capacity_of per multi n = (if n = 1 then per else n * multi)"

lemma ceiling_div_le:
  assumes "0 < m"
  shows "nat \<lceil>of_nat c / (of_nat m :: rat)\<rceil> \<le> n \<longleftrightarrow> c \<le> n * m"
proof -
  have "nat \<lceil>of_nat c / (of_nat m :: rat)\<rceil> \<le> n \<longleftrightarrow> of_nat c / (of_nat m :: rat) \<le> of_nat n"
    by (simp add: nat_le_iff ceiling_le_iff)
  also have "\<dots> \<longleftrightarrow> (of_nat c :: rat) \<le> of_nat (n * m)"
    using assms by (simp add: divide_le_eq)
  finally show ?thesis by (simp only: of_nat_le_iff)
qed

locale sms_capacity =
  fixes per multi :: nat
  assumes multi_pos: "0 < multi" and one_holds_more: "multi \<le> per" and two_hold_more: "per \<le> 2 * multi"
begin

lemma least_count: "calcSegments chars per multi \<le> n \<longleftrightarrow> chars \<le> sms_capacity_of per multi n"
proof -
  have "n = 0 \<or> n = 1 \<or> 2 \<le> n" by arith
  then show ?thesis
  proof (elim disjE)
    assume "n = 0"
    moreover have "0 < chars \<Longrightarrow> 0 < of_nat chars / (of_nat multi :: rat)" using multi_pos by simp
    ultimately show ?thesis by (auto simp: calcSegments_def sms_capacity_of_def)
  next
    assume "n = 1"
    then show ?thesis using ceiling_div_le [OF multi_pos, of chars 1] one_holds_more
      by (simp add: calcSegments_def sms_capacity_of_def)
  next
    assume n: "2 \<le> n"
    then have "per \<le> n * multi" using two_hold_more mult_le_mono1 [OF n, of multi] by linarith
    then show ?thesis using n ceiling_div_le [OF multi_pos, of chars n]
      by (simp add: calcSegments_def sms_capacity_of_def)
  qed
qed

lemma parts_bound:
  assumes "parts_fit length per multi ps"
  shows "calcSegments (length (concat ps)) per multi \<le> length ps"
proof (cases "length ps = 1")
  case True
  then show ?thesis using assms by (auto simp: least_count sms_capacity_of_def parts_fit_def length_Suc_conv)
next
  case False
  then have "list_all (\<lambda>p. length p \<le> multi) ps" using assms by (auto simp: parts_fit_def split: list.splits)
  then show ?thesis using False length_concat_le by (simp add: least_count sms_capacity_of_def)
qed

lemma parts_exist:
  fixes xs defines "n \<equiv> calcSegments (length xs) per multi"
  shows "\<exists>ps. concat ps = xs \<and> parts_fit length per multi ps \<and> length ps = n"
proof (cases "n = 1")
  case True
  then have "length xs \<le> per" using least_count [of "length xs" 1] by (simp add: n_def sms_capacity_of_def)
  then have "concat [xs] = xs \<and> parts_fit length per multi [xs] \<and> length [xs] = n"
    using True by (simp add: parts_fit_def)
  then show ?thesis ..
next
  case False
  then have "length xs \<le> n * multi"
    using least_count [of "length xs" n] by (simp add: sms_capacity_of_def) (simp add: n_def)
  moreover have "parts_fit length per multi (pieces multi n xs)"
    using pieces_le [of multi n xs] one_holds_more by (auto simp: parts_fit_def split: list.split)
  ultimately have "concat (pieces multi n xs) = xs \<and> parts_fit length per multi (pieces multi n xs) \<and>
      length (pieces multi n xs) = n"
    by (simp add: concat_pieces)
  then show ?thesis ..
qed

end

interpretation gsm: sms_capacity 160 153
  by unfold_locales simp_all

interpretation ucs: sms_capacity 70 67
  by unfold_locales simp_all

text \<open>The parts of a message are never fewer than the segments shown for it.\<close>

lemma segments_lower:
  assumes "sms_parts txt ps"
  shows "si_segments (getSmsSegmentInfo txt) \<le> length ps"
proof -
  have "concat ps = txt" using assms by (simp add: sms_parts_def)
  moreover have "parts_fit septets 160 153 ps \<Longrightarrow> parts_fit length 160 153 ps"
    by (rule parts_fit_mono [of septets]) (simp_all only: septets_ge)
  ultimately show ?thesis
    using assms gsm.parts_bound [of ps] ucs.parts_bound [of ps]
    by (auto simp: sms_parts_def getSmsSegmentInfo_def getSmsCharset_def Let_def split: if_splits)
qed

lemma segments_reached:
  assumes "\<not> list_all gsm7_unit txt \<or> septets txt = length txt"
  shows "\<exists>ps. sms_parts txt ps \<and> length ps = si_segments (getSmsSegmentInfo txt)"
proof (cases "list_all gsm7_unit txt")
  case True
  obtain ps where ps: "concat ps = txt" "parts_fit length 160 153 ps" "length ps = calcSegments (length txt) 160 153"
    using gsm.parts_exist by blast
  have "septets p = length p" if "p \<in> set ps" for p
    using that assms True ps(1) by (force simp: septets_plain_iff)
  then have "parts_fit septets 160 153 ps" by (intro parts_fit_mono [OF ps(2)]) simp
  then show ?thesis using True ps by (auto simp: sms_parts_def getSmsSegmentInfo_def getSmsCharset_def Let_def)
next
  case False
  then show ?thesis using ucs.parts_exist [of "txt"]
    by (auto simp: sms_parts_def getSmsSegmentInfo_def getSmsCharset_def Let_def)
qed



text \<open>
  The code counts an extension character once, so with them the number shown may be too low: a text of
  154 euro signs is shown as one segment, though its 308 septets take at least three parts.
\<close>

lemma extension_undercounted:
  "si_segments (getSmsSegmentInfo (replicate 154 0x20AC)) = 1 \<and>
    (sms_parts (replicate 154 0x20AC) ps \<longrightarrow> 3 \<le> length ps)"
proof -
  let ?txt = "replicate 154 0x20AC :: code_unit list"
  have "gsm7_unit 0x20AC" by code_simp
  then have gsm: "list_all gsm7_unit ?txt" by (auto simp: list_all_iff)
  have "septets ?txt = 308" by (simp add: septets_def gsm7_extension_def sum_list_replicate)
  moreover have "septets (concat ps) \<le> max 160 (length ps * 153)" if "parts_fit septets 160 153 ps"
    using that septets_concat_le [of 153 ps] by (auto simp: parts_fit_def split: list.splits)
  ultimately have "sms_parts ?txt ps \<longrightarrow> 3 \<le> length ps" using gsm by (auto simp: sms_parts_def)
  then show ?thesis using gsm
    by (simp add: getSmsSegmentInfo_def getSmsCharset_def Let_def calcSegments_def)
qed

section \<open>The character counter (\<open>editors/SmsCharacterCounter.tsx\<close>)\<close>

definition barColor :: "nat \<Rightarrow> string" where
  "barColor segments =
     (if 3 \<le> segments then ''bg-destructive'' else if segments = 2 then ''bg-amber-500'' else ''bg-primary'')"

definition maxSegmentChars :: "nat \<Rightarrow> nat \<Rightarrow> sms_charset \<Rightarrow> nat" where
  "maxSegmentChars segments perSegment charset =
     (if segments \<le> 1 then perSegment else if charset = GSM_7 then 153 else 67)"

definition barWidth :: "sms_segment_info \<Rightarrow> rat" where
  "barWidth info =
     min (of_nat (si_chars info) / of_nat (maxSegmentChars (si_segments info) (si_perSegment info) (si_charset info)) * 100) 100"

text \<open>The bar is full exactly when another unit would need another segment, and from the second segment on.\<close>

lemma bar_full:
  "barWidth (getSmsSegmentInfo txt) = 100 \<longleftrightarrow>
    length txt = (if list_all gsm7_unit txt then 160 else 70) \<or> 1 < si_segments (getSmsSegmentInfo txt)"
proof -
  let ?i = "getSmsSegmentInfo txt" and ?per = "if list_all gsm7_unit txt then 160 else 70 :: nat"
  have one: "si_segments ?i \<le> 1 \<longleftrightarrow> length txt \<le> ?per"
    using gsm.least_count [of "length txt" 1] ucs.least_count [of "length txt" 1]
    by (simp add: getSmsSegmentInfo_def getSmsCharset_def sms_capacity_of_def Let_def)
  have full: "min (of_nat c / of_nat m * 100) (100::rat) = 100 \<longleftrightarrow> m \<le> c" if "0 < m" for c m :: nat
    using that by (auto simp: min_def field_simps)
  have w: "barWidth ?i = min (of_nat (length txt) / of_nat (if si_segments ?i \<le> 1 then ?per else
      if list_all gsm7_unit txt then 153 else 67) * 100) 100"
    by (simp add: barWidth_def maxSegmentChars_def getSmsSegmentInfo_def getSmsCharset_def Let_def)
  show ?thesis
  proof (cases "si_segments ?i \<le> 1")
    case True
    then show ?thesis using one by (subst w) (subst full, auto)
  next
    case False
    then show ?thesis using one by (subst w) (subst full, auto split: if_splits)
  qed
qed

end
