(* ===== verification/Json_Text.thy ===== *)
theory Json_Text
  imports Workflow_Types
begin

text \<open>
  \<open>JSON.stringify\<close> without indentation.  How a number is printed is a parameter; for values without
  numbers the text determines the value (\<open>json_text_inject\<close>), which is what the code relies on when it
  compares signatures instead of drafts.
\<close>

definition low_hex :: "nat \<Rightarrow> char" where
  "low_hex d = (if d < 10 then char_of (48 + d) else char_of (87 + d))"

definition json_escape :: "char \<Rightarrow> string" where
  "json_escape c =
     (let n = (of_char c :: nat)
      in if c = CHR 0x22 then [CHR 0x5C, CHR 0x22]
         else if c = CHR 0x5C then [CHR 0x5C, CHR 0x5C]
         else if n = 8 then [CHR 0x5C, CHR ''b'']
         else if n = 9 then [CHR 0x5C, CHR ''t'']
         else if n = 10 then [CHR 0x5C, CHR ''n'']
         else if n = 12 then [CHR 0x5C, CHR ''f'']
         else if n = 13 then [CHR 0x5C, CHR ''r'']
         else if n < 32 then [CHR 0x5C, CHR ''u'', CHR ''0'', CHR ''0'', low_hex (n div 16), low_hex (n mod 16)]
         else [c])"

definition json_quote :: "string \<Rightarrow> string" where
  "json_quote s = CHR 0x22 # concat (map json_escape s) @ [CHR 0x22]"

fun json_text :: "(rat \<Rightarrow> string) \<Rightarrow> json \<Rightarrow> string" where
  "json_text num_text JNull = ''null''"
| "json_text num_text (JBool b) = (if b then ''true'' else ''false'')"
| "json_text num_text (JNum x) = num_text x"
| "json_text num_text (JStr s) = json_quote s"
| "json_text num_text (JArr xs) = ''['' @ js_join '','' (map (json_text num_text) xs) @ '']''"
| "json_text num_text (JObj kvs) =
     ''{'' @ js_join '','' (map (\<lambda>(k, v). json_quote k @ '':'' @ json_text num_text v) kvs) @ ''}''"

section \<open>The text determines the value\<close>

text \<open>Reading an escape back.\<close>

definition low_hex_value :: "char \<Rightarrow> nat" where
  "low_hex_value c = (let n = (of_char c :: nat) in if n < 58 then n - 48 else n - 87)"

lemma low_hex_value: "d < 16 \<Longrightarrow> low_hex_value (low_hex d) = d"
  by (cases "d < 10") (simp_all add: low_hex_def low_hex_value_def of_char_of Let_def)

fun json_unescape :: "string \<Rightarrow> (char \<times> string) option" where
  "json_unescape (c # s) =
     (if c \<noteq> CHR 0x5C then Some (c, s)
      else case s of
        e # t \<Rightarrow>
          (if e = CHR ''b'' then Some (char_of (8 :: nat), t)
           else if e = CHR ''t'' then Some (char_of (9 :: nat), t)
           else if e = CHR ''n'' then Some (char_of (10 :: nat), t)
           else if e = CHR ''f'' then Some (char_of (12 :: nat), t)
           else if e = CHR ''r'' then Some (char_of (13 :: nat), t)
           else if e = CHR ''u'' then
             (case t of
                z1 # z2 # h1 # h2 # u \<Rightarrow> Some (char_of (16 * low_hex_value h1 + low_hex_value h2), u)
              | _ \<Rightarrow> None)
           else Some (e, t))
      | [] \<Rightarrow> None)"
| "json_unescape [] = None"

lemma char_of_eq: "of_char c = (n :: nat) \<Longrightarrow> char_of n = c"
  by (metis char_of_char)

lemma json_unescape_escape: "json_unescape (json_escape c @ s) = Some (c, s)"
proof -
  let ?n = "of_char c :: nat"
  consider "c = CHR 0x22" | "c = CHR 0x5C" | "?n = 8" | "?n = 9" | "?n = 10" | "?n = 12" | "?n = 13"
    | "c \<noteq> CHR 0x22" "c \<noteq> CHR 0x5C" "?n \<notin> {8, 9, 10, 12, 13}" "?n < 32"
    | "c \<noteq> CHR 0x22" "c \<noteq> CHR 0x5C" "?n \<notin> {8, 9, 10, 12, 13}" "\<not> ?n < 32"
    by blast
  then show ?thesis
  proof cases
    case 8
    then have "?n div 16 < 16" "?n mod 16 < 16" by simp_all
    with 8 show ?thesis by (simp add: json_escape_def Let_def low_hex_value)
  qed (auto simp: json_escape_def Let_def char_of_eq)
qed

lemma json_escape_not_quote: "json_escape c @ s \<noteq> CHR 0x22 # t" "CHR 0x22 # t \<noteq> json_escape c @ s"
  by (auto simp: json_escape_def Let_def split: if_splits)

lemma json_body_inject:
  "concat (map json_escape s) @ CHR 0x22 # r = concat (map json_escape t) @ CHR 0x22 # r' \<Longrightarrow> s = t \<and> r = r'"
proof (induction s arbitrary: t)
  case Nil
  then show ?case by (cases t) (auto simp: json_escape_not_quote)
next
  case (Cons c s)
  show ?case
  proof (cases t)
    case Nil
    with Cons.prems show ?thesis by (simp add: json_escape_not_quote)
  next
    case t: (Cons d t')
    let ?x = "concat (map json_escape s) @ CHR 0x22 # r" and ?y = "concat (map json_escape t') @ CHR 0x22 # r'"
    from Cons.prems t have "json_unescape (json_escape c @ ?x) = json_unescape (json_escape d @ ?y)" by simp
    then have "c = d" and e: "?x = ?y" by (simp_all only: json_unescape_escape option.inject prod.inject)
    with Cons.IH [OF e] t show ?thesis by simp
  qed
qed

lemma json_quote_inject: "json_quote s @ r = json_quote t @ r' \<Longrightarrow> s = t \<and> r = r'"
proof -
  assume "json_quote s @ r = json_quote t @ r'"
  then have "concat (map json_escape s) @ CHR 0x22 # r = concat (map json_escape t) @ CHR 0x22 # r'"
    by (simp add: json_quote_def)
  then show ?thesis by (rule json_body_inject)
qed

text \<open>Values without numbers.\<close>

fun number_free :: "json \<Rightarrow> bool" where
  "number_free (JNum x) = False"
| "number_free (JArr xs) = list_all number_free xs"
| "number_free (JObj kvs) = list_all (\<lambda>(k, v). number_free v) kvs"
| "number_free _ = True"

lemma json_text_start:
  "number_free v \<Longrightarrow> \<exists>c s. json_text num_text v = c # s \<and>
     c = (case v of JNull \<Rightarrow> CHR ''n'' | JBool b \<Rightarrow> if b then CHR ''t'' else CHR ''f'' | JStr s \<Rightarrow> CHR 0x22
       | JArr xs \<Rightarrow> CHR ''['' | JObj kvs \<Rightarrow> CHR ''{'' | JNum x \<Rightarrow> c)"
  by (cases v) (auto simp: json_quote_def)

text \<open>What follows the first element of a list, up to and including the closing bracket.\<close>

primrec list_rest :: "char \<Rightarrow> string list \<Rightarrow> string" where
  "list_rest d [] = [d]"
| "list_rest d (t # ts) = '','' @ t @ list_rest d ts"

lemma js_join_rest: "js_join '','' (t # ts) @ [d] = t @ list_rest d ts"
  by (induction ts arbitrary: t) (simp_all add: js_join_Cons)

definition determined :: "('a \<Rightarrow> string) \<Rightarrow> 'a set \<Rightarrow> 'a \<Rightarrow> bool" where
  "determined T A v \<longleftrightarrow> (\<forall>w \<in> A. \<forall>r s. T v @ r = T w @ s \<longrightarrow> v = w \<and> r = s)"

lemma list_rest_inject:
  assumes "d \<noteq> CHR '',''"
  shows "\<forall>x \<in> set xs. determined T A x \<Longrightarrow> set ys \<subseteq> A \<Longrightarrow>
    list_rest d (map T xs) @ r = list_rest d (map T ys) @ s \<Longrightarrow> xs = ys \<and> r = s"
proof (induction xs arbitrary: ys)
  case Nil
  with assms show ?case by (cases ys) auto
next
  case (Cons x xs)
  show ?case
  proof (cases ys)
    case Nil
    with Cons.prems assms show ?thesis by simp
  next
    case ys: (Cons y ys')
    with Cons.prems(3) have "T x @ list_rest d (map T xs) @ r = T y @ list_rest d (map T ys') @ s" by simp
    with Cons.prems(1,2) ys have "x = y \<and> list_rest d (map T xs) @ r = list_rest d (map T ys') @ s"
      unfolding determined_def by (metis in_mono list.set_intros(1))
    then have x: "x = y" and rest: "list_rest d (map T xs) @ r = list_rest d (map T ys') @ s" by simp_all
    have "xs = ys' \<and> r = s"
      by (rule Cons.IH) (use Cons.prems(1,2) ys rest in auto)
    with x ys show ?thesis by simp
  qed
qed

lemma list_text_inject:
  assumes d: "d \<noteq> CHR '',''" and start: "\<forall>x \<in> A. \<exists>c t. T x = c # t \<and> c \<noteq> d"
    and det: "\<forall>x \<in> set xs. determined T A x" and A: "set xs \<subseteq> A" "set ys \<subseteq> A"
    and eq: "js_join '','' (map T xs) @ d # r = js_join '','' (map T ys) @ d # s"
  shows "xs = ys \<and> r = s"
proof -
  have join: "js_join '','' (map T (z # zs)) @ d # u = T z @ list_rest d (map T zs) @ u" for z zs u
    using js_join_rest [of "T z" "map T zs" d] by (metis append_Cons append_Nil append_assoc list.simps(9))
  show ?thesis
  proof (cases xs)
    case Nil
    then show ?thesis
    proof (cases ys)
      case (Cons y ys')
      with A(2) start obtain c t where "T y = c # t" "c \<noteq> d" by auto
      with eq [unfolded Nil Cons join] show ?thesis by simp
    qed (use Nil eq in simp)
  next
    case xs: (Cons x xs')
    show ?thesis
    proof (cases ys)
      case Nil
      from A(1) xs start obtain c t where "T x = c # t" "c \<noteq> d" by auto
      with eq [unfolded Nil xs join] show ?thesis by simp
    next
      case ys: (Cons y ys')
      from eq [unfolded xs ys join]
      have "T x @ list_rest d (map T xs') @ r = T y @ list_rest d (map T ys') @ s" .
      with det xs ys A(2) have "x = y \<and> list_rest d (map T xs') @ r = list_rest d (map T ys') @ s"
        unfolding determined_def by (metis in_mono list.set_intros(1))
      moreover have "\<forall>z \<in> set xs'. determined T A z" "set ys' \<subseteq> A" using det xs A(2) ys by auto
      ultimately show ?thesis using list_rest_inject [OF d] xs ys by blast
    qed
  qed
qed

lemma json_text_starts:
  assumes "number_free v"
  shows "\<exists>c t. json_text num_text v = c # t \<and> c \<noteq> CHR '']'' \<and> c \<noteq> CHR ''}''"
  using json_text_start [OF assms, of num_text] assms by (cases v) (auto split: if_splits)

lemma pair_text_determined:
  assumes "determined (json_text num_text) {v. number_free v} v"
  shows "determined (\<lambda>(k, v). json_quote k @ '':'' @ json_text num_text v) {kv. number_free (snd kv)} (k, v)"
  unfolding determined_def
proof (intro ballI allI impI)
  fix kw r s
  assume kw: "kw \<in> {kv. number_free (snd kv)}" and
    eq: "(case (k, v) of (k, v) \<Rightarrow> json_quote k @ '':'' @ json_text num_text v) @ r =
      (case kw of (k, v) \<Rightarrow> json_quote k @ '':'' @ json_text num_text v) @ s"
  obtain k' w where kw': "kw = (k', w)" by (cases kw)
  with eq have "json_quote k @ ('':'' @ json_text num_text v @ r) = json_quote k' @ ('':'' @ json_text num_text w @ s)"
    by simp
  from json_quote_inject [OF this] have "k = k'" "json_text num_text v @ r = json_text num_text w @ s" by auto
  with assms kw kw' show "(k, v) = kw \<and> r = s" by (auto simp: determined_def)
qed

lemma json_text_head:
  assumes "number_free v" "number_free w" and "json_text num_text v @ r = json_text num_text w @ s"
  shows "hd (json_text num_text v) = hd (json_text num_text w)"
  using json_text_starts [OF assms(1), of num_text] json_text_starts [OF assms(2), of num_text] assms(3) by auto

lemma json_text_determined:
  "number_free v \<Longrightarrow> determined (json_text num_text) {v. number_free v} v"
proof (induction v)
  case (JArr xs)
  show ?case
    unfolding determined_def
  proof (intro ballI allI impI)
    fix w r s
    assume w: "w \<in> {v. number_free v}" and eq: "json_text num_text (JArr xs) @ r = json_text num_text w @ s"
    with json_text_head [OF JArr.prems _ eq] obtain ys where ys: "w = JArr ys"
      by (cases w) (auto simp: json_quote_def split: if_splits)
    have "xs = ys \<and> r = s"
    proof (rule list_text_inject [where T = "json_text num_text" and A = "{v. number_free v}" and d = "CHR '']''"])
      show "\<forall>x \<in> {v. number_free v}. \<exists>c t. json_text num_text x = c # t \<and> c \<noteq> CHR '']''"
        using json_text_starts by blast
      show "\<forall>x \<in> set xs. determined (json_text num_text) {v. number_free v} x"
        using JArr by (auto simp: list_all_iff)
      show "set xs \<subseteq> {v. number_free v}" "set ys \<subseteq> {v. number_free v}"
        using JArr.prems w ys by (auto simp: list_all_iff)
      show "js_join '','' (map (json_text num_text) xs) @ CHR '']'' # r =
          js_join '','' (map (json_text num_text) ys) @ CHR '']'' # s"
        using eq ys by simp
    qed simp
    with ys show "JArr xs = w \<and> r = s" by simp
  qed
next
  case (JObj kvs)
  let ?T = "\<lambda>(k, v). json_quote k @ '':'' @ json_text num_text v" and ?A = "{kv. number_free (snd kv)}"
  show ?case
    unfolding determined_def
  proof (intro ballI allI impI)
    fix w r s
    assume w: "w \<in> {v. number_free v}" and eq: "json_text num_text (JObj kvs) @ r = json_text num_text w @ s"
    with json_text_head [OF JObj.prems _ eq] obtain kws where kws: "w = JObj kws"
      by (cases w) (auto simp: json_quote_def split: if_splits)
    have "kvs = kws \<and> r = s"
    proof (rule list_text_inject [where T = ?T and A = ?A and d = "CHR ''}''"])
      show "\<forall>x \<in> ?A. \<exists>c t. ?T x = c # t \<and> c \<noteq> CHR ''}''"
        by (auto simp: json_quote_def)
      show "\<forall>x \<in> set kvs. determined ?T ?A x"
      proof
        fix x assume x: "x \<in> set kvs"
        obtain k v where kv: "x = (k, v)" by (cases x)
        have "determined (json_text num_text) {v. number_free v} v"
          by (rule JObj.IH [OF x, of v]) (use JObj.prems x kv in \<open>auto simp: list_all_iff\<close>)
        from pair_text_determined [OF this] kv show "determined ?T ?A x" by simp
      qed
      show "set kvs \<subseteq> ?A" "set kws \<subseteq> ?A"
        using JObj.prems w kws by (auto simp: list_all_iff)
      show "js_join '','' (map ?T kvs) @ CHR ''}'' # r = js_join '','' (map ?T kws) @ CHR ''}'' # s"
        using eq kws by simp
    qed simp
    with kws show "JObj kvs = w \<and> r = s" by simp
  qed
next
  case (JStr a)
  show ?case
    unfolding determined_def
  proof (intro ballI allI impI)
    fix w r s
    assume w: "w \<in> {v. number_free v}" and eq: "json_text num_text (JStr a) @ r = json_text num_text w @ s"
    with json_text_head [OF JStr.prems _ eq] obtain b where b: "w = JStr b"
      by (cases w) (auto simp: json_quote_def split: if_splits)
    with eq have "json_quote a @ r = json_quote b @ s" by simp
    from json_quote_inject [OF this] b show "JStr a = w \<and> r = s" by simp
  qed
next
  case JNull
  show ?case
    unfolding determined_def
  proof (intro ballI allI impI)
    fix w r s
    assume w: "w \<in> {v. number_free v}" and eq: "json_text num_text JNull @ r = json_text num_text w @ s"
    with json_text_head [OF JNull.prems _ eq] have "w = JNull"
      by (cases w) (auto simp: json_quote_def split: if_splits)
    with eq show "JNull = w \<and> r = s" by simp
  qed
next
  case (JBool a)
  show ?case
    unfolding determined_def
  proof (intro ballI allI impI)
    fix w r s
    assume w: "w \<in> {v. number_free v}" and eq: "json_text num_text (JBool a) @ r = json_text num_text w @ s"
    with json_text_head [OF JBool.prems _ eq] have "w = JBool a"
      by (cases w) (auto simp: json_quote_def split: if_splits)
    with eq show "JBool a = w \<and> r = s" by simp
  qed
qed simp

theorem json_text_inject:
  assumes "number_free v" and "number_free w"
  shows "json_text num_text v = json_text num_text w \<longleftrightarrow> v = w"
proof
  assume "json_text num_text v = json_text num_text w"
  then have "json_text num_text v @ [] = json_text num_text w @ []" by simp
  with json_text_determined [OF assms(1), of num_text] assms(2) show "v = w"
    unfolding determined_def by blast
qed simp

end
