(* ===== verification/Builder_Draft.thy ===== *)
theory Builder_Draft
  imports Draft Validation Queries Json_Text
begin

text \<open>
  The page of the workflow builder (\<open>features/workflows/hooks/use-workflow-builder-draft.ts\<close>): the
  local draft, its synchronisation with the server's copy and the debounced autosave.

  A React component is modelled by its state with explicit steps.  An event (an edit, an answer of the
  server, the timer) changes the state; then the component is rendered and commits: the effects whose
  dependencies changed run in the order of the source, on the values of that render, and may change the
  state again, until nothing is left to run (\<open>settle\<close>).  Objects are compared by reference, so a
  replaced object gets a new version number.  The timer has no clock: it may fire in any later step.
\<close>

section \<open>Signatures\<close>

definition node_json :: "node_draft \<Rightarrow> json" where
  "node_json d = JObj
     [(''id'', JStr (bn_id d)), (''name'', JStr (bn_name d)), (''type'', JStr (type_text (bn_type d))),
      (''duration'', JStr (bn_duration d)), (''templateId'', JStr (bn_templateId d)),
      (''channel'', JStr (bn_channel d)), (''field'', JStr (bn_field d)),
      (''operator'', JStr (bn_operator d)), (''value'', JStr (bn_value d))]"

definition edge_json :: "edge_draft \<Rightarrow> json" where
  "edge_json e = JObj [(''source'', JStr (be_source e)), (''target'', JStr (be_target e)), (''branch'', JStr (be_branch e))]"

definition draft_json :: "wf_draft \<Rightarrow> json" where
  "draft_json d = JObj
     [(''triggerEvent'', JStr (wb_triggerEvent d)), (''nodes'', JArr (map node_json (wb_nodes d))),
      (''edges'', JArr (map edge_json (wb_edges d)))]"

text \<open>No number occurs in these values, so the printer of numbers does not matter.\<close>

definition stringify :: "json \<Rightarrow> string" where
  "stringify = json_text (\<lambda>_. [])"

definition buildSaveSignature :: "string \<Rightarrow> string \<Rightarrow> string \<Rightarrow> string" where
  "buildSaveSignature definitionSignature workflowName workflowDescription =
     stringify (JObj [(''definitionSignature'', JStr definitionSignature), (''workflowName'', JStr workflowName),
       (''workflowDescription'', JStr workflowDescription)])"

section \<open>State\<close>

datatype autosave_status = AS_loading | AS_saving | AS_saved | AS_error | AS_invalid

record autosave_state =
  au_status :: autosave_status
  au_message :: string

text \<open>A save the timer will send, or that is on its way: what the effect's closure holds.\<close>

record pending_save =
  pv_id :: string
  pv_payload :: workflow_payload
  pv_signature :: string

record draft_page =
  dp_data :: "workflow_item option"
  dp_dataVer :: nat
  dp_isLoading :: bool
  dp_queryError :: "thrown option"
  dp_providers :: "provider_config list option"
  dp_workflow :: "workflow_item option"
  dp_workflowVer :: nat
  dp_draft :: wf_draft
  dp_draftVer :: nat
  dp_autosave :: autosave_state
  dp_lastSaved :: "string option"
  dp_lastSynced :: "(string \<times> string) option"
  dp_pending :: "pending_save option"
  dp_inflight :: "pending_save list"
  dp_sent :: "(string \<times> workflow_payload) list"
  dp_invalidated :: "string list"
  dp_syncDeps :: "nat option"
  dp_statusDeps :: "(bool \<times> thrown option) option"
  dp_saveDeps :: "(nat \<times> nat \<times> string \<times> nat) option"

definition initialPage :: draft_page where
  "initialPage =
     \<lparr>dp_data = None, dp_dataVer = 0, dp_isLoading = True, dp_queryError = None, dp_providers = None,
      dp_workflow = None, dp_workflowVer = 0, dp_draft = createDefaultWorkflowBuilderDraft, dp_draftVer = 0,
      dp_autosave = \<lparr>au_status = AS_loading, au_message = ''Loading draft...''\<rparr>,
      dp_lastSaved = None, dp_lastSynced = None, dp_pending = None, dp_inflight = [], dp_sent = [],
      dp_invalidated = [], dp_syncDeps = None, dp_statusDeps = None, dp_saveDeps = None\<rparr>"

section \<open>Derived values\<close>

definition extractErrorMessage :: "thrown \<Rightarrow> string" where
  "extractErrorMessage e = error_message e ''Failed to load workflow draft''"

definition page_loading :: "draft_page \<Rightarrow> bool" where
  "page_loading st \<longleftrightarrow> dp_isLoading st \<and> dp_data st = None"

definition page_error :: "draft_page \<Rightarrow> string option" where
  "page_error st = map_option extractErrorMessage (dp_queryError st)"

definition page_definition :: "draft_page \<Rightarrow> wf_definition" where
  "page_definition st = workflowDefinitionFromBuilderDraft (dp_draft st)"

text \<open>\<open>channel.toUpperCase()\<close> of a channel name, made of ASCII letters.\<close>

definition ascii_upper :: "string \<Rightarrow> string" where
  "ascii_upper = map ascii_upper_char"

definition providerIssues :: "provider_config list \<Rightarrow> node_draft list \<Rightarrow> wf_issue list" where
  "providerIssues providers nodes =
     (let activeChannels = js_set_of (map pc_channel (filter pc_is_active providers))
      in concat (map (\<lambda>(i, node).
           if bn_type node = Notification \<and> bn_channel node \<noteq> [] \<and> bn_channel node \<notin> set activeChannels
           then [issue (node_path i @ ''.channels'')
                   (''No active '' @ ascii_upper (bn_channel node) @
                    '' provider configured. Set one up in Integrations page'')]
           else []) (indexed nodes)))"

definition definitionIssues :: "draft_page \<Rightarrow> wf_issue list" where
  "definitionIssues st =
     validateWorkflowDefinitionDraft (Some (page_definition st)) @
     (case dp_providers st of None \<Rightarrow> [] | Some ps \<Rightarrow> providerIssues ps (wb_nodes (dp_draft st)))"

definition workflow_name :: "draft_page \<Rightarrow> string" where
  "workflow_name st = (case dp_workflow st of None \<Rightarrow> [] | Some w \<Rightarrow> wfi_name w)"

definition workflow_description :: "draft_page \<Rightarrow> string" where
  "workflow_description st = (case dp_workflow st of None \<Rightarrow> [] | Some w \<Rightarrow> str_or_empty (wfi_description w))"

definition saveSignature :: "draft_page \<Rightarrow> string" where
  "saveSignature st =
     buildSaveSignature (stringify (draft_json (dp_draft st))) (workflow_name st) (workflow_description st)"

section \<open>Effects\<close>

text \<open>Each takes the rendered values \<open>v\<close> and the current state, whose refs it reads and writes.\<close>

definition nextDraft :: "workflow_item \<Rightarrow> wf_draft" where
  "nextDraft w = (case wfi_definition w of
     Some d \<Rightarrow> builderDraftFromDefinition (Some d) | None \<Rightarrow> createDefaultWorkflowBuilderDraft)"

definition syncEffect :: "string \<Rightarrow> draft_page \<Rightarrow> draft_page \<Rightarrow> draft_page" where
  "syncEffect workflowId v st =
     (case dp_data v of
        None \<Rightarrow> st
      | Some w \<Rightarrow>
          if dp_lastSynced st = Some (workflowId, wfi_updatedAt w) then st
          else st\<lparr>dp_lastSynced := Some (workflowId, wfi_updatedAt w),
                  dp_lastSaved := Some (buildSaveSignature (stringify (draft_json (nextDraft w)))
                    (wfi_name w) (str_or_empty (wfi_description w))),
                  dp_workflow := Some w, dp_workflowVer := dp_workflowVer st + 1,
                  dp_draft := nextDraft w, dp_draftVer := dp_draftVer st + 1,
                  dp_autosave := \<lparr>au_status = AS_saved, au_message = ''Draft ready''\<rparr>\<rparr>)"

definition statusEffect :: "draft_page \<Rightarrow> draft_page \<Rightarrow> draft_page" where
  "statusEffect v st =
     (if dp_isLoading v then st\<lparr>dp_autosave := \<lparr>au_status = AS_loading, au_message = ''Loading draft...''\<rparr>\<rparr>
      else if dp_queryError v \<noteq> None
      then st\<lparr>dp_autosave := \<lparr>au_status = AS_error, au_message = ''Failed to load workflow draft''\<rparr>\<rparr>
      else st)"

definition pendingOf :: "draft_page \<Rightarrow> workflow_item \<Rightarrow> pending_save" where
  "pendingOf v w =
     \<lparr>pv_id = wfi_id w,
      pv_payload = \<lparr>wp_key = wfi_key w, wp_name = wfi_name w,
        wp_description = (if truthy (wfi_description w) then wfi_description w else None),
        wp_definition = page_definition v\<rparr>,
      pv_signature = saveSignature v\<rparr>"

text \<open>The cleanup of the previous run clears its timer before anything else.\<close>

definition autosaveEffect :: "draft_page \<Rightarrow> draft_page \<Rightarrow> draft_page" where
  "autosaveEffect v st0 =
     (let st = st0\<lparr>dp_pending := None\<rparr>
      in case dp_workflow v of
           None \<Rightarrow> st
         | Some w \<Rightarrow>
             if Some (saveSignature v) = dp_lastSaved st then st
             else st\<lparr>dp_autosave := \<lparr>au_status = AS_saving, au_message = ''Saving changes...''\<rparr>,
                     dp_pending := Some (pendingOf v w)\<rparr>)"

definition save_deps :: "draft_page \<Rightarrow> nat \<times> nat \<times> string \<times> nat" where
  "save_deps v = (dp_draftVer v, length (definitionIssues v), saveSignature v, dp_workflowVer v)"

definition commit_sync :: "string \<Rightarrow> draft_page \<Rightarrow> draft_page" where
  "commit_sync workflowId v =
     (if dp_syncDeps v = Some (dp_dataVer v) then v
      else (syncEffect workflowId v v)\<lparr>dp_syncDeps := Some (dp_dataVer v)\<rparr>)"

definition commit_status :: "draft_page \<Rightarrow> draft_page \<Rightarrow> draft_page" where
  "commit_status v st =
     (if dp_statusDeps v = Some (dp_isLoading v, dp_queryError v) then st
      else (statusEffect v st)\<lparr>dp_statusDeps := Some (dp_isLoading v, dp_queryError v)\<rparr>)"

definition commit_save :: "draft_page \<Rightarrow> draft_page \<Rightarrow> draft_page" where
  "commit_save v st =
     (if dp_saveDeps v = Some (save_deps v) then st
      else (autosaveEffect v st)\<lparr>dp_saveDeps := Some (save_deps v)\<rparr>)"

definition commit :: "string \<Rightarrow> draft_page \<Rightarrow> draft_page" where
  "commit workflowId v = commit_save v (commit_status v (commit_sync workflowId v))"

definition stale :: "draft_page \<Rightarrow> bool" where
  "stale v \<longleftrightarrow> dp_syncDeps v \<noteq> Some (dp_dataVer v) \<or> dp_statusDeps v \<noteq> Some (dp_isLoading v, dp_queryError v) \<or>
     dp_saveDeps v \<noteq> Some (save_deps v)"

section \<open>What the effects leave alone\<close>

lemma syncEffect_keeps [record_simps]:
  "dp_dataVer (syncEffect i v st) = dp_dataVer st" "dp_isLoading (syncEffect i v st) = dp_isLoading st"
  "dp_queryError (syncEffect i v st) = dp_queryError st" "dp_pending (syncEffect i v st) = dp_pending st"
  "dp_inflight (syncEffect i v st) = dp_inflight st" "dp_sent (syncEffect i v st) = dp_sent st"
  "dp_statusDeps (syncEffect i v st) = dp_statusDeps st" "dp_saveDeps (syncEffect i v st) = dp_saveDeps st"
  "dp_data (syncEffect i v st) = dp_data st" "dp_providers (syncEffect i v st) = dp_providers st"
  by (simp_all add: syncEffect_def split: option.splits)

lemma commit_sync_keeps [record_simps]:
  "dp_dataVer (commit_sync i v) = dp_dataVer v" "dp_isLoading (commit_sync i v) = dp_isLoading v"
  "dp_queryError (commit_sync i v) = dp_queryError v" "dp_pending (commit_sync i v) = dp_pending v"
  "dp_inflight (commit_sync i v) = dp_inflight v" "dp_sent (commit_sync i v) = dp_sent v"
  "dp_statusDeps (commit_sync i v) = dp_statusDeps v" "dp_saveDeps (commit_sync i v) = dp_saveDeps v"
  "dp_data (commit_sync i v) = dp_data v" "dp_providers (commit_sync i v) = dp_providers v"
  "dp_syncDeps (commit_sync i v) = Some (dp_dataVer v)"
  by (simp_all add: commit_sync_def record_simps)

lemma commit_status_keeps [record_simps]:
  "dp_dataVer (commit_status v st) = dp_dataVer st" "dp_isLoading (commit_status v st) = dp_isLoading st"
  "dp_queryError (commit_status v st) = dp_queryError st" "dp_pending (commit_status v st) = dp_pending st"
  "dp_inflight (commit_status v st) = dp_inflight st" "dp_sent (commit_status v st) = dp_sent st"
  "dp_saveDeps (commit_status v st) = dp_saveDeps st" "dp_syncDeps (commit_status v st) = dp_syncDeps st"
  "dp_draft (commit_status v st) = dp_draft st" "dp_draftVer (commit_status v st) = dp_draftVer st"
  "dp_workflow (commit_status v st) = dp_workflow st" "dp_workflowVer (commit_status v st) = dp_workflowVer st"
  "dp_lastSaved (commit_status v st) = dp_lastSaved st" "dp_lastSynced (commit_status v st) = dp_lastSynced st"
  "dp_providers (commit_status v st) = dp_providers st" "dp_data (commit_status v st) = dp_data st"
  by (simp_all add: commit_status_def statusEffect_def)

lemma commit_status_deps [record_simps]:
  "dp_isLoading st = dp_isLoading v \<Longrightarrow> dp_queryError st = dp_queryError v \<Longrightarrow> dp_statusDeps st = dp_statusDeps v \<Longrightarrow>
    dp_statusDeps (commit_status v st) = Some (dp_isLoading v, dp_queryError v)"
  by (simp add: commit_status_def)

lemma autosaveEffect_keeps [record_simps]:
  "dp_dataVer (autosaveEffect v st) = dp_dataVer st" "dp_isLoading (autosaveEffect v st) = dp_isLoading st"
  "dp_queryError (autosaveEffect v st) = dp_queryError st" "dp_inflight (autosaveEffect v st) = dp_inflight st"
  "dp_sent (autosaveEffect v st) = dp_sent st" "dp_statusDeps (autosaveEffect v st) = dp_statusDeps st"
  "dp_syncDeps (autosaveEffect v st) = dp_syncDeps st" "dp_draft (autosaveEffect v st) = dp_draft st"
  "dp_draftVer (autosaveEffect v st) = dp_draftVer st" "dp_workflow (autosaveEffect v st) = dp_workflow st"
  "dp_workflowVer (autosaveEffect v st) = dp_workflowVer st" "dp_lastSaved (autosaveEffect v st) = dp_lastSaved st"
  "dp_lastSynced (autosaveEffect v st) = dp_lastSynced st" "dp_providers (autosaveEffect v st) = dp_providers st"
  "dp_data (autosaveEffect v st) = dp_data st"
  by (simp_all add: autosaveEffect_def Let_def split: option.splits)

lemma commit_save_keeps [record_simps]:
  "dp_dataVer (commit_save v st) = dp_dataVer st" "dp_isLoading (commit_save v st) = dp_isLoading st"
  "dp_queryError (commit_save v st) = dp_queryError st" "dp_inflight (commit_save v st) = dp_inflight st"
  "dp_sent (commit_save v st) = dp_sent st" "dp_statusDeps (commit_save v st) = dp_statusDeps st"
  "dp_syncDeps (commit_save v st) = dp_syncDeps st" "dp_draft (commit_save v st) = dp_draft st"
  "dp_draftVer (commit_save v st) = dp_draftVer st" "dp_workflow (commit_save v st) = dp_workflow st"
  "dp_workflowVer (commit_save v st) = dp_workflowVer st" "dp_lastSaved (commit_save v st) = dp_lastSaved st"
  "dp_lastSynced (commit_save v st) = dp_lastSynced st" "dp_providers (commit_save v st) = dp_providers st"
  "dp_data (commit_save v st) = dp_data st"
  by (simp_all add: commit_save_def record_simps)

text \<open>The values the save depends on are those of the draft, the workflow and the providers.\<close>

definition content :: "draft_page \<Rightarrow> workflow_item option \<times> nat \<times> wf_draft \<times> nat \<times> provider_config list option" where
  "content st = (dp_workflow st, dp_workflowVer st, dp_draft st, dp_draftVer st, dp_providers st)"

lemma content_cong:
  assumes "content st = content v"
  shows "save_deps st = save_deps v" "saveSignature st = saveSignature v" "dp_workflow st = dp_workflow v"
    "pendingOf st w = pendingOf v w"
proof -
  from assms have c: "dp_workflow st = dp_workflow v" "dp_workflowVer st = dp_workflowVer v" "dp_draft st = dp_draft v"
    "dp_draftVer st = dp_draftVer v" "dp_providers st = dp_providers v" by (simp_all add: content_def)
  then have "definitionIssues st = definitionIssues v"
    by (simp only: definitionIssues_def page_definition_def)
  with c show "saveSignature st = saveSignature v" "save_deps st = save_deps v"
    by (simp_all add: saveSignature_def workflow_name_def workflow_description_def save_deps_def)
  then show "pendingOf st w = pendingOf v w" using c by (simp add: pendingOf_def page_definition_def)
  show "dp_workflow st = dp_workflow v" by (rule c(1))
qed

lemma content_commit: "content (commit i v) = content (commit_sync i v)"
  by (simp add: commit_def content_def record_simps)

section \<open>Settling\<close>

lemma commit_deps:
  "dp_syncDeps (commit i v) = Some (dp_dataVer (commit i v))"
  "dp_statusDeps (commit i v) = Some (dp_isLoading (commit i v), dp_queryError (commit i v))"
  by (simp_all add: commit_def record_simps)

lemma commit_save_deps: "dp_saveDeps (commit i v) = Some (save_deps v)"
  by (simp add: commit_def commit_save_def record_simps)

lemma commit_sync_done: "dp_syncDeps v = Some (dp_dataVer v) \<Longrightarrow> commit_sync i v = v"
  by (simp add: commit_sync_def)

lemma commit_settled:
  assumes "dp_syncDeps v = Some (dp_dataVer v)"
  shows "\<not> stale (commit i v)"
proof -
  have "content (commit i v) = content v" by (simp add: content_commit commit_sync_done [OF assms])
  then have "save_deps (commit i v) = save_deps v" by (rule content_cong(1))
  then show ?thesis by (simp add: stale_def commit_deps commit_save_deps)
qed

function settle :: "string \<Rightarrow> draft_page \<Rightarrow> draft_page" where
  "settle workflowId v = (if stale v then settle workflowId (commit workflowId v) else v)"
  by pat_completeness auto

termination
proof (relation "measure (\<lambda>(i, v). if dp_syncDeps v \<noteq> Some (dp_dataVer v) then 2 else if stale v then 1 else 0)")
  fix i v
  assume "stale v"
  then show "((i, commit i v), i, v) \<in> measure
      (\<lambda>(i, v). if dp_syncDeps v \<noteq> Some (dp_dataVer v) then 2 else if stale v then 1 else 0)"
    using commit_settled [of v i] by (simp add: commit_deps)
qed simp

declare settle.simps [simp del]

lemma settle_fresh: "\<not> stale v \<Longrightarrow> settle i v = v"
  by (subst settle.simps) simp

lemma settle_stale: "stale v \<Longrightarrow> settle i v = settle i (commit i v)"
  by (subst settle.simps) simp

lemma commit_fresh: "\<not> stale v \<Longrightarrow> commit i v = v"
  by (simp add: stale_def commit_def commit_sync_def commit_status_def commit_save_def)

lemma settle_twice: "settle i v = commit i (commit i v)"
proof (cases "stale v")
  case False
  then show ?thesis by (simp add: settle_fresh commit_fresh)
next
  case True
  show ?thesis
  proof (cases "stale (commit i v)")
    case False
    then show ?thesis using True by (simp add: settle_stale settle_fresh commit_fresh)
  next
    case stale: True
    have "\<not> stale (commit i (commit i v))" by (rule commit_settled) (rule commit_deps)
    then show ?thesis using True stale by (simp add: settle_stale settle_fresh)
  qed
qed

lemma settled: "\<not> stale (settle i v)"
  unfolding settle_twice by (rule commit_settled) (rule commit_deps)

text \<open>C11: Whatever the state of the page, its effects come to rest after at most two commits: they do not keep
  re-rendering each other, and at rest no effect is left to run.\<close>

theorem effects_settle:
  "settle workflowId st = commit workflowId (commit workflowId st) \<and> \<not> stale (settle workflowId st) \<and>
   commit workflowId (settle workflowId st) = settle workflowId st"
  using settled [of workflowId st] by (simp add: settle_twice commit_fresh)

section \<open>Events\<close>

datatype page_event =
    SetDefinitionDraft wf_draft
  | WorkflowSetupChange "string option" "string option"
  | QueryStarted
  | QueryAnswered workflow_item
  | QueryFailed thrown
  | ProvidersAnswered "provider_config list"
  | TimerFired
  | SaveAnswered nat workflow_item
  | SaveFailed nat thrown

definition drop_nth :: "nat \<Rightarrow> 'a list \<Rightarrow> 'a list" where
  "drop_nth k xs = take k xs @ drop (Suc k) xs"

definition autosave_timer :: "draft_page \<Rightarrow> draft_page" where
  "autosave_timer st =
     (case dp_pending st of
        None \<Rightarrow> st
      | Some p \<Rightarrow> st\<lparr>dp_pending := None, dp_inflight := dp_inflight st @ [p],
                    dp_sent := dp_sent st @ [(pv_id p, pv_payload p)]\<rparr>)"

definition autosave_answered :: "nat \<Rightarrow> workflow_item \<Rightarrow> draft_page \<Rightarrow> draft_page" where
  "autosave_answered k updatedWorkflow st =
     (if k < length (dp_inflight st) then
        (let p = dp_inflight st ! k
         in st\<lparr>dp_inflight := drop_nth k (dp_inflight st),
               dp_workflow := Some updatedWorkflow, dp_workflowVer := dp_workflowVer st + 1,
               dp_lastSaved := Some (pv_signature p),
               dp_autosave := \<lparr>au_status = AS_saved, au_message = ''All changes saved''\<rparr>,
               dp_invalidated := dp_invalidated st @ [pv_id p]\<rparr>)
      else st)"

definition autosave_failed :: "nat \<Rightarrow> thrown \<Rightarrow> draft_page \<Rightarrow> draft_page" where
  "autosave_failed k err st =
     (if k < length (dp_inflight st)
      then st\<lparr>dp_inflight := drop_nth k (dp_inflight st),
              dp_autosave := \<lparr>au_status = AS_error, au_message = error_message err ''Autosave failed''\<rparr>\<rparr>
      else st)"

definition onWorkflowSetupChange :: "string option \<Rightarrow> string option \<Rightarrow> draft_page \<Rightarrow> draft_page" where
  "onWorkflowSetupChange name description st =
     (case dp_workflow st of
        None \<Rightarrow> st
      | Some current \<Rightarrow>
          st\<lparr>dp_workflow := Some (current\<lparr>
                wfi_name := (case name of Some n \<Rightarrow> n | None \<Rightarrow> wfi_name current),
                wfi_description := (case description of Some d \<Rightarrow> Some d | None \<Rightarrow> wfi_description current)\<rparr>),
             dp_workflowVer := dp_workflowVer st + 1\<rparr>)"

fun page_apply :: "page_event \<Rightarrow> draft_page \<Rightarrow> draft_page" where
  "page_apply (SetDefinitionDraft d) st = st\<lparr>dp_draft := d, dp_draftVer := dp_draftVer st + 1\<rparr>"
| "page_apply (WorkflowSetupChange n d) st = onWorkflowSetupChange n d st"
| "page_apply QueryStarted st = st\<lparr>dp_isLoading := True\<rparr>"
| "page_apply (QueryAnswered w) st =
     st\<lparr>dp_data := Some w, dp_dataVer := dp_dataVer st + 1, dp_isLoading := False, dp_queryError := None\<rparr>"
| "page_apply (QueryFailed e) st = st\<lparr>dp_isLoading := False, dp_queryError := Some e\<rparr>"
| "page_apply (ProvidersAnswered ps) st = st\<lparr>dp_providers := Some ps\<rparr>"
| "page_apply TimerFired st = autosave_timer st"
| "page_apply (SaveAnswered k w) st = autosave_answered k w st"
| "page_apply (SaveFailed k e) st = autosave_failed k e st"

definition page_step :: "string \<Rightarrow> page_event \<Rightarrow> draft_page \<Rightarrow> draft_page" where
  "page_step workflowId ev st = settle workflowId (page_apply ev st)"

inductive page_reach :: "string \<Rightarrow> draft_page \<Rightarrow> bool" for workflowId where
  start: "page_reach workflowId (settle workflowId initialPage)"
| step: "page_reach workflowId st \<Longrightarrow> (\<And>k e. ev \<noteq> SaveFailed k e) \<Longrightarrow> page_reach workflowId (page_step workflowId ev st)"

section \<open>Unsaved changes\<close>

definition unsaved :: "draft_page \<Rightarrow> bool" where
  "unsaved st \<longleftrightarrow> dp_workflow st \<noteq> None \<and> Some (saveSignature st) \<noteq> dp_lastSaved st"

definition pending_current :: "draft_page \<Rightarrow> bool" where
  "pending_current st \<longleftrightarrow>
     (\<forall>p. dp_pending st = Some p \<longrightarrow> unsaved st \<and> p = pendingOf st (the (dp_workflow st)))"

definition unsaved_covered :: "draft_page \<Rightarrow> bool" where
  "unsaved_covered st \<longleftrightarrow>
     (unsaved st \<longrightarrow> dp_pending st \<noteq> None \<or> (\<exists>p \<in> set (dp_inflight st). pv_signature p = saveSignature st))"

text \<open>Both hold wherever the save effect has seen the present values.\<close>

definition save_inv :: "draft_page \<Rightarrow> bool" where
  "save_inv st \<longleftrightarrow> dp_saveDeps st = Some (save_deps st) \<longrightarrow> pending_current st \<and> unsaved_covered st"

lemma pending_current_cong:
  assumes "content st = content v" and "dp_lastSaved st = dp_lastSaved v" "dp_pending st = dp_pending v"
  shows "pending_current st = pending_current v"
  unfolding pending_current_def unsaved_def content_cong(2-4) [OF assms(1)] assms(2,3) ..

lemma unsaved_covered_cong:
  assumes "content st = content v" and "dp_lastSaved st = dp_lastSaved v" "dp_pending st = dp_pending v"
    "dp_inflight st = dp_inflight v"
  shows "unsaved_covered st = unsaved_covered v"
  unfolding unsaved_covered_def unsaved_def content_cong(2-4) [OF assms(1)] assms(2-4) ..

lemma autosave_covers:
  assumes "content v = content st"
  shows "pending_current (autosaveEffect v st)" "unsaved_covered (autosaveEffect v st)"
proof -
  have c: "content (autosaveEffect v st) = content st" by (simp add: content_def record_simps)
  note cs = content_cong [OF c] content_cong [OF assms]
  show "pending_current (autosaveEffect v st)" "unsaved_covered (autosaveEffect v st)"
    by (auto simp: pending_current_def unsaved_covered_def unsaved_def cs record_simps)
      (auto simp: autosaveEffect_def Let_def cs split: option.splits if_splits)
qed

lemma syncEffect_versions:
  "content (syncEffect i v st) = content st \<and> dp_lastSaved (syncEffect i v st) = dp_lastSaved st \<or>
    dp_draftVer (syncEffect i v st) = dp_draftVer st + 1"
  by (auto simp: syncEffect_def content_def split: option.splits)

lemma commit_sync_versions:
  "content (commit_sync i v) = content v \<and> dp_lastSaved (commit_sync i v) = dp_lastSaved v \<or>
    dp_draftVer (commit_sync i v) = dp_draftVer v + 1"
  using syncEffect_versions [of i v v] by (auto simp: commit_sync_def content_def)

lemma commit_save_inv:
  assumes "save_inv v"
  shows "save_inv (commit i v)"
proof (cases "content (commit_sync i v) = content v \<and> dp_lastSaved (commit_sync i v) = dp_lastSaved v")
  case False
  then have "dp_draftVer (commit i v) = dp_draftVer v + 1"
    using commit_sync_versions [of i v] by (auto simp: commit_def record_simps)
  then have "save_deps (commit i v) \<noteq> save_deps v" by (simp add: save_deps_def)
  then show ?thesis by (simp add: save_inv_def commit_save_deps)
next
  case True
  let ?s = "commit_status v (commit_sync i v)"
  have s: "content ?s = content v" "dp_lastSaved ?s = dp_lastSaved v" "dp_pending ?s = dp_pending v"
    "dp_inflight ?s = dp_inflight v"
    using True by (simp_all add: content_def record_simps)
  show ?thesis
  proof (cases "dp_saveDeps v = Some (save_deps v)")
    case True
    then have c: "commit i v = ?s" by (simp add: commit_def commit_save_def)
    from True assms have "pending_current v" "unsaved_covered v" by (simp_all add: save_inv_def)
    then show ?thesis unfolding c save_inv_def
      using pending_current_cong [OF s(1-3)] unsaved_covered_cong [OF s] by simp
  next
    case False
    let ?a = "autosaveEffect v ?s"
    have c: "commit i v = ?a\<lparr>dp_saveDeps := Some (save_deps v)\<rparr>"
      using False by (simp add: commit_def commit_save_def)
    have a: "content (commit i v) = content ?a" "dp_lastSaved (commit i v) = dp_lastSaved ?a"
      "dp_pending (commit i v) = dp_pending ?a" "dp_inflight (commit i v) = dp_inflight ?a"
      by (simp_all add: c content_def)
    from s(1) have "content v = content ?s" by simp
    from autosave_covers [OF this] show ?thesis unfolding save_inv_def
      using pending_current_cong [OF a(1-3)] unsaved_covered_cong [OF a] by simp
  qed
qed

lemma settle_save_inv: "save_inv v \<Longrightarrow> save_inv (settle i v)"
  by (simp add: settle_twice commit_save_inv)

lemma settled_deps: "\<not> stale st \<Longrightarrow> dp_saveDeps st = Some (save_deps st)"
  by (simp add: stale_def)

text \<open>An event that replaces what is saved gets a version the save effect has not seen.\<close>

lemma newer_save_inv:
  "dp_saveDeps st = Some (save_deps v) \<Longrightarrow> dp_draftVer st \<noteq> dp_draftVer v \<or> dp_workflowVer st \<noteq> dp_workflowVer v \<Longrightarrow>
    save_inv st"
  by (auto simp: save_inv_def save_deps_def)

lemma same_save_inv:
  assumes "save_inv v" "dp_saveDeps v = Some (save_deps v)" "dp_saveDeps st = dp_saveDeps v"
    "content st = content v" "dp_lastSaved st = dp_lastSaved v" "dp_pending st = dp_pending v"
    "dp_inflight st = dp_inflight v"
  shows "save_inv st"
  using assms(1,2) pending_current_cong [OF assms(4-6)] unsaved_covered_cong [OF assms(4-7)]
  by (simp add: save_inv_def)

lemma page_apply_save_inv:
  assumes v: "\<not> stale v" "save_inv v" and ev: "\<And>k e. ev \<noteq> SaveFailed k e"
  shows "save_inv (page_apply ev v)"
proof -
  note d = settled_deps [OF v(1)]
  note same = same_save_inv [OF v(2) d]
  show ?thesis
  proof (cases ev)
    case (SetDefinitionDraft x)
    then show ?thesis using d by (intro newer_save_inv [of _ v]) simp_all
  next
    case (WorkflowSetupChange n x)
    then show ?thesis using d v(2)
      by (cases "dp_workflow v") (auto simp: onWorkflowSetupChange_def intro: newer_save_inv [of _ v])
  next
    case (ProvidersAnswered ps)
    let ?st = "page_apply ev v"
    have st: "saveSignature ?st = saveSignature v" "pendingOf ?st w = pendingOf v w" "dp_workflow ?st = dp_workflow v"
      "dp_pending ?st = dp_pending v" "dp_inflight ?st = dp_inflight v" "dp_lastSaved ?st = dp_lastSaved v" for w
      by (simp_all add: ProvidersAnswered saveSignature_def workflow_name_def workflow_description_def
          pendingOf_def page_definition_def)
    have "pending_current ?st \<and> unsaved_covered ?st"
      using v(2) d by (simp add: save_inv_def pending_current_def unsaved_covered_def unsaved_def st)
    then show ?thesis by (simp add: save_inv_def)
  next
    case TimerFired
    show ?thesis
    proof (cases "dp_pending v")
      case None
      then show ?thesis using TimerFired v(2) by (simp add: autosave_timer_def)
    next
      case (Some p)
      let ?st = "page_apply ev v"
      have st: "content ?st = content v" "dp_pending ?st = None" "dp_inflight ?st = dp_inflight v @ [p]"
        by (simp_all add: TimerFired autosave_timer_def Some content_def)
      from v(2) d Some have "p = pendingOf v (the (dp_workflow v))"
        by (simp add: save_inv_def pending_current_def)
      then have "pv_signature p = saveSignature ?st" by (simp add: content_cong [OF st(1)] pendingOf_def)
      then have "pending_current ?st" "unsaved_covered ?st"
        by (simp_all add: pending_current_def unsaved_covered_def st)
      then show ?thesis by (simp add: save_inv_def)
    qed
  next
    case (SaveAnswered k w)
    then show ?thesis using d v(2)
      by (cases "k < length (dp_inflight v)")
        (auto simp: autosave_answered_def Let_def intro: newer_save_inv [of _ v])
  next
    case (SaveFailed k e)
    with ev show ?thesis by blast
  qed (auto intro!: same simp: content_def)
qed

lemma page_reach_inv: "page_reach i st \<Longrightarrow> \<not> stale st \<and> save_inv st"
proof (induction rule: page_reach.induct)
  case start
  have "save_inv initialPage" by (simp add: save_inv_def initialPage_def)
  then show ?case by (simp add: settled settle_save_inv)
next
  case (step st ev)
  then show ?case by (simp add: page_step_def settled settle_save_inv page_apply_save_inv)
qed

text \<open>
  As long as no save fails, a change that is not saved is armed or on its way, and an armed save is the
  present draft.  The effect does not ask whether the draft is valid.
\<close>

lemma changes_covered:
  assumes "page_reach workflowId st"
  shows "(unsaved st \<longrightarrow> dp_pending st \<noteq> None \<or> (\<exists>p \<in> set (dp_inflight st). pv_signature p = saveSignature st)) \<and>
    (\<forall>p. dp_pending st = Some p \<longrightarrow> unsaved st \<and> p = pendingOf st (the (dp_workflow st)))"
  using page_reach_inv [OF assms]
  by (simp add: save_inv_def settled_deps unsaved_covered_def pending_current_def)

text \<open>C8: As long as no save fails, no change to a valid draft is forgotten: in every reachable state of the page
  whose draft has no validation issue, a save is armed or on its way whenever the draft, the name or the
  description differ from what was last saved; and an armed save is exactly that valid draft under the
  present name, so nothing stale is sent.\<close>

theorem unsaved_change_covered:
  assumes "page_reach workflowId st" and "definitionIssues st = []"
  shows "(unsaved st \<longrightarrow> dp_pending st \<noteq> None \<or> (\<exists>p \<in> set (dp_inflight st). pv_signature p = saveSignature st)) \<and>
    (\<forall>p. dp_pending st = Some p \<longrightarrow> unsaved st \<and> p = pendingOf st (the (dp_workflow st)) \<and>
      validateWorkflowDefinitionDraft (Some (wp_definition (pv_payload p))) = [])"
  using changes_covered [OF assms(1)] assms(2) by (auto simp: pendingOf_def definitionIssues_def)

section \<open>A signature stands for what it signs\<close>

definition proper_draft :: "wf_draft \<Rightarrow> bool" where
  "proper_draft d \<longleftrightarrow> list_all (\<lambda>n. bn_type n \<in> {Trigger, Notification, Delay, Condition}) (wb_nodes d)"

lemma number_free_draft: "number_free (draft_json d)"
  by (simp add: draft_json_def node_json_def edge_json_def list_all_iff)

lemma node_json_inject:
  "bn_type a \<in> {Trigger, Notification, Delay, Condition} \<Longrightarrow> bn_type b \<in> {Trigger, Notification, Delay, Condition} \<Longrightarrow>
    node_json a = node_json b \<longleftrightarrow> a = b"
  by (auto simp: node_json_def intro: node_draft.equality)

lemma edge_json_inject: "edge_json a = edge_json b \<longleftrightarrow> a = b"
  by (auto simp: edge_json_def intro: edge_draft.equality)

lemma draft_json_inject:
  assumes "proper_draft d" and "proper_draft d'"
  shows "draft_json d = draft_json d' \<longleftrightarrow> d = d'"
proof
  assume eq: "draft_json d = draft_json d'"
  have "wb_nodes d = wb_nodes d'"
  proof (rule map_inj_on [of node_json])
    show "map node_json (wb_nodes d) = map node_json (wb_nodes d')" using eq by (simp add: draft_json_def)
    show "inj_on node_json (set (wb_nodes d) \<union> set (wb_nodes d'))"
      using assms node_json_inject by (auto simp: inj_on_def proper_draft_def list_all_iff)
  qed
  moreover have "wb_edges d = wb_edges d'"
  proof (rule map_injective [of edge_json])
    show "map edge_json (wb_edges d) = map edge_json (wb_edges d')" using eq by (simp add: draft_json_def)
    show "inj edge_json" by (simp add: inj_def edge_json_inject)
  qed
  ultimately show "d = d'" using eq by (simp add: draft_json_def)
qed simp

lemma buildSaveSignature_inject:
  "buildSaveSignature a b c = buildSaveSignature a' b' c' \<longleftrightarrow> a = a' \<and> b = b' \<and> c = c'"
  unfolding buildSaveSignature_def stringify_def by (subst json_text_inject) simp_all

text \<open>Comparing signatures is comparing what would be saved: two signatures agree exactly when the drafts, the
  names and the descriptions do, quotes, separators and control characters in any of them included.\<close>

theorem signatures_agree_iff:
  assumes "proper_draft d" and "proper_draft d'"
  shows "buildSaveSignature (stringify (draft_json d)) n t = buildSaveSignature (stringify (draft_json d')) n' t' \<longleftrightarrow>
    d = d' \<and> n = n' \<and> t = t'"
  by (simp add: buildSaveSignature_inject draft_json_inject [OF assms, symmetric] stringify_def
      json_text_inject number_free_draft)

theorem signatures_agree_iff_witness:
  "buildSaveSignature (stringify (draft_json createDefaultWorkflowBuilderDraft)) ''a'' ''b'' \<noteq>
   buildSaveSignature (stringify (draft_json createDefaultWorkflowBuilderDraft)) ''a\",\"b'' []"
proof -
  have p: "proper_draft createDefaultWorkflowBuilderDraft" by code_simp
  show ?thesis using signatures_agree_iff [OF p p, of "''a''" "''b''" "''a\",\"b''" "[]"] by simp
qed

section \<open>Single steps\<close>

lemma commit_settled_effects:
  "dp_syncDeps v = Some (dp_dataVer v) \<Longrightarrow> dp_statusDeps v = Some (dp_isLoading v, dp_queryError v) \<Longrightarrow>
    commit i v = commit_save v v"
  by (simp add: commit_def commit_sync_def commit_status_def)

lemma settle_save:
  assumes "dp_syncDeps v = Some (dp_dataVer v)" and "dp_statusDeps v = Some (dp_isLoading v, dp_queryError v)"
  shows "settle i v = commit_save v v"
proof -
  have "\<not> stale (commit_save v v)" using commit_settled [OF assms(1), of i] commit_settled_effects [OF assms] by simp
  then show ?thesis by (simp add: settle_twice commit_settled_effects [OF assms] commit_fresh)
qed

lemma commit_save_new:
  assumes "dp_saveDeps v \<noteq> Some (save_deps v)" and "dp_workflow v = Some w"
  shows "commit_save v v =
    (if Some (saveSignature v) = dp_lastSaved v then v\<lparr>dp_pending := None, dp_saveDeps := Some (save_deps v)\<rparr>
     else v\<lparr>dp_pending := Some (pendingOf v w), dp_saveDeps := Some (save_deps v),
            dp_autosave := \<lparr>au_status = AS_saving, au_message = ''Saving changes...''\<rparr>\<rparr>)"
  using assms by (simp add: commit_save_def autosaveEffect_def Let_def)

lemma commit_sync_new:
  assumes "dp_syncDeps v \<noteq> Some (dp_dataVer v)" and "dp_data v = Some w" and "dp_lastSynced v \<noteq> Some (i, wfi_updatedAt w)"
  shows "dp_draft (commit_sync i v) = nextDraft w" "dp_workflow (commit_sync i v) = Some w"
    "dp_draftVer (commit_sync i v) = dp_draftVer v + 1"
    "dp_lastSaved (commit_sync i v) = Some (buildSaveSignature (stringify (draft_json (nextDraft w)))
       (wfi_name w) (str_or_empty (wfi_description w)))"
  using assms by (simp_all add: commit_sync_def syncEffect_def)

lemma refetch_replaces:
  assumes "\<not> stale st" and "dp_lastSynced st \<noteq> Some (workflowId, wfi_updatedAt w)"
  shows "let st' = page_step workflowId (QueryAnswered w) st in
    dp_draft st' = nextDraft w \<and> dp_workflow st' = Some w \<and> dp_pending st' = None \<and>
    dp_sent st' = dp_sent st \<and> \<not> unsaved st'"
proof -
  define v where "v = page_apply (QueryAnswered w) st"
  let ?s = "commit workflowId v"
  have v: "content v = content st" "dp_saveDeps v = dp_saveDeps st" "dp_sent v = dp_sent st"
    by (simp_all add: v_def content_def)
  have save: "dp_saveDeps v = Some (save_deps v)"
    using settled_deps [OF assms(1)] v(2) content_cong(1) [OF v(1)] by simp
  have "dp_syncDeps v \<noteq> Some (dp_dataVer v)" "dp_data v = Some w" "dp_lastSynced v \<noteq> Some (workflowId, wfi_updatedAt w)"
    using assms by (simp_all add: stale_def v_def)
  note sync = commit_sync_new [OF this]
  have s: "dp_draft ?s = nextDraft w" "dp_workflow ?s = Some w" "dp_draftVer ?s = dp_draftVer v + 1"
    "dp_lastSaved ?s = Some (buildSaveSignature (stringify (draft_json (nextDraft w))) (wfi_name w) (str_or_empty (wfi_description w)))"
    "dp_sent ?s = dp_sent st"
    by (simp_all add: commit_def commit_save_def save record_simps sync v(3))
  then have new: "dp_saveDeps ?s \<noteq> Some (save_deps ?s)"
    by (simp add: commit_save_deps save_deps_def)
  have sig: "Some (saveSignature ?s) = dp_lastSaved ?s"
    by (simp add: s saveSignature_def workflow_name_def workflow_description_def)
  define s' where "s' = ?s\<lparr>dp_pending := None, dp_saveDeps := Some (save_deps ?s)\<rparr>"
  have "settle workflowId v = commit_save ?s ?s"
    by (simp add: settle_twice commit_settled_effects commit_deps)
  then have st': "page_step workflowId (QueryAnswered w) st = s'"
    using commit_save_new [OF new s(2)] sig by (simp add: page_step_def v_def s'_def del: page_apply.simps)
  have "content s' = content ?s" by (simp add: content_def s'_def)
  from content_cong(2,3) [OF this] s sig show ?thesis unfolding st' Let_def
    by (simp add: unsaved_def) (simp add: s'_def)
qed

lemmas refetch_first = refetch_replaces [unfolded Let_def, THEN conjunct1]
  refetch_replaces [unfolded Let_def, THEN conjunct2, THEN conjunct1]
  refetch_replaces [unfolded Let_def, THEN conjunct2, THEN conjunct2, THEN conjunct2, THEN conjunct2]

text \<open>C10: Every answer of the workflow query with another \<open>updatedAt\<close> replaces the local draft by the stored one,
  disarms the save and marks the page as saved, unsaved changes included: an edit made while a save
  is on its way is dropped without being sent when the refetch that follows the save is answered.\<close>

theorem refetch_discards_edits:
  assumes "\<not> stale st" and "dp_lastSynced st \<noteq> Some (workflowId, wfi_updatedAt w)"
  shows "let st' = page_step workflowId (QueryAnswered w) st in
    dp_draft st' = nextDraft w \<and> dp_workflow st' = Some w \<and> dp_pending st' = None \<and>
    dp_sent st' = dp_sent st \<and> \<not> unsaved st'"
  by (rule refetch_replaces [OF assms])

definition sample_item :: workflow_item where
  "sample_item = \<lparr>wfi_id = ''w1'', wfi_key = ''welcome'', wfi_name = ''Welcome'', wfi_description = None,
     wfi_channels = None, wfi_status = None, wfi_triggerEvent = None, wfi_definition = None,
     wfi_createdAt = ''t0'', wfi_updatedAt = ''t1''\<rparr>"

lemma initial_not_synced: "dp_lastSynced (settle i initialPage) = None"
  by (simp add: settle_twice commit_def commit_sync_def syncEffect_def record_simps initialPage_def)

theorem refetch_discards_edits_witness:
  "let st' = page_step ''w1'' (QueryAnswered sample_item) (settle ''w1'' initialPage) in
    dp_draft st' = nextDraft sample_item \<and> dp_workflow st' = Some sample_item \<and> dp_pending st' = None \<and>
    dp_sent st' = dp_sent (settle ''w1'' initialPage) \<and> \<not> unsaved st'"
  by (rule refetch_discards_edits) (simp_all add: settled initial_not_synced)

lemma settled_parts:
  assumes "\<not> stale st"
  shows "dp_syncDeps st = Some (dp_dataVer st)" "dp_statusDeps st = Some (dp_isLoading st, dp_queryError st)"
    "dp_saveDeps st = Some (save_deps st)"
  using assms by (simp_all add: stale_def)

lemma edit_step:
  assumes st: "\<not> stale st" "dp_workflow st = Some w"
    and new: "Some (saveSignature (st\<lparr>dp_draft := d\<rparr>)) \<noteq> dp_lastSaved st"
  defines "v \<equiv> st\<lparr>dp_draft := d, dp_draftVer := dp_draftVer st + 1\<rparr>"
  shows "page_step i (SetDefinitionDraft d) st =
    v\<lparr>dp_pending := Some (pendingOf v w), dp_saveDeps := Some (save_deps v),
      dp_autosave := \<lparr>au_status = AS_saving, au_message = ''Saving changes...''\<rparr>\<rparr>"
proof -
  note parts = settled_parts [OF st(1)]
  have v: "dp_syncDeps v = Some (dp_dataVer v)" "dp_statusDeps v = Some (dp_isLoading v, dp_queryError v)"
    "dp_workflow v = Some w" using parts st(2) by (simp_all add: v_def)
  have deps: "dp_saveDeps v \<noteq> Some (save_deps v)" using parts(3) by (simp add: v_def save_deps_def)
  have "saveSignature v = saveSignature (st\<lparr>dp_draft := d\<rparr>)"
    by (simp add: v_def saveSignature_def workflow_name_def workflow_description_def)
  then have "Some (saveSignature v) \<noteq> dp_lastSaved v" using new by (simp add: v_def)
  then show ?thesis
    using commit_save_new [OF deps v(3)] settle_save [OF v(1,2), of i] by (simp add: page_step_def v_def)
qed

lemma timer_step:
  assumes "\<not> stale st" and "dp_pending st = Some p"
  shows "page_step i TimerFired st =
    st\<lparr>dp_pending := None, dp_inflight := dp_inflight st @ [p], dp_sent := dp_sent st @ [(pv_id p, pv_payload p)]\<rparr>"
proof -
  let ?v = "st\<lparr>dp_pending := None, dp_inflight := dp_inflight st @ [p], dp_sent := dp_sent st @ [(pv_id p, pv_payload p)]\<rparr>"
  have "content ?v = content st" by (simp add: content_def)
  from content_cong(1) [OF this] have "\<not> stale ?v" using assms(1) by (simp add: stale_def)
  then show ?thesis using assms(2) by (simp add: page_step_def autosave_timer_def settle_fresh)
qed

lemma answer_step:
  assumes st: "\<not> stale st" "dp_inflight st = [p]"
    and same: "pv_signature p = saveSignature (st\<lparr>dp_workflow := Some w'\<rparr>)"
  defines "v \<equiv> st\<lparr>dp_inflight := [], dp_workflow := Some w', dp_workflowVer := dp_workflowVer st + 1,
      dp_lastSaved := Some (pv_signature p), dp_autosave := \<lparr>au_status = AS_saved, au_message = ''All changes saved''\<rparr>,
      dp_invalidated := dp_invalidated st @ [pv_id p]\<rparr>"
  shows "page_step i (SaveAnswered 0 w') st = v\<lparr>dp_pending := None, dp_saveDeps := Some (save_deps v)\<rparr>"
proof -
  note parts = settled_parts [OF st(1)]
  have v: "dp_syncDeps v = Some (dp_dataVer v)" "dp_statusDeps v = Some (dp_isLoading v, dp_queryError v)"
    "dp_workflow v = Some w'" using parts by (simp_all add: v_def)
  have deps: "dp_saveDeps v \<noteq> Some (save_deps v)" using parts(3) by (simp add: v_def save_deps_def)
  have "saveSignature v = saveSignature (st\<lparr>dp_workflow := Some w'\<rparr>)"
    by (simp add: v_def saveSignature_def workflow_name_def workflow_description_def)
  then have "Some (saveSignature v) = dp_lastSaved v" using same by (simp add: v_def)
  moreover have "page_apply (SaveAnswered 0 w') st = v"
    using st(2) by (simp add: autosave_answered_def v_def Let_def drop_nth_def)
  ultimately show ?thesis
    using commit_save_new [OF deps v(3)] settle_save [OF v(1,2), of i] by (simp add: page_step_def del: page_apply.simps)
qed

text \<open>What becomes of an edit, whether the edited draft is valid or not.\<close>

lemma edit_delivered:
  assumes st: "\<not> stale st" "dp_workflow st = Some w" "dp_inflight st = []"
    and new: "Some (saveSignature (st\<lparr>dp_draft := d\<rparr>)) \<noteq> dp_lastSaved st"
    and echo: "wfi_name w' = wfi_name w" "str_or_empty (wfi_description w') = str_or_empty (wfi_description w)"
  shows "let st' = page_step i (SaveAnswered 0 w') (page_step i TimerFired (page_step i (SetDefinitionDraft d) st)) in
    dp_sent st' = dp_sent st @ [(wfi_id w,
      \<lparr>wp_key = wfi_key w, wp_name = wfi_name w,
       wp_description = (if truthy (wfi_description w) then wfi_description w else None),
       wp_definition = workflowDefinitionFromBuilderDraft d\<rparr>)] \<and>
    dp_draft st' = d \<and> \<not> unsaved st' \<and> dp_pending st' = None \<and> dp_inflight st' = [] \<and> \<not> stale st' \<and>
    dp_autosave st' = \<lparr>au_status = AS_saved, au_message = ''All changes saved''\<rparr>"
proof -
  define st1 where "st1 = page_step i (SetDefinitionDraft d) st"
  define st2 where "st2 = page_step i TimerFired st1"
  define st3 where "st3 = page_step i (SaveAnswered 0 w') st2"
  define p where "p = pendingOf st1 w"
  have settled: "\<not> stale st1" "\<not> stale st2" "\<not> stale st3"
    by (simp_all add: st1_def st2_def st3_def page_step_def settled)
  note e = edit_step [OF st(1,2) new, of i, folded st1_def]
  have st1: "dp_pending st1 = Some p" "dp_workflow st1 = Some w" "dp_draft st1 = d" "dp_inflight st1 = []"
    "dp_sent st1 = dp_sent st"
    using st(2,3) unfolding p_def e
    by (simp_all add: pendingOf_def page_definition_def saveSignature_def workflow_name_def workflow_description_def)
  have p: "p = \<lparr>pv_id = wfi_id w, pv_payload = \<lparr>wp_key = wfi_key w, wp_name = wfi_name w,
       wp_description = (if truthy (wfi_description w) then wfi_description w else None),
       wp_definition = workflowDefinitionFromBuilderDraft d\<rparr>, pv_signature = saveSignature st1\<rparr>"
    by (simp add: p_def pendingOf_def page_definition_def st1)
  note t = timer_step [OF settled(1) st1(1), of i, folded st2_def]
  have st2: "dp_inflight st2 = [p]" "dp_draft st2 = d" "dp_sent st2 = dp_sent st @ [(pv_id p, pv_payload p)]"
    unfolding t by (simp_all add: st1)
  have sig: "pv_signature p = saveSignature (st2\<lparr>dp_workflow := Some w'\<rparr>)"
    unfolding p by (simp add: saveSignature_def workflow_name_def workflow_description_def st1 st2 echo)
  note a = answer_step [OF settled(2) st2(1) sig, of i, folded st3_def]
  have st3: "dp_sent st3 = dp_sent st2" "dp_draft st3 = d" "dp_pending st3 = None" "dp_inflight st3 = []"
    "dp_lastSaved st3 = Some (pv_signature p)" "dp_workflow st3 = Some w'"
    "dp_autosave st3 = \<lparr>au_status = AS_saved, au_message = ''All changes saved''\<rparr>"
    unfolding a by (simp_all add: st2)
  have "saveSignature st3 = pv_signature p"
    unfolding sig by (simp add: saveSignature_def workflow_name_def workflow_description_def st2 st3)
  then have "\<not> unsaved st3" by (simp add: unsaved_def st3)
  then show ?thesis
    unfolding Let_def st1_def [symmetric] st2_def [symmetric] st3_def [symmetric]
    using settled(3) st3 st2(3) p by simp
qed

text \<open>C9: An edit to a valid draft reaches the server: after an edit that changes the draft and leaves no validation
  issue, the timer and the answer of the server, exactly one request has been sent, with the definition of
  the edited draft, which the validation accepts, under the workflow's key, name and description, and the
  page is at rest with nothing unsaved, armed or on its way.\<close>

theorem edit_is_saved:
  assumes st: "\<not> stale st" "dp_workflow st = Some w" "dp_inflight st = []"
    and new: "Some (saveSignature (st\<lparr>dp_draft := d\<rparr>)) \<noteq> dp_lastSaved st"
    and echo: "wfi_name w' = wfi_name w" "str_or_empty (wfi_description w') = str_or_empty (wfi_description w)"
    and valid: "definitionIssues (st\<lparr>dp_draft := d\<rparr>) = []"
  shows "let st' = page_step i (SaveAnswered 0 w') (page_step i TimerFired (page_step i (SetDefinitionDraft d) st)) in
    dp_sent st' = dp_sent st @ [(wfi_id w,
      \<lparr>wp_key = wfi_key w, wp_name = wfi_name w,
       wp_description = (if truthy (wfi_description w) then wfi_description w else None),
       wp_definition = workflowDefinitionFromBuilderDraft d\<rparr>)] \<and>
    validateWorkflowDefinitionDraft (Some (workflowDefinitionFromBuilderDraft d)) = [] \<and>
    dp_draft st' = d \<and> \<not> unsaved st' \<and> dp_pending st' = None \<and> dp_inflight st' = [] \<and> \<not> stale st' \<and>
    dp_autosave st' = \<lparr>au_status = AS_saved, au_message = ''All changes saved''\<rparr>"
  using edit_delivered [OF st new echo, of i] valid
  by (simp add: Let_def definitionIssues_def page_definition_def)

text \<open>The autosave does not pause while there are validation issues, as \<open>docs/definition-builder.md\<close> says
  in sections 8 and 10: an edit that leaves issues is armed like any other, the page shows it as being
  saved, and the timer sends it.\<close>

theorem invalid_draft_autosaved:
  assumes st: "\<not> stale st" "dp_workflow st = Some w"
    and new: "Some (saveSignature (st\<lparr>dp_draft := d\<rparr>)) \<noteq> dp_lastSaved st"
    and invalid: "validateWorkflowDefinitionDraft (Some (workflowDefinitionFromBuilderDraft d)) \<noteq> []"
  shows "let st' = page_step i TimerFired (page_step i (SetDefinitionDraft d) st) in
    definitionIssues st' \<noteq> [] \<and> dp_autosave st' = \<lparr>au_status = AS_saving, au_message = ''Saving changes...''\<rparr> \<and>
    (\<exists>p. dp_sent st' = dp_sent st @ [(wfi_id w, p)] \<and> wp_definition p = workflowDefinitionFromBuilderDraft d)"
proof -
  define st1 where "st1 = page_step i (SetDefinitionDraft d) st"
  note e = edit_step [OF st new, of i, folded st1_def]
  have "\<not> stale st1" by (simp add: st1_def page_step_def settled)
  moreover obtain p where p: "dp_pending st1 = Some p" "pv_id p = wfi_id w"
      "wp_definition (pv_payload p) = workflowDefinitionFromBuilderDraft d"
    unfolding e by (simp add: pendingOf_def page_definition_def)
  ultimately have t: "page_step i TimerFired st1 =
      st1\<lparr>dp_pending := None, dp_inflight := dp_inflight st1 @ [p], dp_sent := dp_sent st1 @ [(pv_id p, pv_payload p)]\<rparr>"
    by (simp add: timer_step)
  have "dp_sent st1 = dp_sent st" "dp_draft st1 = d" "dp_autosave st1 = \<lparr>au_status = AS_saving, au_message = ''Saving changes...''\<rparr>"
    unfolding e by simp_all
  then show ?thesis
    using invalid p unfolding Let_def st1_def [symmetric] t by (simp add: definitionIssues_def page_definition_def)
qed

lemma refetch_sample:
  "dp_workflow (page_step ''w1'' (QueryAnswered sample_item) (settle ''w1'' initialPage)) = Some sample_item"
  "dp_draft (page_step ''w1'' (QueryAnswered sample_item) (settle ''w1'' initialPage)) = nextDraft sample_item"
  "\<not> unsaved (page_step ''w1'' (QueryAnswered sample_item) (settle ''w1'' initialPage))"
  by (simp_all add: refetch_first settled initial_not_synced)

lemma settle_inflight: "dp_inflight (settle i v) = dp_inflight v"
  by (simp add: settle_twice commit_def record_simps)

lemma settle_providers: "dp_providers (settle i v) = dp_providers v"
  by (simp add: settle_twice commit_def record_simps)

definition sample_page :: draft_page where
  "sample_page = page_step ''w1'' (QueryAnswered sample_item) (settle ''w1'' initialPage)"

lemma sample_page:
  "dp_workflow sample_page = Some sample_item" "\<not> stale sample_page" "dp_inflight sample_page = []"
  "dp_draft sample_page = createDefaultWorkflowBuilderDraft" "\<not> unsaved sample_page"
proof -
  show "dp_inflight sample_page = []" by (simp add: sample_page_def page_step_def settle_inflight initialPage_def)
qed (use refetch_sample in \<open>simp_all add: sample_page_def settled page_step_def nextDraft_def sample_item_def\<close>)

text \<open>A delay added after the trigger; and a draft without a trigger event, which is not valid.\<close>

definition sample_edit :: wf_draft where
  "sample_edit = createDefaultWorkflowBuilderDraft\<lparr>
     wb_nodes := wb_nodes createDefaultWorkflowBuilderDraft @
       [\<lparr>bn_id = ''delay_a'', bn_name = ''Pause'', bn_type = Delay, bn_duration = ''5m'', bn_templateId = [], bn_channel = [],
         bn_field = [], bn_operator = [], bn_value = []\<rparr>],
     wb_edges := [\<lparr>be_source = ''trigger_1'', be_target = ''delay_a'', be_branch = []\<rparr>]\<rparr>"

definition sample_invalid :: wf_draft where
  "sample_invalid = createDefaultWorkflowBuilderDraft\<lparr>wb_triggerEvent := []\<rparr>"

lemma sample_edit_valid: "validateWorkflowDefinitionDraft (Some (workflowDefinitionFromBuilderDraft sample_edit)) = []"
  by code_simp

lemma sample_invalid_issues:
  "validateWorkflowDefinitionDraft (Some (workflowDefinitionFromBuilderDraft sample_invalid)) \<noteq> []"
  by code_simp

lemma sample_page_providers: "dp_providers sample_page = None"
  by (simp add: sample_page_def page_step_def settle_providers initialPage_def)

lemma sample_page_new:
  assumes "draft_json d \<noteq> draft_json createDefaultWorkflowBuilderDraft"
  shows "Some (saveSignature (sample_page\<lparr>dp_draft := d\<rparr>)) \<noteq> dp_lastSaved sample_page"
proof -
  have "stringify (draft_json d) \<noteq> stringify (draft_json createDefaultWorkflowBuilderDraft)"
    using assms by (simp add: stringify_def json_text_inject number_free_draft)
  then have "saveSignature (sample_page\<lparr>dp_draft := d\<rparr>) \<noteq> saveSignature sample_page"
    by (simp add: saveSignature_def buildSaveSignature_inject sample_page)
  then show ?thesis
    using sample_page(1,5) unfolding unsaved_def by (metis option.distinct(1) option.inject)
qed

lemma sample_edit_new: "Some (saveSignature (sample_page\<lparr>dp_draft := sample_edit\<rparr>)) \<noteq> dp_lastSaved sample_page"
  by (rule sample_page_new) (simp add: draft_json_def createDefaultWorkflowBuilderDraft_def sample_edit_def)

lemma sample_invalid_new: "Some (saveSignature (sample_page\<lparr>dp_draft := sample_invalid\<rparr>)) \<noteq> dp_lastSaved sample_page"
  by (rule sample_page_new) (simp add: draft_json_def createDefaultWorkflowBuilderDraft_def sample_invalid_def)

theorem edit_is_saved_witness:
  "\<exists>st'. dp_sent st' = dp_sent sample_page @ [(''w1'',
      \<lparr>wp_key = ''welcome'', wp_name = ''Welcome'', wp_description = None,
       wp_definition = workflowDefinitionFromBuilderDraft sample_edit\<rparr>)] \<and>
    \<not> unsaved st' \<and> dp_pending st' = None"
proof -
  have "definitionIssues (sample_page\<lparr>dp_draft := sample_edit\<rparr>) = []"
    by (simp add: definitionIssues_def page_definition_def sample_edit_valid sample_page_providers)
  from edit_is_saved [OF sample_page(2,1,3) sample_edit_new refl refl this, of "''w1''"]
  show ?thesis unfolding Let_def by (intro exI) (auto simp: sample_item_def)
qed

theorem invalid_draft_autosaved_witness:
  "\<exists>st p. dp_sent st = dp_sent sample_page @ [(''w1'', p)] \<and> definitionIssues st \<noteq> [] \<and>
    wp_definition p = workflowDefinitionFromBuilderDraft sample_invalid"
  using invalid_draft_autosaved [OF sample_page(2,1) sample_invalid_new sample_invalid_issues, of "''w1''"]
  unfolding Let_def by (auto simp: sample_item_def)

theorem unsaved_change_covered_witness:
  "let st = page_step ''w1'' (SetDefinitionDraft sample_edit) sample_page in
    dp_pending st = Some (pendingOf st (the (dp_workflow st))) \<and> unsaved st"
proof -
  let ?st = "page_step ''w1'' (SetDefinitionDraft sample_edit) sample_page"
  note e = edit_step [OF sample_page(2,1) sample_edit_new, of "''w1''"]
  have "page_reach ''w1'' ?st"
    unfolding sample_page_def by (intro page_reach.intros page_event.distinct)
  moreover have "definitionIssues ?st = []"
    unfolding e by (simp add: definitionIssues_def page_definition_def sample_edit_valid sample_page_providers)
  ultimately have "\<forall>p. dp_pending ?st = Some p \<longrightarrow> unsaved ?st \<and> p = pendingOf ?st (the (dp_workflow ?st))"
    using unsaved_change_covered [of "''w1''" ?st] by blast
  moreover have "dp_pending ?st \<noteq> None" unfolding e by simp
  ultimately show ?thesis unfolding Let_def by auto
qed

end
