(* ===== verification/Channel_Config.thy ===== *)
theory Channel_Config
  imports Draft Encode
begin

text \<open>
  The page that configures the message of a notification step
  (\<open>features/workflows/hooks/use-channel-config.ts\<close>): loading workflow, step and template, the two
  debounced autosaves of body and subject, and the save itself, which writes the template and then the
  workflow.

  The state holds the React state and the refs; a save between its requests is an entry of
  \<open>cc_saves\<close>, so that saves may overlap and answers may come in any order.  Timers fire in any later
  step.  \<open>JSON.parse\<close> and the indented \<open>JSON.stringify\<close> are parameters.
\<close>

section \<open>State\<close>

datatype cc_status = CC_idle | CC_saving | CC_saved | CC_error

datatype cc_request =
    GetWorkflow string
  | GetTemplate string
  | UpdateTemplate string string "string option"
  | UpsertTemplate string string string "string option"
  | UpdateWorkflow string workflow_payload

text \<open>What a running save has captured; \<open>AwaitTemplate\<close> and \<open>AwaitWorkflow\<close> are its two awaits.\<close>

datatype save_stage = AwaitTemplate | AwaitWorkflow

record running_save =
  rs_workflow :: workflow_item
  rs_node :: wf_node
  rs_channel :: string
  rs_templateId :: string
  rs_stage :: save_stage

record template_item =
  ti_id :: string
  ti_subject :: "string option"
  ti_body :: "string option"

record channel_page =
  cc_loading :: bool
  cc_error :: "string option"
  cc_workflow :: "workflow_item option"
  cc_node :: "wf_node option"
  cc_channel :: string
  cc_templateId :: string
  cc_subject :: string
  cc_body :: string
  cc_contentJson :: "json option"
  cc_autosaveStatus :: cc_status
  cc_payload :: string
  cr_templateId :: string
  cr_workflow :: "workflow_item option"
  cr_node :: "wf_node option"
  cr_channel :: string
  cr_subject :: string
  cr_encodedBody :: string
  cr_payload :: string
  cr_nodeName :: string
  cc_bodyTimer :: "string option"
  cc_subjectTimer :: bool
  cc_saves :: "running_save list"
  cc_requests :: "cc_request list"
  cc_invalidated :: "string list"

definition initialChannelPage :: channel_page where
  "initialChannelPage =
     \<lparr>cc_loading = True, cc_error = None, cc_workflow = None, cc_node = None, cc_channel = ''email'',
      cc_templateId = [], cc_subject = [], cc_body = [], cc_contentJson = None, cc_autosaveStatus = CC_idle,
      cc_payload = ''{}'', cr_templateId = [], cr_workflow = None, cr_node = None, cr_channel = ''email'',
      cr_subject = [], cr_encodedBody = [], cr_payload = [], cr_nodeName = [],
      cc_bodyTimer = None, cc_subjectTimer = False, cc_saves = [], cc_requests = [], cc_invalidated = []\<rparr>"

text \<open>The two effects that copy \<open>subject\<close> and \<open>payload\<close> into their refs after every render.\<close>

definition refEffects :: "channel_page \<Rightarrow> channel_page" where
  "refEffects st = st\<lparr>cr_subject := cc_subject st, cr_payload := cc_payload st\<rparr>"

definition channel_node_config :: "wf_node \<Rightarrow> (string \<times> json) list" where
  "channel_node_config n = (case wn_config n of None \<Rightarrow> [] | Some c \<Rightarrow> c)"

definition channelNodeDisplayName :: "wf_node option \<Rightarrow> string \<Rightarrow> string" where
  "channelNodeDisplayName node fallbackNodeId =
     (case obj_str (case node of None \<Rightarrow> [] | Some n \<Rightarrow> channel_node_config n) ''name'' of
        Some s \<Rightarrow> if js_trim s \<noteq> [] then js_trim s else js_or (case node of None \<Rightarrow> [] | Some n \<Rightarrow> wn_id n) fallbackNodeId
      | None \<Rightarrow> js_or (case node of None \<Rightarrow> [] | Some n \<Rightarrow> wn_id n) fallbackNodeId)"

section \<open>Saving (\<open>performAutosave\<close>)\<close>

definition send :: "cc_request \<Rightarrow> channel_page \<Rightarrow> channel_page" where
  "send req st = st\<lparr>cc_requests := cc_requests st @ [req]\<rparr>"

definition performAutosave :: "string \<Rightarrow> channel_page \<Rightarrow> channel_page" where
  "performAutosave html st =
     (case (cr_workflow st, cr_node st) of
        (Some w, Some n) \<Rightarrow>
          (let subject = (if cr_channel st = ''sms'' then None
                          else if js_trim (cr_subject st) = [] then None else Some (js_trim (cr_subject st)));
               req = (if cr_templateId st \<noteq> [] then UpdateTemplate (cr_templateId st) html subject
                      else UpsertTemplate (wfi_name w @ '' '' @ cr_nodeName st @ '' '' @ cr_channel st)
                             (cr_channel st) html subject);
               save = \<lparr>rs_workflow = w, rs_node = n, rs_channel = cr_channel st,
                       rs_templateId = cr_templateId st, rs_stage = AwaitTemplate\<rparr>
           in send req (st\<lparr>cc_autosaveStatus := CC_saving, cc_saves := cc_saves st @ [save]\<rparr>))
      | _ \<Rightarrow> st)"

text \<open>A JSON value as a condition.\<close>

definition json_truthy :: "json \<Rightarrow> bool" where
  "json_truthy v = (case v of JNull \<Rightarrow> False | JBool b \<Rightarrow> b | JNum x \<Rightarrow> x \<noteq> 0 | JStr s \<Rightarrow> s \<noteq> [] | _ \<Rightarrow> True)"

definition parsed_payload :: "(string \<Rightarrow> json option) \<Rightarrow> string \<Rightarrow> json option" where
  "parsed_payload parse raw =
     (if raw = [] then None
      else case parse raw of Some v \<Rightarrow> if json_truthy v then Some v else None | None \<Rightarrow> None)"

definition channel_config :: "string \<Rightarrow> string \<Rightarrow> wf_node \<Rightarrow> wf_node" where
  "channel_config templateId channel n =
     n\<lparr>wn_config := Some (map_set ''channels'' (JArr [JStr channel])
         (map_set ''template_id'' (JStr templateId) (channel_node_config n)))\<rparr>"

definition updatedDefinition ::
  "(string \<Rightarrow> json option) \<Rightarrow> wf_definition option \<Rightarrow> string \<Rightarrow> string \<Rightarrow> string \<Rightarrow> string \<Rightarrow> wf_definition" where
  "updatedDefinition parse currentDef nodeId templateId channel rawPayload =
     \<lparr>wd_trigger = (case currentDef of Some d \<Rightarrow>
          (case wd_trigger d of Some t \<Rightarrow> Some t | None \<Rightarrow> Some \<lparr>wt_event = Some []\<rparr>)
        | None \<Rightarrow> Some \<lparr>wt_event = Some []\<rparr>),
      wd_nodes = map (\<lambda>n. if wn_id n = nodeId then channel_config templateId channel n else n)
        (case currentDef of Some d \<Rightarrow> wd_nodes d | None \<Rightarrow> []),
      wd_edges = (case currentDef of Some d \<Rightarrow> wd_edges d | None \<Rightarrow> []),
      wd_payload = parsed_payload parse rawPayload\<rparr>"

definition template_saved :: "(string \<Rightarrow> json option) \<Rightarrow> nat \<Rightarrow> string \<Rightarrow> channel_page \<Rightarrow> channel_page" where
  "template_saved parse k savedTemplateId st =
     (if k < length (cc_saves st) \<and> rs_stage (cc_saves st ! k) = AwaitTemplate then
        (let s = cc_saves st ! k; w = rs_workflow s;
             st1 = (if rs_templateId s \<noteq> [] then st
                    else st\<lparr>cc_templateId := savedTemplateId, cr_templateId := savedTemplateId\<rparr>);
             definition0 = updatedDefinition parse
               (case cr_workflow st1 of None \<Rightarrow> None | Some cw \<Rightarrow> wfi_definition cw)
               (wn_id (rs_node s)) savedTemplateId (rs_channel s) (cr_payload st1)
         in send (UpdateWorkflow (wfi_id w)
               \<lparr>wp_key = wfi_key w, wp_name = wfi_name w,
                wp_description = (if truthy (wfi_description w) then wfi_description w else None),
                wp_definition = definition0\<rparr>)
             (st1\<lparr>cc_saves := (cc_saves st1)[k := s\<lparr>rs_stage := AwaitWorkflow\<rparr>]\<rparr>))
      else st)"

definition remove_save :: "nat \<Rightarrow> channel_page \<Rightarrow> channel_page" where
  "remove_save k st = st\<lparr>cc_saves := take k (cc_saves st) @ drop (Suc k) (cc_saves st)\<rparr>"

definition workflow_saved :: "nat \<Rightarrow> channel_page \<Rightarrow> channel_page" where
  "workflow_saved k st =
     (if k < length (cc_saves st) \<and> rs_stage (cc_saves st ! k) = AwaitWorkflow
      then (remove_save k st)\<lparr>cc_autosaveStatus := CC_saved,
             cc_invalidated := cc_invalidated st @ [wfi_id (rs_workflow (cc_saves st ! k))]\<rparr>
      else st)"

definition save_failed :: "nat \<Rightarrow> channel_page \<Rightarrow> channel_page" where
  "save_failed k st =
     (if k < length (cc_saves st) then (remove_save k st)\<lparr>cc_autosaveStatus := CC_error\<rparr> else st)"

section \<open>Editing\<close>

definition handleHtmlChange :: "string \<Rightarrow> json option \<Rightarrow> channel_page \<Rightarrow> channel_page" where
  "handleHtmlChange html content st =
     st\<lparr>cc_body := html, cc_contentJson := (case content of None \<Rightarrow> cc_contentJson st | Some j \<Rightarrow> Some j),
        cr_encodedBody := html, cc_bodyTimer := Some html\<rparr>"

definition body_timer :: "channel_page \<Rightarrow> channel_page" where
  "body_timer st =
     (case cc_bodyTimer st of None \<Rightarrow> st | Some html \<Rightarrow> performAutosave html (st\<lparr>cc_bodyTimer := None\<rparr>))"

definition handleSubjectChange :: "string \<Rightarrow> channel_page \<Rightarrow> channel_page" where
  "handleSubjectChange value st = st\<lparr>cc_subject := value, cc_subjectTimer := True\<rparr>"

definition subject_timer :: "channel_page \<Rightarrow> channel_page" where
  "subject_timer st =
     (if cc_subjectTimer st then
        (let st1 = st\<lparr>cc_subjectTimer := False\<rparr>; lastBody = cr_encodedBody st
         in if lastBody \<noteq> [] then performAutosave lastBody st1 else st1)
      else st)"

section \<open>Loading\<close>

definition load_start :: "string \<Rightarrow> string \<Rightarrow> channel_page \<Rightarrow> channel_page" where
  "load_start workflowId nodeId st =
     (if workflowId = [] \<or> nodeId = []
      then st\<lparr>cc_error := Some ''Workflow or channel node was not provided'', cc_loading := False\<rparr>
      else send (GetWorkflow workflowId) (st\<lparr>cc_loading := True, cc_error := None\<rparr>))"

definition node_channel :: "wf_node \<Rightarrow> string" where
  "node_channel n = (case map_of (channel_node_config n) ''channels'' of Some (JArr (JStr c # _)) \<Rightarrow> c | _ \<Rightarrow> ''email'')"

definition load_payload :: "(json \<Rightarrow> string) \<Rightarrow> workflow_item \<Rightarrow> channel_page \<Rightarrow> channel_page" where
  "load_payload pretty w st =
     (case (case wfi_definition w of None \<Rightarrow> None | Some d \<Rightarrow> wd_payload d) of
        Some p \<Rightarrow> if json_truthy p
          then st\<lparr>cc_payload := (case p of JStr s \<Rightarrow> s | _ \<Rightarrow> pretty p)\<rparr> else st
      | None \<Rightarrow> st)"

definition workflow_loaded :: "(json \<Rightarrow> string) \<Rightarrow> string \<Rightarrow> workflow_item \<Rightarrow> channel_page \<Rightarrow> channel_page" where
  "workflow_loaded pretty nodeId w st =
     (case List.find (\<lambda>n. wn_id n = nodeId) (case wfi_definition w of None \<Rightarrow> [] | Some d \<Rightarrow> wd_nodes d) of
        None \<Rightarrow> st\<lparr>cc_error := Some ''Notification node not found'', cc_loading := False\<rparr>
      | Some n \<Rightarrow>
          if wn_type n \<noteq> Notification
          then st\<lparr>cc_error := Some ''Notification node not found'', cc_loading := False\<rparr>
          else
            (let templateId = str_or_empty (obj_str (channel_node_config n) ''template_id'');
                 st1 = st\<lparr>cc_workflow := Some w, cc_node := Some n, cc_channel := node_channel n,
                         cc_templateId := templateId, cr_workflow := Some w, cr_node := Some n,
                         cr_channel := node_channel n, cr_templateId := templateId,
                         cr_nodeName := channelNodeDisplayName (Some n) nodeId\<rparr>
             in if templateId \<noteq> [] then send (GetTemplate templateId) st1
                else (load_payload pretty w (st1\<lparr>cc_subject := [], cc_body := []\<rparr>))\<lparr>cc_loading := False\<rparr>))"

definition template_loaded :: "(json \<Rightarrow> string) \<Rightarrow> template_item \<Rightarrow> channel_page \<Rightarrow> channel_page" where
  "template_loaded pretty t st =
     (let st1 = st\<lparr>cc_subject := str_or_empty (ti_subject t), cc_body := str_or_empty (ti_body t)\<rparr>
      in (case cr_workflow st of None \<Rightarrow> st1 | Some w \<Rightarrow> load_payload pretty w st1)\<lparr>cc_loading := False\<rparr>)"

definition load_failed :: "thrown \<Rightarrow> channel_page \<Rightarrow> channel_page" where
  "load_failed err st =
     st\<lparr>cc_error := Some (error_message err ''Failed to load channel editor''), cc_loading := False\<rparr>"

definition unmount :: "channel_page \<Rightarrow> channel_page" where
  "unmount st = st\<lparr>cc_bodyTimer := None, cc_subjectTimer := False\<rparr>"

section \<open>Steps\<close>

datatype channel_event =
    LoadStarted
  | WorkflowLoaded workflow_item
  | TemplateLoaded template_item
  | LoadFailed thrown
  | HtmlChanged string "json option"
  | SubjectChanged string
  | BodySet string
  | PayloadSet string
  | BodyTimer
  | SubjectTimer
  | TemplateSaved nat string
  | WorkflowSaved nat
  | SaveFailure nat
  | Unmounted

fun channel_apply ::
  "(string \<Rightarrow> json option) \<Rightarrow> (json \<Rightarrow> string) \<Rightarrow> string \<Rightarrow> string \<Rightarrow> channel_event \<Rightarrow> channel_page \<Rightarrow> channel_page" where
  "channel_apply parse pretty workflowId nodeId LoadStarted st = load_start workflowId nodeId st"
| "channel_apply parse pretty workflowId nodeId (WorkflowLoaded w) st = workflow_loaded pretty nodeId w st"
| "channel_apply parse pretty workflowId nodeId (TemplateLoaded t) st = template_loaded pretty t st"
| "channel_apply parse pretty workflowId nodeId (LoadFailed e) st = load_failed e st"
| "channel_apply parse pretty workflowId nodeId (HtmlChanged html j) st = handleHtmlChange html j st"
| "channel_apply parse pretty workflowId nodeId (SubjectChanged v) st = handleSubjectChange v st"
| "channel_apply parse pretty workflowId nodeId (BodySet v) st = st\<lparr>cc_body := v\<rparr>"
| "channel_apply parse pretty workflowId nodeId (PayloadSet v) st = st\<lparr>cc_payload := v\<rparr>"
| "channel_apply parse pretty workflowId nodeId BodyTimer st = body_timer st"
| "channel_apply parse pretty workflowId nodeId SubjectTimer st = subject_timer st"
| "channel_apply parse pretty workflowId nodeId (TemplateSaved k i) st = template_saved parse k i st"
| "channel_apply parse pretty workflowId nodeId (WorkflowSaved k) st = workflow_saved k st"
| "channel_apply parse pretty workflowId nodeId (SaveFailure k) st = save_failed k st"
| "channel_apply parse pretty workflowId nodeId Unmounted st = unmount st"

definition channel_step where
  "channel_step parse pretty workflowId nodeId ev st = refEffects (channel_apply parse pretty workflowId nodeId ev st)"

definition channel_run where
  "channel_run parse pretty workflowId nodeId evs st = fold (channel_step parse pretty workflowId nodeId) evs st"

section \<open>Without a body edit nothing is written\<close>

fun is_read :: "cc_request \<Rightarrow> bool" where
  "is_read (GetWorkflow _) = True"
| "is_read (GetTemplate _) = True"
| "is_read _ = False"

fun is_html_change :: "channel_event \<Rightarrow> bool" where
  "is_html_change (HtmlChanged _ _) = True"
| "is_html_change _ = False"

definition quiet :: "channel_page \<Rightarrow> bool" where
  "quiet st \<longleftrightarrow> cr_encodedBody st = [] \<and> cc_bodyTimer st = None \<and> cc_saves st = [] \<and> list_all is_read (cc_requests st)"

lemma quiet_load_payload: "quiet st \<Longrightarrow> quiet (load_payload pretty w st)"
  by (simp add: quiet_def load_payload_def split: option.splits)

lemma quiet_upd [simp]:
  "quiet (st\<lparr>cc_loading := x\<rparr>) = quiet st" "quiet (st\<lparr>cc_error := e\<rparr>) = quiet st"
  "quiet (st\<lparr>cc_subject := s\<rparr>) = quiet st" "quiet (st\<lparr>cc_body := s\<rparr>) = quiet st"
  "quiet (st\<lparr>cc_payload := s\<rparr>) = quiet st" "quiet (st\<lparr>cc_subjectTimer := b\<rparr>) = quiet st"
  "quiet (st\<lparr>cc_workflow := w\<rparr>) = quiet st" "quiet (st\<lparr>cc_node := n\<rparr>) = quiet st"
  "quiet (st\<lparr>cc_channel := s\<rparr>) = quiet st" "quiet (st\<lparr>cc_templateId := s\<rparr>) = quiet st"
  "quiet (st\<lparr>cr_workflow := w\<rparr>) = quiet st" "quiet (st\<lparr>cr_node := n\<rparr>) = quiet st"
  "quiet (st\<lparr>cr_channel := s\<rparr>) = quiet st" "quiet (st\<lparr>cr_templateId := s\<rparr>) = quiet st"
  "quiet (st\<lparr>cr_nodeName := s\<rparr>) = quiet st" "quiet (st\<lparr>cr_subject := s\<rparr>) = quiet st"
  "quiet (st\<lparr>cr_payload := s\<rparr>) = quiet st"
  by (simp_all add: quiet_def)

lemma quiet_send: "quiet st \<Longrightarrow> is_read req \<Longrightarrow> quiet (send req st)"
  by (simp add: quiet_def send_def)

lemma quiet_step:
  assumes "quiet st" and "\<not> is_html_change ev"
  shows "quiet (channel_step parse pretty workflowId nodeId ev st)"
proof -
  have "quiet (channel_apply parse pretty workflowId nodeId ev st)"
  proof (cases ev)
    case LoadStarted
    then show ?thesis using assms by (simp add: load_start_def quiet_send)
  next
    case (WorkflowLoaded w)
    then show ?thesis using assms
      by (simp add: workflow_loaded_def Let_def quiet_send quiet_load_payload split: option.splits)
  next
    case (TemplateLoaded t)
    then show ?thesis using assms
      by (simp add: template_loaded_def Let_def quiet_load_payload split: option.splits)
  next
    case (LoadFailed e)
    then show ?thesis using assms by (simp add: load_failed_def)
  next
    case (SubjectChanged v)
    then show ?thesis using assms by (simp add: handleSubjectChange_def)
  next
    case BodyTimer
    then show ?thesis using assms by (simp add: body_timer_def quiet_def)
  next
    case SubjectTimer
    then show ?thesis using assms by (simp add: subject_timer_def Let_def) (simp add: quiet_def)
  next
    case (TemplateSaved k i)
    then show ?thesis using assms by (simp add: template_saved_def quiet_def)
  next
    case (WorkflowSaved k)
    then show ?thesis using assms by (simp add: workflow_saved_def quiet_def)
  next
    case (SaveFailure k)
    then show ?thesis using assms by (simp add: save_failed_def quiet_def)
  next
    case Unmounted
    then show ?thesis using assms by (simp add: unmount_def) (simp add: quiet_def)
  qed (use assms in simp_all)
  then show ?thesis by (simp add: channel_step_def refEffects_def)
qed

lemma quiet_run:
  "quiet st \<Longrightarrow> list_all (\<lambda>e. \<not> is_html_change e) evs \<Longrightarrow>
    quiet (channel_run parse pretty workflowId nodeId evs st)"
  by (induction evs arbitrary: st) (simp_all add: channel_run_def quiet_step)

text \<open>C13: Until the body is edited the page writes nothing: after any sequence of loads, subject and payload edits,
  timers and answers without a body edit, every request it has sent is a read; in particular an
  edited subject is not saved when its timer fires.\<close>

theorem subject_edit_not_saved:
  assumes "list_all (\<lambda>e. \<not> is_html_change e) evs"
  shows "list_all is_read (cc_requests (channel_run parse pretty workflowId nodeId evs initialChannelPage))"
proof -
  have "quiet initialChannelPage" by (simp add: quiet_def initialChannelPage_def)
  from quiet_run [OF this assms] show ?thesis by (simp add: quiet_def)
qed

theorem subject_edit_not_saved_witness:
  "list_all is_read (cc_requests (channel_run (\<lambda>_. None) (\<lambda>_. []) ''w'' ''n''
     [LoadStarted, SubjectChanged ''Hello'', SubjectTimer] initialChannelPage))"
  by (rule subject_edit_not_saved) simp

section \<open>What a save means for the builder\<close>

lemma obj_str_map_set: "obj_str (map_set k v c) k' = (if k' = k then (case v of JStr s \<Rightarrow> Some s | _ \<Rightarrow> None) else obj_str c k')"
  by (simp add: obj_str_def map_get_set)

lemma importNode_channel_config:
  assumes "wn_type n = Notification" and "is_uuid t"
  shows "importNode (channel_config t (node_channel n) n) = (importNode n)\<lparr>bn_templateId := t\<rparr>"
proof -
  have t: "js_trim t = t" "t \<noteq> []" using assms(2) is_uuid_trim not_is_uuid_Nil by metis+
  let ?c = "channel_node_config n"
  let ?ch = "case map_of ?c ''channels'' of Some (JArr (JStr c # _)) \<Rightarrow> c | _ \<Rightarrow> []"
  have names: "buildDefaultNodeName Notification (Some (node_channel n)) = buildDefaultNodeName Notification (Some ?ch)"
    by (simp add: node_channel_def buildDefaultNodeName_def split: option.split json.split list.split)
  have channel: "js_or (node_channel n) ''email'' = js_or ?ch ''email''"
    by (simp add: node_channel_def split: option.split json.split list.split)
  show ?thesis
    using names channel t assms
    by (cases "obj_str (channel_node_config n) ''name''") (simp_all add: importNode_def channel_config_def channel_node_config_def [symmetric] Let_def obj_str_map_set map_get_set
        normalizeNodeDraftForType_def normalizeImportedTemplateId_def)
qed

lemma import_updatedDefinition:
  assumes "wn_type n = Notification" "is_uuid t" "\<forall>m \<in> set (wd_nodes d). wn_id m = wn_id n \<longrightarrow> m = n"
    and "wn_id n \<noteq> ''trigger_1''"
  shows "builderDraftFromDefinition (Some (updatedDefinition parse (Some d) (wn_id n) t (node_channel n) raw)) =
    (let draft = builderDraftFromDefinition (Some d)
     in draft\<lparr>wb_nodes := map (\<lambda>x. if bn_id x = wn_id n then x\<lparr>bn_templateId := t\<rparr> else x) (wb_nodes draft)\<rparr>)"
proof -
  let ?f = "\<lambda>x. if bn_id x = wn_id n then x\<lparr>bn_templateId := t\<rparr> else x"
  let ?d = "updatedDefinition parse (Some d) (wn_id n) t (node_channel n) raw"
  have id: "bn_id (importNode m) = wn_id m" for m
    by (simp add: importNode_def Let_def normalizeNodeDraftForType_def)
  have "importNode (if wn_id m = wn_id n then channel_config t (node_channel n) m else m) = ?f (importNode m)"
    if "m \<in> set (wd_nodes d)" for m
    using that assms(3) importNode_channel_config [OF assms(1,2)] by (auto simp: id)
  then have nodes: "map importNode (wd_nodes ?d) = map ?f (map importNode (wd_nodes d))"
    by (simp add: updatedDefinition_def)
  have fid: "bn_id (?f x) = bn_id x" for x by simp
  have find_map: "List.find (\<lambda>x. bn_type x \<noteq> Trigger) (map ?f xs) = map_option ?f (List.find (\<lambda>x. bn_type x \<noteq> Trigger) xs)" for xs
    by (induction xs) simp_all
  have trig: "?f (triggerNodeDraft\<lparr>bn_id := ''trigger_1''\<rparr>) = triggerNodeDraft\<lparr>bn_id := ''trigger_1''\<rparr>"
    using assms(4) by auto
  have event: "(case wd_trigger ?d of None \<Rightarrow> [] | Some x \<Rightarrow> str_or_empty (wt_event x)) =
      (case wd_trigger d of None \<Rightarrow> [] | Some x \<Rightarrow> str_or_empty (wt_event x))"
    by (simp add: updatedDefinition_def split: option.split)
  have edges: "wd_edges ?d = wd_edges d" by (simp add: updatedDefinition_def)
  let ?ns = "map importNode (wd_nodes d)" and ?t1 = "triggerNodeDraft\<lparr>bn_id := ''trigger_1''\<rparr>"
  have has: "(\<exists>x \<in> set (map ?f xs). bn_type x = Trigger) \<longleftrightarrow> (\<exists>x \<in> set xs. bn_type x = Trigger)" for xs
    by (induction xs) simp_all
  show ?thesis
  proof (cases "\<exists>x \<in> set ?ns. bn_type x = Trigger")
    case True
    then have yes: "\<exists>x \<in> set (map ?f ?ns). bn_type x = Trigger" using has by blast
    show ?thesis
      unfolding builderDraftFromDefinition_def option.case nodes event edges Let_def if_P [OF True] if_P [OF yes]
      by (simp only: wf_draft.simps)
  next
    case False
    then have no: "\<not> (\<exists>x \<in> set (map ?f ?ns). bn_type x = Trigger)" using has by blast
    have m: "?t1 # map ?f ?ns = map ?f (?t1 # ?ns)" using trig by simp
    show ?thesis
      unfolding builderDraftFromDefinition_def option.case nodes event edges Let_def if_not_P [OF False] if_not_P [OF no]
      unfolding m find_map
      by (cases "List.find (\<lambda>x. bn_type x \<noteq> Trigger) (?t1 # ?ns)") (simp_all only: option.case option.map wf_draft.simps fid)
  qed
qed

lemma save_sequence:
  assumes w: "cr_workflow st = Some w" "cr_node st = Some n" and idle: "cc_saves st = []"
  shows "cc_requests (channel_run parse pretty workflowId nodeId [HtmlChanged html j, BodyTimer, TemplateSaved 0 t, WorkflowSaved 0] st) = cc_requests st @
      [(let subject = (if cr_channel st = ''sms'' \<or> js_trim (cc_subject st) = [] then None else Some (js_trim (cc_subject st)))
        in if cr_templateId st \<noteq> [] then UpdateTemplate (cr_templateId st) html subject
           else UpsertTemplate (wfi_name w @ '' '' @ cr_nodeName st @ '' '' @ cr_channel st) (cr_channel st) html subject),
       UpdateWorkflow (wfi_id w)
         \<lparr>wp_key = wfi_key w, wp_name = wfi_name w,
          wp_description = (if truthy (wfi_description w) then wfi_description w else None),
          wp_definition = updatedDefinition parse (wfi_definition w) (wn_id n) t (cr_channel st) (cc_payload st)\<rparr>]"
    and "cc_saves (channel_run parse pretty workflowId nodeId [HtmlChanged html j, BodyTimer, TemplateSaved 0 t, WorkflowSaved 0] st) = []" and "cc_autosaveStatus (channel_run parse pretty workflowId nodeId [HtmlChanged html j, BodyTimer, TemplateSaved 0 t, WorkflowSaved 0] st) = CC_saved"
  using assms
  by (simp_all add: channel_run_def channel_step_def refEffects_def handleHtmlChange_def body_timer_def
      performAutosave_def send_def template_saved_def workflow_saved_def remove_save_def Let_def)

text \<open>C12: A body edit reaches the builder: on a loaded page at rest, the edit, its timer and the two answers send the
  template and then the workflow, end in the saved state, and the definition sent loads in the builder as the stored draft with
  nothing changed but the template id of this step, which is the id of the saved template.\<close>

theorem channel_save_reaches_builder:
  assumes "cr_workflow st = Some w" "cr_node st = Some n" "cr_channel st = node_channel n" "cc_saves st = []"
    and "wfi_definition w = Some d" "wn_type n = Notification" "\<forall>m \<in> set (wd_nodes d). wn_id m = wn_id n \<longrightarrow> m = n"
    and "wn_id n \<noteq> ''trigger_1''" "is_uuid t"
  shows "let run = channel_run parse pretty workflowId nodeId
      [HtmlChanged html j, BodyTimer, TemplateSaved 0 t, WorkflowSaved 0] st in
    \<exists>req p. cc_requests run = cc_requests st @ [req, UpdateWorkflow (wfi_id w) p] \<and> \<not> is_read req \<and>
      cc_saves run = [] \<and> cc_autosaveStatus run = CC_saved \<and>
      builderDraftFromDefinition (Some (wp_definition p)) =
        (let draft = builderDraftFromDefinition (Some d)
         in draft\<lparr>wb_nodes := map (\<lambda>x. if bn_id x = wn_id n then x\<lparr>bn_templateId := t\<rparr> else x) (wb_nodes draft)\<rparr>)"
proof -
  note run = save_sequence [OF assms(1,2,4), of parse pretty workflowId nodeId html j t]
  note imp = import_updatedDefinition [OF assms(6,9,7,8), of parse "cc_payload st"]
  show ?thesis unfolding Let_def run(2,3) run(1) [unfolded Let_def assms(3,5)]
    apply (intro exI conjI)
        apply (rule refl)
       apply simp
      apply (rule refl)+
    apply (simp only: workflow_payload.simps imp [unfolded Let_def])
    done
qed

definition sample_step :: wf_node where
  "sample_step = \<lparr>wn_id = ''email_1'', wn_type = Notification, wn_config = Some [(''channels'', JArr [JStr ''email''])]\<rparr>"

definition sample_workflow :: workflow_item where
  "sample_workflow = \<lparr>wfi_id = ''w1'', wfi_key = ''welcome'', wfi_name = ''Welcome'', wfi_description = None,
     wfi_channels = None, wfi_status = None, wfi_triggerEvent = None,
     wfi_definition = Some \<lparr>wd_trigger = None, wd_nodes = [sample_step], wd_edges = [], wd_payload = None\<rparr>,
     wfi_createdAt = ''t0'', wfi_updatedAt = ''t1''\<rparr>"

definition sample_channel_page :: channel_page where
  "sample_channel_page = channel_run (\<lambda>_. None) (\<lambda>_. []) ''w1'' ''email_1'' [LoadStarted, WorkflowLoaded sample_workflow] initialChannelPage"

lemma sample_channel_page:
  "cr_workflow sample_channel_page = Some sample_workflow" "cr_node sample_channel_page = Some sample_step"
  "cr_channel sample_channel_page = node_channel sample_step" "cc_saves sample_channel_page = []"
  by (simp_all add: sample_channel_page_def channel_run_def channel_step_def refEffects_def load_start_def send_def
      workflow_loaded_def load_payload_def Let_def sample_workflow_def sample_step_def initialChannelPage_def
      obj_str_def channel_node_config_def node_channel_def)

theorem channel_save_reaches_builder_witness:
  "let run = channel_run (\<lambda>_. None) (\<lambda>_. []) ''w1'' ''email_1''
      [HtmlChanged ''<p>Hi</p>'' None, BodyTimer, TemplateSaved 0 ''1b4e28ba-2fa1-11d2-883f-0016d3cca427'', WorkflowSaved 0]
      sample_channel_page in
    \<exists>req p. cc_requests run = cc_requests sample_channel_page @ [req, UpdateWorkflow ''w1'' p] \<and> \<not> is_read req"
proof -
  let ?d = "\<lparr>wd_trigger = None, wd_nodes = [sample_step], wd_edges = [], wd_payload = None\<rparr>"
  have d: "wfi_definition sample_workflow = Some ?d" by (simp add: sample_workflow_def)
  have n: "wn_type sample_step = Notification" "\<forall>m \<in> set (wd_nodes ?d). wn_id m = wn_id sample_step \<longrightarrow> m = sample_step"
    "wn_id sample_step \<noteq> ''trigger_1''" by (simp_all add: sample_step_def)
  have t: "is_uuid ''1b4e28ba-2fa1-11d2-883f-0016d3cca427''" by code_simp
  have id: "wfi_id sample_workflow = ''w1''" by (simp add: sample_workflow_def)
  show ?thesis
    using channel_save_reaches_builder [OF sample_channel_page d n t, of "\<lambda>_. None" "\<lambda>_. []" "''w1''" "''email_1''" "''<p>Hi</p>''" None]
    unfolding Let_def id by blast
qed

end
