(* ===== verification/Workflow_Setup.thy ===== *)
theory Workflow_Setup
  imports Draft Encode Api_Client
begin

text \<open>
  Creating a workflow: the setup form (\<open>schema/workflow-setup.ts\<close>), the key made from the name, the
  links between the pages (\<open>utils/urls.ts\<close>) and the readers of their query strings
  (\<open>utils/search-params.ts\<close>), and the hook behind the dialog (\<open>hooks/use-workflow-create.ts\<close>).

  The lemmas show that what a link carries is read back by the page it leads to, and which keys the
  form can produce.
\<close>

section \<open>The schema and the key (\<open>schema/workflow-setup.ts\<close>)\<close>

record setup_values =
  sv_name :: string
  sv_description :: string

text \<open>\<open>safeParse\<close>: the parsed values, or the message for the field \<open>name\<close>.\<close>

definition workflowSetupSchema :: "string \<Rightarrow> string option \<Rightarrow> string + setup_values" where
  "workflowSetupSchema name description =
     (if js_trim name = [] then Inl ''Workflow name is required''
      else Inr \<lparr>sv_name = js_trim name, sv_description = js_trim (str_or_empty description)\<rparr>)"

definition slug_char :: "char \<Rightarrow> bool" where
  "slug_char c \<longleftrightarrow> (let n = (of_char c :: nat) in 97 \<le> n \<and> n \<le> 122 \<or> 48 \<le> n \<and> n \<le> 57)"

text \<open>\<open>.replace(/^_+|_+$/g, '')\<close>: the underscores at both ends go.\<close>

definition strip_underscores :: "string \<Rightarrow> string" where
  "strip_underscores s =
     rev (dropWhile (\<lambda>c. c = CHR ''_'') (rev (dropWhile (\<lambda>c. c = CHR ''_'') s)))"

definition slugifyKey :: "string \<Rightarrow> string" where
  "slugifyKey name =
     strip_underscores (rx_replace (rx_plus (RCls (\<lambda>c. \<not> slug_char c))) (\<lambda>_ _. ''_'') (js_trim (js_lower name)))"

section \<open>Query strings\<close>

text \<open>
  \<open>URLSearchParams.toString\<close>: names and values in \<open>application/x-www-form-urlencoded\<close>, of which the
  unreserved characters are the ASCII letters and digits and \<open>* - . _\<close>, and a space is a plus sign.
\<close>

definition form_unreserved :: "char \<Rightarrow> bool" where
  "form_unreserved c \<longleftrightarrow>
     (let n = (of_char c :: nat)
      in 65 \<le> n \<and> n \<le> 90 \<or> 97 \<le> n \<and> n \<le> 122 \<or> 48 \<le> n \<and> n \<le> 57 \<or> n \<in> {42, 45, 46, 95})"

definition form_encode :: "string \<Rightarrow> string" where
  "form_encode s = concat (map (\<lambda>c. if form_unreserved c then [c] else if c = CHR '' '' then ''+'' else percent_encode c) s)"

definition params_toString :: "(string, string) js_map \<Rightarrow> string" where
  "params_toString ps = js_join ''&'' (map (\<lambda>(k, v). form_encode k @ ''='' @ form_encode v) ps)"

text \<open>\<open>if (v?.trim()) params.set(k, v.trim())\<close>\<close>

definition set_trimmed :: "string \<Rightarrow> string option \<Rightarrow> (string, string) js_map \<Rightarrow> (string, string) js_map" where
  "set_trimmed k v ps = (if js_trim (str_or_empty v) \<noteq> [] then map_set k (js_trim (str_or_empty v)) ps else ps)"

section \<open>Links (\<open>utils/urls.ts\<close>)\<close>

record link_values =
  lv_workflowId :: "string option"
  lv_name :: "string option"
  lv_description :: "string option"

definition buildWorkflowBuilderHref :: "link_values option \<Rightarrow> string" where
  "buildWorkflowBuilderHref values0 =
     (let v = (case values0 of None \<Rightarrow> \<lparr>lv_workflowId = None, lv_name = None, lv_description = None\<rparr> | Some x \<Rightarrow> x);
          params = set_trimmed ''description'' (lv_description v)
            (set_trimmed ''name'' (lv_name v) (set_trimmed ''workflowId'' (lv_workflowId v) []));
          query = params_toString params
      in if query \<noteq> [] then ''/dashboard/workflows/new/builder?'' @ params_toString params
         else ''/dashboard/workflows/new/builder'')"

definition buildWorkflowSetupHref :: "link_values \<Rightarrow> string" where
  "buildWorkflowSetupHref v =
     (let params = set_trimmed ''description'' (lv_description v) (set_trimmed ''name'' (lv_name v) []);
          query = params_toString params
      in if query \<noteq> [] then ''/dashboard/workflows/new?'' @ query else ''/dashboard/workflows/new'')"

definition buildWorkflowChannelConfigureHref :: "string \<Rightarrow> string \<Rightarrow> string option \<Rightarrow> string" where
  "buildWorkflowChannelConfigureHref workflowId nodeId channel =
     (let params = map_set ''nodeId'' nodeId (map_set ''workflowId'' workflowId []);
          params' = (if truthy channel then map_set ''channel'' (str_or_empty channel) params else params)
      in ''/dashboard/workflows/new/builder/channel?'' @ params_toString params')"

section \<open>Readers (\<open>utils/search-params.ts\<close>)\<close>

text \<open>A search parameter as the server passes it: missing, one value, or several.\<close>

datatype param_value = OneValue string | ManyValues "string list"

definition firstSearchParamValue :: "param_value option \<Rightarrow> string" where
  "firstSearchParamValue v =
     (case v of
        None \<Rightarrow> []
      | Some (OneValue s) \<Rightarrow> s
      | Some (ManyValues ss) \<Rightarrow> (case ss of [] \<Rightarrow> [] | s # _ \<Rightarrow> s))"

definition workflowSetupValuesFromSearchParams :: "(string \<Rightarrow> string option) \<Rightarrow> setup_values" where
  "workflowSetupValuesFromSearchParams get =
     \<lparr>sv_name = str_or_empty (get ''name''), sv_description = str_or_empty (get ''description'')\<rparr>"

definition workflowSetupValuesFromRecord :: "(string \<Rightarrow> param_value option) \<Rightarrow> setup_values" where
  "workflowSetupValuesFromRecord searchParams =
     \<lparr>sv_name = firstSearchParamValue (searchParams ''name''),
      sv_description = firstSearchParamValue (searchParams ''description'')\<rparr>"

definition workflowIdFromRecord :: "(string \<Rightarrow> param_value option) \<Rightarrow> string" where
  "workflowIdFromRecord searchParams = firstSearchParamValue (searchParams ''workflowId'')"

definition workflowIdFromSearchParams :: "(string \<Rightarrow> string option) \<Rightarrow> string" where
  "workflowIdFromSearchParams get = str_or_empty (get ''workflowId'')"

section \<open>The dialog (\<open>hooks/use-workflow-create.ts\<close>)\<close>

record create_state =
  ws_name :: string
  ws_description :: string
  ws_nameError :: "string option"
  ws_error :: "string option"
  ws_creating :: bool
  ws_sent :: "workflow_payload list"
  ws_pushed :: "string list"

definition initialCreate :: create_state where
  "initialCreate = \<lparr>ws_name = [], ws_description = [], ws_nameError = None, ws_error = None, ws_creating = False,
     ws_sent = [], ws_pushed = []\<rparr>"

definition create_reset :: "create_state \<Rightarrow> create_state" where
  "create_reset st = st\<lparr>ws_name := [], ws_description := [], ws_nameError := None, ws_error := None\<rparr>"

definition create_setName :: "string \<Rightarrow> create_state \<Rightarrow> create_state" where
  "create_setName v st = st\<lparr>ws_name := v, ws_nameError := None\<rparr>"

definition create_setDescription :: "string \<Rightarrow> create_state \<Rightarrow> create_state" where
  "create_setDescription v st = st\<lparr>ws_description := v\<rparr>"

text \<open>Up to the request, and after its answer or failure.\<close>

definition continueToBuilder :: "create_state \<Rightarrow> create_state" where
  "continueToBuilder st =
     (case workflowSetupSchema (ws_name st) (Some (ws_description st)) of
        Inl message \<Rightarrow> st\<lparr>ws_nameError := Some message\<rparr>
      | Inr parsed \<Rightarrow>
          st\<lparr>ws_error := None, ws_nameError := None, ws_creating := True,
             ws_sent := ws_sent st @
               [\<lparr>wp_key = slugifyKey (sv_name parsed), wp_name = sv_name parsed,
                 wp_description = (if sv_description parsed = [] then None else Some (sv_description parsed)),
                 wp_definition = workflowDefinitionFromBuilderDraft createDefaultWorkflowBuilderDraft\<rparr>]\<rparr>)"

definition create_answered :: "workflow_item \<Rightarrow> create_state \<Rightarrow> create_state" where
  "create_answered w st =
     st\<lparr>ws_pushed := ws_pushed st @ [buildWorkflowBuilderHref
           (Some \<lparr>lv_workflowId = Some (wfi_id w), lv_name = None, lv_description = None\<rparr>)],
        ws_creating := False\<rparr>"

definition create_failed :: "thrown \<Rightarrow> create_state \<Rightarrow> create_state" where
  "create_failed err st =
     st\<lparr>ws_error := Some (error_message err ''Failed to create workflow draft''), ws_creating := False\<rparr>"

section \<open>Reading a link back\<close>

text \<open>
  The platform's parser of a query string: the pairs between \<open>&\<close>, split at the first \<open>=\<close>, a plus sign
  read as a space before the percent escapes are decoded; \<open>get\<close> returns the first value of a name.
\<close>

definition form_decode :: "string \<Rightarrow> string" where
  "form_decode s = uri_decode (map (\<lambda>c. if c = CHR ''+'' then CHR '' '' else c) s)"

definition parse_pair :: "string \<Rightarrow> string \<times> string" where
  "parse_pair s = (form_decode (takeWhile (\<lambda>c. c \<noteq> CHR ''='') s), form_decode (drop 1 (dropWhile (\<lambda>c. c \<noteq> CHR ''='') s)))"

definition parse_query :: "string \<Rightarrow> (string \<times> string) list" where
  "parse_query q = map parse_pair (filter (\<lambda>p. p \<noteq> []) (js_split CHR ''&'' q))"

text \<open>The query string of a link: what follows the question mark.\<close>

definition query_of_href :: "string \<Rightarrow> string" where
  "query_of_href href = drop 1 (dropWhile (\<lambda>c. c \<noteq> CHR ''?'') href)"

definition link_params :: "string \<Rightarrow> string \<Rightarrow> string option" where
  "link_params href = map_of (parse_query (query_of_href href))"

text \<open>The search parameters the server passes to a page opened by a link, each given once.\<close>

definition record_of_link :: "string \<Rightarrow> string \<Rightarrow> param_value option" where
  "record_of_link href k = map_option OneValue (link_params href k)"

definition form_special :: "char \<Rightarrow> bool" where
  "form_special c \<longleftrightarrow> c \<in> {CHR ''&'', CHR ''='', CHR ''?'', CHR ''+''}"

lemma percent_byte_plain: "n < 256 \<Longrightarrow> x \<in> set (percent_byte n) \<Longrightarrow> \<not> form_special x"
proof -
  have "\<forall>d \<in> set [0..<16]. \<not> form_special (hex_digit d)" by code_simp
  then have "d < 16 \<Longrightarrow> \<not> form_special (hex_digit d)" for d by simp
  then show "n < 256 \<Longrightarrow> x \<in> set (percent_byte n) \<Longrightarrow> \<not> form_special x"
    using less_mult_imp_div_less [of n 16 16] by (auto simp: percent_byte_def form_special_def)
qed

lemma percent_encode_plain: "x \<in> set (percent_encode c) \<Longrightarrow> \<not> form_special x"
  using percent_byte_plain [of "of_char c" x] percent_byte_plain [of "192 + of_char c div 64" x]
    percent_byte_plain [of "128 + of_char c mod 64" x] utf8_bytes [of c]
  by (auto simp: percent_encode_def Let_def split: if_splits)

lemma form_unreserved_plain: "form_unreserved c \<Longrightarrow> \<not> form_special c \<and> c \<noteq> CHR ''%''"
  by (auto simp: form_unreserved_def form_special_def)

lemma form_encode_chars: "x \<in> set (form_encode s) \<Longrightarrow> \<not> form_special x \<or> x = CHR ''+''"
  using percent_encode_plain form_unreserved_plain by (fastforce simp: form_encode_def split: if_splits)

lemma form_encode_no_sep:
  "CHR ''&'' \<notin> set (form_encode s)" "CHR ''='' \<notin> set (form_encode s)" "CHR ''?'' \<notin> set (form_encode s)"
  using form_encode_chars by (fastforce simp: form_special_def)+

lemma map_plus_percent: "map (\<lambda>c. if c = CHR ''+'' then CHR '' '' else c) (percent_encode c) = percent_encode c"
  using percent_encode_plain by (intro map_idI) (auto simp: form_special_def)

lemma form_decode_encode: "form_decode (form_encode s) = s"
proof (induction s)
  case (Cons c s)
  consider "form_unreserved c" | "\<not> form_unreserved c" "c = CHR '' ''" | "\<not> form_unreserved c" "c \<noteq> CHR '' ''" by blast
  then show ?case
  proof cases
    case 1
    then have "c \<noteq> CHR ''%''" "c \<noteq> CHR ''+''" using form_unreserved_plain by (auto simp: form_special_def)
    with 1 Cons show ?thesis by (simp add: form_decode_def form_encode_def)
  next
    case 2
    with Cons show ?thesis by (simp add: form_decode_def form_encode_def)
  next
    case 3
    with Cons show ?thesis by (simp add: form_decode_def form_encode_def map_plus_percent uri_decode_percent)
  qed
qed (simp add: form_decode_def form_encode_def)

lemma parse_pair_encoded: "parse_pair (form_encode k @ ''='' @ form_encode v) = (k, v)"
proof -
  have ne: "\<forall>x \<in> set (form_encode k). x \<noteq> CHR ''=''" using form_encode_no_sep(2) by metis
  then have "takeWhile (\<lambda>c. c \<noteq> CHR ''='') (form_encode k @ ''='' @ form_encode v) = form_encode k"
    "dropWhile (\<lambda>c. c \<noteq> CHR ''='') (form_encode k @ ''='' @ form_encode v) = ''='' @ form_encode v"
    by (simp_all add: takeWhile_append dropWhile_append)
  then show ?thesis by (simp add: parse_pair_def form_decode_encode)
qed

lemma parse_params: "parse_query (params_toString ps) = ps"
proof (cases "ps = []")
  case True
  then show ?thesis by (simp add: parse_query_def params_toString_def)
next
  case False
  let ?e = "\<lambda>(k, v). form_encode k @ ''='' @ form_encode v"
  have "\<forall>x \<in> set (map ?e ps). CHR ''&'' \<notin> set x" using form_encode_no_sep(1) by auto
  then have "js_split CHR ''&'' (params_toString ps) = map ?e ps"
    using False by (simp add: params_toString_def js_split_join)
  moreover have "filter (\<lambda>p. p \<noteq> []) (map ?e ps) = map ?e ps" by (auto intro: filter_True)
  moreover have "parse_pair (?e kv) = kv" for kv using parse_pair_encoded by (cases kv) simp
  ultimately show ?thesis by (simp add: parse_query_def comp_def)
qed

lemma params_toString_Nil [simp]: "params_toString ps = [] \<longleftrightarrow> ps = []"
  by (cases ps) (auto simp: params_toString_def js_join_Cons)

lemma query_of_params: "CHR ''?'' \<notin> set p \<Longrightarrow> query_of_href (p @ ''?'' @ q) = q"
  by (simp add: query_of_href_def dropWhile_append3 [where P = "\<lambda>c. c \<noteq> CHR ''?''"] dropWhile_append)

lemma query_of_plain: "CHR ''?'' \<notin> set p \<Longrightarrow> query_of_href p = []"
proof -
  assume "CHR ''?'' \<notin> set p"
  then have "dropWhile (\<lambda>c. c \<noteq> CHR ''?'') p = []" by (induction p) auto
  then show ?thesis unfolding query_of_href_def by (metis drop_Nil)
qed

lemma set_trimmed_get:
  "map_get (set_trimmed k v ps) k' =
    (if k' = k \<and> js_trim (str_or_empty v) \<noteq> [] then Some (js_trim (str_or_empty v)) else map_get ps k')"
  by (simp add: set_trimmed_def map_get_set)

lemma link_params_of:
  assumes "CHR ''?'' \<notin> set path"
  shows "link_params (if params_toString ps \<noteq> [] then path @ ''?'' @ params_toString ps else path) = map_of ps"
proof (cases "ps = []")
  case True
  then show ?thesis using assms by (simp add: link_params_def query_of_plain parse_query_def)
next
  case False
  then show ?thesis using assms by (simp add: link_params_def query_of_params parse_params del: append_Cons)
qed

text \<open>What a link carries is what the page it leads to reads: the id, the name and the description come back trimmed
  and otherwise unchanged through the encoded query string, and missing or blank values as empty.\<close>

theorem link_roundtrip:
  "workflowIdFromSearchParams (link_params (buildWorkflowBuilderHref (Some v))) = js_trim (str_or_empty (lv_workflowId v)) \<and>
   workflowSetupValuesFromSearchParams (link_params (buildWorkflowBuilderHref (Some v))) =
     \<lparr>sv_name = js_trim (str_or_empty (lv_name v)), sv_description = js_trim (str_or_empty (lv_description v))\<rparr> \<and>
   workflowSetupValuesFromSearchParams (link_params (buildWorkflowSetupHref v)) =
     \<lparr>sv_name = js_trim (str_or_empty (lv_name v)), sv_description = js_trim (str_or_empty (lv_description v))\<rparr>"
proof -
  let ?b = "''/dashboard/workflows/new/builder''" and ?s = "''/dashboard/workflows/new''"
  let ?ps = "set_trimmed ''description'' (lv_description v) (set_trimmed ''name'' (lv_name v)
      (set_trimmed ''workflowId'' (lv_workflowId v) []))"
  let ?qs = "set_trimmed ''description'' (lv_description v) (set_trimmed ''name'' (lv_name v) [])"
  have b: "buildWorkflowBuilderHref (Some v) = (if params_toString ?ps \<noteq> [] then ?b @ ''?'' @ params_toString ?ps else ?b)"
    by (simp add: buildWorkflowBuilderHref_def Let_def)
  have s: "buildWorkflowSetupHref v = (if params_toString ?qs \<noteq> [] then ?s @ ''?'' @ params_toString ?qs else ?s)"
    by (simp add: buildWorkflowSetupHref_def Let_def)
  have "link_params (buildWorkflowBuilderHref (Some v)) = map_of ?ps"
    unfolding b by (rule link_params_of) simp
  moreover have "link_params (buildWorkflowSetupHref v) = map_of ?qs"
    unfolding s by (rule link_params_of) simp
  ultimately show ?thesis
    by (simp add: workflowIdFromSearchParams_def workflowSetupValuesFromSearchParams_def set_trimmed_get)
qed

section \<open>Keys\<close>

lemma slug_match:
  assumes "rx_ms (rx_plus (RCls P)) (b, s, []) = (b', s', cs) # ms"
  obtains c w where "s = c # w @ s'" "P c" "list_all P w"
proof -
  from assms have "(b', s', cs) \<in> set (rx_ms (rx_plus (RCls P)) (b, s, []))" by simp
  then show ?thesis using that unfolding rx_plus_cls_match by auto
qed

lemma slug_no_match: "rx_ms (rx_plus (RCls P)) (b, c # s, []) = [] \<Longrightarrow> \<not> P c"
proof
  assume e: "rx_ms (rx_plus (RCls P)) (b, c # s, []) = []" and "P c"
  then have "(rev [c] @ b, s, []) \<in> set (rx_ms (rx_plus (RCls P)) (b, c # s, []))"
    unfolding rx_plus_cls_match by (intro exI [of _ c] exI [of _ "[]"] exI [of _ s]) simp
  with e show False by simp
qed

lemma slug_replace:
  assumes "\<not> Q CHR ''_''"
  shows "filter Q (rx_replace_from (rx_plus (RCls (\<lambda>c. \<not> Q c))) (\<lambda>_ _. ''_'') b s) = filter Q s \<and>
    list_all (\<lambda>x. Q x \<or> x = CHR ''_'') (rx_replace_from (rx_plus (RCls (\<lambda>c. \<not> Q c))) (\<lambda>_ _. ''_'') b s)"
proof (induction s arbitrary: b rule: length_induct)
  case (1 s)
  show ?case
  proof (cases s)
    case Nil
    then show ?thesis by simp
  next
    case (Cons c s1)
    let ?ms = "rx_ms (rx_plus (RCls (\<lambda>c. \<not> Q c))) (b, c # s1, [])"
    show ?thesis
    proof (cases ?ms)
      case Nil
      then have "Q c" using slug_no_match by blast
      with Nil Cons 1 show ?thesis by (simp add: rx_replace_from.simps(2))
    next
      case ms: (Cons st ms)
      obtain b' s' cs where st: "st = (b', s', cs)" by (cases st)
      from slug_match [OF ms [unfolded st]] obtain d w
        where w: "c # s1 = d # w @ s'" "\<not> Q d" "list_all (\<lambda>c. \<not> Q c) w" by blast
      then have "length s' < length (c # s1)" "filter Q (c # s1) = filter Q s'"
        by (auto simp: list_all_iff filter_empty_conv)
      with 1 Cons ms st assms show ?thesis by (simp add: rx_replace_from.simps(2))
    qed
  qed
qed

lemma dropWhile_filter: "(\<And>c. P c \<Longrightarrow> \<not> Q c) \<Longrightarrow> filter Q (dropWhile P s) = filter Q s"
  by (induction s) auto

lemma filter_strip:
  assumes "\<not> Q CHR ''_''"
  shows "filter Q (strip_underscores s) = filter Q s"
proof -
  have drop: "filter Q (dropWhile (\<lambda>c. c = CHR ''_'') t) = filter Q t" for t
    using assms by (auto intro: dropWhile_filter)
  show ?thesis by (simp add: strip_underscores_def rev_filter [symmetric] drop)
qed

lemma js_ws_not_slug: "js_ws c \<Longrightarrow> \<not> slug_char c"
  by (auto simp: js_ws_def slug_char_def)

lemma filter_trim: "filter slug_char (js_trim s) = filter slug_char s"
  by (simp add: js_trim_def rev_filter [symmetric] dropWhile_filter js_ws_not_slug)

lemma strip_ends:
  "strip_underscores s = [] \<or> hd (strip_underscores s) \<noteq> CHR ''_'' \<and> last (strip_underscores s) \<noteq> CHR ''_''"
proof -
  let ?P = "\<lambda>c. c = CHR ''_''"
  let ?a = "dropWhile ?P s"
  have a: "?a = [] \<or> \<not> ?P (hd ?a)" using hd_dropWhile by blast
  have b: "dropWhile ?P (rev ?a) = [] \<or> \<not> ?P (hd (dropWhile ?P (rev ?a)))" using hd_dropWhile by blast
  from dropWhile_rev_hd [where xs = ?a and P = ?P, OF a] b show ?thesis
    by (auto simp: strip_underscores_def hd_rev last_rev)
qed

lemma set_strip: "set (strip_underscores s) \<subseteq> set s"
  unfolding strip_underscores_def by (metis set_dropWhileD set_rev subsetI)

lemma slug_not_underscore: "\<not> slug_char CHR ''_''"
  by code_simp

text \<open>A generated key holds only lower-case letters, digits and underscores, none of these at an end, and its
  letters and digits are those of the lower-cased name in order; it is empty exactly when the name has none,
  which the form accepts.\<close>

theorem slugifyKey_shape:
  "list_all (\<lambda>c. slug_char c \<or> c = CHR ''_'') (slugifyKey name) \<and>
   (slugifyKey name = [] \<or> hd (slugifyKey name) \<noteq> CHR ''_'' \<and> last (slugifyKey name) \<noteq> CHR ''_'') \<and>
   filter slug_char (slugifyKey name) = filter slug_char (js_lower name) \<and>
   (slugifyKey name = [] \<longleftrightarrow> list_all (\<lambda>c. \<not> slug_char c) (js_lower name))"
proof -
  let ?r = "rx_replace (rx_plus (RCls (\<lambda>c. \<not> slug_char c))) (\<lambda>_ _. ''_'') (js_trim (js_lower name))"
  note r = slug_replace [where Q = slug_char, OF slug_not_underscore, of "[]" "js_trim (js_lower name)", folded rx_replace_def]
  have chars: "list_all (\<lambda>c. slug_char c \<or> c = CHR ''_'') (slugifyKey name)"
    using r set_strip [of ?r] by (auto simp: slugifyKey_def list_all_iff)
  have filt: "filter slug_char (slugifyKey name) = filter slug_char (js_lower name)"
    using r by (simp add: slugifyKey_def filter_strip slug_not_underscore filter_trim)
  have ends: "slugifyKey name = [] \<or> hd (slugifyKey name) \<noteq> CHR ''_'' \<and> last (slugifyKey name) \<noteq> CHR ''_''"
    unfolding slugifyKey_def by (rule strip_ends)
  have "slugifyKey name = []" if "filter slug_char (slugifyKey name) = []"
  proof (rule ccontr)
    assume ne: "slugifyKey name \<noteq> []"
    with chars ends have "slug_char (hd (slugifyKey name))" by (auto simp: list_all_iff)
    with that ne show False by (metis filter_empty_conv hd_in_set)
  qed
  then have "slugifyKey name = [] \<longleftrightarrow> list_all (\<lambda>c. \<not> slug_char c) (js_lower name)"
    using filt by (metis (mono_tags, lifting) filter.simps(1) filter_empty_conv list_all_iff)
  with chars filt ends show ?thesis by blast
qed

end
