(* ===== verification/Trigger_Dialog.thy ===== *)
theory Trigger_Dialog
  imports Display Queries
begin

text \<open>
  Sending a test run from the builder's inspector
  (\<open>features/workflows/definition-builder/inspector/hooks\<close>) with the two small hooks of the data panel
  it uses (\<open>features/workflows/configure/hooks\<close>): the channels offered and selected, the dialog that
  sends the trigger and polls the notification, the debounced subscriber search and the payload editor.

  Each hook is a state with one function per handler, effect and asynchronous answer.  The effects run
  after every render in which their dependencies changed; the theorems about the channel selection
  describe one such run.
\<close>

section \<open>Channels (\<open>use-workflow-channel-toggles.ts\<close>)\<close>

record channel_toggle =
  ct_channel :: string
  ct_nodeName :: string
  ct_isValid :: bool
  ct_reason :: "string option"

definition is_digit :: "char \<Rightarrow> bool" where
  "is_digit c \<longleftrightarrow> (let n = (of_char c :: nat) in 48 \<le> n \<and> n \<le> 57)"

definition parse_digits :: "string \<Rightarrow> nat" where
  "parse_digits s = fold (\<lambda>c n. 10 * n + (of_char c - 48)) s 0"

text \<open>\<open>issue.path.match(/^nodes\.(\d+)/)\<close> and \<open>parseInt(match[1], 10)\<close>\<close>

definition issue_index :: "wf_issue \<Rightarrow> nat option" where
  "issue_index i =
     (if js_starts_with (wi_path i) ''nodes.'' then
        (let ds = takeWhile is_digit (drop (length ''nodes.'') (wi_path i))
         in if ds = [] then None else Some (parse_digits ds))
      else None)"

definition nodesWithIssues :: "wf_issue list option \<Rightarrow> nat list" where
  "nodesWithIssues issues =
     (case issues of None \<Rightarrow> [] | Some is \<Rightarrow> js_set_of (concat (map (\<lambda>i. case issue_index i of None \<Rightarrow> [] | Some n \<Rightarrow> [n]) is)))"

definition toggle_of :: "nat list \<Rightarrow> nat \<times> node_draft \<Rightarrow> channel_toggle list" where
  "toggle_of withIssues x =
     (case x of (index, node) \<Rightarrow>
       if bn_type node \<noteq> Notification \<or> bn_channel node = [] then []
       else
         (let hasTemplate = bn_templateId node \<noteq> []; hasIssues = index \<in> set withIssues
          in [\<lparr>ct_channel = bn_channel node,
               ct_nodeName = js_or (bn_name node) (bn_channel node @ '' notification''),
               ct_isValid = (hasTemplate \<and> \<not> hasIssues),
               ct_reason = (if \<not> hasTemplate then Some ''No template configured''
                            else if hasIssues then Some ''This node needs attention'' else None)\<rparr>]))"

definition extractChannelToggles :: "node_draft list option \<Rightarrow> wf_issue list option \<Rightarrow> channel_toggle list" where
  "extractChannelToggles builderNodes issues =
     (case builderNodes of None \<Rightarrow> []
      | Some nodes \<Rightarrow> concat (map (toggle_of (nodesWithIssues issues)) (indexed nodes)))"

record toggle_state =
  tg_selected :: "string list"
  tg_initialized :: bool

definition toggles_effect :: "channel_toggle list \<Rightarrow> toggle_state \<Rightarrow> toggle_state" where
  "toggles_effect toggles st =
     (let validChannels = map ct_channel (filter ct_isValid toggles)
      in if \<not> tg_initialized st then st\<lparr>tg_initialized := True, tg_selected := validChannels\<rparr>
         else
           (let toggleSet = js_set_of (map ct_channel toggles);
                merged = fold js_set_add validChannels (js_set_of (tg_selected st))
            in st\<lparr>tg_selected := filter (\<lambda>ch. ch \<in> set toggleSet) merged\<rparr>))"

definition toggleChannel :: "string \<Rightarrow> toggle_state \<Rightarrow> toggle_state" where
  "toggleChannel channel st = st\<lparr>tg_selected := js_toggle channel (tg_selected st)\<rparr>"

section \<open>Payload editor and subscriber search (\<open>configure/hooks\<close>)\<close>

record payload_editor =
  pe_local :: string
  pe_error :: "string option"

definition payload_sync :: "string \<Rightarrow> payload_editor \<Rightarrow> payload_editor" where
  "payload_sync payload st = st\<lparr>pe_local := payload\<rparr>"

text \<open>The new state and, when the text is JSON, the value passed to the parent.\<close>

definition handlePayloadChange :: "(string \<Rightarrow> json option) \<Rightarrow> string \<Rightarrow> payload_editor \<Rightarrow> payload_editor \<times> string option" where
  "handlePayloadChange parse value st =
     (case parse value of
        Some _ \<Rightarrow> (st\<lparr>pe_local := value, pe_error := None\<rparr>, Some value)
      | None \<Rightarrow> (st\<lparr>pe_local := value, pe_error := Some ''Invalid JSON''\<rparr>, None))"

record search_input =
  sr_query :: string
  sr_debounced :: string
  sr_timer :: bool

definition setSearchQuery :: "string \<Rightarrow> search_input \<Rightarrow> search_input" where
  "setSearchQuery q st = (if q = sr_query st then st else st\<lparr>sr_query := q, sr_timer := True\<rparr>)"

definition search_timer :: "search_input \<Rightarrow> search_input" where
  "search_timer st = (if sr_timer st then st\<lparr>sr_debounced := sr_query st, sr_timer := False\<rparr> else st)"

definition clearSearch :: "search_input \<Rightarrow> search_input" where
  "clearSearch st = (setSearchQuery [] st)\<lparr>sr_debounced := []\<rparr>"

section \<open>The dialog (\<open>use-trigger-workflow-dialog.ts\<close>)\<close>

record user_profile =
  up_id :: string
  up_first_name :: "string option"
  up_last_name :: "string option"
  up_email :: "string option"

datatype mutation_state = M_idle | M_pending | M_success | M_error string

record trigger_request =
  tr_workflow_id :: string
  tr_to :: preview_subscriber
  tr_channels :: "string list"
  tr_metadata :: "(string \<times> string) list"
  tr_is_system :: bool

record poll_data =
  pd_status :: "string option"
  pd_attempts :: "json list"

record trigger_dialog =
  td_open :: bool
  td_subscriber :: "preview_subscriber option"
  td_payload :: "(string \<times> json) list"
  td_notificationId :: "string option"
  td_resetTimer :: bool
  td_profile :: "user_profile option"
  td_mutation :: mutation_state
  td_poll :: "poll_data option"
  td_search :: search_input
  td_requests :: "trigger_request list"

text \<open>The effect that selects the signed-in user when nobody is selected.\<close>

definition default_subscriber :: "trigger_dialog \<Rightarrow> trigger_dialog" where
  "default_subscriber st =
     (case (td_profile st, td_subscriber st) of
        (Some p, None) \<Rightarrow> st\<lparr>td_subscriber := Some
            \<lparr>ps_id = up_id p, ps_firstName = up_first_name p, ps_lastName = up_last_name p,
             ps_email = (if truthy (up_email p) then up_email p else None), ps_phone = None, ps_metadata = None\<rparr>\<rparr>
      | _ \<Rightarrow> st)"

definition text_values :: "(rat \<Rightarrow> string) \<Rightarrow> (string \<times> json) list \<Rightarrow> (string \<times> string) list" where
  "text_values num_text kvs =
     concat (map (\<lambda>(k, v). case v of
        JStr s \<Rightarrow> [(k, s)] | JNum x \<Rightarrow> [(k, num_text x)] | JBool b \<Rightarrow> [(k, if b then ''true'' else ''false'')]
      | _ \<Rightarrow> []) kvs)"

definition handleTrigger :: "(rat \<Rightarrow> string) \<Rightarrow> string \<Rightarrow> string list \<Rightarrow> trigger_dialog \<Rightarrow> trigger_dialog" where
  "handleTrigger num_text workflowId selectedChannels st =
     (case td_subscriber st of
        None \<Rightarrow> st
      | Some s \<Rightarrow>
          st\<lparr>td_mutation := M_pending,
             td_requests := td_requests st @
               [\<lparr>tr_workflow_id = workflowId, tr_to = s\<lparr>ps_metadata := None\<rparr>, tr_channels = selectedChannels,
                 tr_metadata = text_values num_text (td_payload st),
                 tr_is_system = (Some (ps_id s) = map_option up_id (td_profile st))\<rparr>]\<rparr>)"

definition trigger_answered :: "string \<Rightarrow> trigger_dialog \<Rightarrow> trigger_dialog" where
  "trigger_answered notificationId st = st\<lparr>td_mutation := M_success, td_notificationId := Some notificationId\<rparr>"

definition trigger_failed :: "string \<Rightarrow> trigger_dialog \<Rightarrow> trigger_dialog" where
  "trigger_failed message st = st\<lparr>td_mutation := M_error message\<rparr>"

definition handleSelectSubscriber :: "preview_subscriber \<Rightarrow> trigger_dialog \<Rightarrow> trigger_dialog" where
  "handleSelectSubscriber s st =
     st\<lparr>td_subscriber := Some s, td_search := clearSearch (td_search st), td_notificationId := None, td_mutation := M_idle\<rparr>"

definition handleClearSubscriber :: "trigger_dialog \<Rightarrow> trigger_dialog" where
  "handleClearSubscriber st =
     st\<lparr>td_search := clearSearch (td_search st), td_mutation := M_idle, td_subscriber := None, td_notificationId := None\<rparr>"

definition handleOpenChange :: "bool \<Rightarrow> trigger_dialog \<Rightarrow> trigger_dialog" where
  "handleOpenChange newOpen st = st\<lparr>td_open := newOpen, td_resetTimer := (\<not> newOpen)\<rparr>"

definition reset_timer :: "trigger_dialog \<Rightarrow> trigger_dialog" where
  "reset_timer st =
     (if td_resetTimer st
      then st\<lparr>td_resetTimer := False, td_subscriber := None, td_payload := [], td_notificationId := None,
              td_mutation := M_idle, td_search := clearSearch (td_search st)\<rparr>
      else st)"

definition dialog_isDone :: "trigger_dialog \<Rightarrow> bool" where
  "dialog_isDone st =
     (case td_poll st of None \<Rightarrow> False
      | Some d \<Rightarrow> truthy (pd_status d) \<and>
          str_or_empty (pd_status d) \<in> set [''sent'', ''failed'', ''partial_failed'', ''partial_skipped'', ''skipped''])"

definition dialog_isPolling :: "trigger_dialog \<Rightarrow> bool" where
  "dialog_isPolling st \<longleftrightarrow> truthy (td_notificationId st) \<and> \<not> dialog_isDone st"

definition dialog_events :: "trigger_dialog \<Rightarrow> json list" where
  "dialog_events st = (case td_poll st of None \<Rightarrow> [] | Some d \<Rightarrow> pd_attempts d)"

definition dialog_isValid :: "string list \<Rightarrow> trigger_dialog \<Rightarrow> bool" where
  "dialog_isValid selectedChannels st \<longleftrightarrow>
     td_subscriber st \<noteq> None \<and>
     \<not> (td_mutation st = M_pending \<or> truthy (td_notificationId st) \<and> \<not> dialog_isDone st) \<and>
     0 < length selectedChannels"

section \<open>The selection\<close>

text \<open>The index read from a path the validation writes is the node's index.\<close>

lemma show_nat_is_digit: "list_all is_digit (show_nat n)"
  using show_nat_digits by (auto simp: list_all_iff is_digit_def)

lemma parse_digits_show: "parse_digits (show_nat n) = n"
  by (simp add: parse_digits_def fold_show_nat)

lemma issue_index_path:
  assumes "s = [] \<or> \<not> is_digit (hd s)"
  shows "issue_index \<lparr>wi_path = ''nodes.'' @ show_nat n @ s, wi_message = msg\<rparr> = Some n"
proof -
  have "takeWhile is_digit (show_nat n @ s) = show_nat n"
    using assms show_nat_is_digit [of n] by (cases s) (auto simp: takeWhile_append list_all_iff)
  then show ?thesis by (simp add: issue_index_def Let_def parse_digits_show)
qed

lemma toggles_effect_set:
  assumes "tg_initialized st"
  shows "set (tg_selected (toggles_effect toggles st)) =
    (set (tg_selected st) \<union> ct_channel ` {t \<in> set toggles. ct_isValid t}) \<inter> ct_channel ` set toggles"
  using assms by (auto simp: toggles_effect_def Let_def)

text \<open>Whenever the builder's nodes or issues change, every channel with a valid step is selected again, without
  duplicates and whatever was selected before: a channel the user has switched off comes back.\<close>

theorem deselected_channel_returns:
  assumes "tg_initialized st" and "t \<in> set toggles" and "ct_isValid t"
  shows "ct_channel t \<in> set (tg_selected (toggles_effect toggles (toggleChannel (ct_channel t) st))) \<and>
    distinct (tg_selected (toggles_effect toggles (toggleChannel (ct_channel t) st)))"
proof -
  have "tg_initialized (toggleChannel (ct_channel t) st)" using assms(1) by (simp add: toggleChannel_def)
  from toggles_effect_set [OF this, of toggles] this assms(2,3) show ?thesis
    by (auto simp: toggles_effect_def Let_def distinct_fold_js_set_add)
qed

theorem deselected_channel_returns_witness:
  "let toggles = extractChannelToggles
       (Some [\<lparr>bn_id = ''email_1'', bn_name = ''Mail'', bn_type = Notification, bn_duration = ''5m'', bn_templateId = ''t'',
          bn_channel = ''email'', bn_field = [], bn_operator = [], bn_value = []\<rparr>]) None;
     st = toggles_effect toggles \<lparr>tg_selected = [], tg_initialized = False\<rparr>
   in tg_selected (toggleChannel ''email'' st) = [] \<and>
     ''email'' \<in> set (tg_selected (toggles_effect toggles (toggleChannel ''email'' st)))"
proof -
  let ?n = "\<lparr>bn_id = ''email_1'', bn_name = ''Mail'', bn_type = Notification, bn_duration = ''5m'', bn_templateId = ''t'',
          bn_channel = ''email'', bn_field = [], bn_operator = [], bn_value = []\<rparr>"
  let ?t = "\<lparr>ct_channel = ''email'', ct_nodeName = ''Mail'', ct_isValid = True, ct_reason = None\<rparr>"
  have t: "extractChannelToggles (Some [?n]) None = [?t]"
    by (simp add: extractChannelToggles_def toggle_of_def nodesWithIssues_def js_set_of_def)
  let ?st = "toggles_effect [?t] \<lparr>tg_selected = [], tg_initialized = False\<rparr>"
  have st: "?st = \<lparr>tg_selected = [''email''], tg_initialized = True\<rparr>" by (simp add: toggles_effect_def)
  have "tg_selected (toggleChannel ''email'' ?st) = []" by (simp add: st toggleChannel_def js_toggle_def)
  moreover have "''email'' \<in> set (tg_selected (toggles_effect [?t] (toggleChannel ''email'' ?st)))"
    using deselected_channel_returns [of ?st ?t "[?t]"] st by simp
  ultimately show ?thesis unfolding t Let_def by blast
qed

end
