(* ===== verification/Builder_Hook.thy ===== *)
theory Builder_Hook
  imports Builder_Store Selectors Builder_Draft
begin

text \<open>
  The hook that joins the builder's store to its page
  (\<open>features/workflows/hooks/use-workflow-builder.ts\<close>): what the canvas and the inspector show, and the
  two effects that keep the store and the parent's draft in step.  Both effects compare signatures
  before they act, so running them after every render is running them when their dependencies change.
  They run in the order of the source on the rendered values; \<open>hook_commit\<close> is one such run.
\<close>

section \<open>State\<close>

record builder_hook =
  bh_store :: builder_state
  bh_value :: wf_draft
  bh_lastDraftSignature :: string
  bh_lastExternalValue :: string
  bh_changes :: "wf_draft list"

definition signature :: "wf_draft \<Rightarrow> string" where
  "signature d = stringify (draft_json d)"

definition useWorkflowBuilder :: "dagre \<Rightarrow> wf_draft \<Rightarrow> rng \<Rightarrow> builder_hook \<times> rng" where
  "useWorkflowBuilder dagre value r =
     (let (store, r') = createWorkflowBuilderStore dagre value r
      in (\<lparr>bh_store = store, bh_value = value, bh_lastDraftSignature = signature value,
           bh_lastExternalValue = signature value, bh_changes = []\<rparr>, r'))"

section \<open>Derived values\<close>

definition currentDraft :: "builder_hook \<Rightarrow> wf_draft" where
  "currentDraft st = buildDraftFromCanvas (bs_triggerEvent (bh_store st)) (bs_nodes (bh_store st)) (bs_edges (bh_store st))"

definition canvasHorizontalOffset :: rat where
  "canvasHorizontalOffset = 220"

definition canvasVerticalOffset :: rat where
  "canvasVerticalOffset = 120"

definition nodeIssuesById :: "builder_hook \<Rightarrow> wf_issue list \<Rightarrow> (string, wf_issue list) js_map" where
  "nodeIssuesById st issues = fold (\<lambda>(index, draftNode) m.
     (let nodeIssues = filter (issue_of index) issues
      in if length nodeIssues > 0 then map_set (bn_id draftNode) nodeIssues m else m))
     (indexed (wb_nodes (currentDraft st))) []"

definition editNode :: "(string \<Rightarrow> string \<Rightarrow> 'a) \<Rightarrow> (string \<Rightarrow> 'a) \<Rightarrow> canvas_node \<Rightarrow> string \<Rightarrow> 'a" where
  "editNode configure select node nodeId =
     (if bn_type (cn_draft node) = Notification then configure (bn_id (cn_draft node)) (bn_channel (cn_draft node))
      else select nodeId)"

definition canvasNodes ::
  "(string \<Rightarrow> string \<Rightarrow> 'a) \<Rightarrow> (string \<Rightarrow> 'a) \<Rightarrow> (string \<Rightarrow> 'a) \<Rightarrow> (string \<Rightarrow> 'a) \<Rightarrow> wf_issue list \<Rightarrow> builder_hook
     \<Rightarrow> 'a enriched_node list" where
  "canvasNodes configure select remove duplicate issues st =
     map (\<lambda>node. \<lparr>cn_id = cn_id node, cn_type = cn_type node,
            cn_position = Position (pos_x (cn_position node) + canvasHorizontalOffset)
              (pos_y (cn_position node) + canvasVerticalOffset),
            cn_draft = cn_draft node,
            en_triggerEvent = bs_triggerEvent (bh_store st),
            en_onEditNode = editNode configure select node,
            en_onRemoveNode = remove, en_onDuplicateNode = duplicate,
            en_canDelete = (bn_type (cn_draft node) \<noteq> Trigger),
            en_canDuplicate = (bn_type (cn_draft node) \<noteq> Trigger),
            en_nodeIssues = (case map_get (nodeIssuesById st issues) (bn_id (cn_draft node)) of None \<Rightarrow> [] | Some is \<Rightarrow> is)\<rparr>)
       (bs_nodes (bh_store st))"

definition canvasEdges :: "(string \<Rightarrow> wf_node_type \<Rightarrow> string option \<Rightarrow> 'a) \<Rightarrow> builder_hook \<Rightarrow> 'a enriched_edge list" where
  "canvasEdges onInsert st =
     (let edges = bs_edges (bh_store st);
          mappedEdges = map (\<lambda>edge. \<lparr>ce_id = ce_id edge, ce_source = ce_source edge, ce_target = ce_target edge,
            ce_sourceHandle = ce_sourceHandle edge, ce_type = ce_type edge, ce_label = ce_label edge,
            ce_branch = Some (str_or_empty (ce_branch edge)), ee_onInsertNode = onInsert, ee_isTerminal = False\<rparr>) edges
      in case List.find (\<lambda>node. \<not> (\<exists>edge \<in> set edges. ce_source edge = cn_id node)) (bs_nodes (bh_store st)) of
           None \<Rightarrow> mappedEdges
         | Some lastNode \<Rightarrow> mappedEdges @
             [\<lparr>ce_id = terminal_prefix @ cn_id lastNode, ce_source = cn_id lastNode, ce_target = cn_id lastNode,
               ce_sourceHandle = Some ''default'', ce_type = ''workflow-edge'', ce_label = None, ce_branch = Some [],
               ee_onInsertNode = onInsert, ee_isTerminal = True\<rparr>])"

definition hook_selectedNode :: "builder_hook \<Rightarrow> canvas_node option" where
  "hook_selectedNode st = List.find (\<lambda>n. Some (cn_id n) = bs_selectedNodeId (bh_store st)) (bs_nodes (bh_store st))"

definition hook_selectedEdge :: "builder_hook \<Rightarrow> canvas_edge option" where
  "hook_selectedEdge st = List.find (\<lambda>e. Some (ce_id e) = bs_selectedEdgeId (bh_store st)) (bs_edges (bh_store st))"

definition hook_selectedNodeIndex :: "builder_hook \<Rightarrow> int" where
  "hook_selectedNodeIndex st =
     (case hook_selectedNode st of None \<Rightarrow> -1
      | Some n \<Rightarrow> find_index (\<lambda>d. bn_id d = bn_id (cn_draft n)) (wb_nodes (currentDraft st)))"

definition hook_selectedNodeIssues :: "wf_issue list \<Rightarrow> builder_hook \<Rightarrow> wf_issue list" where
  "hook_selectedNodeIssues issues st =
     (if hook_selectedNodeIndex st < 0 then [] else filter (issue_of (nat (hook_selectedNodeIndex st))) issues)"

definition hook_selectedNodeIncoming :: "builder_hook \<Rightarrow> nat" where
  "hook_selectedNodeIncoming st =
     (case hook_selectedNode st of None \<Rightarrow> 0
      | Some n \<Rightarrow> length (filter (\<lambda>e. ce_target e = cn_id n) (bs_edges (bh_store st))))"

definition hook_selectedNodeOutgoing :: "builder_hook \<Rightarrow> nat" where
  "hook_selectedNodeOutgoing st =
     (case hook_selectedNode st of None \<Rightarrow> 0
      | Some n \<Rightarrow> length (filter (\<lambda>e. ce_source e = cn_id n) (bs_edges (bh_store st))))"

definition emptyDraft :: node_draft where
  "emptyDraft = \<lparr>bn_id = [], bn_name = [], bn_type = Delay, bn_duration = [], bn_templateId = [],
     bn_channel = [], bn_field = [], bn_operator = [], bn_value = []\<rparr>"

definition edge_end_label :: "(canvas_edge \<Rightarrow> string) \<Rightarrow> builder_hook \<Rightarrow> string" where
  "edge_end_label end st =
     (case hook_selectedEdge st of None \<Rightarrow> []
      | Some e \<Rightarrow> getNodeDisplayName
          (case List.find (\<lambda>n. cn_id n = end e) (bs_nodes (bh_store st)) of None \<Rightarrow> emptyDraft | Some n \<Rightarrow> cn_draft n))"

definition hook_selectedEdgeSourceLabel :: "builder_hook \<Rightarrow> string" where
  "hook_selectedEdgeSourceLabel = edge_end_label ce_source"

definition hook_selectedEdgeTargetLabel :: "builder_hook \<Rightarrow> string" where
  "hook_selectedEdgeTargetLabel = edge_end_label ce_target"

section \<open>Effects\<close>

definition externalEffect :: "dagre \<Rightarrow> builder_hook \<Rightarrow> builder_hook \<Rightarrow> rng \<Rightarrow> builder_hook \<times> rng" where
  "externalEffect dagre v st r =
     (let externalSignature = signature (bh_value v)
      in if externalSignature = bh_lastExternalValue st then (st, r)
         else (let (store, r') = setCanvasFromDraft dagre (bh_value v) (bh_store st) r
               in (st\<lparr>bh_store := store, bh_lastExternalValue := externalSignature\<rparr>, r')))"

definition changeEffect :: "builder_hook \<Rightarrow> builder_hook \<Rightarrow> builder_hook" where
  "changeEffect v st =
     (let nextSignature = signature (currentDraft v)
      in if nextSignature = bh_lastDraftSignature st then st
         else st\<lparr>bh_lastDraftSignature := nextSignature, bh_changes := bh_changes st @ [currentDraft v]\<rparr>)"

definition hook_commit :: "dagre \<Rightarrow> builder_hook \<Rightarrow> rng \<Rightarrow> builder_hook \<times> rng" where
  "hook_commit dagre v r = (let (st1, r') = externalEffect dagre v v r in (changeEffect v st1, r'))"

text \<open>A store operation of the user, and a new \<open>value\<close> from the parent, each with the commit it causes.\<close>

definition hook_edit :: "dagre \<Rightarrow> (builder_state \<Rightarrow> rng \<Rightarrow> builder_state \<times> rng) \<Rightarrow> builder_hook \<Rightarrow> rng \<Rightarrow> builder_hook \<times> rng" where
  "hook_edit dagre operation st r =
     (let (store, r1) = operation (bh_store st) r in hook_commit dagre (st\<lparr>bh_store := store\<rparr>) r1)"

definition hook_receive :: "dagre \<Rightarrow> wf_draft \<Rightarrow> builder_hook \<Rightarrow> rng \<Rightarrow> builder_hook \<times> rng" where
  "hook_receive dagre value st r = hook_commit dagre (st\<lparr>bh_value := value\<rparr>) r"

section \<open>The edit and its echo\<close>

text \<open>
  The parent keeps every draft it is handed and passes it back as \<open>value\<close>.  In step: both signatures
  are those of the present drafts.
\<close>

definition in_step :: "builder_hook \<Rightarrow> bool" where
  "in_step st \<longleftrightarrow> bh_lastExternalValue st = signature (bh_value st) \<and> bh_lastDraftSignature st = signature (currentDraft st)"

lemma currentDraft_upd [simp]:
  "currentDraft (st\<lparr>bh_value := x\<rparr>) = currentDraft st" "currentDraft (st\<lparr>bh_lastDraftSignature := s\<rparr>) = currentDraft st"
  "currentDraft (st\<lparr>bh_changes := c\<rparr>) = currentDraft st" "currentDraft (st\<lparr>bh_lastExternalValue := s\<rparr>) = currentDraft st"
  by (simp_all add: currentDraft_def)

lemma hook_edit_changes:
  assumes st: "in_step st" and op: "operation (bh_store st) r = (store, r1)"
    and new: "signature (currentDraft (st\<lparr>bh_store := store\<rparr>)) \<noteq> signature (currentDraft st)"
  defines "d \<equiv> currentDraft (st\<lparr>bh_store := store\<rparr>)"
  shows "hook_edit dagre operation st r =
    (st\<lparr>bh_store := store, bh_lastDraftSignature := signature d, bh_changes := bh_changes st @ [d]\<rparr>, r1)"
proof -
  let ?v = "st\<lparr>bh_store := store\<rparr>"
  have "externalEffect dagre ?v ?v r1 = (?v, r1)"
    using st by (simp add: externalEffect_def in_step_def)
  moreover have "changeEffect ?v ?v = ?v\<lparr>bh_lastDraftSignature := signature d, bh_changes := bh_changes st @ [d]\<rparr>"
    using st new by (simp add: changeEffect_def in_step_def d_def)
  ultimately show ?thesis using op by (simp add: hook_edit_def hook_commit_def)
qed

text \<open>Every edit that reaches the parent comes back and rebuilds the canvas: for an operation of the user that
  changes the draft away from the parent's present value, exactly that draft is handed to the parent, and when it returns as the new value, the
  canvas is the one built afresh from it, every node with a new id and nothing selected.\<close>

theorem echo_rebuilds_canvas:
  assumes "in_step st" and "operation (bh_store st) r = (store, r1)"
    and "signature (currentDraft (st\<lparr>bh_store := store\<rparr>)) \<noteq> signature (currentDraft st)"
    and "signature (currentDraft (st\<lparr>bh_store := store\<rparr>)) \<noteq> signature (bh_value st)"
  shows "let d = currentDraft (st\<lparr>bh_store := store\<rparr>); (st1, r2) = hook_edit dagre operation st r;
      (st2, r3) = hook_receive dagre d st1 r2 in
    bh_changes st1 = bh_changes st @ [d] \<and> bh_changes st2 = bh_changes st1 \<and>
    (bs_nodes (bh_store st2), bs_edges (bh_store st2)) = fst (buildCanvasGraphFromDraft dagre d r1) \<and>
    hook_selectedNode st2 = None \<and> hook_selectedEdge st2 = None"
proof -
  let ?d = "currentDraft (st\<lparr>bh_store := store\<rparr>)"
  note e = hook_edit_changes [where operation = operation, OF assms(1-3), of dagre]
  let ?st1 = "st\<lparr>bh_store := store, bh_lastDraftSignature := signature ?d, bh_changes := bh_changes st @ [?d]\<rparr>"
  let ?v = "?st1\<lparr>bh_value := ?d\<rparr>"
  obtain ns es r3 where g: "buildCanvasGraphFromDraft dagre ?d r1 = ((ns, es), r3)" by (metis prod.collapse)
  have "bh_lastExternalValue ?v \<noteq> signature ?d" using assms(1,4) by (simp add: in_step_def)
  then have "externalEffect dagre ?v ?v r1 =
      (?v\<lparr>bh_store := store\<lparr>bs_triggerEvent := wb_triggerEvent ?d, bs_nodes := ns, bs_edges := es,
            bs_selectedNodeId := None, bs_selectedEdgeId := None\<rparr>, bh_lastExternalValue := signature ?d\<rparr>, r3)"
    by (simp add: externalEffect_def setCanvasFromDraft_def g Let_def)
  moreover have "currentDraft ?v = ?d" by (simp add: currentDraft_def)
  ultimately show ?thesis
    unfolding Let_def e
    by (simp add: hook_receive_def hook_commit_def changeEffect_def Let_def g hook_selectedNode_def
        hook_selectedEdge_def find_None_iff)
qed

lemma signature_iff: "signature d = signature d' \<longleftrightarrow> draft_json d = draft_json d'"
  by (simp add: signature_def stringify_def json_text_inject number_free_draft)

definition sample_hook :: builder_hook where
  "sample_hook = fst (useWorkflowBuilder (\<lambda>_ _ _ _. None) createDefaultWorkflowBuilderDraft (\<lambda>_. ''0.abcdefgh''))"

lemma sample_hook:
  "bh_value sample_hook = createDefaultWorkflowBuilderDraft"
  "currentDraft sample_hook = createDefaultWorkflowBuilderDraft"
  "currentDraft (sample_hook\<lparr>bh_store := setTriggerEvent v (bh_store sample_hook)\<rparr>) =
     createDefaultWorkflowBuilderDraft\<lparr>wb_triggerEvent := v\<rparr>"
  "in_step sample_hook"
  by (simp_all add: sample_hook_def useWorkflowBuilder_def createWorkflowBuilderStore_def buildCanvasGraphFromDraft_def
      createDefaultWorkflowBuilderDraft_def buildCanvasNode_def createCanvasNodeId_def layoutCanvasGraph_def Let_def
      currentDraft_def buildDraftFromCanvas_def setTriggerEvent_def in_step_def split: prod.splits)

theorem echo_rebuilds_canvas_witness:
  "let st = sample_hook\<lparr>bh_store := setSelection (Some (cn_id (hd (bs_nodes (bh_store sample_hook))))) None (bh_store sample_hook)\<rparr>;
     (st1, r2) = hook_edit (\<lambda>_ _ _ _. None) (\<lambda>s r. (setTriggerEvent ''order.paid'' s, r)) st (\<lambda>_. ''0.ijklmnop'');
     (st2, r3) = hook_receive (\<lambda>_ _ _ _. None) (createDefaultWorkflowBuilderDraft\<lparr>wb_triggerEvent := ''order.paid''\<rparr>) st1 r2
   in hook_selectedNode st \<noteq> None \<and> hook_selectedNode st2 = None"
proof -
  let ?st = "sample_hook\<lparr>bh_store := setSelection (Some (cn_id (hd (bs_nodes (bh_store sample_hook))))) None (bh_store sample_hook)\<rparr>"
  let ?op = "\<lambda>s (r :: rng). (setTriggerEvent ''order.paid'' s, r)"
  let ?d = "createDefaultWorkflowBuilderDraft\<lparr>wb_triggerEvent := ''order.paid''\<rparr>"
  have cur: "currentDraft ?st = createDefaultWorkflowBuilderDraft"
    "currentDraft (?st\<lparr>bh_store := setTriggerEvent ''order.paid'' (bh_store ?st)\<rparr>) = ?d"
    using sample_hook(2) sample_hook(3) [of "''order.paid''"] by (simp_all add: currentDraft_def setSelection_def setTriggerEvent_def)
  have step: "in_step ?st" using sample_hook(2,4) cur(1) by (simp add: in_step_def)
  have op: "?op (bh_store ?st) (\<lambda>_. ''0.ijklmnop'') = (setTriggerEvent ''order.paid'' (bh_store ?st), \<lambda>_. ''0.ijklmnop'')" by simp
  have new: "signature ?d \<noteq> signature createDefaultWorkflowBuilderDraft"
    by (simp add: signature_iff draft_json_def createDefaultWorkflowBuilderDraft_def)
  have val: "bh_value ?st = createDefaultWorkflowBuilderDraft" by (simp add: sample_hook)
  have "bs_nodes (bh_store sample_hook) \<noteq> []"
    by (simp add: sample_hook_def useWorkflowBuilder_def createWorkflowBuilderStore_def buildCanvasGraphFromDraft_def
        createDefaultWorkflowBuilderDraft_def layoutCanvasGraph_def Let_def split: prod.splits)
  then have "hd (bs_nodes (bh_store sample_hook)) \<in> set (bs_nodes (bh_store sample_hook))" by (rule hd_in_set)
  then have "hook_selectedNode ?st \<noteq> None"
    by (auto simp: hook_selectedNode_def setSelection_def find_None_iff)
  with echo_rebuilds_canvas [where operation = ?op and dagre = "\<lambda>_ _ _ _. None", OF step op] cur new val show ?thesis
    by (simp add: Let_def split: prod.splits)
qed

end
