(* ===== verification/Subscriber_List.thy ===== *)
theory Subscriber_List
  imports Workflow_Types
begin

text \<open>
  The list of subscribers (\<open>features/subscribers\<close>): the data (\<open>app/types/subscriber.ts\<close>), the constants,
  the filter and search (\<open>utils/filter-subscribers.ts\<close>), the counts (\<open>utils/count-subscribers.ts\<close>) and
  the cards that show them (\<open>list/SubscriberFilter.tsx\<close>).
  The lemmas relate the two ways the page reads a subscriber's status: a card that filters shows the
  number of subscribers its filter leaves.
\<close>

section \<open>Data\<close>

record channel_status =
  cs_email :: "string option"
  cs_sms :: "string option"
  cs_push :: "string option"

record subscriber =
  su_id :: string
  su_name :: string
  su_email :: "string option"
  su_phone :: "string option"
  su_pushToken :: "string option"
  su_channels :: "string list"
  su_status :: channel_status
  su_tags :: "string list"
  su_metadata :: "json option"
  su_preferences :: "json option"
  su_subscriptionDate :: string
  su_lastNotificationDate :: "string option"
  su_deleted :: bool
  su_createdAt :: string
  su_updatedAt :: string

text \<open>\<open>Object.entries(subscriber.status)\<close>: the fields that are present.\<close>

definition status_entries :: "channel_status \<Rightarrow> (string \<times> string) list" where
  "status_entries s = concat (map (\<lambda>(k, v). case v of None \<Rightarrow> [] | Some x \<Rightarrow> [(k, x)])
     [(''email'', cs_email s), (''sms'', cs_sms s), (''push'', cs_push s)])"

record filter_card =
  fc_label :: string
  fc_key :: string
  fc_variant :: string
  fc_ringColor :: string

definition filterCards :: "filter_card list" where
  "filterCards =
     [\<lparr>fc_label = ''Total Subscribers'', fc_key = ''total_subscribers'', fc_variant = ''lightprimary'', fc_ringColor = ''ring-primary''\<rparr>,
      \<lparr>fc_label = ''Subscribed'', fc_key = ''subscribed'', fc_variant = ''lightsuccess'', fc_ringColor = ''ring-success''\<rparr>,
      \<lparr>fc_label = ''Unsubscribed'', fc_key = ''unsubscribed'', fc_variant = ''lightwarning'', fc_ringColor = ''ring-warning''\<rparr>,
      \<lparr>fc_label = ''Bounced'', fc_key = ''bounced'', fc_variant = ''lighterror'', fc_ringColor = ''ring-error''\<rparr>]"

section \<open>Filter (\<open>filter-subscribers.ts\<close>)\<close>

definition channel_value :: "channel_status \<Rightarrow> string \<Rightarrow> string option" where
  "channel_value s ch = map_of (status_entries s) ch"

text \<open>\<open>value?.toLowerCase().includes(term)\<close>, an absent value counting as false.\<close>

definition opt_includes :: "string option \<Rightarrow> string \<Rightarrow> bool" where
  "opt_includes v term = (case v of None \<Rightarrow> False | Some s \<Rightarrow> js_includes (js_lower s) term)"

definition keepSubscriber :: "string \<Rightarrow> string \<Rightarrow> subscriber \<Rightarrow> bool" where
  "keepSubscriber flt lowerSearch s =
     (if su_deleted s then False
      else if flt \<noteq> ''total_subscribers'' \<and>
        \<not> list_ex (\<lambda>ch. channel_value (su_status s) ch = Some flt) (map fst (status_entries (su_status s))) then False
      else if lowerSearch = [] then True
      else opt_includes (su_email s) lowerSearch \<or> opt_includes (su_phone s) lowerSearch \<or>
        opt_includes (su_pushToken s) lowerSearch \<or>
        js_includes (js_lower (su_id s)) lowerSearch \<or> js_includes (js_lower (su_name s)) lowerSearch)"

definition filterSubscribers :: "subscriber list \<Rightarrow> string \<Rightarrow> string \<Rightarrow> subscriber list" where
  "filterSubscribers subscribers flt search =
     (let lowerSearch = js_lower search in filter (keepSubscriber flt lowerSearch) subscribers)"

section \<open>Counts (\<open>count-subscribers.ts\<close>)\<close>

record subscriber_counts =
  sc_total :: nat
  sc_subscribed :: nat
  sc_unsubscribed :: nat
  sc_bounced :: nat

text \<open>The body of the loop, on the three counters.\<close>

definition count_step :: "subscriber \<Rightarrow> nat \<times> nat \<times> nat \<Rightarrow> nat \<times> nat \<times> nat" where
  "count_step s c = (case c of (subscribed, unsubscribed, bounced) \<Rightarrow>
     if su_deleted s then (subscribed, unsubscribed, bounced)
     else
       (let statuses = map snd (status_entries (su_status s))
        in (if ''subscribed'' \<in> set statuses then Suc subscribed else subscribed,
            if ''unsubscribed'' \<in> set statuses then Suc unsubscribed else unsubscribed,
            if ''bounced'' \<in> set statuses then Suc bounced else bounced)))"

definition countSubscribers :: "subscriber list \<Rightarrow> subscriber_counts" where
  "countSubscribers subscribers =
     (case fold count_step subscribers (0, 0, 0) of (subscribed, unsubscribed, bounced) \<Rightarrow>
       \<lparr>sc_total = length (filter (\<lambda>s. \<not> su_deleted s) subscribers), sc_subscribed = subscribed,
        sc_unsubscribed = unsubscribed, sc_bounced = bounced\<rparr>)"

text \<open>\<open>counts[key]\<close> in the card: \<open>None\<close> for a key the counts do not have.\<close>

definition card_count :: "subscriber_counts \<Rightarrow> filter_card \<Rightarrow> nat option" where
  "card_count c x =
     map_of [(''total'', sc_total c), (''subscribed'', sc_subscribed c), (''unsubscribed'', sc_unsubscribed c),
             (''bounced'', sc_bounced c)] (fc_key x)"

section \<open>The cards and the list agree\<close>

lemma status_entries_distinct: "distinct (map fst (status_entries s))"
  by (simp add: status_entries_def split: option.split)

lemma some_channel_has:
  "list_ex (\<lambda>ch. channel_value s ch = Some v) (map fst (status_entries s)) \<longleftrightarrow> v \<in> set (map snd (status_entries s))"
  using status_entries_distinct [of s] by (force simp: list_ex_iff channel_value_def image_iff)

definition has_status :: "string \<Rightarrow> subscriber \<Rightarrow> bool" where
  "has_status v s \<longleftrightarrow> \<not> su_deleted s \<and> v \<in> set (map snd (status_entries (su_status s)))"

lemma filterSubscribers_status:
  assumes "v \<noteq> ''total_subscribers''"
  shows "filterSubscribers subs v [] = filter (has_status v) subs"
proof -
  have "keepSubscriber v [] = has_status v"
    using assms by (intro ext) (simp add: keepSubscriber_def has_status_def some_channel_has del: list_ex_iff)
  then show ?thesis by (simp add: filterSubscribers_def)
qed

lemma fold_count_step:
  "fold count_step subs (a, b, c) =
    (a + length (filter (has_status ''subscribed'') subs), b + length (filter (has_status ''unsubscribed'') subs),
     c + length (filter (has_status ''bounced'') subs))"
  by (induction subs arbitrary: a b c) (simp_all add: count_step_def has_status_def Let_def)

lemmas count_defs = countSubscribers_def fold_count_step card_count_def filterCards_def filterSubscribers_status

text \<open>A card that narrows the list shows how many subscribers the list then has, and the first card,
  whose key the counts do not have, shows nothing, although the number it stands for is computed.\<close>

theorem cards_count_the_list:
  "list_all (\<lambda>x. card_count (countSubscribers subs) x = Some (length (filterSubscribers subs (fc_key x) [])))
     (tl filterCards) \<and>
   card_count (countSubscribers subs) (hd filterCards) = None \<and>
   sc_total (countSubscribers subs) = length (filterSubscribers subs (fc_key (hd filterCards)) [])"
  by (auto simp: count_defs) (auto simp: filterSubscribers_def keepSubscriber_def intro!: arg_cong [where f = length] filter_cong)

text \<open>A search only narrows the list, and a subscriber it leaves shows the term in a searched field.\<close>

lemma search_narrows: "set (filterSubscribers subs flt search) \<subseteq> set (filterSubscribers subs flt [])"
  by (auto simp: filterSubscribers_def keepSubscriber_def split: if_splits)

end
