(* ===== verification/Subscriber_Forms.thy ===== *)
theory Subscriber_Forms
  imports Subscriber_List
begin

text \<open>
  The forms of a subscriber (\<open>features/subscribers\<close>): the schema (\<open>schema/index.ts\<close>), the hooks that
  create and edit (\<open>hooks/use-create-subscriber-form.ts\<close>, \<open>hooks/use-subscriber-edit-form.ts\<close>), the
  channel preferences (\<open>hooks/use-subscriber-preferences.ts\<close>) and the switches of the panel that shows
  them (\<open>components/WorkflowPreferencesPanel.tsx\<close>).

  Parameters: \<open>email_ok\<close> is the email pattern of the schema library, \<open>parse\<close> is \<open>JSON.parse\<close> and
  \<open>pretty\<close> the indented \<open>JSON.stringify\<close>.  A form of react-hook-form is its default values, fixed at
  the first render, and its current values; \<open>reset\<close> restores the defaults.
\<close>

section \<open>The schema (\<open>schema/index.ts\<close>)\<close>

record form_values =
  fv_name :: string
  fv_email :: "string option"
  fv_phone :: "string option"
  fv_metadata :: "string option"

text \<open>\<open>/^\+[\d\s\-\(\)]{2,}$/\<close>\<close>

definition phone_char :: "char \<Rightarrow> bool" where
  "phone_char c \<longleftrightarrow> c \<in> set ''0123456789-()'' \<or> js_ws c"

definition phonePattern :: rx where
  "phonePattern = rx_seqs [rx_chr CHR ''+'', RCls phone_char, RCls phone_char, RStar (RCls phone_char)]"

text \<open>\<open>safeParse\<close>: the message of the first issue, in the order of the fields, or the parsed values.\<close>

definition subscriberFormSchema :: "(string \<Rightarrow> bool) \<Rightarrow> form_values \<Rightarrow> string + form_values" where
  "subscriberFormSchema email_ok v =
     (if length (js_trim (fv_name v)) < 2 then Inl ''Name must be at least 2 characters''
      else if (case fv_email v of None \<Rightarrow> False | Some e \<Rightarrow> \<not> email_ok e \<and> e \<noteq> [])
      then Inl ''Enter a valid email address''
      else if (case fv_phone v of None \<Rightarrow> False | Some p \<Rightarrow> \<not> rx_full phonePattern (js_trim p) \<and> p \<noteq> [])
      then Inl ''Phone must include a country code (e.g. +1XXXXXXXXX)''
      else Inr \<lparr>fv_name = js_trim (fv_name v), fv_email = fv_email v,
                fv_phone = map_option js_trim (fv_phone v), fv_metadata = fv_metadata v\<rparr>)"

section \<open>Forms\<close>

record subscriber_form =
  sf_defaults :: form_values
  sf_values :: form_values

definition form_reset :: "subscriber_form \<Rightarrow> subscriber_form" where
  "form_reset f = f\<lparr>sf_values := sf_defaults f\<rparr>"

definition form_edit :: "(form_values \<Rightarrow> form_values) \<Rightarrow> subscriber_form \<Rightarrow> subscriber_form" where
  "form_edit g f = f\<lparr>sf_values := g (sf_values f)\<rparr>"

text \<open>The body of a create or an update; \<open>x || undefined\<close> is \<open>non_empty\<close>.\<close>

record channel_prefs =
  cp_global :: "string list option option"
  cp_workflows :: "(string \<times> string list option) list option"

record subscriber_payload =
  sp_name :: string
  sp_email :: "string option"
  sp_phone :: "string option"
  sp_tags :: "string list"
  sp_metadata :: "json option"
  sp_preferences :: "channel_prefs option"

definition non_empty :: "string option \<Rightarrow> string option" where
  "non_empty x = (if truthy x then x else None)"

text \<open>A metadata text that is to be parsed: present and not blank.\<close>

definition metadata_text :: "form_values \<Rightarrow> string option" where
  "metadata_text v =
     (case fv_metadata v of None \<Rightarrow> None | Some t \<Rightarrow> if t \<noteq> [] \<and> js_trim t \<noteq> [] then Some t else None)"

subsection \<open>Creating (\<open>use-create-subscriber-form.ts\<close>)\<close>

record create_form =
  cf_form :: subscriber_form
  cf_requests :: "subscriber_payload list"
  cf_created :: nat

definition useCreateSubscriberForm :: create_form where
  "useCreateSubscriberForm =
     (let d = \<lparr>fv_name = [], fv_email = Some [], fv_phone = Some [], fv_metadata = None\<rparr>
      in \<lparr>cf_form = \<lparr>sf_defaults = d, sf_values = d\<rparr>, cf_requests = [], cf_created = 0\<rparr>)"

definition submitHandler :: "(string \<Rightarrow> json option) \<Rightarrow> form_values \<Rightarrow> subscriber_payload" where
  "submitHandler parse data =
     \<lparr>sp_name = fv_name data, sp_email = non_empty (fv_email data), sp_phone = non_empty (fv_phone data),
      sp_tags = [], sp_metadata = Option.bind (metadata_text data) parse, sp_preferences = None\<rparr>"

text \<open>\<open>onSubmit\<close>: the form's \<open>handleSubmit\<close> runs the handler on the parsed values, or shows the issues.\<close>

definition create_onSubmit :: "(string \<Rightarrow> bool) \<Rightarrow> (string \<Rightarrow> json option) \<Rightarrow> create_form \<Rightarrow> create_form" where
  "create_onSubmit email_ok parse st =
     (case subscriberFormSchema email_ok (sf_values (cf_form st)) of
        Inl _ \<Rightarrow> st
      | Inr data \<Rightarrow> st\<lparr>cf_requests := cf_requests st @ [submitHandler parse data]\<rparr>)"

definition create_onSuccess :: "create_form \<Rightarrow> create_form" where
  "create_onSuccess st = st\<lparr>cf_form := form_reset (cf_form st), cf_created := Suc (cf_created st)\<rparr>"

subsection \<open>Editing (\<open>use-subscriber-edit-form.ts\<close>)\<close>

record edit_form =
  ef_form :: subscriber_form
  ef_editing :: bool

datatype edit_callback = OnError "string option" | OnSave string subscriber_payload

definition edit_defaults :: "(json \<Rightarrow> string) \<Rightarrow> subscriber option \<Rightarrow> form_values" where
  "edit_defaults pretty sub =
     (case sub of
        None \<Rightarrow> \<lparr>fv_name = [], fv_email = Some [], fv_phone = Some [], fv_metadata = Some []\<rparr>
      | Some s \<Rightarrow>
          \<lparr>fv_name = su_name s, fv_email = Some (str_or_empty (su_email s)), fv_phone = Some (str_or_empty (su_phone s)),
           fv_metadata = Some (case su_metadata s of None \<Rightarrow> [] | Some j \<Rightarrow> pretty j)\<rparr>)"

text \<open>The first render; later renders keep the state whatever subscriber they get.\<close>

definition useSubscriberEditForm :: "(json \<Rightarrow> string) \<Rightarrow> subscriber option \<Rightarrow> edit_form" where
  "useSubscriberEditForm pretty sub =
     \<lparr>ef_form = \<lparr>sf_defaults = edit_defaults pretty sub, sf_values = edit_defaults pretty sub\<rparr>, ef_editing = False\<rparr>"

definition handleSave ::
    "(string \<Rightarrow> bool) \<Rightarrow> (string \<Rightarrow> json option) \<Rightarrow> channel_prefs option \<Rightarrow> subscriber option \<Rightarrow> edit_form \<Rightarrow> edit_callback list" where
  "handleSave email_ok parse preferences sub st =
     (case subscriberFormSchema email_ok (sf_values (ef_form st)) of
        Inl message \<Rightarrow> [OnError (Some (js_or message ''Validation failed''))]
      | Inr data \<Rightarrow>
          (if metadata_text data \<noteq> None \<and> Option.bind (metadata_text data) parse = None
           then [OnError (Some ''Invalid JSON in metadata field'')]
           else
             (case sub of
                None \<Rightarrow> []
              | Some s \<Rightarrow>
                  [OnError None,
                   OnSave (su_id s)
                     \<lparr>sp_name = fv_name data, sp_email = non_empty (fv_email data), sp_phone = non_empty (fv_phone data),
                      sp_tags = [], sp_metadata = Option.bind (metadata_text data) parse, sp_preferences = preferences\<rparr>])))"

definition edit_setEditing :: "bool \<Rightarrow> edit_form \<Rightarrow> edit_form" where
  "edit_setEditing v st =
     (if v then st else st\<lparr>ef_form := form_reset (ef_form st)\<rparr>)\<lparr>ef_editing := v\<rparr>"

section \<open>Preferences (\<open>use-subscriber-preferences.ts\<close>)\<close>

definition CHANNELS :: "(string \<times> string) list" where
  "CHANNELS = [(''email'', ''Email''), (''sms'', ''SMS''), (''push'', ''Push'')]"

definition DEFAULT_CHANNELS :: "string list" where
  "DEFAULT_CHANNELS = [''email'', ''sms'', ''push'']"

record preferences =
  pf_global :: "string list"
  pf_workflows :: "(string, string list) js_map"

definition global_of :: "channel_prefs \<Rightarrow> string list" where
  "global_of p = (case cp_global p of Some (Some cs) \<Rightarrow> cs | _ \<Rightarrow> DEFAULT_CHANNELS)"

definition workflows_of :: "channel_prefs \<Rightarrow> (string, string list) js_map" where
  "workflows_of p =
     (case cp_workflows p of
        None \<Rightarrow> []
      | Some entries \<Rightarrow> fold (\<lambda>(i, v) wf. map_set i (case v of None \<Rightarrow> [] | Some cs \<Rightarrow> cs) wf) entries [])"

text \<open>\<open>subscriber?.preferences ?? {}\<close>\<close>

definition prefs_or_empty :: "channel_prefs option \<Rightarrow> channel_prefs" where
  "prefs_or_empty p = (case p of None \<Rightarrow> \<lparr>cp_global = None, cp_workflows = None\<rparr> | Some q \<Rightarrow> q)"

text \<open>The initial state, and again the state after the effect for another subscriber.\<close>

definition useSubscriberPreferences :: "channel_prefs option \<Rightarrow> preferences" where
  "useSubscriberPreferences stored =
     \<lparr>pf_global = global_of (prefs_or_empty stored), pf_workflows = workflows_of (prefs_or_empty stored)\<rparr>"

definition subscriber_effect :: "channel_prefs option \<Rightarrow> preferences \<Rightarrow> preferences" where
  "subscriber_effect stored st =
     (let p = prefs_or_empty stored in st\<lparr>pf_global := global_of p, pf_workflows := workflows_of p\<rparr>)"

definition toggleGlobal :: "string \<Rightarrow> preferences \<Rightarrow> preferences" where
  "toggleGlobal channel st = st\<lparr>pf_global := js_toggle channel (pf_global st)\<rparr>"

definition toggleWorkflow :: "string \<Rightarrow> string \<Rightarrow> preferences \<Rightarrow> preferences" where
  "toggleWorkflow workflowId channel st =
     (let current = (case map_get (pf_workflows st) workflowId of None \<Rightarrow> [] | Some cs \<Rightarrow> cs)
      in st\<lparr>pf_workflows := map_set workflowId (js_toggle channel current) (pf_workflows st)\<rparr>)"

definition same_channels :: "string list \<Rightarrow> string list \<Rightarrow> bool" where
  "same_channels global channels \<longleftrightarrow>
     length channels = length global \<and> list_all (\<lambda>c. c \<in> set global) channels"

definition buildPreferencesPayload :: "preferences \<Rightarrow> channel_prefs" where
  "buildPreferencesPayload st =
     (let wfPrefs = filter (\<lambda>(i, channels). \<not> same_channels (pf_global st) channels) (pf_workflows st)
      in \<lparr>cp_global = Some (Some (pf_global st)),
          cp_workflows = (if length wfPrefs > 0 then Some (map (\<lambda>(i, channels). (i, Some channels)) wfPrefs) else None)\<rparr>)"

text \<open>The switches of the panel: on or off, and whether they can be used.\<close>

definition global_checked :: "preferences \<Rightarrow> string \<Rightarrow> bool" where
  "global_checked st key \<longleftrightarrow> key \<in> set (pf_global st)"

definition globallyOff :: "preferences \<Rightarrow> string \<Rightarrow> bool" where
  "globallyOff st key \<longleftrightarrow> key \<notin> set (pf_global st)"

definition workflow_checked :: "preferences \<Rightarrow> string \<Rightarrow> string \<Rightarrow> bool" where
  "workflow_checked st i key =
     (if globallyOff st key then False
      else key \<in> set (case map_get (pf_workflows st) i of None \<Rightarrow> pf_global st | Some cs \<Rightarrow> cs))"

section \<open>The switches\<close>

text \<open>What a user does on the panel, and the states that follow.\<close>

datatype pref_toggle = ToggleGlobal string | ToggleWorkflow string string

fun pref_apply :: "pref_toggle \<Rightarrow> preferences \<Rightarrow> preferences" where
  "pref_apply (ToggleGlobal c) st = toggleGlobal c st"
| "pref_apply (ToggleWorkflow i c) st = toggleWorkflow i c st"

definition prefs_ok :: "preferences \<Rightarrow> bool" where
  "prefs_ok st \<longleftrightarrow> distinct (pf_global st) \<and> distinct (map_keys (pf_workflows st)) \<and>
     list_all (\<lambda>(i, cs). distinct cs) (pf_workflows st)"

definition stored_ok :: "channel_prefs option \<Rightarrow> bool" where
  "stored_ok stored \<longleftrightarrow> (case stored of None \<Rightarrow> True
     | Some p \<Rightarrow> distinct (global_of p) \<and>
         (case cp_workflows p of None \<Rightarrow> True
          | Some es \<Rightarrow> list_all (\<lambda>(i, v). case v of None \<Rightarrow> True | Some cs \<Rightarrow> distinct cs) es))"

lemma set_update_subset: "set (map_set k v m) \<subseteq> insert (k, v) (set m)"
  by (induction m) auto

lemma list_all_map_set: "list_all P m \<Longrightarrow> P (k, v) \<Longrightarrow> list_all P (map_set k v m)"
  using set_update_subset [of k v m] by (auto simp: list_all_iff)

lemma distinct_js_toggle: "distinct xs \<Longrightarrow> distinct (js_toggle x xs)"
  by (simp add: js_toggle_def)

lemma set_js_toggle: "set (js_toggle x xs) = (if x \<in> set xs then set xs - {x} else insert x (set xs))"
  by (auto simp: js_toggle_def)

lemma prefs_ok_apply: "prefs_ok st \<Longrightarrow> prefs_ok (pref_apply t st)"
proof (cases t)
  case (ToggleWorkflow i c)
  assume ok: "prefs_ok st"
  then have "distinct (case map_get (pf_workflows st) i of None \<Rightarrow> [] | Some cs \<Rightarrow> cs)"
    by (auto simp: prefs_ok_def list_all_iff split: option.split dest!: map_of_SomeD)
  from distinct_js_toggle [OF this] ok ToggleWorkflow show ?thesis
    by (simp add: prefs_ok_def toggleWorkflow_def Let_def distinct_update list_all_map_set)
qed (simp add: prefs_ok_def toggleGlobal_def distinct_js_toggle)

interpretation prefs: machine pref_apply prefs_ok
  by unfold_locales (rule prefs_ok_apply)

lemma prefs_ok_entries:
  assumes "list_all (\<lambda>(i, v). case v of None \<Rightarrow> True | Some cs \<Rightarrow> distinct cs) es"
    and "distinct (map_keys m)" and "list_all (\<lambda>(i, cs). distinct cs) m"
  shows "distinct (map_keys (fold (\<lambda>(i, v) wf. map_set i (case v of None \<Rightarrow> [] | Some cs \<Rightarrow> cs) wf) es m)) \<and>
    list_all (\<lambda>(i, cs). distinct cs) (fold (\<lambda>(i, v) wf. map_set i (case v of None \<Rightarrow> [] | Some cs \<Rightarrow> cs) wf) es m)"
  using assms
  by (induction es arbitrary: m) (auto simp: distinct_update list_all_map_set split: option.splits)

lemma prefs_ok_load: "stored_ok stored \<Longrightarrow> prefs_ok (useSubscriberPreferences stored)"
  using prefs_ok_entries [of _ "[]"]
  by (auto simp: prefs_ok_def stored_ok_def useSubscriberPreferences_def prefs_or_empty_def global_of_def workflows_of_def
      DEFAULT_CHANNELS_def split: option.splits)

text \<open>Without duplicates the length test is equality of the sets.\<close>

lemma same_channels_iff:
  assumes "distinct global" and "distinct channels"
  shows "same_channels global channels \<longleftrightarrow> set channels = set global"
  using assms by (auto simp: same_channels_def list_all_iff distinct_card [symmetric] intro: card_subset_eq [THEN equalityD2, THEN subsetD])

lemma fold_map_set_distinct:
  "distinct (map_keys m @ map_keys es) \<Longrightarrow>
    fold (\<lambda>(i, v) wf. map_set i (g v) wf) es m = m @ map (\<lambda>(i, v). (i, g v)) es"
  by (induction es arbitrary: m) (auto simp: map_set_new)

text \<open>What is saved is loaded back, without the workflows whose channels are the global ones.\<close>

lemma load_build:
  assumes "prefs_ok st"
  shows "useSubscriberPreferences (Some (buildPreferencesPayload st)) =
    \<lparr>pf_global = pf_global st,
     pf_workflows = filter (\<lambda>(i, cs). \<not> same_channels (pf_global st) cs) (pf_workflows st)\<rparr>"
proof -
  let ?ws = "filter (\<lambda>(i, cs). \<not> same_channels (pf_global st) cs) (pf_workflows st)"
  have "distinct (map_keys ?ws)" using assms by (simp add: prefs_ok_def distinct_map_filter)
  then have "fold (\<lambda>(i, v) wf. map_set i (case v of None \<Rightarrow> [] | Some cs \<Rightarrow> cs) wf)
      (map (\<lambda>(i, channels). (i, Some channels)) ?ws) [] = ?ws"
    by (subst fold_map_set_distinct) (simp_all add: comp_def split_beta)
  then show ?thesis
    by (auto simp: useSubscriberPreferences_def buildPreferencesPayload_def prefs_or_empty_def global_of_def workflows_of_def Let_def)
qed

lemma map_of_filter_distinct:
  "distinct (map_keys m) \<Longrightarrow>
    map_of (filter (\<lambda>(i, v). P v) m) i = (case map_of m i of None \<Rightarrow> None | Some v \<Rightarrow> if P v then Some v else None)"
  by (induction m) (auto simp: map_of_eq_None_iff image_iff split: option.split)

text \<open>C15: Whatever switches are flipped after a subscriber's preferences are loaded, saving and loading them again
  shows every switch of the panel as it was, although workflows that agree with the global channels are not stored.\<close>

theorem preferences_roundtrip:
  fixes ts
  assumes "stored_ok stored"
  defines "st \<equiv> fold pref_apply ts (useSubscriberPreferences stored)"
  defines "st' \<equiv> useSubscriberPreferences (Some (buildPreferencesPayload st))"
  shows "global_checked st' c = global_checked st c \<and> workflow_checked st' i c = workflow_checked st i c"
proof -
  have ok: "prefs_ok st" unfolding st_def using assms(1) by (intro prefs.run prefs_ok_load)
  have st': "st' = \<lparr>pf_global = pf_global st,
     pf_workflows = filter (\<lambda>(i, cs). \<not> same_channels (pf_global st) cs) (pf_workflows st)\<rparr>"
    unfolding st'_def by (rule load_build [OF ok])
  show ?thesis
  proof (cases "map_get (pf_workflows st) i")
    case (Some cs)
    then have "distinct cs" using ok by (auto simp: prefs_ok_def list_all_iff dest!: map_of_SomeD)
    with ok have "same_channels (pf_global st) cs \<longleftrightarrow> set cs = set (pf_global st)"
      by (intro same_channels_iff) (simp_all add: prefs_ok_def)
    with Some ok show ?thesis
      by (simp add: st' global_checked_def workflow_checked_def globallyOff_def map_of_filter_distinct prefs_ok_def)
  qed (use ok in \<open>simp add: st' global_checked_def workflow_checked_def globallyOff_def map_of_filter_distinct prefs_ok_def\<close>)
qed

theorem preferences_roundtrip_witness:
  "let st = fold pref_apply [ToggleWorkflow ''w'' ''sms'', ToggleGlobal ''push''] (useSubscriberPreferences None)
   in workflow_checked (useSubscriberPreferences (Some (buildPreferencesPayload st))) ''w'' ''sms'' =
      workflow_checked st ''w'' ''sms''"
  unfolding Let_def
  by (rule preferences_roundtrip [where stored = None, THEN conjunct2]) (simp add: stored_ok_def)

text \<open>The first switch a user turns off for a workflow without settings of its own does the opposite: the
  channel stays on and every other channel goes off, since the missing entry is read as no channel by the
  handler but as the global channels by the panel.\<close>

theorem first_toggle_inverts:
  assumes "map_get (pf_workflows st) i = None" and "c \<in> set (pf_global st)" and "d \<noteq> c"
  shows "workflow_checked st i c \<and> workflow_checked (toggleWorkflow i c st) i c \<and>
    \<not> workflow_checked (toggleWorkflow i c st) i d"
  using assms by (simp add: workflow_checked_def globallyOff_def toggleWorkflow_def js_toggle_def js_simps)

theorem first_toggle_inverts_witness:
  "let st = useSubscriberPreferences None
   in list_all (workflow_checked st ''w'') [''email'', ''sms'', ''push''] \<and>
      filter (workflow_checked (toggleWorkflow ''w'' ''email'' st) ''w'') [''email'', ''sms'', ''push''] = [''email'']"
proof -
  let ?st = "useSubscriberPreferences None"
  have st: "?st = \<lparr>pf_global = [''email'', ''sms'', ''push''], pf_workflows = []\<rparr>"
    by (simp add: useSubscriberPreferences_def prefs_or_empty_def global_of_def workflows_of_def DEFAULT_CHANNELS_def)
  have "workflow_checked (toggleWorkflow ''w'' ''email'' ?st) ''w'' ''email''"
    "\<not> workflow_checked (toggleWorkflow ''w'' ''email'' ?st) ''w'' ''sms''"
    "\<not> workflow_checked (toggleWorkflow ''w'' ''email'' ?st) ''w'' ''push''"
    using first_toggle_inverts [of ?st "''w''" "''email''" "''sms''"]
      first_toggle_inverts [of ?st "''w''" "''email''" "''push''"] by (simp_all add: st)
  moreover have "list_all (workflow_checked ?st ''w'') [''email'', ''sms'', ''push'']"
    by (simp add: st workflow_checked_def globallyOff_def)
  ultimately show ?thesis unfolding Let_def by simp
qed

text \<open>With an entry of its own, a switch of a globally enabled channel flips and no other one does.\<close>

lemma later_toggle_flips:
  assumes "map_get (pf_workflows st) i = Some cs" and "c \<in> set (pf_global st)"
  shows "workflow_checked (toggleWorkflow i c st) j d =
    (if j = i \<and> d = c then \<not> workflow_checked st j d else workflow_checked st j d)"
  using assms by (auto simp: workflow_checked_def globallyOff_def toggleWorkflow_def set_js_toggle js_simps split: option.split)

section \<open>Saving\<close>

lemma schema_fields:
  "subscriberFormSchema email_ok v = Inr d \<Longrightarrow>
    fv_name d = js_trim (fv_name v) \<and> 2 \<le> length (fv_name d) \<and> fv_email d = fv_email v \<and>
    (\<forall>e. fv_email v = Some e \<longrightarrow> email_ok e \<or> e = []) \<and>
    (\<forall>p. fv_phone d = Some p \<longrightarrow> rx_full phonePattern p \<or> p = [])"
  by (auto simp: subscriberFormSchema_def split: if_splits option.splits)

text \<open>The editing form keeps what it was first rendered with.  The sheet is first rendered without a
  subscriber, so for whichever subscriber it is opened, an untouched form cannot be saved and a filled one
  sends the same fields and an empty list of tags under that subscriber's id.\<close>

theorem edit_form_ignores_subscriber:
  "handleSave email_ok parse prefs (Some s) (useSubscriberEditForm pretty None) =
     [OnError (Some ''Name must be at least 2 characters'')] \<and>
   (OnSave i p \<in> set (handleSave email_ok parse prefs (Some s) st) \<longrightarrow>
      i = su_id s \<and> sp_tags p = [] \<and> OnSave (su_id s') p \<in> set (handleSave email_ok parse prefs (Some s') st))"
  by (auto simp: handleSave_def useSubscriberEditForm_def edit_defaults_def subscriberFormSchema_def split: sum.splits if_splits)

definition example_subscriber :: "string \<Rightarrow> subscriber" where
  "example_subscriber i =
     \<lparr>su_id = i, su_name = ''Ada'', su_email = None, su_phone = None, su_pushToken = None, su_channels = [],
      su_status = \<lparr>cs_email = None, cs_sms = None, cs_push = None\<rparr>, su_tags = [''vip''], su_metadata = None,
      su_preferences = None, su_subscriptionDate = [], su_lastNotificationDate = None, su_deleted = False, su_createdAt = [], su_updatedAt = []\<rparr>"

definition filled_form :: edit_form where
  "filled_form =
     (let st = useSubscriberEditForm (\<lambda>_. []) None
      in st\<lparr>ef_form := form_edit (\<lambda>v. v\<lparr>fv_name := ''Ada''\<rparr>) (ef_form st)\<rparr>)"

definition filled_payload :: subscriber_payload where
  "filled_payload =
     \<lparr>sp_name = ''Ada'', sp_email = None, sp_phone = None, sp_tags = [], sp_metadata = None, sp_preferences = None\<rparr>"

lemma js_trim_Ada: "js_trim ''Ada'' = ''Ada''"
  by (rule js_trim_no_ws) (simp add: js_ws_def)

theorem edit_form_ignores_subscriber_witness:
  "OnSave ''a'' filled_payload \<in> set (handleSave (\<lambda>_. True) (\<lambda>_. None) None (Some (example_subscriber ''a'')) filled_form) \<and>
   OnSave ''b'' filled_payload \<in> set (handleSave (\<lambda>_. True) (\<lambda>_. None) None (Some (example_subscriber ''b'')) filled_form)"
proof -
  have a: "OnSave ''a'' filled_payload \<in> set (handleSave (\<lambda>_. True) (\<lambda>_. None) None (Some (example_subscriber ''a'')) filled_form)"
    by (simp add: filled_form_def useSubscriberEditForm_def edit_defaults_def form_edit_def handleSave_def Let_def
        subscriberFormSchema_def js_trim_Ada metadata_text_def non_empty_def filled_payload_def example_subscriber_def)
  from edit_form_ignores_subscriber [where s' = "example_subscriber ''b''", THEN conjunct2, rule_format, OF a] a show ?thesis
    by (simp add: example_subscriber_def)
qed

end
