(* ===== verification/Phone_Input.thy ===== *)
theory Phone_Input
  imports Prelude "HOL-Library.Multiset"
begin

text \<open>
  The phone field of the subscriber forms: the countries it offers
  (\<open>features/subscribers/constants/countries.ts\<close>) and the field itself
  (\<open>features/subscribers/components/PhoneInput.tsx\<close>), which splits a number into a country and a local
  part and joins them again.

  The phone number library is a parameter: \<open>codes\<close> is \<open>getCountries()\<close>, \<open>calling\<close> is
  \<open>getCountryCallingCode\<close>.  So is \<open>localeCompare\<close>, as the relation \<open>before a b\<close> saying that the comparison
  of \<open>a\<close> with \<open>b\<close> is negative.
\<close>

section \<open>Countries (\<open>countries.ts\<close>)\<close>

definition countryNames :: "(string \<times> string) list" where
  "countryNames =
     [(''US'', ''United States''), (''GB'', ''United Kingdom''), (''CA'', ''Canada''), (''AU'', ''Australia''),
      (''DE'', ''Germany''), (''FR'', ''France''), (''IT'', ''Italy''), (''ES'', ''Spain''),
      (''NL'', ''Netherlands''), (''BE'', ''Belgium''), (''CH'', ''Switzerland''), (''AT'', ''Austria''),
      (''SE'', ''Sweden''), (''NO'', ''Norway''), (''DK'', ''Denmark''), (''FI'', ''Finland''),
      (''IE'', ''Ireland''), (''PT'', ''Portugal''), (''GR'', ''Greece''), (''PL'', ''Poland''),
      (''CZ'', ''Czech Republic''), (''SK'', ''Slovakia''), (''HU'', ''Hungary''), (''RO'', ''Romania''),
      (''BG'', ''Bulgaria''), (''HR'', ''Croatia''), (''RS'', ''Serbia''), (''SI'', ''Slovenia''),
      (''LT'', ''Lithuania''), (''LV'', ''Latvia''), (''EE'', ''Estonia''), (''IS'', ''Iceland''),
      (''LU'', ''Luxembourg''), (''MT'', ''Malta''), (''CY'', ''Cyprus''), (''UA'', ''Ukraine''),
      (''RU'', ''Russia''), (''TR'', ''Turkey''), (''IL'', ''Israel''), (''AE'', ''United Arab Emirates''),
      (''SA'', ''Saudi Arabia''), (''QA'', ''Qatar''), (''KW'', ''Kuwait''), (''BH'', ''Bahrain''),
      (''OM'', ''Oman''), (''IN'', ''India''), (''PK'', ''Pakistan''), (''BD'', ''Bangladesh''),
      (''LK'', ''Sri Lanka''), (''NP'', ''Nepal''), (''CN'', ''China''), (''JP'', ''Japan''),
      (''KR'', ''South Korea''), (''TW'', ''Taiwan''), (''HK'', ''Hong Kong''), (''SG'', ''Singapore''),
      (''MY'', ''Malaysia''), (''ID'', ''Indonesia''), (''PH'', ''Philippines''), (''TH'', ''Thailand''),
      (''VN'', ''Vietnam''), (''EG'', ''Egypt''), (''NG'', ''Nigeria''), (''KE'', ''Kenya''),
      (''ZA'', ''South Africa''), (''BR'', ''Brazil''), (''MX'', ''Mexico''), (''AR'', ''Argentina''),
      (''CL'', ''Chile''), (''CO'', ''Colombia''), (''PE'', ''Peru''), (''NZ'', ''New Zealand'')]"

text \<open>The code points of the flag; a country code is two ASCII capitals, which \<open>toUpperCase\<close> keeps.\<close>

definition getFlagEmoji :: "string \<Rightarrow> int list" where
  "getFlagEmoji countryCode = map (\<lambda>c. 0x1f1e6 + of_char (ascii_upper_char c) - 65) countryCode"

record country =
  co_code :: string
  co_dial :: string
  co_name :: string
  co_flag :: "int list"

definition country_of :: "(string \<Rightarrow> string) \<Rightarrow> string \<Rightarrow> country" where
  "country_of calling code =
     \<lparr>co_code = code, co_dial = ''+'' @ calling code, co_name = str_or_empty (map_of countryNames code), co_flag = getFlagEmoji code\<rparr>"

text \<open>
  The stable \<open>sort\<close> with the comparison of the names: each element goes behind those it does not
  precede.
\<close>

fun insert_country :: "(string \<Rightarrow> string \<Rightarrow> bool) \<Rightarrow> country \<Rightarrow> country list \<Rightarrow> country list" where
  "insert_country before c [] = [c]"
| "insert_country before c (d # ds) =
     (if before (co_name c) (co_name d) then c # d # ds else d # insert_country before c ds)"

definition sort_countries :: "(string \<Rightarrow> string \<Rightarrow> bool) \<Rightarrow> country list \<Rightarrow> country list" where
  "sort_countries before cs = fold (insert_country before) cs []"

definition priority :: "string list" where
  "priority = [''US'', ''GB'', ''CA'', ''AU'', ''DE'', ''FR'', ''IT'', ''ES'', ''NL'']"

text \<open>The loop over the sorted countries, on the two lists it fills.\<close>

definition split_priority :: "country \<Rightarrow> country list \<times> country list \<Rightarrow> country list \<times> country list" where
  "split_priority c acc = (case acc of (prio, rest) \<Rightarrow>
     if co_code c \<in> set priority then (prio @ [c], rest) else (prio, rest @ [c]))"

definition getCountryList ::
    "string list \<Rightarrow> (string \<Rightarrow> string) \<Rightarrow> (string \<Rightarrow> string \<Rightarrow> bool) \<Rightarrow> country list" where
  "getCountryList codes calling before =
     (let countries = sort_countries before
            (map (country_of calling) (filter (\<lambda>c. truthy (map_of countryNames c)) codes));
          (priorityCountries, remaining) = fold split_priority countries ([], [])
      in priorityCountries @ remaining)"

section \<open>The field (\<open>PhoneInput.tsx\<close>)\<close>

definition ascii_digit :: "char \<Rightarrow> bool" where
  "ascii_digit c \<longleftrightarrow> c \<in> set ''0123456789''"

text \<open>\<open>value.match(/^(\+\d+)/)\<close>, the greedy match of the prefix.\<close>

definition parseDialCode :: "string \<Rightarrow> string" where
  "parseDialCode value =
     (case value of
        [] \<Rightarrow> []
      | c # s \<Rightarrow> if c = CHR ''+'' \<and> takeWhile ascii_digit s \<noteq> [] then c # takeWhile ascii_digit s else [])"

definition stripDialCode :: "string \<Rightarrow> string \<Rightarrow> string" where
  "stripDialCode value dial =
     (if js_starts_with value dial then js_trim (drop (length dial) value) else value)"

definition selectedCountry :: "country list \<Rightarrow> string \<Rightarrow> country option" where
  "selectedCountry countries value = List.find (\<lambda>c. co_dial c = parseDialCode value) countries"

definition localNumber :: "country list \<Rightarrow> string \<Rightarrow> string" where
  "localNumber countries value =
     (case selectedCountry countries value of None \<Rightarrow> value | Some c \<Rightarrow> stripDialCode value (co_dial c))"

text \<open>The value handed to \<open>onChange\<close>; \<open>None\<close> when it is not called.\<close>

definition handleCountrySelect :: "country list \<Rightarrow> string \<Rightarrow> country \<Rightarrow> string option" where
  "handleCountrySelect countries value c =
     (if Some (co_dial c) \<noteq> map_option co_dial (selectedCountry countries value) then Some (co_dial c) else None)"

text \<open>\<open>newLocal.replace(/[^\d\s\-()]/g, '')\<close>\<close>

definition local_char :: "char \<Rightarrow> bool" where
  "local_char c \<longleftrightarrow> ascii_digit c \<or> js_ws c \<or> c \<in> set ''-()''"

definition handleLocalChange :: "country list \<Rightarrow> string \<Rightarrow> string \<Rightarrow> string" where
  "handleLocalChange countries value newLocal =
     (let filtered = filter local_char newLocal;
          pre = js_or (case selectedCountry countries value of None \<Rightarrow> [] | Some c \<Rightarrow> co_dial c) ''+''
      in js_trim (pre @ '' '' @ filtered))"

section \<open>The list\<close>

lemma mset_insert_country: "mset (insert_country before c ds) = add_mset c (mset ds)"
  by (induction ds) auto

lemma mset_sort_countries: "mset (sort_countries before cs) = mset cs"
proof -
  have "mset (fold (insert_country before) cs ds) = mset cs + mset ds" for ds
    by (induction cs arbitrary: ds) (simp_all add: mset_insert_country)
  then show ?thesis by (simp add: sort_countries_def)
qed

lemma fold_split_priority:
  "fold split_priority cs (ps, rs) =
    (ps @ filter (\<lambda>c. co_code c \<in> set priority) cs, rs @ filter (\<lambda>c. co_code c \<notin> set priority) cs)"
  by (induction cs arbitrary: ps rs) (simp_all add: split_priority_def)

lemma getCountryList_eq:
  "getCountryList codes calling before =
    (let countries = sort_countries before (map (country_of calling) (filter (\<lambda>c. truthy (map_of countryNames c)) codes))
     in filter (\<lambda>c. co_code c \<in> set priority) countries @ filter (\<lambda>c. co_code c \<notin> set priority) countries)"
  by (simp add: getCountryList_def Let_def fold_split_priority)

text \<open>The list has every named country once, the favoured ones before all others.\<close>

lemma getCountryList_mset:
  "mset (getCountryList codes calling before) =
    mset (map (country_of calling) (filter (\<lambda>c. truthy (map_of countryNames c)) codes))"
  by (simp add: getCountryList_eq Let_def mset_sort_countries)

lemma getCountryList_dial: "c \<in> set (getCountryList codes calling before) \<Longrightarrow> co_dial c \<noteq> []"
  using getCountryList_mset [of codes calling before, THEN mset_eq_setD] by (auto simp: country_of_def)

section \<open>Editing the local part\<close>

definition js_trim_end :: "string \<Rightarrow> string" where
  "js_trim_end s = rev (dropWhile js_ws (rev s))"

lemma js_trim_end_append:
  "js_trim_end (a @ b) = (if list_all js_ws b then js_trim_end a else a @ js_trim_end b)"
  by (auto simp: js_trim_end_def dropWhile_append list_all_iff)

lemma js_trim_start_kept: "s \<noteq> [] \<Longrightarrow> \<not> js_ws (hd s) \<Longrightarrow> js_trim s = js_trim_end s"
  by (cases s) (simp_all add: js_trim_def js_trim_end_def)

lemma parseDialCode_shape:
  assumes "parseDialCode v \<noteq> []"
  obtains ds where "parseDialCode v = CHR ''+'' # ds" and "ds \<noteq> []" and "list_all ascii_digit ds"
  using assms by (cases v) (auto simp: parseDialCode_def list_all_iff dest: set_takeWhileD split: if_splits)

lemma parseDialCode_prefix:
  assumes "ds \<noteq> []" and "list_all ascii_digit ds" and "s = [] \<or> \<not> ascii_digit (hd s)"
  shows "parseDialCode (CHR ''+'' # ds @ s) = CHR ''+'' # ds"
proof -
  have "takeWhile ascii_digit (ds @ s) = ds" using assms by (cases s) (auto simp: list_all_iff takeWhile_append)
  with assms show ?thesis by (simp add: parseDialCode_def)
qed

lemma digit_not_ws: "ascii_digit c \<Longrightarrow> \<not> js_ws c"
  by (auto simp: ascii_digit_def js_ws_def)

lemma js_trim_dial:
  assumes "list_all ascii_digit ds"
  shows "js_trim ((CHR ''+'' # ds) @ '' '' @ f) =
    (if list_all js_ws f then CHR ''+'' # ds else (CHR ''+'' # ds) @ '' '' @ js_trim_end f)"
proof -
  let ?d = "CHR ''+'' # ds"
  have "list_all (\<lambda>c. \<not> js_ws c) ?d" using assms digit_not_ws by (auto simp: list_all_iff js_ws_def)
  then have "\<not> js_ws (hd (rev ?d))" by (metis hd_in_set list.pred_set list.simps(3) rev_is_Nil_conv set_rev)
  then have d: "js_trim_end ?d = ?d" by (simp add: js_trim_end_def dropWhile_eq_self_iff)
  have sp: "js_ws (CHR '' '')" by (simp add: js_ws_def)
  have "js_trim (?d @ '' '' @ f) = js_trim_end (?d @ '' '' @ f)" by (rule js_trim_start_kept) (simp_all add: js_ws_def)
  also have "\<dots> = (if list_all js_ws f then ?d else ?d @ '' '' @ js_trim_end f)"
    using js_trim_end_append [of ?d "'' '' @ f"] js_trim_end_append [of "'' ''" f] d sp by simp
  finally show ?thesis .
qed

lemma js_trim_space: "js_trim (CHR '' '' # s) = js_trim s"
  by (simp add: js_trim_def js_ws_def)

lemma blank_trims:
  assumes "list_all js_ws f"
  shows "js_trim f = []" and "js_trim_end f = []"
proof -
  have "dropWhile js_ws f = []" "dropWhile js_ws (rev f) = []"
    using assms by (simp_all only: dropWhile_eq_Nil_conv list_all_iff set_rev)
  then show "js_trim f = []" "js_trim_end f = []" unfolding js_trim_def js_trim_end_def by (simp_all only: dropWhile.simps rev.simps)
qed

lemma js_trim_of_end: "js_trim (js_trim_end f) = js_trim f"
proof (cases "list_all js_ws f")
  case True
  from blank_trims [OF this] show ?thesis by simp
next
  case False
  have "dropWhile js_ws (js_trim_end f) = js_trim_end (dropWhile js_ws f)"
  proof -
    define a where "a = takeWhile js_ws f"
    define b where "b = dropWhile js_ws f"
    have "b \<noteq> []" using False dropWhile_eq_Nil_conv [of js_ws f] by (auto simp: b_def list_all_iff)
    then have b: "b \<noteq> []" "\<not> js_ws (hd b)" using hd_dropWhile [of js_ws f] by (simp_all add: b_def)
    then have nb: "\<not> list_all js_ws b" by (cases b) auto
    have a: "\<forall>x \<in> set a. js_ws x" by (auto simp: a_def dest: set_takeWhileD)
    have "f = a @ b" by (simp add: a_def b_def)
    then have "js_trim_end f = a @ js_trim_end b" using js_trim_end_append [of a b] nb by simp
    moreover have "js_trim_end b \<noteq> []" "\<not> js_ws (hd (js_trim_end b))"
      using b by (cases b; auto simp: js_trim_end_def dropWhile_append)+
    ultimately show ?thesis using a unfolding b_def [symmetric]
      by (simp add: dropWhile_append1 dropWhile_append2 dropWhile_eq_self_iff)
  qed
  moreover have "js_trim_end (js_trim_end s) = js_trim_end s" for s by (simp add: js_trim_end_def)
  ultimately show ?thesis by (simp add: js_trim_def flip: js_trim_end_def)
qed

text \<open>Typing in the local part keeps the country and shows what was typed, without the characters a number cannot
  have; but a number whose country is not recognised, as one without a space after the code, gets the prefix
  \<open>+ \<close> before its digits, and its country can then no longer be recognised.\<close>

theorem local_edit_keeps_country:
  assumes "list_all (\<lambda>c. co_dial c \<noteq> []) countries"
  shows "case selectedCountry countries value of
      Some c \<Rightarrow>
        selectedCountry countries (handleLocalChange countries value t) = Some c \<and>
        localNumber countries (handleLocalChange countries value t) = js_trim (filter local_char t)
    | None \<Rightarrow>
        parseDialCode (handleLocalChange countries value t) = [] \<and>
        selectedCountry countries (handleLocalChange countries value t) = None"
proof (cases "selectedCountry countries value")
  case None
  have *: "handleLocalChange countries value t = js_trim ((CHR ''+'' # []) @ '' '' @ filter local_char t)"
    by (simp add: handleLocalChange_def None)
  have "parseDialCode (handleLocalChange countries value t) = []"
    unfolding * by (subst js_trim_dial) (simp_all add: parseDialCode_def ascii_digit_def)
  moreover from this have "selectedCountry countries (handleLocalChange countries value t) = None"
    using assms by (auto simp: selectedCountry_def find_None_iff list_all_iff)
  ultimately show ?thesis using None by simp
next
  case (Some c)
  let ?f = "filter local_char t"
  from find_Some_conv [OF Some [unfolded selectedCountry_def]] have c: "c \<in> set countries" "co_dial c = parseDialCode value" by simp_all
  with assms have "parseDialCode value \<noteq> []" by (auto simp: list_all_iff)
  then obtain ds where ds: "co_dial c = CHR ''+'' # ds" "ds \<noteq> []" "list_all ascii_digit ds"
    using parseDialCode_shape c(2) by metis
  let ?v = "handleLocalChange countries value t"
  have v: "?v = (if list_all js_ws ?f then co_dial c else co_dial c @ '' '' @ js_trim_end ?f)"
    using js_trim_dial [OF ds(3), of ?f] by (simp add: handleLocalChange_def Some ds(1))
  have "parseDialCode ?v = co_dial c"
    using parseDialCode_prefix [OF ds(2,3), of "[]"] parseDialCode_prefix [OF ds(2,3), of "'' '' @ js_trim_end ?f"]
    by (simp add: v ds(1) ascii_digit_def)
  with Some c(2) have sel: "selectedCountry countries ?v = Some c" by (simp add: selectedCountry_def)
  have "stripDialCode ?v (co_dial c) = js_trim ?f"
  proof (cases "list_all js_ws ?f")
    case True
    then show ?thesis using blank_trims(1) [OF True] by (simp add: v stripDialCode_def)
  qed (simp add: v stripDialCode_def js_trim_space js_trim_of_end)
  with sel Some show ?thesis by (simp add: localNumber_def)
qed

definition example_countries :: "country list" where
  "example_countries = getCountryList [''US'', ''CA'', ''ZZ'', ''NG''] (\<lambda>c. if c = ''NG'' then ''234'' else ''1'') (\<lambda>a b. length a < length b)"

lemma example_countries: "map co_code example_countries = [''CA'', ''US'', ''NG'']"
  by code_simp

theorem local_edit_keeps_country_witness:
  "map_option co_code (selectedCountry example_countries (handleLocalChange example_countries ''+1 5'' ''55x'')) = Some ''CA'' \<and>
   localNumber example_countries (handleLocalChange example_countries ''+1 5'' ''55x'') = ''55'' \<and>
   selectedCountry example_countries (handleLocalChange example_countries ''+15'' ''+151'') = None"
proof -
  have h: "list_all (\<lambda>c. co_dial c \<noteq> []) example_countries"
    by (auto simp: list_all_iff example_countries_def dest: getCountryList_dial)
  obtain c where c: "selectedCountry example_countries ''+1 5'' = Some c" "co_code c = ''CA''"
  proof -
    have "map_option co_code (selectedCountry example_countries ''+1 5'') = Some ''CA''" by code_simp
    with that show ?thesis by auto
  qed
  have n: "selectedCountry example_countries ''+15'' = None" by code_simp
  have t: "js_trim (filter local_char ''55x'') = ''55''" by code_simp
  show ?thesis
    using local_edit_keeps_country [OF h, of "''+1 5''" "''55x''"] local_edit_keeps_country [OF h, of "''+15''" "''+151''"] c n t
    by simp
qed

end
