(* ===== verification/Effect_Runs.thy ===== *)
theory Effect_Runs
  imports Prelude
begin

text \<open>
  Asynchronous work started by an effect.  Each run of the effect that starts work has its own variable
  \<open>cancelled\<close>, which its cleanup sets before the next run of the effect; the work looks at it after
  every \<open>await\<close>.  A pool holds the work under way, each entry with the number of its run, its
  \<open>cancelled\<close> and what it has computed so far; \<open>er_cleanup\<close> is the run the next cleanup cancels.
  The lemmas show that at most the work of the latest run is not cancelled.
\<close>

record 'a run =
  rn_id :: nat
  rn_cancelled :: bool
  rn_work :: 'a

record 'a effect_runs =
  er_last :: nat
  er_cleanup :: "nat option"
  er_runs :: "'a run list"

definition no_runs :: "'a effect_runs" where
  "no_runs = \<lparr>er_last = 0, er_cleanup = None, er_runs = []\<rparr>"

text \<open>The cleanup of the last run of the effect.\<close>

definition runs_cleanup :: "'a effect_runs \<Rightarrow> 'a effect_runs" where
  "runs_cleanup p =
     p\<lparr>er_cleanup := None,
       er_runs := map (\<lambda>r. if Some (rn_id r) = er_cleanup p then r\<lparr>rn_cancelled := True\<rparr> else r) (er_runs p)\<rparr>"

definition runs_start :: "'a \<Rightarrow> 'a effect_runs \<Rightarrow> 'a effect_runs" where
  "runs_start x p =
     (let i = Suc (er_last p)
      in p\<lparr>er_last := i, er_cleanup := Some i,
           er_runs := er_runs p @ [\<lparr>rn_id = i, rn_cancelled = False, rn_work = x\<rparr>]\<rparr>)"

definition runs_find :: "nat \<Rightarrow> 'a effect_runs \<Rightarrow> 'a run option" where
  "runs_find i p = List.find (\<lambda>r. rn_id r = i) (er_runs p)"

definition runs_set :: "nat \<Rightarrow> 'a \<Rightarrow> 'a effect_runs \<Rightarrow> 'a effect_runs" where
  "runs_set i x p = p\<lparr>er_runs := map (\<lambda>r. if rn_id r = i then r\<lparr>rn_work := x\<rparr> else r) (er_runs p)\<rparr>"

definition runs_end :: "nat \<Rightarrow> 'a effect_runs \<Rightarrow> 'a effect_runs" where
  "runs_end i p = p\<lparr>er_runs := filter (\<lambda>r. rn_id r \<noteq> i) (er_runs p)\<rparr>"

text \<open>The work that may still write the state.\<close>

definition live_runs :: "'a effect_runs \<Rightarrow> 'a run list" where
  "live_runs p = filter (\<lambda>r. \<not> rn_cancelled r) (er_runs p)"

definition runs_ok :: "'a effect_runs \<Rightarrow> bool" where
  "runs_ok p \<longleftrightarrow>
     distinct (map rn_id (er_runs p)) \<and>
     list_all (\<lambda>r. rn_id r \<le> er_last p \<and> (\<not> rn_cancelled r \<longrightarrow> er_cleanup p = Some (rn_id r))) (er_runs p) \<and>
     (er_cleanup p = None \<or> er_cleanup p = Some (er_last p))"

lemma no_runs [simp]: "runs_ok no_runs" "live_runs no_runs = []" "er_last no_runs = 0"
  by (simp_all add: runs_ok_def live_runs_def no_runs_def)

lemma live_runs_latest: "runs_ok p \<Longrightarrow> r \<in> set (live_runs p) \<Longrightarrow> rn_id r = er_last p \<and> \<not> rn_cancelled r"
  by (auto simp: runs_ok_def live_runs_def list_all_iff)

lemma map_if_id: "(\<And>r. f (g r) = f r) \<Longrightarrow> map f (map (\<lambda>r. if Q r then g r else r) xs) = map f xs"
  by simp

lemma runs_cleanup [simp]:
  assumes "runs_ok p"
  shows "runs_ok (runs_cleanup p)" and "live_runs (runs_cleanup p) = []" and "er_last (runs_cleanup p) = er_last p"
    and "er_cleanup (runs_cleanup p) = None"
  using assms by (auto simp: runs_ok_def live_runs_def runs_cleanup_def list_all_iff filter_empty_conv comp_def if_distrib cong: if_cong)

lemma runs_start [simp]:
  assumes "runs_ok p" and "live_runs p = []"
  shows "runs_ok (runs_start x p)"
    and "live_runs (runs_start x p) = [\<lparr>rn_id = er_last (runs_start x p), rn_cancelled = False, rn_work = x\<rparr>]"
    and "er_last (runs_start x p) = Suc (er_last p)"
proof -
  from assms have "list_all rn_cancelled (er_runs p)" by (auto simp: live_runs_def list_all_iff filter_empty_conv)
  with assms show "runs_ok (runs_start x p)"
    by (fastforce simp: runs_ok_def runs_start_def list_all_iff)
qed (use assms in \<open>simp_all add: live_runs_def runs_start_def Let_def\<close>)

lemma runs_find_Some: "runs_find i p = Some r \<Longrightarrow> r \<in> set (er_runs p) \<and> rn_id r = i"
  unfolding runs_find_def by (drule find_Some_conv)

lemma distinct_same_key:
  assumes "distinct (map f xs)" and "x \<in> set xs" and "\<forall>y \<in> set xs. f y = f x"
  shows "xs = [x]"
proof (cases xs)
  case (Cons a as)
  with assms have "as = []" by (cases as) auto
  with Cons assms(2) show ?thesis by simp
qed (use assms(2) in simp)

lemma runs_find_live:
  assumes "runs_ok p" and "runs_find i p = Some r" and "\<not> rn_cancelled r"
  shows "live_runs p = [r]" and "i = er_last p"
proof -
  from runs_find_Some [OF assms(2)] assms(3) have r: "r \<in> set (live_runs p)" "rn_id r = i" by (auto simp: live_runs_def)
  moreover have "distinct (map rn_id (live_runs p))"
    using assms(1) by (simp add: live_runs_def runs_ok_def distinct_map_filter)
  moreover have "\<forall>s \<in> set (live_runs p). rn_id s = rn_id r" using live_runs_latest [OF assms(1)] r by metis
  ultimately show "live_runs p = [r]" by (intro distinct_same_key)
  show "i = er_last p" using live_runs_latest [OF assms(1) r(1)] r(2) by simp
qed

text \<open>Work that goes on or ends leaves the rest of the pool alone.\<close>

lemma runs_set [simp]:
  assumes "runs_ok p"
  shows "runs_ok (runs_set i x p)" and "er_last (runs_set i x p) = er_last p"
  using assms by (auto simp: runs_ok_def runs_set_def list_all_iff comp_def if_distrib cong: if_cong)

lemma live_runs_set: "live_runs (runs_set i x p) = map (\<lambda>r. if rn_id r = i then r\<lparr>rn_work := x\<rparr> else r) (live_runs p)"
  by (auto simp: live_runs_def runs_set_def filter_map comp_def if_distrib cong: if_cong)

lemma runs_end [simp]:
  assumes "runs_ok p"
  shows "runs_ok (runs_end i p)" and "er_last (runs_end i p) = er_last p"
  using assms by (auto simp: runs_ok_def runs_end_def list_all_iff distinct_map_filter)

lemma live_runs_end: "live_runs (runs_end i p) = filter (\<lambda>r. rn_id r \<noteq> i) (live_runs p)"
  by (simp add: live_runs_def runs_end_def conj_commute)

text \<open>Ending cancelled work does not change what is live.\<close>

lemma live_runs_end_cancelled:
  assumes "runs_ok p" and "runs_find i p = Some r" and "rn_cancelled r"
  shows "live_runs (runs_end i p) = live_runs p"
proof -
  have "rn_id s \<noteq> i" if "s \<in> set (live_runs p)" for s
  proof
    assume "rn_id s = i"
    moreover have "distinct (map rn_id (er_runs p))" using assms(1) by (simp add: runs_ok_def)
    ultimately have "s = r" using runs_find_Some [OF assms(2)] that
      by (auto simp: live_runs_def dest: distinct_map [THEN iffD1, THEN conjunct2, THEN inj_onD])
    with that assms(3) show False by (simp add: live_runs_def)
  qed
  then show ?thesis by (simp add: live_runs_end filter_id_conv)
qed

text \<open>Looking up live work.\<close>

lemma runs_find_in:
  assumes "runs_ok p" and "r \<in> set (er_runs p)"
  shows "runs_find (rn_id r) p = Some r"
  using assms find_unique [of rn_id "er_runs p" r] by (simp add: runs_find_def runs_ok_def)

lemma runs_find_last: "runs_ok p \<Longrightarrow> live_runs p = [r] \<Longrightarrow> runs_find (rn_id r) p = Some r"
  by (rule runs_find_in) (auto simp: live_runs_def filter_eq_Cons_iff)

lemma runs_find_set:
  "runs_find i (runs_set i x p) = map_option (\<lambda>r. r\<lparr>rn_work := x\<rparr>) (runs_find i p)"
proof -
  have "List.find (\<lambda>r. rn_id r = i) (map (\<lambda>r. if rn_id r = i then r\<lparr>rn_work := x\<rparr> else r) rs) =
    map_option (\<lambda>r. r\<lparr>rn_work := x\<rparr>) (List.find (\<lambda>r. rn_id r = i) rs)" for rs
    by (induction rs) auto
  then show ?thesis by (simp add: runs_find_def runs_set_def)
qed

end
