(* ===== verification/Preview_Hooks.thy ===== *)
theory Preview_Hooks
  imports Effect_Runs Trigger_Dialog
begin

text \<open>
  The hooks behind the preview of a channel page (\<open>features/workflows/hooks\<close>): the email preview with its
  asynchronous renderer (\<open>use-email-preview.ts\<close>), the texts derived from it (\<open>use-preview-state.ts\<close>) and
  the subscriber the preview is made for (\<open>use-data-panel.ts\<close>).

  The renderer of the email library is a parameter: \<open>maily content values\<close> is the page it makes
  of the content after \<open>setVariableValues(values)\<close> (\<open>None\<close>: without that call), or \<open>None\<close> when it throws;
  \<open>num_text\<close> is the text of a number.
\<close>

section \<open>The email preview (\<open>use-email-preview.ts\<close>)\<close>

record email_inputs =
  ei_channel :: string
  ei_body :: string
  ei_contentJson :: "json option"
  ei_context :: "(string \<times> json) list option"

type_synonym renderer = "json \<Rightarrow> (string \<times> string) list option \<Rightarrow> string option"

text \<open>The two awaits of \<open>render\<close>; the second has the values already set.\<close>

datatype email_stage = AwaitImport | AwaitRender "(string \<times> string) list option"

record email_work =
  ew_id :: nat
  ew_inputs :: email_inputs
  ew_stage :: email_stage

record email_preview =
  em_html :: "string option"
  em_loading :: bool
  em_renderId :: nat
  em_inputs :: email_inputs
  em_runs :: "email_work effect_runs"

definition uses_maily :: "email_inputs \<Rightarrow> bool" where
  "uses_maily i \<longleftrightarrow> ei_channel i = ''email'' \<and> ei_contentJson i \<noteq> None"

definition context_or_empty :: "(string \<times> json) list option \<Rightarrow> (string \<times> json) list" where
  "context_or_empty c = (case c of None \<Rightarrow> [] | Some kvs \<Rightarrow> kvs)"

definition variable_values :: "(rat \<Rightarrow> string) \<Rightarrow> (string \<times> json) list option \<Rightarrow> (string \<times> string) list option" where
  "variable_values num_text previewContext =
     (case previewContext of None \<Rightarrow> None
      | Some kvs \<Rightarrow> (let stringValues = text_values num_text kvs in if length stringValues > 0 then Some stringValues else None))"

text \<open>The effect, after the cleanup of its last run.\<close>

definition email_effect :: "(rat \<Rightarrow> string) \<Rightarrow> email_inputs \<Rightarrow> email_preview \<Rightarrow> email_preview" where
  "email_effect num_text i st =
     (let st = st\<lparr>em_inputs := i, em_runs := runs_cleanup (em_runs st)\<rparr>
      in if ei_channel i \<noteq> ''email'' \<or> ei_contentJson i = None
         then st\<lparr>em_loading := False, em_html := Some (renderPreview num_text (ei_body i) (context_or_empty (ei_context i)))\<rparr>
         else
           (let k = Suc (em_renderId st)
            in st\<lparr>em_renderId := k, em_loading := True,
                  em_runs := runs_start \<lparr>ew_id = k, ew_inputs = i, ew_stage = AwaitImport\<rparr> (em_runs st)\<rparr>))"

definition useEmailPreview :: "(rat \<Rightarrow> string) \<Rightarrow> email_inputs \<Rightarrow> email_preview" where
  "useEmailPreview num_text i =
     email_effect num_text i \<lparr>em_html = None, em_loading = False, em_renderId = 0, em_inputs = i, em_runs = no_runs\<rparr>"

text \<open>\<open>catch\<close> and \<open>finally\<close>.\<close>

definition email_failed :: "email_work run \<Rightarrow> email_preview \<Rightarrow> email_preview" where
  "email_failed r st =
     (if rn_cancelled r then st else st\<lparr>em_html := None, em_loading := False\<rparr>)\<lparr>em_runs := runs_end (rn_id r) (em_runs st)\<rparr>"

text \<open>The import has succeeded or failed.\<close>

definition email_imported :: "(rat \<Rightarrow> string) \<Rightarrow> bool \<Rightarrow> nat \<Rightarrow> email_preview \<Rightarrow> email_preview" where
  "email_imported num_text success k st =
     (case runs_find k (em_runs st) of
        None \<Rightarrow> st
      | Some r \<Rightarrow>
          (case ew_stage (rn_work r) of
             AwaitRender _ \<Rightarrow> st
           | AwaitImport \<Rightarrow>
               (if \<not> success then email_failed r st
                else if rn_cancelled r then st\<lparr>em_runs := runs_end k (em_runs st)\<rparr>
                else st\<lparr>em_runs := runs_set k
                  ((rn_work r)\<lparr>ew_stage := AwaitRender (variable_values num_text (ei_context (ew_inputs (rn_work r))))\<rparr>)
                  (em_runs st)\<rparr>)))"

definition email_rendered :: "renderer \<Rightarrow> nat \<Rightarrow> email_preview \<Rightarrow> email_preview" where
  "email_rendered maily k st =
     (case runs_find k (em_runs st) of
        None \<Rightarrow> st
      | Some r \<Rightarrow>
          (case (ew_stage (rn_work r), ei_contentJson (ew_inputs (rn_work r))) of
             (AwaitRender values, Some contentJson) \<Rightarrow>
               (case maily contentJson values of
                  None \<Rightarrow> email_failed r st
                | Some emailHtml \<Rightarrow>
                    (let st1 = (if \<not> rn_cancelled r \<and> ew_id (rn_work r) = em_renderId st then st\<lparr>em_html := Some emailHtml\<rparr> else st);
                         st2 = (if \<not> rn_cancelled r then st1\<lparr>em_loading := False\<rparr> else st1)
                     in st2\<lparr>em_runs := runs_end k (em_runs st)\<rparr>))
           | _ \<Rightarrow> st))"

datatype email_event = NewInputs email_inputs | Imported bool nat | Rendered nat

fun email_step :: "renderer \<Rightarrow> (rat \<Rightarrow> string) \<Rightarrow> email_event \<Rightarrow> email_preview \<Rightarrow> email_preview" where
  "email_step maily num_text (NewInputs i) st = email_effect num_text i st"
| "email_step maily num_text (Imported success k) st = email_imported num_text success k st"
| "email_step maily num_text (Rendered k) st = email_rendered maily k st"

section \<open>Derived texts (\<open>use-preview-state.ts\<close>)\<close>

definition usePreviewSubject :: "(rat \<Rightarrow> string) \<Rightarrow> string \<Rightarrow> string \<Rightarrow> (string \<times> json) list option \<Rightarrow> string" where
  "usePreviewSubject num_text subject labelsSubject previewContext =
     (if js_trim subject = [] then labelsSubject
      else case previewContext of Some c \<Rightarrow> renderPreview num_text subject c | None \<Rightarrow> subject)"

definition useRenderedBody ::
    "(rat \<Rightarrow> string) \<Rightarrow> string \<Rightarrow> string \<Rightarrow> (string \<times> json) list option \<Rightarrow> string option \<Rightarrow> string" where
  "useRenderedBody num_text body channel previewContext mailyHtml =
     (if js_trim body = [] then ''Preview your '' @ channel @ '' content here.''
      else if truthy mailyHtml then str_or_empty mailyHtml
      else case previewContext of Some c \<Rightarrow> renderPreview num_text body c | None \<Rightarrow> body)"

definition useRenderedBodyDesktop :: "string option \<Rightarrow> string option" where
  "useRenderedBodyDesktop mailyHtml =
     (if \<not> truthy mailyHtml then None else map_option disableMobileBreakpoint mailyHtml)"

section \<open>The preview subscriber (\<open>use-data-panel.ts\<close>)\<close>

record data_panel =
  dp_preview :: "preview_subscriber option"
  dp_default :: "preview_subscriber option"
  dp_loading :: bool
  dp_error :: "string option"
  dp_search :: string
  dp_runs :: "unit effect_runs"

definition defaultPreview :: "user_profile option \<Rightarrow> preview_subscriber option" where
  "defaultPreview profile = map_option (\<lambda>p.
     \<lparr>ps_id = up_id p, ps_firstName = up_first_name p, ps_lastName = up_last_name p, ps_email = up_email p,
      ps_phone = None, ps_metadata = None\<rparr>) profile"

text \<open>The effect for another workflow, and the two answers to its request.\<close>

definition panel_effect :: "data_panel \<Rightarrow> data_panel" where
  "panel_effect st = st\<lparr>dp_loading := True, dp_error := None, dp_runs := runs_start () (runs_cleanup (dp_runs st))\<rparr>"

definition useDataPanel :: data_panel where
  "useDataPanel = panel_effect
     \<lparr>dp_preview = None, dp_default = None, dp_loading = True, dp_error = None, dp_search = [], dp_runs = no_runs\<rparr>"

definition panel_loaded :: "nat \<Rightarrow> user_profile option \<Rightarrow> data_panel \<Rightarrow> data_panel" where
  "panel_loaded k profile st =
     (case runs_find k (dp_runs st) of
        None \<Rightarrow> st
      | Some r \<Rightarrow>
          (if rn_cancelled r then st
           else st\<lparr>dp_default := defaultPreview profile, dp_preview := defaultPreview profile, dp_loading := False\<rparr>)
          \<lparr>dp_runs := runs_end k (dp_runs st)\<rparr>)"

definition panel_failed :: "nat \<Rightarrow> thrown \<Rightarrow> data_panel \<Rightarrow> data_panel" where
  "panel_failed k err st =
     (case runs_find k (dp_runs st) of
        None \<Rightarrow> st
      | Some r \<Rightarrow>
          (if rn_cancelled r then st
           else st\<lparr>dp_error := Some (error_message err ''Failed to load data panel''), dp_loading := False\<rparr>)
          \<lparr>dp_runs := runs_end k (dp_runs st)\<rparr>)"

definition selectPreviewSubscriber :: "preview_subscriber \<Rightarrow> data_panel \<Rightarrow> data_panel" where
  "selectPreviewSubscriber s st = st\<lparr>dp_preview := Some s\<rparr>"

definition resetToDefault :: "data_panel \<Rightarrow> data_panel" where
  "resetToDefault st = (case dp_default st of None \<Rightarrow> st | Some d \<Rightarrow> st\<lparr>dp_preview := Some d\<rparr>)"

datatype panel_event =
    PanelEffect
  | PanelLoaded nat "user_profile option"
  | PanelFailed nat thrown
  | PanelSelect preview_subscriber
  | PanelReset
  | PanelSearch string

fun panel_step :: "panel_event \<Rightarrow> data_panel \<Rightarrow> data_panel" where
  "panel_step PanelEffect st = panel_effect st"
| "panel_step (PanelLoaded k p) st = panel_loaded k p st"
| "panel_step (PanelFailed k e) st = panel_failed k e st"
| "panel_step (PanelSelect s) st = selectPreviewSubscriber s st"
| "panel_step PanelReset st = resetToDefault st"
| "panel_step (PanelSearch q) st = st\<lparr>dp_search := q\<rparr>"

section \<open>The preview is that of the latest inputs\<close>

definition current_values :: "(rat \<Rightarrow> string) \<Rightarrow> email_inputs \<Rightarrow> (string \<times> string) list option" where
  "current_values num_text i = variable_values num_text (ei_context i)"

text \<open>What the preview of some inputs is.\<close>

definition preview_of :: "renderer \<Rightarrow> (rat \<Rightarrow> string) \<Rightarrow> email_inputs \<Rightarrow> string option" where
  "preview_of maily num_text i =
     (if uses_maily i then Option.bind (ei_contentJson i) (\<lambda>c. maily c (current_values num_text i))
      else Some (renderPreview num_text (ei_body i) (context_or_empty (ei_context i))))"

text \<open>
  While the preview is loading, exactly the work for the present inputs is live; otherwise no work is,
  and the page shows the preview of the present inputs, or nothing when rendering them has failed.
\<close>

definition current_work :: "(rat \<Rightarrow> string) \<Rightarrow> email_preview \<Rightarrow> email_stage \<Rightarrow> email_work" where
  "current_work num_text st stage = \<lparr>ew_id = em_renderId st, ew_inputs = em_inputs st, ew_stage = stage\<rparr>"

definition email_inv :: "renderer \<Rightarrow> (rat \<Rightarrow> string) \<Rightarrow> email_preview \<Rightarrow> bool" where
  "email_inv maily num_text st \<longleftrightarrow>
     runs_ok (em_runs st) \<and> er_last (em_runs st) = em_renderId st \<and>
     (if em_loading st
      then uses_maily (em_inputs st) \<and>
        (\<exists>stage \<in> {AwaitImport, AwaitRender (current_values num_text (em_inputs st))}.
          live_runs (em_runs st) =
            [\<lparr>rn_id = em_renderId st, rn_cancelled = False, rn_work = current_work num_text st stage\<rparr>])
      else live_runs (em_runs st) = [] \<and>
        (em_html st = preview_of maily num_text (em_inputs st) \<or> uses_maily (em_inputs st) \<and> em_html st = None))"

lemma email_effect_fallback:
  "\<not> uses_maily i \<Longrightarrow> email_effect num_text i st =
    st\<lparr>em_inputs := i, em_runs := runs_cleanup (em_runs st), em_loading := False,
       em_html := Some (renderPreview num_text (ei_body i) (context_or_empty (ei_context i)))\<rparr>"
  by (auto simp: email_effect_def uses_maily_def Let_def)

lemma email_effect_maily:
  "uses_maily i \<Longrightarrow> email_effect num_text i st =
    st\<lparr>em_inputs := i, em_renderId := Suc (em_renderId st), em_loading := True,
       em_runs := runs_start \<lparr>ew_id = Suc (em_renderId st), ew_inputs = i, ew_stage = AwaitImport\<rparr> (runs_cleanup (em_runs st))\<rparr>"
  by (auto simp: email_effect_def uses_maily_def Let_def)

lemma email_inv_effect: "runs_ok (em_runs st) \<Longrightarrow> er_last (em_runs st) = em_renderId st \<Longrightarrow>
    email_inv maily num_text (email_effect num_text i st)"
  by (cases "uses_maily i") (simp_all add: email_effect_fallback email_effect_maily email_inv_def preview_of_def current_work_def)

lemma email_inv_init: "email_inv maily num_text (useEmailPreview num_text i)"
  by (simp add: useEmailPreview_def email_inv_effect)

text \<open>An answer to work that has been cancelled changes nothing but the pool.\<close>

lemma email_inv_cancelled:
  assumes "email_inv maily num_text st" and "runs_find k (em_runs st) = Some r" and "rn_cancelled r"
  shows "email_inv maily num_text (st\<lparr>em_runs := runs_end k (em_runs st)\<rparr>)"
proof -
  have ok: "runs_ok (em_runs st)" using assms(1) by (simp add: email_inv_def)
  from live_runs_end_cancelled [OF ok assms(2,3)] ok assms(1) show ?thesis
    by (cases "em_loading st") (auto simp: email_inv_def current_work_def)
qed

text \<open>The work that is not cancelled is that of the present inputs, and the preview is loading.\<close>

lemma email_inv_live:
  assumes "email_inv maily num_text st" and "runs_find k (em_runs st) = Some r" and "\<not> rn_cancelled r"
  shows "em_loading st" and "uses_maily (em_inputs st)" and "k = em_renderId st" and "live_runs (em_runs st) = [r]"
    and "\<exists>stage \<in> {AwaitImport, AwaitRender (current_values num_text (em_inputs st))}.
      r = \<lparr>rn_id = em_renderId st, rn_cancelled = False, rn_work = current_work num_text st stage\<rparr>"
proof -
  have ok: "runs_ok (em_runs st)" and i: "er_last (em_runs st) = em_renderId st"
    using assms(1) by (simp_all add: email_inv_def)
  from runs_find_live [OF ok assms(2,3)] have l: "live_runs (em_runs st) = [r]" and k: "k = er_last (em_runs st)" .
  from l assms(1) show "em_loading st" by (auto simp: email_inv_def split: if_splits)
  with assms(1) l show "uses_maily (em_inputs st)"
    "\<exists>stage \<in> {AwaitImport, AwaitRender (current_values num_text (em_inputs st))}.
      r = \<lparr>rn_id = em_renderId st, rn_cancelled = False, rn_work = current_work num_text st stage\<rparr>"
    by (auto simp: email_inv_def)
  from l k i show "live_runs (em_runs st) = [r]" "k = em_renderId st" by simp_all
qed

text \<open>Work that ends empties the pool of live work.\<close>

lemma email_inv_ended:
  assumes "email_inv maily num_text st" and "runs_find k (em_runs st) = Some r" and "\<not> rn_cancelled r"
    and "h = preview_of maily num_text (em_inputs st) \<or> h = None"
  shows "email_inv maily num_text (st\<lparr>em_html := h, em_loading := False, em_runs := runs_end k (em_runs st)\<rparr>)"
  using assms(1,4) email_inv_live [OF assms(1-3)] runs_find_Some [OF assms(2)]
  by (auto simp: email_inv_def live_runs_end)

lemma email_inv_failed:
  assumes "email_inv maily num_text st" and "runs_find k (em_runs st) = Some r"
  shows "email_inv maily num_text (email_failed r st)"
  using email_inv_cancelled [OF assms] email_inv_ended [OF assms, of None] runs_find_Some [OF assms(2)]
  by (simp add: email_failed_def)

lemma email_inv_imported:
  assumes "email_inv maily num_text st"
  shows "email_inv maily num_text (email_imported num_text success k st)"
proof (cases "runs_find k (em_runs st)")
  case (Some r)
  show ?thesis
  proof (cases "ew_stage (rn_work r) = AwaitImport \<and> success \<and> \<not> rn_cancelled r")
    case True
    then have "\<not> rn_cancelled r" by simp
    from email_inv_live [OF assms Some this] True assms Some show ?thesis
      by (auto simp: email_inv_def email_imported_def live_runs_set current_work_def current_values_def)
  next
    case False
    with assms Some email_inv_cancelled [OF assms Some] email_inv_failed [OF assms Some] show ?thesis
      by (auto simp: email_imported_def split: email_stage.split)
  qed
qed (use assms in \<open>simp add: email_imported_def\<close>)

lemma email_inv_rendered:
  assumes "email_inv maily num_text st"
  shows "email_inv maily num_text (email_rendered maily k st)"
proof (cases "runs_find k (em_runs st)")
  case (Some r)
  show ?thesis
  proof (cases "rn_cancelled r")
    case True
    with assms Some email_inv_cancelled [OF assms Some] email_inv_failed [OF assms Some] show ?thesis
      by (auto simp: email_rendered_def Let_def split: email_stage.split option.split)
  next
    case False
    have "preview_of maily num_text (em_inputs st) = Some h"
      if "ew_stage (rn_work r) = AwaitRender v" "ei_contentJson (ew_inputs (rn_work r)) = Some c" "maily c v = Some h" for v c h
      using that email_inv_live [OF assms Some False] by (auto simp: preview_of_def current_work_def)
    with False email_inv_ended [OF assms Some False] email_inv_failed [OF assms Some] email_inv_live(5) [OF assms Some False] assms Some
    show ?thesis
      by (auto simp: email_rendered_def Let_def current_work_def split: email_stage.split option.split)
  qed
qed (use assms in \<open>simp add: email_rendered_def\<close>)

interpretation email: machine "email_step maily num_text" "email_inv maily num_text" for maily num_text
proof
  show "email_inv maily num_text st \<Longrightarrow> email_inv maily num_text (email_step maily num_text e st)" for st e
    by (cases e) (auto simp: email_inv_imported email_inv_rendered intro!: email_inv_effect simp: email_inv_def [of _ _ st])
qed

text \<open>The answers to the present work finish it.\<close>

lemma email_answers:
  assumes "email_inv maily num_text st" and "em_loading st"
  defines "st' \<equiv> email_step maily num_text (Rendered (em_renderId st))
    (email_step maily num_text (Imported True (em_renderId st)) st)"
  shows "\<not> em_loading st'" and "em_html st' = preview_of maily num_text (em_inputs st)" and "em_inputs st' = em_inputs st"
proof -
  let ?k = "em_renderId st" and ?p = "em_runs st"
  from assms(1,2) obtain stage where stage: "stage = AwaitImport \<or> stage = AwaitRender (current_values num_text (em_inputs st))"
    and u: "uses_maily (em_inputs st)" and ok: "runs_ok ?p" "er_last ?p = ?k"
    and l: "live_runs ?p = [\<lparr>rn_id = ?k, rn_cancelled = False, rn_work = current_work num_text st stage\<rparr>]"
    by (auto simp: email_inv_def)
  let ?done = "AwaitRender (current_values num_text (em_inputs st))"
  obtain c where c: "ei_contentJson (em_inputs st) = Some c" using u by (auto simp: uses_maily_def)
  have f: "runs_find ?k ?p = Some \<lparr>rn_id = ?k, rn_cancelled = False, rn_work = current_work num_text st stage\<rparr>"
    using runs_find_last [OF ok(1) l] by simp
  define st1 where "st1 = email_step maily num_text (Imported True ?k) st"
  have st1: "em_inputs st1 = em_inputs st" "em_renderId st1 = ?k" "em_loading st1"
    "runs_find ?k (em_runs st1) = Some \<lparr>rn_id = ?k, rn_cancelled = False, rn_work = current_work num_text st ?done\<rparr>"
    using stage f assms(2)
    by (auto simp: st1_def email_imported_def current_work_def current_values_def runs_find_set)
  have "preview_of maily num_text (em_inputs st) = maily c (current_values num_text (em_inputs st))"
    using u c by (simp add: preview_of_def)
  then show "\<not> em_loading st'" "em_html st' = preview_of maily num_text (em_inputs st)" "em_inputs st' = em_inputs st"
    unfolding st'_def st1_def [symmetric] using st1 c
    by (auto simp: email_rendered_def current_work_def email_failed_def Let_def split: option.split)
qed

text \<open>C14: Whatever the order in which inputs change and renderers answer, the email preview is never that of earlier
  inputs once it has stopped loading: it is the preview of the present ones, or nothing when rendering them has
  failed.  While it is loading, the two answers of the present renderer are still to come and complete it.\<close>

theorem email_preview_current:
  "let st = fold (email_step maily num_text) es (useEmailPreview num_text i);
       st' = email_step maily num_text (Rendered (em_renderId st)) (email_step maily num_text (Imported True (em_renderId st)) st)
   in if em_loading st
      then \<not> em_loading st' \<and> em_html st' = preview_of maily num_text (em_inputs st) \<and> em_inputs st' = em_inputs st
      else em_html st = preview_of maily num_text (em_inputs st) \<or> uses_maily (em_inputs st) \<and> em_html st = None"
proof -
  let ?st = "fold (email_step maily num_text) es (useEmailPreview num_text i)"
  have "email_inv maily num_text ?st" by (intro email.run email_inv_init)
  with email_answers [OF this] show ?thesis by (auto simp: Let_def email_inv_def)
qed

section \<open>The preview subscriber is that of the latest load\<close>

definition panel_inv :: "data_panel \<Rightarrow> bool" where
  "panel_inv st \<longleftrightarrow> runs_ok (dp_runs st) \<and> (dp_loading st \<longleftrightarrow> live_runs (dp_runs st) \<noteq> [])"

lemma panel_answer_inv:
  assumes "panel_inv st" and "runs_find k (dp_runs st) = Some r"
  shows "panel_inv ((if rn_cancelled r then st else (g st)\<lparr>dp_loading := False\<rparr>)\<lparr>dp_runs := runs_end k (dp_runs st)\<rparr>)"
proof (cases "rn_cancelled r")
  case True
  with assms live_runs_end_cancelled [of "dp_runs st" k r] show ?thesis by (simp add: panel_inv_def)
next
  case False
  with assms runs_find_live [of "dp_runs st" k r] runs_find_Some [OF assms(2)] show ?thesis
    by (simp add: panel_inv_def live_runs_end)
qed

interpretation panel: machine panel_step panel_inv
proof
  fix st e
  assume inv: "panel_inv st"
  show "panel_inv (panel_step e st)"
  proof (cases e)
    case (PanelLoaded k p)
    with inv panel_answer_inv [OF inv, of k _ "\<lambda>st. st\<lparr>dp_default := defaultPreview p, dp_preview := defaultPreview p\<rparr>"]
    show ?thesis by (auto simp: panel_loaded_def split: option.split)
  next
    case (PanelFailed k err)
    with inv panel_answer_inv [OF inv, of k _ "\<lambda>st. st\<lparr>dp_error := Some (error_message err ''Failed to load data panel'')\<rparr>"]
    show ?thesis by (auto simp: panel_failed_def split: option.split)
  next
    case PanelEffect
    with inv show ?thesis by (simp add: panel_inv_def panel_effect_def)
  qed (use inv in \<open>simp_all add: panel_inv_def selectPreviewSubscriber_def resetToDefault_def split: option.split\<close>)
qed

lemma panel_inv_init: "panel_inv useDataPanel"
  by (simp add: useDataPanel_def panel_effect_def panel_inv_def)

text \<open>What the page shows of the panel.\<close>

definition panel_view where
  "panel_view st = (dp_preview st, dp_default st, dp_loading st, dp_error st, dp_search st)"

text \<open>An answer for a workflow the page has left changes nothing that is shown.\<close>

lemma stale_profile_ignored:
  assumes "panel_inv st" and "k \<noteq> er_last (dp_runs st)"
  shows "panel_view (panel_step (PanelLoaded k p) st) = panel_view st"
    and "panel_view (panel_step (PanelFailed k e) st) = panel_view st"
  using runs_find_live(2) [of "dp_runs st" k] assms
  by (auto simp: panel_inv_def panel_loaded_def panel_failed_def panel_view_def split: option.split)

end
