(* ===== verification/Workflow_List.thy ===== *)
theory Workflow_List
  imports Workflow_Types
begin

text \<open>
  The list of workflows (\<open>features/workflows/hooks/use-workflow-list.ts\<close>): loading, search, and the actions
  that pause, resume and archive a workflow and then load the list again.

  A request under way is an entry of \<open>wl_tasks\<close>; an answer may come for any of them.  \<open>wl_calls\<close> is the
  log of the requests sent.  A load remembers what awaits it (\<open>after_load\<close>).
\<close>

section \<open>Search\<close>

text \<open>\<open>normalizeDefinition\<close>: an absent trigger event becomes the empty string.\<close>

definition normalizeDefinition :: "wf_definition option \<Rightarrow> wf_definition option" where
  "normalizeDefinition definition1 = map_option (\<lambda>d.
     \<lparr>wd_trigger = Some \<lparr>wt_event = Some (case wd_trigger d of None \<Rightarrow> [] | Some t \<Rightarrow> str_or_empty (wt_event t))\<rparr>,
      wd_nodes = wd_nodes d, wd_edges = wd_edges d, wd_payload = None\<rparr>) definition1"

definition definition_event :: "wf_definition option \<Rightarrow> string" where
  "definition_event d =
     (case d of None \<Rightarrow> [] | Some d \<Rightarrow> (case wd_trigger d of None \<Rightarrow> [] | Some t \<Rightarrow> str_or_empty (wt_event t)))"

definition item_matches :: "string \<Rightarrow> workflow_item \<Rightarrow> bool" where
  "item_matches term item =
     (let triggerEvent = js_or (str_or_empty (wfi_triggerEvent item)) (definition_event (normalizeDefinition (wfi_definition item)))
      in js_includes (js_lower (wfi_name item)) term \<or> js_includes (js_lower (wfi_key item)) term \<or>
         js_includes (js_lower triggerEvent) term \<or>
         list_ex (\<lambda>channel. js_includes (js_lower channel) term) (case wfi_channels item of None \<Rightarrow> [] | Some cs \<Rightarrow> cs))"

definition visibleItems :: "workflow_item list \<Rightarrow> string \<Rightarrow> workflow_item list" where
  "visibleItems items search =
     (let term = js_lower (js_trim search)
      in if term = [] then items else filter (item_matches term) items)"

section \<open>State and requests\<close>

datatype after_load = Nothing_after | After_pause | After_resume | After_archive

datatype list_task = Loading after_load | Pausing string | Resuming string | Archiving string

record workflow_list =
  wl_items :: "workflow_item list"
  wl_loading :: bool
  wl_error :: "string option"
  wl_search :: string
  wl_mutatingID :: "string option"
  wl_pausingItem :: "workflow_item option"
  wl_deletingItem :: "workflow_item option"
  wl_tasks :: "list_task list"
  wl_calls :: "list_task list"

definition send :: "list_task \<Rightarrow> workflow_list \<Rightarrow> workflow_list" where
  "send t st = st\<lparr>wl_tasks := wl_tasks st @ [t], wl_calls := wl_calls st @ [t]\<rparr>"

definition fetchWorkflows :: "after_load \<Rightarrow> workflow_list \<Rightarrow> workflow_list" where
  "fetchWorkflows a st = send (Loading a) (st\<lparr>wl_loading := True, wl_error := None\<rparr>)"

definition useWorkflowList :: workflow_list where
  "useWorkflowList = fetchWorkflows Nothing_after
     \<lparr>wl_items = [], wl_loading = True, wl_error = None, wl_search = [], wl_mutatingID = None, wl_pausingItem = None,
      wl_deletingItem = None, wl_tasks = [], wl_calls = []\<rparr>"

text \<open>The \<open>finally\<close> of whoever awaited the load.\<close>

definition after_loading :: "after_load \<Rightarrow> workflow_list \<Rightarrow> workflow_list" where
  "after_loading a st =
     (case a of
        Nothing_after \<Rightarrow> st
      | After_pause \<Rightarrow> st\<lparr>wl_mutatingID := None, wl_pausingItem := None\<rparr>
      | After_resume \<Rightarrow> st\<lparr>wl_mutatingID := None\<rparr>
      | After_archive \<Rightarrow> st\<lparr>wl_mutatingID := None, wl_deletingItem := None\<rparr>)"

text \<open>An answer: what was thrown, or the data, \<open>None\<close> when it is no array (and for the actions).\<close>

type_synonym list_answer = "thrown + workflow_item list option"

definition load_answered :: "after_load \<Rightarrow> list_answer \<Rightarrow> workflow_list \<Rightarrow> workflow_list" where
  "load_answered a ans st =
     (let st1 = (case ans of
            Inl err \<Rightarrow> st\<lparr>wl_error := Some (error_message err ''Failed to load workflows''), wl_items := []\<rparr>
          | Inr data \<Rightarrow> st\<lparr>wl_items := (case data of None \<Rightarrow> [] | Some items \<Rightarrow> items)\<rparr>)
      in after_loading a (st1\<lparr>wl_loading := False\<rparr>))"

text \<open>An action's answer: the list is loaded again, or the message is shown and the action is over.\<close>

definition action_answered :: "after_load \<Rightarrow> string \<Rightarrow> list_answer \<Rightarrow> workflow_list \<Rightarrow> workflow_list" where
  "action_answered a fallback ans st =
     (case ans of
        Inl err \<Rightarrow> after_loading a (st\<lparr>wl_error := Some (error_message err fallback)\<rparr>)
      | Inr _ \<Rightarrow> fetchWorkflows a st)"

fun task_answered :: "list_task \<Rightarrow> list_answer \<Rightarrow> workflow_list \<Rightarrow> workflow_list" where
  "task_answered (Loading a) ans st = load_answered a ans st"
| "task_answered (Pausing i) ans st = action_answered After_pause ''Failed to pause workflow'' ans st"
| "task_answered (Resuming i) ans st = action_answered After_resume ''Failed to resume workflow'' ans st"
| "task_answered (Archiving i) ans st = action_answered After_archive ''Failed to archive workflow'' ans st"

section \<open>Actions\<close>

definition togglePause :: "workflow_item \<Rightarrow> workflow_list \<Rightarrow> workflow_list" where
  "togglePause item st = send (Pausing (wfi_id item)) (st\<lparr>wl_error := None, wl_mutatingID := Some (wfi_id item)\<rparr>)"

definition requestPause :: "workflow_item \<Rightarrow> workflow_list \<Rightarrow> workflow_list" where
  "requestPause item st =
     (if wfi_status item = Some ''paused''
      then send (Resuming (wfi_id item)) (st\<lparr>wl_mutatingID := Some (wfi_id item)\<rparr>)
      else st\<lparr>wl_pausingItem := Some item\<rparr>)"

definition cancelPause :: "workflow_list \<Rightarrow> workflow_list" where
  "cancelPause st = st\<lparr>wl_pausingItem := None\<rparr>"

definition deleteWorkflow :: "string \<Rightarrow> workflow_list \<Rightarrow> workflow_list" where
  "deleteWorkflow i st = send (Archiving i) (st\<lparr>wl_error := None, wl_mutatingID := Some i\<rparr>)"

definition requestDelete :: "workflow_item \<Rightarrow> workflow_list \<Rightarrow> workflow_list" where
  "requestDelete item st = st\<lparr>wl_deletingItem := Some item\<rparr>"

definition cancelDelete :: "workflow_list \<Rightarrow> workflow_list" where
  "cancelDelete st = st\<lparr>wl_deletingItem := None\<rparr>"

datatype list_event =
    Search string
  | TogglePause workflow_item
  | RequestPause workflow_item
  | CancelPause
  | DeleteWorkflow string
  | RequestDelete workflow_item
  | CancelDelete
  | Refetch
  | Answer nat list_answer

text \<open>The answer to the request with the given place among those under way.\<close>

definition answer_task :: "nat \<Rightarrow> list_answer \<Rightarrow> workflow_list \<Rightarrow> workflow_list" where
  "answer_task n ans st =
     (if n < length (wl_tasks st)
      then task_answered (wl_tasks st ! n) ans (st\<lparr>wl_tasks := take n (wl_tasks st) @ drop (Suc n) (wl_tasks st)\<rparr>)
      else st)"

fun list_step :: "list_event \<Rightarrow> workflow_list \<Rightarrow> workflow_list" where
  "list_step (Search s) st = st\<lparr>wl_search := s\<rparr>"
| "list_step (TogglePause item) st = togglePause item st"
| "list_step (RequestPause item) st = requestPause item st"
| "list_step CancelPause st = cancelPause st"
| "list_step (DeleteWorkflow i) st = deleteWorkflow i st"
| "list_step (RequestDelete item) st = requestDelete item st"
| "list_step CancelDelete st = cancelDelete st"
| "list_step Refetch st = fetchWorkflows Nothing_after st"
| "list_step (Answer n ans) st = answer_task n ans st"

section \<open>The page comes to rest\<close>

text \<open>A spinner is backed by a request under way.\<close>

definition is_load :: "list_task \<Rightarrow> bool" where
  "is_load t \<longleftrightarrow> (case t of Loading _ \<Rightarrow> True | _ \<Rightarrow> False)"

definition of_action :: "list_task \<Rightarrow> bool" where
  "of_action t \<longleftrightarrow> t \<noteq> Loading Nothing_after"

definition list_inv :: "workflow_list \<Rightarrow> bool" where
  "list_inv st \<longleftrightarrow>
     (wl_loading st \<longrightarrow> list_ex is_load (wl_tasks st)) \<and> (wl_mutatingID st \<noteq> None \<longrightarrow> list_ex of_action (wl_tasks st))"

lemmas list_ops = send_def fetchWorkflows_def togglePause_def requestPause_def cancelPause_def deleteWorkflow_def
  requestDelete_def cancelDelete_def after_loading_def load_answered_def action_answered_def Let_def

lemma list_ex_without:
  assumes "n < length ts"
  shows "list_ex P ts \<longleftrightarrow> P (ts ! n) \<or> list_ex P (take n ts @ drop (Suc n) ts)"
proof -
  have "list_ex P ts \<longleftrightarrow> list_ex P (take n ts @ ts ! n # drop (Suc n) ts)"
    using id_take_nth_drop [OF assms] by simp
  then show ?thesis by auto
qed

lemma answered_inv:
  assumes "list_inv (st\<lparr>wl_tasks := t # ts\<rparr>)"
  shows "list_inv (task_answered t ans (st\<lparr>wl_tasks := ts\<rparr>))"
  using assms
  by (cases t; cases ans) (auto simp: list_inv_def list_ops is_load_def of_action_def split: after_load.split)

lemma answer_task_inv:
  assumes "list_inv st"
  shows "list_inv (answer_task n ans st)"
proof (cases "n < length (wl_tasks st)")
  case True
  let ?ts = "take n (wl_tasks st) @ drop (Suc n) (wl_tasks st)"
  have "list_inv (st\<lparr>wl_tasks := wl_tasks st ! n # ?ts\<rparr>)"
    using assms list_ex_without [OF True] by (auto simp: list_inv_def)
  from answered_inv [OF this] True show ?thesis by (simp add: answer_task_def)
qed (use assms in \<open>simp add: answer_task_def\<close>)

interpretation listing: machine list_step list_inv
proof
  show "list_inv st \<Longrightarrow> list_inv (list_step e st)" for st e
  proof (cases e)
    case (Answer n ans)
    then show "list_inv st \<Longrightarrow> list_inv (list_step e st)" by (simp add: answer_task_inv)
  qed (auto simp: list_inv_def list_ops is_load_def of_action_def)
qed

lemma list_inv_init: "list_inv useWorkflowList"
  by (simp add: useWorkflowList_def list_inv_def list_ops is_load_def)

text \<open>How many answers are still to come: an action is answered and then its load.\<close>

definition task_weight :: "list_task \<Rightarrow> nat" where
  "task_weight t = (if is_load t then 1 else 2)"

definition pending_answers :: "workflow_list \<Rightarrow> nat" where
  "pending_answers st = (\<Sum>t \<leftarrow> wl_tasks st. task_weight t)"

lemma answer_decreases:
  assumes "wl_tasks st \<noteq> []"
  shows "pending_answers (answer_task 0 ans st) < pending_answers st"
proof -
  obtain t ts where ts: "wl_tasks st = t # ts" using assms by (cases "wl_tasks st") auto
  then show ?thesis
    by (cases t; cases ans)
      (auto simp: answer_task_def pending_answers_def task_weight_def is_load_def list_ops Let_def split: after_load.split)
qed

text \<open>Answering the oldest request with what \<open>reply\<close> says, as long as there is one.\<close>

function answer_all :: "(list_task \<Rightarrow> list_answer) \<Rightarrow> workflow_list \<Rightarrow> workflow_list" where
  "answer_all reply st =
     (case wl_tasks st of [] \<Rightarrow> st | t # _ \<Rightarrow> answer_all reply (answer_task 0 (reply t) st))"
  by pat_completeness auto
termination
  by (relation "measure (\<lambda>(reply, st). pending_answers st)")
    (auto intro!: answer_decreases)

declare answer_all.simps [simp del]

lemma answer_all_inv: "list_inv st \<Longrightarrow> list_inv (answer_all reply st) \<and> wl_tasks (answer_all reply st) = []"
proof (induction reply st rule: answer_all.induct)
  case (1 reply st)
  then show ?case by (subst (1 2) answer_all.simps) (auto simp: answer_task_inv split: list.split)
qed

text \<open>However the user has acted and the answers have come so far, once the requests still under way are
  answered, whether they succeed or fail, nothing is loading and no workflow is marked as being changed.\<close>

theorem list_comes_to_rest:
  "let st = answer_all reply (fold list_step es useWorkflowList)
   in wl_tasks st = [] \<and> \<not> wl_loading st \<and> wl_mutatingID st = None"
proof -
  have "list_inv (fold list_step es useWorkflowList)" by (intro listing.run list_inv_init)
  from answer_all_inv [OF this, of reply] show ?thesis by (auto simp: Let_def list_inv_def)
qed

text \<open>Loads are not ordered: when a workflow is paused while the first load is under way and the load after the
  pause is answered first, the late answer puts the list from before the pause back, without an error.\<close>

theorem late_answer_wins:
  "let st = fold list_step
       [TogglePause item, Answer 1 (Inr None), Answer 1 (Inr (Some after)), Answer 0 (Inr (Some before))] useWorkflowList
   in wl_items st = before \<and> \<not> wl_loading st \<and> wl_error st = None \<and> wl_tasks st = [] \<and>
      wl_calls st = [Loading Nothing_after, Pausing (wfi_id item), Loading After_pause]"
  by (simp add: useWorkflowList_def answer_task_def list_ops Let_def)

section \<open>Search\<close>

text \<open>The search keeps the order of the list.\<close>

lemma visible_subseq: "subseq (visibleItems items search) items"
  by (simp add: visibleItems_def Let_def subseq_filter_left)

end
