(* ===== verification/Provider_Form.thy ===== *)
theory Provider_Form
  imports Workflow_Types "HOL-Library.Multiset"
begin

text \<open>
  The integrations page (\<open>features/integrations\<close>): the catalogue of providers
  (\<open>constants/supported-providers.ts\<close>), the form that connects or changes one
  (\<open>hooks/use-provider-form.ts\<close>), and the cards of the page (\<open>IntegrationManagement.tsx\<close>,
  \<open>components/ConnectedProviderCard.tsx\<close>, \<open>components/ProviderConnectDialog.tsx\<close>).

  \<open>num_text\<close> is the text of a number and \<open>js_number\<close> what \<open>Number\<close> makes of a text.  The
  description of a provider, a text that is only shown, is left out of the catalogue.
\<close>

section \<open>Data\<close>

record field_definition =
  fd_key :: string
  fd_label :: string
  fd_placeholder :: string
  fd_type :: "string option"
  fd_sourceKey :: "string option"
  fd_location :: string

record provider_definition =
  pd_key :: string
  pd_label :: string
  pd_channel :: string
  pd_icon :: string
  pd_credentials :: "field_definition list"
  pd_config :: "field_definition list"

record provider_item =
  pi_id :: string
  pi_environment_id :: "string option"
  pi_name :: string
  pi_channel :: string
  pi_config :: "(string \<times> json) list option"
  pi_has_credentials :: "bool option"
  pi_is_active :: bool
  pi_is_primary :: bool
  pi_created_at :: "string option"
  pi_updated_at :: "string option"

record provider_payload =
  pp_name :: string
  pp_channel :: string
  pp_credentials :: "(string \<times> json) list"
  pp_config :: "(string \<times> json) list"

datatype state_action = Enable | Disable | Set_primary

fun action_text :: "state_action \<Rightarrow> string" where
  "action_text Enable = ''enable''"
| "action_text Disable = ''disable''"
| "action_text Set_primary = ''set_primary''"

section \<open>The catalogue (\<open>supported-providers.ts\<close>)\<close>

definition SUPPORTED_PROVIDERS :: "provider_definition list" where
  "SUPPORTED_PROVIDERS =
     [\<lparr>pd_key = ''sendgrid'', pd_label = ''SendGrid'', pd_channel = ''email'', pd_icon = ''simple-icons:sendgrid'',
        pd_credentials =
            [\<lparr>fd_key = ''api_key'', fd_label = ''API key'', fd_placeholder = ''SG.xxxxx'', fd_type = Some ''password'',
              fd_sourceKey = None, fd_location = ''credentials''\<rparr>],
        pd_config =
            [\<lparr>fd_key = ''sender_name'', fd_label = ''Sender name'', fd_placeholder = ''My App'', fd_type = None,
              fd_sourceKey = None, fd_location = ''config''\<rparr>,
             \<lparr>fd_key = ''from_email'', fd_label = ''Sender email'', fd_placeholder = ''no-reply@example.com'', fd_type = None,
              fd_sourceKey = None, fd_location = ''config''\<rparr>]\<rparr>,
      \<lparr>pd_key = ''brevo'', pd_label = ''Brevo'', pd_channel = ''email'', pd_icon = ''simple-icons:brevo'',
        pd_credentials =
            [\<lparr>fd_key = ''api_key'', fd_label = ''API key'', fd_placeholder = ''xkeysib-xxxxx'', fd_type = Some ''password'',
              fd_sourceKey = None, fd_location = ''credentials''\<rparr>],
        pd_config =
            [\<lparr>fd_key = ''sender_name'', fd_label = ''Sender name'', fd_placeholder = ''My App'', fd_type = None,
              fd_sourceKey = None, fd_location = ''config''\<rparr>,
             \<lparr>fd_key = ''from_email'', fd_label = ''Sender email'', fd_placeholder = ''no-reply@example.com'', fd_type = None,
              fd_sourceKey = Some ''from'', fd_location = ''config''\<rparr>]\<rparr>,
      \<lparr>pd_key = ''smtp'', pd_label = ''SMTP'', pd_channel = ''email'', pd_icon = ''mdi:email-fast-outline'',
        pd_credentials =
            [\<lparr>fd_key = ''username'', fd_label = ''Username'', fd_placeholder = ''smtp-user'', fd_type = None,
              fd_sourceKey = None, fd_location = ''credentials''\<rparr>,
             \<lparr>fd_key = ''password'', fd_label = ''Password'', fd_placeholder = ''smtp-password'', fd_type = Some ''password'',
              fd_sourceKey = None, fd_location = ''credentials''\<rparr>],
        pd_config =
            [\<lparr>fd_key = ''host'', fd_label = ''Host'', fd_placeholder = ''smtp.example.com'', fd_type = None,
              fd_sourceKey = None, fd_location = ''config''\<rparr>,
             \<lparr>fd_key = ''port'', fd_label = ''Port'', fd_placeholder = ''587'', fd_type = Some ''number'',
              fd_sourceKey = None, fd_location = ''config''\<rparr>,
             \<lparr>fd_key = ''sender_name'', fd_label = ''Sender name'', fd_placeholder = ''My App'', fd_type = None,
              fd_sourceKey = None, fd_location = ''config''\<rparr>,
             \<lparr>fd_key = ''from_email'', fd_label = ''Sender email'', fd_placeholder = ''no-reply@example.com'', fd_type = None,
              fd_sourceKey = Some ''from'', fd_location = ''config''\<rparr>]\<rparr>,
      \<lparr>pd_key = ''termii'', pd_label = ''Termii'', pd_channel = ''sms'', pd_icon = ''mdi:message-text-fast-outline'',
        pd_credentials =
            [\<lparr>fd_key = ''api_key'', fd_label = ''API key'', fd_placeholder = ''termii-api-key'', fd_type = Some ''password'',
              fd_sourceKey = None, fd_location = ''credentials''\<rparr>],
        pd_config =
            [\<lparr>fd_key = ''sender_id'', fd_label = ''Sender ID'', fd_placeholder = ''IWIFUNNI'', fd_type = None,
              fd_sourceKey = None, fd_location = ''config''\<rparr>]\<rparr>,
      \<lparr>pd_key = ''brevo-sms'', pd_label = ''Brevo SMS'', pd_channel = ''sms'', pd_icon = ''simple-icons:brevo'',
        pd_credentials =
            [\<lparr>fd_key = ''api_key'', fd_label = ''API key'', fd_placeholder = ''xkeysib-xxxxx'', fd_type = Some ''password'',
              fd_sourceKey = None, fd_location = ''credentials''\<rparr>],
        pd_config =
            [\<lparr>fd_key = ''sender_id'', fd_label = ''Sender ID'', fd_placeholder = ''IWIFUNNI'', fd_type = None,
              fd_sourceKey = None, fd_location = ''config''\<rparr>]\<rparr>,
      \<lparr>pd_key = ''twilio'', pd_label = ''Twilio'', pd_channel = ''sms'', pd_icon = ''simple-icons:twilio'',
        pd_credentials =
            [\<lparr>fd_key = ''account_sid'', fd_label = ''Account SID'', fd_placeholder = ''ACxxxxxxxx'', fd_type = None,
              fd_sourceKey = None, fd_location = ''credentials''\<rparr>,
             \<lparr>fd_key = ''auth_token'', fd_label = ''Auth token'', fd_placeholder = ''twilio-auth-token'', fd_type = Some ''password'',
              fd_sourceKey = None, fd_location = ''credentials''\<rparr>],
        pd_config =
            [\<lparr>fd_key = ''from_number'', fd_label = ''From number'', fd_placeholder = ''+1234567890'', fd_type = None,
              fd_sourceKey = Some ''sender_id'', fd_location = ''config''\<rparr>]\<rparr>,
      \<lparr>pd_key = ''fcm'', pd_label = ''FCM'', pd_channel = ''push'', pd_icon = ''logos:firebase'',
        pd_credentials =
            [\<lparr>fd_key = ''server_key'', fd_label = ''Server key'', fd_placeholder = ''fcm-server-key'', fd_type = Some ''password'',
              fd_sourceKey = None, fd_location = ''credentials''\<rparr>],
        pd_config =
            []\<rparr>,
      \<lparr>pd_key = ''webpush'', pd_label = ''Web Push'', pd_channel = ''push'', pd_icon = ''mdi:web'',
        pd_credentials =
            [\<lparr>fd_key = ''public_key'', fd_label = ''Public key'', fd_placeholder = ''web-push-public-key'', fd_type = None,
              fd_sourceKey = None, fd_location = ''credentials''\<rparr>,
             \<lparr>fd_key = ''private_key'', fd_label = ''Private key'', fd_placeholder = ''web-push-private-key'', fd_type = Some ''password'',
              fd_sourceKey = None, fd_location = ''credentials''\<rparr>],
        pd_config =
            []\<rparr>,
      \<lparr>pd_key = ''demo-email'', pd_label = ''Demo Email'', pd_channel = ''email'', pd_icon = ''mdi:email-check-outline'',
        pd_credentials =
            [],
        pd_config =
            []\<rparr>,
      \<lparr>pd_key = ''demo-sms'', pd_label = ''Demo SMS'', pd_channel = ''sms'', pd_icon = ''mdi:message-check-outline'',
        pd_credentials =
            [],
        pd_config =
            []\<rparr>]"

record channel_group =
  cg_channel :: string
  cg_label :: string
  cg_icon :: string

definition CHANNEL_GROUPS :: "channel_group list" where
  "CHANNEL_GROUPS =
     [\<lparr>cg_channel = ''email'', cg_label = ''Email'', cg_icon = ''mdi:email-outline''\<rparr>,
      \<lparr>cg_channel = ''sms'', cg_label = ''SMS'', cg_icon = ''mdi:message-text-outline''\<rparr>,
      \<lparr>cg_channel = ''push'', cg_label = ''Push'', cg_icon = ''mdi:bell-outline''\<rparr>]"

section \<open>The form (\<open>use-provider-form.ts\<close>)\<close>

datatype provider_request =
    CreateProvider provider_payload
  | UpdateProvider string provider_payload
  | UpdateState string state_action

text \<open>
  A submission under way: what it captured of the render it was submitted in, and the request it waits
  for (the save, or the change of state after it).  \<open>ChangeState\<close> is the separate \<open>handleStateChange\<close>.
\<close>

datatype provider_task = Saving bool bool | SavingState | ChangingState

record provider_form =
  pf_dialogOpen :: bool
  pf_selected :: "provider_definition option"
  pf_editing :: "provider_item option"
  pf_values :: "(string, string) js_map"
  pf_enabled :: bool
  pf_primary :: bool
  pf_error :: "string option"
  pf_mutatingKey :: "string option"
  pf_tasks :: "provider_task list"
  pf_requests :: "provider_request list"

definition useProviderForm :: provider_form where
  "useProviderForm =
     \<lparr>pf_dialogOpen = False, pf_selected = None, pf_editing = None, pf_values = [], pf_enabled = True, pf_primary = False,
      pf_error = None, pf_mutatingKey = None, pf_tasks = [], pf_requests = []\<rparr>"

text \<open>\<open>typeof v === 'string' || typeof v === 'number' ? String(v) : ''\<close>\<close>

definition config_text :: "(rat \<Rightarrow> string) \<Rightarrow> json option \<Rightarrow> string" where
  "config_text num_text v = (case v of Some (JStr s) \<Rightarrow> s | Some (JNum x) \<Rightarrow> num_text x | _ \<Rightarrow> [])"

definition stored_text :: "(rat \<Rightarrow> string) \<Rightarrow> provider_item option \<Rightarrow> field_definition \<Rightarrow> string" where
  "stored_text num_text item field =
     (let configValues = (case item of None \<Rightarrow> [] | Some i \<Rightarrow> (case pi_config i of None \<Rightarrow> [] | Some c \<Rightarrow> c));
          key = (case fd_sourceKey field of None \<Rightarrow> fd_key field | Some k \<Rightarrow> k)
      in config_text num_text (map_of configValues key))"

definition initial_values :: "(rat \<Rightarrow> string) \<Rightarrow> provider_definition \<Rightarrow> provider_item option \<Rightarrow> (string, string) js_map" where
  "initial_values num_text d item =
     fold (\<lambda>field. map_set (fd_key field) (stored_text num_text item field)) (pd_config d)
       (fold (\<lambda>field. map_set (fd_key field) []) (pd_credentials d) [])"

definition openConnectDialog ::
    "(rat \<Rightarrow> string) \<Rightarrow> provider_definition \<Rightarrow> provider_item option \<Rightarrow> provider_form \<Rightarrow> provider_form" where
  "openConnectDialog num_text d item st =
     st\<lparr>pf_enabled := (case item of None \<Rightarrow> True | Some i \<Rightarrow> pi_is_active i),
        pf_primary := (case item of None \<Rightarrow> False | Some i \<Rightarrow> pi_is_primary i),
        pf_selected := Some d, pf_editing := item, pf_values := initial_values num_text d item,
        pf_error := None, pf_mutatingKey := None, pf_dialogOpen := True\<rparr>"

definition closeDialog :: "provider_form \<Rightarrow> provider_form" where
  "closeDialog st =
     st\<lparr>pf_dialogOpen := False, pf_selected := None, pf_editing := None, pf_values := [], pf_error := None,
        pf_mutatingKey := None\<rparr>"

definition updateFieldValue :: "string \<Rightarrow> string \<Rightarrow> provider_form \<Rightarrow> provider_form" where
  "updateFieldValue key value st = st\<lparr>pf_values := map_set key value (pf_values st)\<rparr>"

definition setEnabledToggle :: "bool \<Rightarrow> provider_form \<Rightarrow> provider_form" where
  "setEnabledToggle b st = st\<lparr>pf_enabled := b\<rparr>"

definition setPrimaryToggle :: "bool \<Rightarrow> provider_form \<Rightarrow> provider_form" where
  "setPrimaryToggle b st = st\<lparr>pf_primary := b\<rparr>"

text \<open>The two switches of the dialog: off is off for both, primary is on for both.\<close>

definition enabledSwitch :: "bool \<Rightarrow> provider_form \<Rightarrow> provider_form" where
  "enabledSwitch checked st = (let st = setEnabledToggle checked st in if \<not> checked then setPrimaryToggle False st else st)"

definition primarySwitch :: "bool \<Rightarrow> provider_form \<Rightarrow> provider_form" where
  "primarySwitch checked st =
     (if \<not> pf_enabled st then st
      else (let st = setPrimaryToggle checked st in if checked then setEnabledToggle True st else st))"

text \<open>\<open>fieldValues[field.key]?.trim()\<close>, an absent value being falsy like the empty one.\<close>

definition trimmed_value :: "(string, string) js_map \<Rightarrow> field_definition \<Rightarrow> string" where
  "trimmed_value fieldValues field = (case map_get fieldValues (fd_key field) of None \<Rightarrow> [] | Some v \<Rightarrow> js_trim v)"

definition add_field ::
    "(field_definition \<Rightarrow> string \<Rightarrow> json) \<Rightarrow> (string, string) js_map \<Rightarrow> field_definition \<Rightarrow> (string, json) js_map \<Rightarrow> (string, json) js_map" where
  "add_field value_of fieldValues field acc =
     (let v = trimmed_value fieldValues field in if v = [] then acc else map_set (fd_key field) (value_of field v) acc)"

definition config_value :: "(string \<Rightarrow> json) \<Rightarrow> field_definition \<Rightarrow> string \<Rightarrow> json" where
  "config_value js_number field v = (if fd_type field = Some ''number'' then js_number v else JStr v)"

definition buildPayload :: "(string \<Rightarrow> json) \<Rightarrow> (string, string) js_map \<Rightarrow> provider_definition \<Rightarrow> provider_payload" where
  "buildPayload js_number fieldValues d =
     \<lparr>pp_name = pd_key d, pp_channel = pd_channel d,
      pp_credentials = fold (add_field (\<lambda>_. JStr) fieldValues) (pd_credentials d) [],
      pp_config = fold (add_field (config_value js_number) fieldValues) (pd_config d) []\<rparr>"

definition send_request :: "provider_request \<Rightarrow> provider_task \<Rightarrow> provider_form \<Rightarrow> provider_form" where
  "send_request r t st = st\<lparr>pf_requests := pf_requests st @ [r], pf_tasks := pf_tasks st @ [t]\<rparr>"

definition submitProvider :: "(string \<Rightarrow> json) \<Rightarrow> provider_form \<Rightarrow> provider_form" where
  "submitProvider js_number st =
     (case pf_selected st of
        None \<Rightarrow> st
      | Some d \<Rightarrow>
          (let payload = buildPayload js_number (pf_values st) d
           in send_request
                (case pf_editing st of Some i \<Rightarrow> UpdateProvider (pi_id i) payload | None \<Rightarrow> CreateProvider payload)
                (Saving (pf_primary st) (pf_enabled st))
                (st\<lparr>pf_error := None, pf_mutatingKey := Some (''save:'' @ pd_key d)\<rparr>)))"

text \<open>The end of a submission that succeeded, and \<open>catch\<close> with \<open>finally\<close>.\<close>

definition submit_done :: "provider_form \<Rightarrow> provider_form" where
  "submit_done st = (closeDialog st)\<lparr>pf_mutatingKey := None\<rparr>"

definition task_failed :: "string \<Rightarrow> thrown \<Rightarrow> provider_form \<Rightarrow> provider_form" where
  "task_failed fallback err st = st\<lparr>pf_error := Some (error_message err fallback), pf_mutatingKey := None\<rparr>"

text \<open>The answer to a request: what was thrown, or the id of the provider.\<close>

fun provider_answered :: "provider_task \<Rightarrow> thrown + string \<Rightarrow> provider_form \<Rightarrow> provider_form" where
  "provider_answered (Saving primaryToggle enabledToggle) (Inr savedId) st =
     (if primaryToggle then send_request (UpdateState savedId Set_primary) SavingState st
      else if \<not> enabledToggle then send_request (UpdateState savedId Disable) SavingState st
      else submit_done st)"
| "provider_answered (Saving primaryToggle enabledToggle) (Inl err) st = task_failed ''Failed to save provider connection'' err st"
| "provider_answered SavingState (Inr i) st = submit_done st"
| "provider_answered SavingState (Inl err) st = task_failed ''Failed to save provider connection'' err st"
| "provider_answered ChangingState (Inr i) st = st\<lparr>pf_mutatingKey := None\<rparr>"
| "provider_answered ChangingState (Inl err) st = task_failed ''Failed to update provider'' err st"

definition provider_answer :: "nat \<Rightarrow> thrown + string \<Rightarrow> provider_form \<Rightarrow> provider_form" where
  "provider_answer n ans st =
     (if n < length (pf_tasks st)
      then provider_answered (pf_tasks st ! n) ans (st\<lparr>pf_tasks := take n (pf_tasks st) @ drop (Suc n) (pf_tasks st)\<rparr>)
      else st)"

definition handleStateChange :: "provider_item \<Rightarrow> state_action \<Rightarrow> provider_form \<Rightarrow> provider_form" where
  "handleStateChange item action st =
     send_request (UpdateState (pi_id item) action) ChangingState
       (st\<lparr>pf_error := None, pf_mutatingKey := Some (action_text action @ '':'' @ pi_id item)\<rparr>)"

definition submitButtonLabel :: "string option \<Rightarrow> string \<Rightarrow> provider_item option \<Rightarrow> string" where
  "submitButtonLabel mutatingKey providerKey editingItem =
     (if mutatingKey = Some (''save:'' @ providerKey) then ''Saving...''
      else if editingItem \<noteq> None then ''Save changes'' else ''Connect provider'')"

section \<open>The cards (\<open>IntegrationManagement.tsx\<close>, \<open>ConnectedProviderCard.tsx\<close>)\<close>

record provider_card =
  ca_definition :: provider_definition
  ca_item :: "provider_item option"
  ca_fallbackExists :: bool

definition card_of :: "provider_item list \<Rightarrow> provider_definition \<Rightarrow> provider_card" where
  "card_of items d =
     (let item = List.find (\<lambda>p. pi_name p = pd_key d) items
      in \<lparr>ca_definition = d, ca_item = item,
          ca_fallbackExists =
            (length (filter (\<lambda>p. pi_channel p = pd_channel d \<and> pi_is_active p \<and> Some (pi_id p) \<noteq> map_option pi_id item) items) > 0)\<rparr>)"

definition is_demo :: "provider_definition \<Rightarrow> bool" where
  "is_demo d \<longleftrightarrow> js_starts_with (pd_key d) ''demo-''"

definition provider_cards :: "provider_item list \<Rightarrow> provider_card list" where
  "provider_cards items = map (card_of items) SUPPORTED_PROVIDERS"

definition connectedCards :: "provider_item list \<Rightarrow> provider_card list" where
  "connectedCards items = filter (\<lambda>c. ca_item c \<noteq> None \<and> \<not> is_demo (ca_definition c)) (provider_cards items)"

definition unconnectedCards :: "provider_item list \<Rightarrow> provider_card list" where
  "unconnectedCards items = filter (\<lambda>c. ca_item c = None \<and> \<not> is_demo (ca_definition c)) (provider_cards items)"

definition demoCards :: "provider_item list \<Rightarrow> provider_card list" where
  "demoCards items = filter (\<lambda>c. is_demo (ca_definition c)) (provider_cards items)"

definition canDisable :: "provider_card \<Rightarrow> provider_item \<Rightarrow> bool" where
  "canDisable c item \<longleftrightarrow> (\<not> pi_is_primary item \<or> pi_is_primary item \<and> ca_fallbackExists c)"

section \<open>What a submission sends\<close>

text \<open>Within a provider no two fields share a key, and every provider belongs to a group of the page.\<close>

definition fields_distinct :: "provider_definition \<Rightarrow> bool" where
  "fields_distinct d \<longleftrightarrow> distinct (map fd_key (pd_credentials d @ pd_config d))"

lemma catalogue_ok:
  "list_all (\<lambda>d. fields_distinct d \<and> pd_channel d \<in> set (map cg_channel CHANNEL_GROUPS)) SUPPORTED_PROVIDERS \<and>
   distinct (map pd_key SUPPORTED_PROVIDERS)"
  by code_simp

lemma fold_map_set_get:
  "distinct (map key fs) \<Longrightarrow>
    map_get (fold (\<lambda>f. map_set (key f) (val f)) fs m) k =
      (case List.find (\<lambda>f. key f = k) fs of Some f \<Rightarrow> Some (val f) | None \<Rightarrow> map_get m k)"
proof (induction fs arbitrary: m)
  case (Cons f fs)
  then show ?case
    by (auto simp: js_simps split: option.split dest!: find_Some_conv)
qed simp

lemma add_field_fold:
  "distinct (map fd_key fs) \<Longrightarrow> fd_key ` set fs \<inter> set (map_keys acc) = {} \<Longrightarrow>
    fold (add_field value_of vs) fs acc =
      acc @ concat (map (\<lambda>f. let v = trimmed_value vs f in if v = [] then [] else [(fd_key f, value_of f v)]) fs)"
proof (induction fs arbitrary: acc)
  case (Cons f fs)
  have "map_set (fd_key f) x acc = acc @ [(fd_key f, x)]" for x
    using Cons.prems(2) by (intro map_set_new) auto
  with Cons show ?case by (auto simp: add_field_def Let_def)
qed simp

lemma buildPayload_fields:
  assumes "fields_distinct d"
  shows "buildPayload js_number vs d =
    \<lparr>pp_name = pd_key d, pp_channel = pd_channel d,
     pp_credentials = concat (map (\<lambda>f. let v = trimmed_value vs f in if v = [] then [] else [(fd_key f, JStr v)]) (pd_credentials d)),
     pp_config = concat (map (\<lambda>f. let v = trimmed_value vs f in if v = [] then [] else [(fd_key f, config_value js_number f v)]) (pd_config d))\<rparr>"
  using assms by (simp add: buildPayload_def add_field_fold fields_distinct_def)

lemma initial_trimmed:
  assumes "fields_distinct d"
  shows "f \<in> set (pd_credentials d) \<Longrightarrow> trimmed_value (initial_values num_text d item) f = []"
    and "f \<in> set (pd_config d) \<Longrightarrow> trimmed_value (initial_values num_text d item) f = js_trim (stored_text num_text item f)"
proof -
  have dist: "distinct (map fd_key (pd_credentials d))" "distinct (map fd_key (pd_config d))"
    "fd_key ` set (pd_credentials d) \<inter> fd_key ` set (pd_config d) = {}"
    using assms by (auto simp: fields_distinct_def)
  show "trimmed_value (initial_values num_text d item) f = []" if "f \<in> set (pd_credentials d)"
  proof -
    have "List.find (\<lambda>g. fd_key g = fd_key f) (pd_config d) = None" using dist(3) that by (auto simp: find_None_iff)
    with find_unique [OF dist(1) that] show ?thesis
      by (simp add: trimmed_value_def initial_values_def fold_map_set_get [OF dist(1)] fold_map_set_get [OF dist(2)])
  qed
  show "trimmed_value (initial_values num_text d item) f = js_trim (stored_text num_text item f)" if "f \<in> set (pd_config d)"
    using find_unique [OF dist(2) that] by (simp add: trimmed_value_def initial_values_def fold_map_set_get [OF dist(2)])
qed

text \<open>What an opened form sends when nothing is changed in it.\<close>

definition stored_fields :: "(rat \<Rightarrow> string) \<Rightarrow> (string \<Rightarrow> json) \<Rightarrow> provider_item option \<Rightarrow> provider_definition \<Rightarrow> (string \<times> json) list" where
  "stored_fields num_text js_number item d =
     concat (map (\<lambda>f. let v = js_trim (stored_text num_text item f)
       in if v = [] then [] else [(fd_key f, config_value js_number f v)]) (pd_config d))"

lemma untouched_payload:
  assumes ok: "fields_distinct d"
  shows "buildPayload js_number (initial_values num_text d item) d =
    \<lparr>pp_name = pd_key d, pp_channel = pd_channel d, pp_credentials = [], pp_config = stored_fields num_text js_number item d\<rparr>"
proof -
  let ?v = "trimmed_value (initial_values num_text d item)"
  have cred: "concat (map (\<lambda>f. let v = ?v f in if v = [] then [] else [(fd_key f, JStr v)]) (pd_credentials d)) = []"
    using initial_trimmed(1) [OF ok] by simp
  have conf: "map (\<lambda>f. let v = ?v f in if v = [] then [] else [(fd_key f, config_value js_number f v)]) (pd_config d) =
      map (\<lambda>f. let v = js_trim (stored_text num_text item f)
        in if v = [] then [] else [(fd_key f, config_value js_number f v)]) (pd_config d)"
    by (rule map_cong [OF refl]) (simp only: initial_trimmed(2) [OF ok])
  show ?thesis unfolding buildPayload_fields [OF ok] cred conf stored_fields_def ..
qed

text \<open>Opening a connected provider of the catalogue and saving it untouched sends no credentials and exactly the
  stored settings that are not blank, each under the key of its field and read from the key it is stored under.\<close>

theorem untouched_save:
  assumes "d \<in> set SUPPORTED_PROVIDERS"
  shows "pf_requests (submitProvider js_number (openConnectDialog num_text d (Some item) st)) =
    pf_requests st @ [UpdateProvider (pi_id item)
      \<lparr>pp_name = pd_key d, pp_channel = pd_channel d, pp_credentials = [],
       pp_config = concat (map (\<lambda>f. let v = js_trim (stored_text num_text (Some item) f)
         in if v = [] then [] else [(fd_key f, config_value js_number f v)]) (pd_config d))\<rparr>]"
proof -
  have "fields_distinct d" using catalogue_ok assms by (auto simp: list_all_iff)
  from untouched_payload [OF this, of js_number num_text "Some item"] show ?thesis
    unfolding stored_fields_def [symmetric] by (simp add: submitProvider_def openConnectDialog_def send_request_def)
qed

text \<open>A submission that succeeds saves the provider and then changes its state at most once: to primary when that
  switch is on, else to disabled when the other is off.  It never enables a provider, so switching a disabled one on
  has no effect, and a provider made primary is not disabled; either way the dialog closes without an error.\<close>

theorem submit_sequence:
  "let st = setPrimaryToggle primary (setEnabledToggle enabled (openConnectDialog num_text d item useProviderForm));
       st' = provider_answer 0 (Inr j) (provider_answer 0 (Inr i) (submitProvider js_number st));
       payload = buildPayload js_number (initial_values num_text d item) d
   in pf_requests st' =
        (case item of Some x \<Rightarrow> UpdateProvider (pi_id x) payload | None \<Rightarrow> CreateProvider payload) #
        (if primary then [UpdateState i Set_primary] else if enabled then [] else [UpdateState i Disable]) \<and>
      \<not> pf_dialogOpen st' \<and> pf_error st' = None \<and> pf_tasks st' = []"
  by (simp add: Let_def useProviderForm_def openConnectDialog_def setPrimaryToggle_def setEnabledToggle_def
      submitProvider_def send_request_def provider_answer_def submit_done_def closeDialog_def split: option.split)

section \<open>The cards\<close>

text \<open>Every provider of the catalogue has exactly one card.\<close>

lemma cards_partition:
  "mset (connectedCards items) + mset (unconnectedCards items) + mset (demoCards items) = mset (provider_cards items)"
proof -
  have "mset (filter (\<lambda>c. ca_item c \<noteq> None \<and> \<not> is_demo (ca_definition c)) cs) +
      mset (filter (\<lambda>c. ca_item c = None \<and> \<not> is_demo (ca_definition c)) cs) +
      mset (filter (\<lambda>c. is_demo (ca_definition c)) cs) = mset cs" for cs
    by (induction cs) auto
  then show ?thesis by (simp only: connectedCards_def unconnectedCards_def demoCards_def)
qed

text \<open>A primary provider can be disabled from its card only while another one of its channel is active.\<close>

lemma disabling_leaves_fallback:
  assumes "c = card_of items d" and "ca_item c = Some i" and "canDisable c i" and "pi_is_primary i"
  shows "\<exists>p \<in> set items. pi_channel p = pd_channel d \<and> pi_is_active p \<and> pi_id p \<noteq> pi_id i"
  using assms by (auto simp: card_of_def canDisable_def Let_def filter_empty_conv)

theorem untouched_save_witness:
  "pf_requests (submitProvider (\<lambda>_. JNum 587)
     (openConnectDialog (\<lambda>_. ''587'') (SUPPORTED_PROVIDERS ! 1)
       (Some \<lparr>pi_id = ''p'', pi_environment_id = None, pi_name = ''brevo'', pi_channel = ''email'',
          pi_config = Some [(''from'', JStr ''a@b.c'')], pi_has_credentials = None, pi_is_active = False, pi_is_primary = False,
          pi_created_at = None, pi_updated_at = None\<rparr>) useProviderForm)) =
   [UpdateProvider ''p'' \<lparr>pp_name = ''brevo'', pp_channel = ''email'', pp_credentials = [], pp_config = [(''from_email'', JStr ''a@b.c'')]\<rparr>]"
proof -
  have d: "SUPPORTED_PROVIDERS ! 1 \<in> set SUPPORTED_PROVIDERS" by (simp add: SUPPORTED_PROVIDERS_def)
  show ?thesis
    by (subst untouched_save [OF d]) code_simp
qed

section \<open>The menu of a card\<close>

datatype card_action = EditProvider | ChangeState state_action | Disconnect

definition card_menu :: "provider_card \<Rightarrow> provider_item \<Rightarrow> card_action list" where
  "card_menu c item =
     [EditProvider] @ (if \<not> pi_is_primary item then [ChangeState Set_primary] else []) @
     (if canDisable c item \<and> pi_is_active item then [ChangeState Disable] else []) @
     (if \<not> pi_is_active item then [ChangeState Enable] else []) @ [Disconnect]"

text \<open>The card of a demo provider is given no fallback.\<close>

definition shown_card :: "provider_card \<Rightarrow> provider_card" where
  "shown_card c = (if is_demo (ca_definition c) then c\<lparr>ca_fallbackExists := False\<rparr> else c)"

definition card_hint :: "provider_card \<Rightarrow> provider_item \<Rightarrow> bool" where
  "card_hint c item \<longleftrightarrow> pi_is_primary item \<and> \<not> ca_fallbackExists c"

text \<open>The groups of the page, the cards of demo providers first, and those of the sheet; empty ones are left out.\<close>

definition page_groups :: "provider_item list \<Rightarrow> (channel_group \<times> provider_card list) list" where
  "page_groups items =
     filter (\<lambda>(g, cs). cs \<noteq> [])
       (map (\<lambda>g. (g, filter (\<lambda>c. pd_channel (ca_definition c) = cg_channel g) (demoCards items) @
                     filter (\<lambda>c. pd_channel (ca_definition c) = cg_channel g) (connectedCards items))) CHANNEL_GROUPS)"

definition sheet_groups :: "provider_item list \<Rightarrow> (channel_group \<times> provider_card list) list" where
  "sheet_groups items =
     filter (\<lambda>(g, cs). cs \<noteq> [])
       (map (\<lambda>g. (g, filter (\<lambda>c. pd_channel (ca_definition c) = cg_channel g \<and> \<not> is_demo (ca_definition c)) (unconnectedCards items)))
          CHANNEL_GROUPS)"

text \<open>
  The menu never offers to disable the primary provider of a channel that has no other active one, but
  the dialog of the same provider does it: switching it off and saving sends the change.
\<close>

theorem dialog_disables_last_provider:
  assumes "pi_is_primary item" and "\<not> ca_fallbackExists c"
  shows "ChangeState Disable \<notin> set (card_menu c item) \<and> card_hint c item \<and>
    last (pf_requests (provider_answer 0 (Inr i) (submitProvider js_number
      (enabledSwitch False (openConnectDialog num_text d (Some item) useProviderForm))))) = UpdateState i Disable"
  using assms
  by (simp add: card_menu_def canDisable_def card_hint_def useProviderForm_def openConnectDialog_def enabledSwitch_def
      setPrimaryToggle_def setEnabledToggle_def submitProvider_def send_request_def provider_answer_def Let_def)

text \<open>Every provider is on the page or in the sheet, in the group of its channel and in no other.\<close>

lemma card_channel_grouped: "c \<in> set (provider_cards items) \<Longrightarrow> pd_channel (ca_definition c) \<in> set (map cg_channel CHANNEL_GROUPS)"
  using catalogue_ok by (auto simp: provider_cards_def card_of_def Let_def list_all_iff)

theorem every_card_shown:
  "(\<Union>(g, cs) \<in> set (page_groups items @ sheet_groups items). set cs) = set (provider_cards items) \<and>
   list_all (\<lambda>(g, cs). \<forall>c \<in> set cs. pd_channel (ca_definition c) = cg_channel g) (page_groups items @ sheet_groups items)"
proof
  have "(\<Union>(g, cs) \<in> set (page_groups items @ sheet_groups items). set cs) \<subseteq> set (provider_cards items)"
    by (auto simp: page_groups_def sheet_groups_def demoCards_def connectedCards_def unconnectedCards_def)
  moreover have "c \<in> (\<Union>(g, cs) \<in> set (page_groups items @ sheet_groups items). set cs)" if "c \<in> set (provider_cards items)" for c
  proof -
    from card_channel_grouped [OF that] obtain g where g: "g \<in> set CHANNEL_GROUPS" "pd_channel (ca_definition c) = cg_channel g"
      by auto
    show ?thesis
    proof (cases "ca_item c = None \<and> \<not> is_demo (ca_definition c)")
      case True
      let ?cs = "filter (\<lambda>c. pd_channel (ca_definition c) = cg_channel g \<and> \<not> is_demo (ca_definition c)) (unconnectedCards items)"
      have "c \<in> set ?cs" using True that g(2) by (simp add: unconnectedCards_def)
      then have "?cs \<noteq> []" by (metis empty_iff list.set(1))
      then have "(g, ?cs) \<in> set (sheet_groups items)" using g(1) by (simp add: sheet_groups_def)
      with \<open>c \<in> set ?cs\<close> show ?thesis by (force simp del: filter_filter)
    next
      case False
      let ?cs = "filter (\<lambda>c. pd_channel (ca_definition c) = cg_channel g) (demoCards items) @
        filter (\<lambda>c. pd_channel (ca_definition c) = cg_channel g) (connectedCards items)"
      have "c \<in> set ?cs" using False that g(2) by (auto simp: demoCards_def connectedCards_def)
      then have "?cs \<noteq> []" by (metis empty_iff list.set(1))
      then have "(g, ?cs) \<in> set (page_groups items)" using g(1) by (simp add: page_groups_def)
      with \<open>c \<in> set ?cs\<close> show ?thesis by (force simp del: filter_filter filter_append)
    qed
  qed
  ultimately show "(\<Union>(g, cs) \<in> set (page_groups items @ sheet_groups items). set cs) = set (provider_cards items)" by blast
  show "list_all (\<lambda>(g, cs). \<forall>c \<in> set cs. pd_channel (ca_definition c) = cg_channel g) (page_groups items @ sheet_groups items)"
    by (auto simp: page_groups_def sheet_groups_def list_all_iff)
qed

end
