(* ===== verification/Doubles.thy ===== *)
theory Doubles
  imports Prelude "HOL-Library.Log_Nat"
begin

text \<open>
  The numbers of JavaScript as far as the figures of the dashboard and the durations need them: the
  nearest double of a positive rational (53 significant bits, a tie to the even one), and \<open>toFixed(1)\<close>.
  The exponent is not bounded: overflow and the numbers below the smallest normal one are left out.
\<close>

section \<open>The nearest double\<close>

definition round_even :: "rat \<Rightarrow> int" where
  "round_even x =
     (let n = \<lfloor>x\<rfloor>; d = x - of_int n
      in if d < 1 / 2 then n else if 1 / 2 < d then n + 1 else if even n then n else n + 1)"

definition floor_log2 :: "rat \<Rightarrow> int" where
  "floor_log2 x =
     (let (p, q) = quotient_of x; e = bitlen p - bitlen q in if 2 powi e \<le> x then e else e - 1)"

definition double_unit :: "rat \<Rightarrow> rat" where
  "double_unit x = 2 powi (floor_log2 x - 52)"

definition double :: "rat \<Rightarrow> rat" where
  "double x = (if x \<le> 0 then 0 else of_int (round_even (x / double_unit x)) * double_unit x)"

lemma round_even_error: "\<bar>of_int (round_even x) - x\<bar> \<le> 1 / 2"
  using floor_correct [of x] by (auto simp: round_even_def Let_def abs_le_iff)

lemma round_even_le: "x \<le> of_int n \<Longrightarrow> round_even x \<le> n"
proof -
  assume x: "x \<le> of_int n"
  then have "\<lfloor>x\<rfloor> \<le> n" by (simp add: floor_le_iff)
  then consider "\<lfloor>x\<rfloor> + 1 \<le> n" | "\<lfloor>x\<rfloor> = n" by linarith
  then show ?thesis using x by cases (auto simp: round_even_def Let_def)
qed

lemma round_even_ge: "of_int n \<le> x \<Longrightarrow> n \<le> round_even x"
proof -
  assume "of_int n \<le> x"
  then have "n \<le> \<lfloor>x\<rfloor>" by (simp add: le_floor_iff)
  then show ?thesis by (auto simp: round_even_def Let_def)
qed

lemma floor_log2_bounds:
  assumes "0 < x"
  shows "2 powi floor_log2 x \<le> x" and "x < 2 powi (floor_log2 x + 1)"
proof -
  obtain p q where pq: "quotient_of x = (p, q)" by fastforce
  have q: "0 < q" using quotient_of_denom_pos [OF pq] .
  have x: "x = of_int p / of_int q" using quotient_of_div [OF pq] .
  with assms q have p: "0 < p" by (simp add: zero_less_divide_iff)
  let ?p = "bitlen p" and ?q = "bitlen q"
  have low: "2 powi (bitlen i - 1) \<le> (of_int i :: rat)" and high: "(of_int i :: rat) < 2 powi bitlen i" if "0 < i" for i :: int
  proof -
    have b: "2 ^ nat (bitlen i - 1) \<le> i" "i < 2 ^ nat (bitlen i)" using bitlen_bounds [OF that] by auto
    have "0 < bitlen i" using that bitlen_nonneg [of i] bitlen_eq_zero_iff [of i] by linarith
    then have "(2::rat) powi (bitlen i - 1) = 2 ^ nat (bitlen i - 1)" "(2::rat) powi bitlen i = 2 ^ nat (bitlen i)"
      by (simp_all add: power_int_def)
    moreover have "(of_int (2 ^ nat (bitlen i - 1)) :: rat) \<le> of_int i" "(of_int i :: rat) < of_int (2 ^ nat (bitlen i))"
      using b by (simp_all only: of_int_le_iff of_int_less_iff)
    ultimately show "2 powi (bitlen i - 1) \<le> (of_int i :: rat)" "(of_int i :: rat) < 2 powi bitlen i" by simp_all
  qed
  have "x < 2 powi ?p / 2 powi (?q - 1)"
    unfolding x using low [OF q] high [OF p] p by (intro frac_less) auto
  then have above: "x < 2 powi (?p - ?q + 1)" by (simp add: power_int_diff [symmetric] algebra_simps)
  have "2 powi (?p - 1) / 2 powi ?q \<le> x"
    unfolding x using low [OF p] high [OF q] q p by (intro frac_le) auto
  then have below: "2 powi (?p - ?q - 1) \<le> x" by (simp add: power_int_diff [symmetric] algebra_simps)
  show "2 powi floor_log2 x \<le> x" "x < 2 powi (floor_log2 x + 1)"
    using above below by (auto simp: floor_log2_def pq Let_def)
qed

lemma double_error:
  assumes "0 < x"
  shows "\<bar>double x - x\<bar> \<le> x / 2 ^ 53"
proof -
  let ?u = "double_unit x"
  have u: "0 < ?u" by (simp add: double_unit_def)
  have ux: "?u * 2 ^ 52 \<le> x"
    using floor_log2_bounds(1) [OF assms] by (simp add: double_unit_def power_int_diff)
  have "double x - x = (of_int (round_even (x / ?u)) - x / ?u) * ?u"
    using assms u by (simp add: double_def left_diff_distrib)
  then have "\<bar>double x - x\<bar> = \<bar>of_int (round_even (x / ?u)) - x / ?u\<bar> * ?u" using u by (simp add: abs_mult)
  also have "\<dots> \<le> 1 / 2 * ?u" using round_even_error u by (intro mult_right_mono) auto
  also have "\<dots> \<le> x / 2 ^ 53" using ux by simp
  finally show ?thesis .
qed

lemma double_nonneg: "0 \<le> double x"
proof (cases "x \<le> 0")
  case False
  have "0 \<le> round_even (x / double_unit x)" using False by (intro round_even_ge) (simp add: double_unit_def)
  with False show ?thesis by (simp add: double_def double_unit_def)
qed (simp add: double_def)

text \<open>A whole number below \<open>2\<^sup>5\<^sup>3\<close> is a double, so rounding keeps it and does not cross it.\<close>

lemma unit_of_small:
  assumes "0 < x" and "x < 2 ^ 53"
  obtains k where "double_unit x = 1 / 2 ^ k"
proof -
  have "floor_log2 x \<le> 52"
  proof (rule ccontr)
    assume "\<not> floor_log2 x \<le> 52"
    then have "(2::rat) powi 53 \<le> 2 powi floor_log2 x" by (intro power_int_increasing) auto
    moreover have "2 powi floor_log2 x \<le> x" using floor_log2_bounds(1) assms(1) by simp
    ultimately show False using assms(2) by simp
  qed
  then have "floor_log2 x - 52 = - int (nat (52 - floor_log2 x))" by simp
  then have "double_unit x = 1 / 2 ^ nat (52 - floor_log2 x)"
    unfolding double_unit_def by (simp only: power_int_minus power_int_of_nat inverse_eq_divide)
  then show thesis by (rule that)
qed

lemma double_le_int:
  assumes "x \<le> of_int c" and "0 \<le> c" and "c < 2 ^ 53"
  shows "double x \<le> of_int c"
proof (cases "x \<le> 0")
  case False
  let ?u = "double_unit x"
  have "(of_int c :: rat) < of_int (2 ^ 53)" using assms(3) by (simp only: of_int_less_iff)
  with assms(1) have "x < 2 ^ 53" by simp
  with False obtain k where u: "?u = 1 / 2 ^ k" using unit_of_small [of x] by auto
  have "x / ?u \<le> of_int (c * 2 ^ k)" using assms(1) by (simp add: u)
  then have "round_even (x / ?u) \<le> c * 2 ^ k" by (rule round_even_le)
  then have "of_int (round_even (x / ?u)) \<le> (of_int (c * 2 ^ k) :: rat)" by (simp only: of_int_le_iff)
  then have "of_int (round_even (x / ?u)) * ?u \<le> of_int (c * 2 ^ k) * ?u" by (intro mult_right_mono) (simp_all add: u)
  moreover have "of_int (c * 2 ^ k) * ?u = of_int c" unfolding u by simp
  moreover have "double x = of_int (round_even (x / ?u)) * ?u" using False by (simp only: double_def if_False)
  ultimately show ?thesis by (simp only:)
qed (use assms in \<open>simp add: double_def\<close>)

lemma double_ge_int:
  assumes "of_int c \<le> x" and "0 < x" and "x < 2 ^ 53"
  shows "of_int c \<le> double x"
proof -
  let ?u = "double_unit x"
  obtain k where u: "?u = 1 / 2 ^ k" using unit_of_small [OF assms(2,3)] .
  have "of_int (c * 2 ^ k) \<le> x / ?u" using assms(1) by (simp add: u)
  then have "c * 2 ^ k \<le> round_even (x / ?u)" by (rule round_even_ge)
  then have "(of_int (c * 2 ^ k) :: rat) \<le> of_int (round_even (x / ?u))" by (simp only: of_int_le_iff)
  then have "of_int (c * 2 ^ k) * ?u \<le> of_int (round_even (x / ?u)) * ?u" by (intro mult_right_mono) (simp_all add: u)
  moreover have "of_int (c * 2 ^ k) * ?u = of_int c" unfolding u by simp
  moreover have "double x = of_int (round_even (x / ?u)) * ?u" using assms(2) by (simp add: double_def)
  ultimately show ?thesis by (simp only:)
qed

lemma double_int:
  assumes "0 \<le> c" and "c < 2 ^ 53"
  shows "double (of_int c) = of_int c"
proof (cases "c = 0")
  case False
  have "(of_int c :: rat) < of_int (2 ^ 53)" using assms(2) by (simp only: of_int_less_iff)
  with False assms(1) obtain k where u: "double_unit (of_int c) = 1 / 2 ^ k" using unit_of_small [of "of_int c"] by auto
  have "of_int c / double_unit (of_int c) = of_int (c * 2 ^ k)" by (simp add: u)
  then have "round_even (of_int c / double_unit (of_int c)) = c * 2 ^ k"
    by (intro order_antisym round_even_le round_even_ge) simp_all
  with False assms(1) show ?thesis by (simp add: double_def u)
qed (simp add: double_def)

lemma double_nat: "n < 2 ^ 53 \<Longrightarrow> double (of_nat n) = of_nat n"
proof -
  assume "n < 2 ^ 53"
  then have "int n < int (2 ^ 53)" by (simp only: of_nat_less_iff)
  then show ?thesis using double_int [of "int n"] by simp
qed

text \<open>\<open>Math.floor\<close> of a quotient of whole numbers is the exact one, as long as the numbers are not too large.\<close>

lemma floor_double:
  assumes "0 < k" and "n < 2 ^ 53"
  shows "\<lfloor>double (of_nat n / of_nat k)\<rfloor> = int (n div k)"
proof (cases "n = 0")
  case False
  let ?x = "of_nat n / of_nat k :: rat"
  have n: "(of_nat n :: rat) < of_nat (2 ^ 53)" using assms(2) by (simp only: of_nat_less_iff)
  have k: "(1 :: rat) \<le> of_nat k" using assms(1) by (simp add: Suc_leI)
  have x: "0 < ?x" "?x < 2 ^ 53"
  proof -
    show "0 < ?x" using False assms(1) by simp
    have "?x \<le> of_nat n" using k by (simp add: divide_le_eq mult_le_cancel_left1)
    also have "\<dots> < 2 ^ 53" using n by simp
    finally show "?x < 2 ^ 53" .
  qed
  have "n div k * k \<le> n" "n + 1 \<le> (n div k + 1) * k"
    using assms(1) dividend_less_div_times [of k n] by (simp_all add: div_times_less_eq_dividend algebra_simps)
  then have "(of_nat (n div k * k) :: rat) \<le> of_nat n" "(of_nat (n + 1) :: rat) \<le> of_nat ((n div k + 1) * k)"
    by (simp_all only: of_nat_le_iff)
  then have q: "of_int (int (n div k)) \<le> ?x" "?x + 1 / of_nat k \<le> of_int (int (n div k)) + 1"
    using k by (simp_all add: le_divide_eq divide_le_eq add_divide_distrib [symmetric] distrib_right)
  have "double ?x \<le> ?x + ?x / 2 ^ 53" using double_error [OF x(1)] unfolding abs_le_iff by linarith
  also have "?x / 2 ^ 53 = of_nat n / 2 ^ 53 / of_nat k" by simp
  also have "?x + of_nat n / 2 ^ 53 / of_nat k < ?x + 1 / of_nat k"
    using n k by (intro add_strict_left_mono divide_strict_right_mono) simp_all
  finally have "double ?x < of_int (int (n div k)) + 1" using q(2) by linarith
  moreover have "of_int (int (n div k)) \<le> double ?x" by (rule double_ge_int [OF q(1) x])
  ultimately show ?thesis by (intro floor_unique)
qed (simp add: double_def)

section \<open>\<open>toFixed(1)\<close>\<close>

text \<open>The tenths of a number that is not negative: the nearest, the larger of two.\<close>

definition tenths :: "rat \<Rightarrow> nat" where
  "tenths x = nat \<lfloor>x * 10 + 1 / 2\<rfloor>"

definition tenths_text :: "nat \<Rightarrow> string" where
  "tenths_text k = show_nat (k div 10) @ ''.'' @ show_nat (k mod 10)"

definition toFixed1 :: "rat \<Rightarrow> string" where
  "toFixed1 x = tenths_text (tenths x)"

lemma tenths_error: "0 \<le> x \<Longrightarrow> \<bar>of_nat (tenths x) - x * 10\<bar> \<le> 1 / 2"
proof -
  assume "0 \<le> x"
  then have "(of_nat (tenths x) :: rat) = of_int \<lfloor>x * 10 + 1 / 2\<rfloor>" by (simp add: tenths_def)
  moreover have "of_int \<lfloor>x * 10 + 1 / 2\<rfloor> \<le> x * 10 + 1 / 2" "x * 10 + 1 / 2 < of_int \<lfloor>x * 10 + 1 / 2\<rfloor> + 1"
    using floor_correct [of "x * 10 + 1 / 2"] by simp_all
  ultimately show ?thesis unfolding abs_le_iff by linarith
qed

end
