(* ===== verification/Delay_Duration.thy ===== *)
theory Delay_Duration
  imports Builder_Store Doubles
begin

text \<open>
  The duration of a delay step: \<open>features/workflows/utils/duration\<close> (\<open>parse.ts\<close>, \<open>format.ts\<close>) and the two
  fields of the inspector that use it (\<open>definition-builder/inspector/DelayConfig.tsx\<close>).  A step stores a
  Go duration; the inspector shows an amount with a unit.

  A number is a rational; the result of a multiplication or division is rounded to the nearest double.  Two
  functions of the platform are parameters: \<open>js_number\<close> is \<open>Number\<close> on a text (\<open>None\<close> for not a finite
  number) and \<open>num_text\<close> is \<open>String\<close> on a number.  The theorems need them on integers below \<open>2\<^sup>5\<^sup>3\<close> only,
  where doubles are exact.
\<close>

datatype delay_unit = Seconds | Minutes | Hours | Days | Weeks

section \<open>Printing (\<open>format.ts\<close>)\<close>

text \<open>\<open>value.toFixed(2)\<close> of a value that is not negative: the nearest multiple of a hundredth, the larger of two.\<close>

definition toFixed2 :: "rat \<Rightarrow> string" where
  "toFixed2 v =
     (let n = nat \<lfloor>v * 100 + 1 / 2\<rfloor>
      in show_nat (n div 100) @ ''.'' @ show_nat (n div 10 mod 10) @ show_nat (n mod 10))"

definition formatDurationAmount :: "(string \<Rightarrow> rat option) \<Rightarrow> (rat \<Rightarrow> string) \<Rightarrow> rat \<Rightarrow> string" where
  "formatDurationAmount js_number num_text v =
     (if of_int \<lfloor>v\<rfloor> = v then num_text v
      else case js_number (toFixed2 v) of Some x \<Rightarrow> num_text x | None \<Rightarrow> ''NaN'')"

definition formatDelayDuration ::
    "(string \<Rightarrow> rat option) \<Rightarrow> (rat \<Rightarrow> string) \<Rightarrow> string \<Rightarrow> delay_unit \<Rightarrow> string" where
  "formatDelayDuration js_number num_text amount unit =
     (let normalizedAmount = js_trim amount
      in if normalizedAmount = [] then []
         else case js_number normalizedAmount of
             None \<Rightarrow> normalizedAmount
           | Some numericAmount \<Rightarrow>
               (if numericAmount \<le> 0 then normalizedAmount
                else case unit of
                    Seconds \<Rightarrow> formatDurationAmount js_number num_text numericAmount @ ''s''
                  | Minutes \<Rightarrow> formatDurationAmount js_number num_text numericAmount @ ''m''
                  | Hours \<Rightarrow> formatDurationAmount js_number num_text numericAmount @ ''h''
                  | Days \<Rightarrow> formatDurationAmount js_number num_text (double (numericAmount * 24)) @ ''h''
                  | Weeks \<Rightarrow> formatDurationAmount js_number num_text (double (numericAmount * 168)) @ ''h''))"

section \<open>Parsing (\<open>parse.ts\<close>)\<close>

text \<open>\<open>/^(\d+(?:\.\d+)?)(s|m|h)$/\<close>: the second group of a match is its last character.\<close>

definition delayPattern :: rx where
  "delayPattern = RSeq (RCap 1 rx_number) (RCap 2 (rx_alts [rx_lit ''s'', rx_lit ''m'', rx_lit ''h'']))"

text \<open>\<open>amount % k\<close> of an amount that is not negative.\<close>

definition js_rem :: "rat \<Rightarrow> rat \<Rightarrow> rat" where
  "js_rem amount k = amount - k * of_int \<lfloor>amount / k\<rfloor>"

text \<open>
  The text before the token is digits, so \<open>Number\<close> makes a number of it; too large a number is
  infinite, passes the first test of each branch only, and is printed as \<open>Infinity\<close>.
\<close>

definition parseDelayDuration ::
    "(string \<Rightarrow> rat option) \<Rightarrow> (rat \<Rightarrow> string) \<Rightarrow> string \<Rightarrow> string \<times> delay_unit" where
  "parseDelayDuration js_number num_text duration =
     (let normalizedDuration = js_trim duration
      in if \<not> rx_full delayPattern normalizedDuration then (normalizedDuration, Minutes)
         else
           (let token = last normalizedDuration
            in case js_number (butlast normalizedDuration) of
                 None \<Rightarrow> (''Infinity'', if token = CHR ''h'' then Hours else if token = CHR ''s'' then Seconds else Minutes)
               | Some amount \<Rightarrow>
                   (if token = CHR ''h'' then
                      (if 168 \<le> amount \<and> js_rem amount 168 = 0
                       then (formatDurationAmount js_number num_text (double (amount / 168)), Weeks)
                       else if 24 \<le> amount \<and> js_rem amount 24 = 0
                       then (formatDurationAmount js_number num_text (double (amount / 24)), Days)
                       else (formatDurationAmount js_number num_text amount, Hours))
                    else (formatDurationAmount js_number num_text amount, if token = CHR ''s'' then Seconds else Minutes))))"

section \<open>The inspector (\<open>DelayConfig.tsx\<close>)\<close>

text \<open>
  A change of the amount or of the unit gives the store's \<open>updateNodeDraft\<close> the id of the draft and a function on
  drafts.  The other half of what was typed is read from the draft that is shown.
\<close>

definition amount_updater ::
    "(string \<Rightarrow> rat option) \<Rightarrow> (rat \<Rightarrow> string) \<Rightarrow> string \<Rightarrow> node_draft \<Rightarrow> node_draft \<Rightarrow> node_draft" where
  "amount_updater js_number num_text v draft d =
     d\<lparr>bn_duration := formatDelayDuration js_number num_text v (snd (parseDelayDuration js_number num_text (bn_duration draft)))\<rparr>"

definition unit_updater ::
    "(string \<Rightarrow> rat option) \<Rightarrow> (rat \<Rightarrow> string) \<Rightarrow> delay_unit \<Rightarrow> node_draft \<Rightarrow> node_draft \<Rightarrow> node_draft" where
  "unit_updater js_number num_text unit draft d =
     d\<lparr>bn_duration := formatDelayDuration js_number num_text (fst (parseDelayDuration js_number num_text (bn_duration draft))) unit\<rparr>"

definition delay_amount_changed ::
    "(string \<Rightarrow> rat option) \<Rightarrow> (rat \<Rightarrow> string) \<Rightarrow> string \<Rightarrow> node_draft \<Rightarrow> builder_state \<Rightarrow> builder_state" where
  "delay_amount_changed js_number num_text v draft = updateNodeDraft (bn_id draft) (amount_updater js_number num_text v draft)"

definition delay_unit_changed ::
    "(string \<Rightarrow> rat option) \<Rightarrow> (rat \<Rightarrow> string) \<Rightarrow> delay_unit \<Rightarrow> node_draft \<Rightarrow> builder_state \<Rightarrow> builder_state" where
  "delay_unit_changed js_number num_text unit draft = updateNodeDraft (bn_id draft) (unit_updater js_number num_text unit draft)"

lemma update_other_id: "bn_id draft \<notin> cn_id ` set (bs_nodes s) \<Longrightarrow> updateNodeDraft (bn_id draft) f s = s"
proof -
  assume "bn_id draft \<notin> cn_id ` set (bs_nodes s)"
  then have "map (\<lambda>node. if cn_id node \<noteq> bn_id draft then node
      else (let d = f (cn_draft node) in node\<lparr>cn_draft := normalizeNodeDraftForType d (bn_type d)\<rparr>)) (bs_nodes s) = bs_nodes s"
    by (intro map_idI) (simp, metis image_eqI)
  then show ?thesis by (simp add: updateNodeDraft_def)
qed

lemma opened_canvas_ids: "n \<in> set (bs_nodes (fst (createWorkflowBuilderStore dagre d r))) \<Longrightarrow> \<exists>x. cn_id n = canvas_id x"
proof -
  let ?ns = "fst (buildCanvasNodes (wb_nodes d) r)"
  assume "n \<in> set (bs_nodes (fst (createWorkflowBuilderStore dagre d r)))"
  moreover obtain es where "bs_nodes (fst (createWorkflowBuilderStore dagre d r)) = fst (layoutCanvasGraph dagre ?ns es)"
    by (simp add: createWorkflowBuilderStore_def buildCanvasGraphFromDraft_def Let_def split_beta)
  ultimately have "cn_id n \<in> set (map cn_id ?ns)" using layout_keeps(1) [of dagre ?ns es] by (metis in_set_conv_nth length_map nth_map nth_mem)
  then show ?thesis by (auto simp: buildCanvasNodes_facts)
qed

text \<open>
  The store looks for that id among the ids of the canvas nodes, which differ from those of the drafts: in
  the store of an opened draft none of whose ids has the form of a canvas id, no change in the two fields has
  any effect.  (The field for the name passes the id of the canvas node.)
\<close>

theorem delay_edit_lost:
  assumes "s = fst (createWorkflowBuilderStore dagre d r)" and "bn_id draft \<notin> range canvas_id"
  shows "delay_amount_changed js_number num_text v draft s = s \<and> delay_unit_changed js_number num_text unit draft s = s"
proof -
  have "bn_id draft \<notin> cn_id ` set (bs_nodes s)" using opened_canvas_ids assms by fastforce
  then show ?thesis by (simp add: delay_amount_changed_def delay_unit_changed_def update_other_id)
qed

theorem delay_edit_lost_witness:
  "let s = fst (createWorkflowBuilderStore (\<lambda>_ _ _ _. None) example_draft example_rng)
   in map (bn_id \<circ> cn_draft) (bs_nodes s) = [''trigger_1'', ''delay_1''] \<and>
     (let draft = cn_draft (bs_nodes s ! 1)
      in delay_amount_changed (\<lambda>_. None) (\<lambda>_. []) ''7'' draft s = s)"
proof -
  let ?s = "fst (createWorkflowBuilderStore (\<lambda>_ _ _ _. None) example_draft example_rng)"
  have ids: "map (bn_id \<circ> cn_draft) (bs_nodes ?s) = [''trigger_1'', ''delay_1'']" by code_simp
  have "bn_id (cn_draft (bs_nodes ?s ! 1)) = ''delay_1''" by code_simp
  then have "bn_id (cn_draft (bs_nodes ?s ! 1)) \<notin> range canvas_id" by (auto simp: canvas_id_def)
  then show ?thesis using ids delay_edit_lost [OF refl, of "cn_draft (bs_nodes ?s ! 1)"] unfolding Let_def by blast
qed

section \<open>Whole numbers\<close>

text \<open>What the platform does with whole numbers below \<open>2\<^sup>5\<^sup>3\<close>.\<close>

definition exact_integers :: "(string \<Rightarrow> rat option) \<Rightarrow> (rat \<Rightarrow> string) \<Rightarrow> bool" where
  "exact_integers js_number num_text \<longleftrightarrow>
     (\<forall>n < 2 ^ 53. js_number (show_nat n) = Some (of_nat n) \<and> num_text (of_nat n) = show_nat n)"

definition unit_seconds :: "delay_unit \<Rightarrow> nat" where
  "unit_seconds u = (case u of Seconds \<Rightarrow> 1 | Minutes \<Rightarrow> 60 | Hours \<Rightarrow> 3600 | Days \<Rightarrow> 86400 | Weeks \<Rightarrow> 604800)"

text \<open>The number of the token and its text, for a unit as it is stored.\<close>

definition stored_amount :: "nat \<Rightarrow> delay_unit \<Rightarrow> nat" where
  "stored_amount n u = (case u of Days \<Rightarrow> n * 24 | Weeks \<Rightarrow> n * 168 | _ \<Rightarrow> n)"

definition unit_token :: "delay_unit \<Rightarrow> char" where
  "unit_token u = (case u of Seconds \<Rightarrow> CHR ''s'' | Minutes \<Rightarrow> CHR ''m'' | _ \<Rightarrow> CHR ''h'')"

text \<open>The unit a number of hours is shown in.\<close>

definition hours_unit :: "nat \<Rightarrow> nat \<times> delay_unit" where
  "hours_unit n =
     (if 168 \<le> n \<and> 168 dvd n then (n div 168, Weeks) else if 24 \<le> n \<and> 24 dvd n then (n div 24, Days) else (n, Hours))"

lemma show_nat_no_ws: "c \<in> set (show_nat n) \<Longrightarrow> \<not> js_ws c"
  using show_nat_digits [of c n] by (auto simp: js_ws_def)

lemma js_trim_show [simp]: "js_trim (show_nat n) = show_nat n"
  by (rule js_trim_no_ws) (simp add: show_nat_no_ws)

lemma js_trim_stored [simp]: "js_trim (show_nat n @ [unit_token u]) = show_nat n @ [unit_token u]"
proof (rule js_trim_no_ws)
  have "\<not> js_ws (unit_token u)" by (simp add: js_ws_def unit_token_def split: delay_unit.split)
  then show "\<forall>c \<in> set (show_nat n @ [unit_token u]). \<not> js_ws c" using show_nat_no_ws by auto
qed

lemma delayPattern_stored: "rx_full delayPattern (show_nat n @ [unit_token u])"
proof -
  have plain: "rx_plain delayPattern" by (simp add: delayPattern_def rx_number_def)
  have "show_nat n \<in> rx_lang rx_number"
  proof -
    have "show_nat n \<in> rx_lang (rx_plus rx_digit)"
      unfolding rx_lang_plus_digit using show_nat_digits by (auto simp: list_all_iff)
    then show ?thesis unfolding rx_number_def by (force simp: rx_lang_opt)
  qed
  moreover have "[unit_token u] \<in> rx_lang (rx_alts [rx_lit ''s'', rx_lit ''m'', rx_lit ''h''])"
    by (auto simp: rx_lang_alts unit_token_def split: delay_unit.split)
  ultimately have "show_nat n @ [unit_token u] \<in> rx_lang delayPattern" by (auto simp: delayPattern_def)
  then show ?thesis by (simp add: rx_full_iff [OF plain])
qed

lemma js_rem_nat: "0 < k \<Longrightarrow> js_rem (of_nat n) (of_nat k) = of_nat (n mod k)"
proof -
  assume "0 < k"
  have "\<lfloor>(of_nat n :: rat) / of_nat k\<rfloor> = int (n div k)" by (rule floor_divide_of_nat_eq)
  then show ?thesis unfolding js_rem_def
    by (metis add_diff_cancel_left' mod_mult_div_eq add.commute of_int_of_nat_eq of_nat_add of_nat_mult)
qed

lemma exact_integersD:
  assumes "exact_integers js_number num_text" and "n < 2 ^ 53"
  shows "js_number (show_nat n) = Some (of_nat n)" and "num_text (of_nat n) = show_nat n" and "double (of_nat n) = of_nat n"
    and "formatDurationAmount js_number num_text (of_nat n) = show_nat n"
  using assms double_nat [of n] by (auto simp: exact_integers_def formatDurationAmount_def)

lemma format_stored:
  assumes "exact_integers js_number num_text" and "0 < n" and "stored_amount n u < 2 ^ 53"
  shows "formatDelayDuration js_number num_text (show_nat n) u = show_nat (stored_amount n u) @ [unit_token u]"
proof -
  have n: "n < 2 ^ 53" using assms(3) by (auto simp: stored_amount_def split: delay_unit.splits)
  note ex = exact_integersD [OF assms(1)]
  have "double (of_nat n * 24) = of_nat (n * 24)" if "n * 24 < 2 ^ 53" using ex(3) [OF that] by simp
  moreover have "double (of_nat n * 168) = of_nat (n * 168)" if "n * 168 < 2 ^ 53" using ex(3) [OF that] by simp
  ultimately show ?thesis using assms ex(1,4) [OF n] ex(4) [of "n * 24"] ex(4) [of "n * 168"]
    by (auto simp: formatDelayDuration_def stored_amount_def unit_token_def Let_def simp del: of_nat_mult split: delay_unit.splits)
qed

lemma div_of_nat: "k dvd n \<Longrightarrow> 0 < k \<Longrightarrow> (of_nat n :: rat) / of_nat k = of_nat (n div k)"
  by (auto elim!: dvdE)

lemma parse_stored:
  assumes "exact_integers js_number num_text" and "n < 2 ^ 53"
  shows "parseDelayDuration js_number num_text (show_nat n @ [unit_token u]) =
    (case u of Seconds \<Rightarrow> (show_nat n, Seconds) | Minutes \<Rightarrow> (show_nat n, Minutes)
     | _ \<Rightarrow> (show_nat (fst (hours_unit n)), snd (hours_unit n)))"
proof -
  note ex = exact_integersD [OF assms(1)]
  have rem: "js_rem (of_nat n) 168 = 0 \<longleftrightarrow> 168 dvd n" "js_rem (of_nat n) 24 = 0 \<longleftrightarrow> 24 dvd n"
    using js_rem_nat [of 168 n] js_rem_nat [of 24 n] by (auto simp: dvd_eq_mod_eq_0)
  have le: "(168 :: rat) \<le> of_nat n \<longleftrightarrow> 168 \<le> n" "(24 :: rat) \<le> of_nat n \<longleftrightarrow> 24 \<le> n" by linarith+
  have "n div 168 < 2 ^ 53" "n div 24 < 2 ^ 53" using assms(2) by (auto intro: le_less_trans [OF div_le_dividend])
  then have quot: "168 dvd n \<Longrightarrow> formatDurationAmount js_number num_text (double (of_nat n / 168)) = show_nat (n div 168)"
    "24 dvd n \<Longrightarrow> formatDurationAmount js_number num_text (double (of_nat n / 24)) = show_nat (n div 24)"
    using div_of_nat [of 168 n] div_of_nat [of 24 n] ex(3,4) by auto
  have "parseDelayDuration js_number num_text (show_nat n @ [unit_token u]) =
    (if unit_token u = CHR ''h'' then
       (if 168 \<le> n \<and> 168 dvd n then (show_nat (n div 168), Weeks)
        else if 24 \<le> n \<and> 24 dvd n then (show_nat (n div 24), Days) else (show_nat n, Hours))
     else (show_nat n, if unit_token u = CHR ''s'' then Seconds else Minutes))"
    by (simp add: parseDelayDuration_def Let_def delayPattern_stored ex(1,4) [OF assms(2)] rem le quot cong: if_cong)
  then show ?thesis
    by (cases u) (simp_all add: unit_token_def hours_unit_def)
qed

lemma hours_unit_total:
  assumes "hours_unit n = (m, u)"
  shows "stored_amount m u = n" and "u \<in> {Hours, Days, Weeks}" and "0 < n \<Longrightarrow> 0 < m"
  using assms by (auto simp: hours_unit_def stored_amount_def split: if_splits elim!: dvdE)

text \<open>C34: A whole amount in any unit comes back from the stored duration as the same time span, with the days and
  weeks it makes up, and what the inspector shows for a stored whole duration is stored as the same text again.\<close>

theorem duration_roundtrip:
  assumes "exact_integers js_number num_text" and "0 < n" and "stored_amount n u < 2 ^ 53"
  shows "\<exists>m v. parseDelayDuration js_number num_text (formatDelayDuration js_number num_text (show_nat n) u) = (show_nat m, v) \<and>
      m * unit_seconds v = n * unit_seconds u \<and>
      formatDelayDuration js_number num_text (show_nat m) v = formatDelayDuration js_number num_text (show_nat n) u"
proof -
  let ?k = "stored_amount n u"
  have k: "0 < ?k" using assms(2) by (simp add: stored_amount_def split: delay_unit.split)
  note f = format_stored [OF assms] and p = parse_stored [OF assms(1,3), of u]
  obtain m v where mv: "hours_unit ?k = (m, v)" by (cases "hours_unit ?k")
  note h = hours_unit_total [OF mv]
  show ?thesis
  proof (cases "u = Seconds \<or> u = Minutes")
    case True
    then have "?k = n" by (auto simp: stored_amount_def)
    with True f p show ?thesis by (auto simp: unit_seconds_def)
  next
    case False
    then have "unit_token u = CHR ''h''" by (cases u) (simp_all add: unit_token_def)
    moreover have "unit_token v = CHR ''h''" using h(2) by (auto simp: unit_token_def)
    moreover have "formatDelayDuration js_number num_text (show_nat m) v = show_nat ?k @ [unit_token v]"
      using format_stored [OF assms(1), of m v] h(1,3) k assms(3) by simp
    moreover have "m * unit_seconds v = n * unit_seconds u"
      using h(1,2) False by (cases u) (auto simp: unit_seconds_def stored_amount_def)
    ultimately show ?thesis using False f p mv by (cases u) auto
  qed
qed

text \<open>The functions of the fields would not keep the unit while an amount is typed: clearing the amount makes it
  minutes, and a whole number of hours that makes up days is shown in days or weeks at once.\<close>

theorem typing_changes_unit:
  assumes "exact_integers js_number num_text" and "24 dvd n" and "0 < n" and "n < 2 ^ 53"
    and "snd (parseDelayDuration js_number num_text (bn_duration d)) = Hours"
  shows "parseDelayDuration js_number num_text (bn_duration (amount_updater js_number num_text [] d d)) = ([], Minutes) \<and>
    snd (parseDelayDuration js_number num_text
      (bn_duration (amount_updater js_number num_text (show_nat n) d d))) \<in> {Days, Weeks}"
proof
  have e: "\<not> rx_full delayPattern []" by code_simp
  then show "parseDelayDuration js_number num_text (bn_duration (amount_updater js_number num_text [] d d)) = ([], Minutes)"
    by (simp add: amount_updater_def formatDelayDuration_def parseDelayDuration_def)
  have "24 \<le> n" using assms(2,3) by (auto elim!: dvdE)
  then show "snd (parseDelayDuration js_number num_text
      (bn_duration (amount_updater js_number num_text (show_nat n) d d))) \<in> {Days, Weeks}"
    using format_stored [OF assms(1,3), of Hours] parse_stored [OF assms(1,4), of Hours] assms(2,4,5)
    by (auto simp: amount_updater_def stored_amount_def hours_unit_def)
qed

text \<open>Platform functions that satisfy the hypothesis: whole numbers only.\<close>

definition sample_number :: "string \<Rightarrow> rat option" where
  "sample_number s = Some (of_nat (fold (\<lambda>c n. 10 * n + (of_char c - 48)) s 0))"

definition sample_text :: "rat \<Rightarrow> string" where
  "sample_text v = show_nat (nat \<lfloor>v\<rfloor>)"

lemma sample_exact: "exact_integers sample_number sample_text"
  by (simp add: exact_integers_def sample_number_def sample_text_def fold_show_nat)

theorem duration_roundtrip_witness:
  "\<exists>m v. parseDelayDuration sample_number sample_text (formatDelayDuration sample_number sample_text (show_nat 14) Days) =
      (show_nat m, v) \<and> m * unit_seconds v = 14 * 86400 \<and>
    formatDelayDuration sample_number sample_text (show_nat m) v =
      formatDelayDuration sample_number sample_text (show_nat 14) Days"
  using duration_roundtrip [OF sample_exact, of 14 Days] by (simp add: stored_amount_def unit_seconds_def)

theorem typing_changes_unit_witness:
  "let d = \<lparr>bn_id = ''d'', bn_name = ''Wait'', bn_type = Delay, bn_duration = show_nat 2 @ ''h'', bn_templateId = [],
      bn_channel = [], bn_field = [], bn_operator = [], bn_value = []\<rparr>
   in parseDelayDuration sample_number sample_text
        (bn_duration (amount_updater sample_number sample_text [] d d)) = ([], Minutes) \<and>
      snd (parseDelayDuration sample_number sample_text
        (bn_duration (amount_updater sample_number sample_text (show_nat 24) d d))) \<in> {Days, Weeks}"
proof -
  let ?d = "\<lparr>bn_id = ''d'', bn_name = ''Wait'', bn_type = Delay, bn_duration = show_nat 2 @ ''h'', bn_templateId = [],
      bn_channel = [], bn_field = [], bn_operator = [], bn_value = []\<rparr>"
  have "snd (parseDelayDuration sample_number sample_text (bn_duration ?d)) = Hours"
    using parse_stored [OF sample_exact, of 2 Hours] by (simp add: unit_token_def hours_unit_def)
  from typing_changes_unit [OF sample_exact _ _ _ this, of 24] show ?thesis unfolding Let_def by simp
qed

end
