(* ===== verification/Auth_Flows.thy ===== *)
theory Auth_Flows
  imports Workflow_Setup
begin

text \<open>
  Signing in and up (\<open>features/auth\<close>): the handlers of the pages \<open>components/Login.tsx\<close>,
  \<open>Register.tsx\<close>, \<open>VerifyEmail.tsx\<close> and \<open>Onboarding.tsx\<close>, and the password reset with its three
  steps (\<open>hooks/use-forgot-password.ts\<close>, \<open>schema/forgot-password.ts\<close>, \<open>components/forgot-password\<close>).

  A page is its error, the navigation it has done and the calls it has made; every handler that awaits
  is split there.  The email pattern of the schema library is a parameter.
\<close>

section \<open>Pages\<close>

datatype navigation = Replace string | Refresh

text \<open>What a rejected mutation carries: an error of the API client, or anything else.\<close>

datatype auth_thrown = ApiThrown string int "json option" | Thrown thrown

definition auth_message :: "auth_thrown \<Rightarrow> string \<Rightarrow> string" where
  "auth_message e fallback = (case e of ApiThrown m _ _ \<Rightarrow> m | Thrown t \<Rightarrow> error_message t fallback)"

record auth_page =
  au_error :: "string option"
  au_message :: "string option"
  au_nav :: "navigation list"
  au_calls :: "api_call list"

definition new_page :: "string option \<Rightarrow> auth_page" where
  "new_page error = \<lparr>au_error = error, au_message = None, au_nav = [], au_calls = []\<rparr>"

definition call_api :: "api_call \<Rightarrow> auth_page \<Rightarrow> auth_page" where
  "call_api c st = st\<lparr>au_error := None, au_calls := au_calls st @ [c]\<rparr>"

definition leave_to :: "string \<Rightarrow> auth_page \<Rightarrow> auth_page" where
  "leave_to path st = st\<lparr>au_nav := au_nav st @ [Replace path, Refresh]\<rparr>"

definition home_path :: "bool \<Rightarrow> string" where
  "home_path needs_onboarding = (if needs_onboarding then ''/auth/onboarding'' else ''/dashboard'')"

definition verify_path :: "string \<Rightarrow> string" where
  "verify_path email = ''/auth/verify?email='' @ encodeURIComponent email"

subsection \<open>\<open>Login.tsx\<close>\<close>

definition login_submit :: "string \<Rightarrow> string \<Rightarrow> auth_page \<Rightarrow> auth_page" where
  "login_submit email password st =
     call_api (authApi_signin (JObj [(''email'', JStr email), (''password'', JStr password)])) st"

definition login_answered :: "bool \<Rightarrow> auth_page \<Rightarrow> auth_page" where
  "login_answered needs_onboarding st = leave_to (home_path needs_onboarding) st"

text \<open>\<open>err.body && typeof err.body.email === 'string' ? err.body.email : ''\<close>\<close>

definition body_email :: "json option \<Rightarrow> string" where
  "body_email body = (case body of Some (JObj o1) \<Rightarrow> str_or_empty (obj_str o1 ''email'') | _ \<Rightarrow> [])"

definition login_failed :: "auth_thrown \<Rightarrow> auth_page \<Rightarrow> auth_page" where
  "login_failed err st =
     (let email = (case err of ApiThrown m status body \<Rightarrow> if status = 403 then body_email body else [] | Thrown _ \<Rightarrow> [])
      in if email \<noteq> [] then st\<lparr>au_nav := au_nav st @ [Replace (verify_path email)]\<rparr>
         else st\<lparr>au_error := Some (auth_message err ''Unable to sign in.'')\<rparr>)"

subsection \<open>\<open>Register.tsx\<close>\<close>

definition register_submit :: "string \<Rightarrow> string \<Rightarrow> string \<Rightarrow> string \<Rightarrow> auth_page \<Rightarrow> auth_page" where
  "register_submit firstName lastName email password st =
     call_api (authApi_signup (JObj [(''first_name'', JStr firstName), (''last_name'', JStr lastName),
       (''email'', JStr email), (''password'', JStr password)])) st"

definition register_answered :: "string \<Rightarrow> string option \<Rightarrow> auth_page \<Rightarrow> auth_page" where
  "register_answered email resultEmail st = leave_to (verify_path (js_or (str_or_empty resultEmail) email)) st"

definition register_failed :: "auth_thrown \<Rightarrow> auth_page \<Rightarrow> auth_page" where
  "register_failed err st = st\<lparr>au_error := Some (auth_message err ''Unable to create your account.'')\<rparr>"

subsection \<open>\<open>VerifyEmail.tsx\<close>\<close>

text \<open>The email the field starts with: \<open>searchParams.get('email') || ''\<close>.\<close>

definition verify_initial_email :: "string \<Rightarrow> string" where
  "verify_initial_email href = str_or_empty (link_params href ''email'')"

definition verify_submit :: "string \<Rightarrow> string \<Rightarrow> auth_page \<Rightarrow> auth_page" where
  "verify_submit email code st = call_api (authApi_verifyEmail (JObj [(''email'', JStr email), (''code'', JStr code)])) st"

definition verify_answered :: "bool \<Rightarrow> auth_page \<Rightarrow> auth_page" where
  "verify_answered needs_onboarding st = leave_to (home_path needs_onboarding) st"

definition verify_failed :: "auth_thrown \<Rightarrow> auth_page \<Rightarrow> auth_page" where
  "verify_failed err st = st\<lparr>au_error := Some (auth_message err ''Unable to verify your email.'')\<rparr>"

definition handleResend :: "string \<Rightarrow> auth_page \<Rightarrow> auth_page" where
  "handleResend email st = call_api (authApi_resendVerification (JObj [(''email'', JStr email)])) (st\<lparr>au_message := None\<rparr>)"

definition resend_answered :: "auth_page \<Rightarrow> auth_page" where
  "resend_answered st = st\<lparr>au_message := Some ''A new code has been sent to your email.''\<rparr>"

definition resend_failed :: "auth_thrown \<Rightarrow> auth_page \<Rightarrow> auth_page" where
  "resend_failed err st = st\<lparr>au_error := Some (auth_message err ''Failed to resend code.'')\<rparr>"

subsection \<open>\<open>Onboarding.tsx\<close>\<close>

definition onboarding_submit :: "string \<Rightarrow> auth_page \<Rightarrow> auth_page" where
  "onboarding_submit organizationName st =
     call_api (authApi_completeOnboarding (JObj [(''organization_name'', JStr organizationName)])) st"

definition onboarding_answered :: "auth_page \<Rightarrow> auth_page" where
  "onboarding_answered st = leave_to ''/dashboard'' st"

definition onboarding_failed :: "auth_thrown \<Rightarrow> auth_page \<Rightarrow> auth_page" where
  "onboarding_failed err st = st\<lparr>au_error := Some (auth_message err ''Unable to complete onboarding.'')\<rparr>"

section \<open>The password reset\<close>

subsection \<open>The schemas (\<open>schema/forgot-password.ts\<close>)\<close>

definition emailSchema :: "(string \<Rightarrow> bool) \<Rightarrow> string \<Rightarrow> string + string" where
  "emailSchema email_ok email = (if email_ok email then Inr email else Inl ''Enter a valid email address'')"

definition codeSchema :: "string \<Rightarrow> string + string" where
  "codeSchema code = (if length code = 6 then Inr code else Inl ''Code must be 6 digits'')"

definition resetPasswordSchema :: "string \<Rightarrow> string + string" where
  "resetPasswordSchema newPassword =
     (if 8 \<le> length newPassword then Inr newPassword else Inl ''Password must be at least 8 characters'')"

subsection \<open>The flow (\<open>use-forgot-password.ts\<close>)\<close>

datatype reset_step = Step_email | Step_code | Step_password

datatype reset_call = SendCode string | VerifyCode string string | ResetPassword string string string

text \<open>\<open>ff_tasks\<close> are the calls not yet answered, \<open>ff_verified\<close> the pairs the server has confirmed.\<close>

record reset_flow =
  ff_step :: reset_step
  ff_email :: string
  ff_code :: string
  ff_error :: "string option"
  ff_tasks :: "reset_call list"
  ff_calls :: "reset_call list"
  ff_verified :: "(string \<times> string) list"
  ff_nav :: "navigation list"

definition useForgotPasswordFlow :: reset_flow where
  "useForgotPasswordFlow =
     \<lparr>ff_step = Step_email, ff_email = [], ff_code = [], ff_error = None, ff_tasks = [], ff_calls = [],
      ff_verified = [], ff_nav = []\<rparr>"

definition reset_send :: "reset_call \<Rightarrow> reset_flow \<Rightarrow> reset_flow" where
  "reset_send c st = st\<lparr>ff_tasks := ff_tasks st @ [c], ff_calls := ff_calls st @ [c]\<rparr>"

definition handleSendCode :: "string \<Rightarrow> reset_flow \<Rightarrow> reset_flow" where
  "handleSendCode submittedEmail st =
     reset_send (SendCode submittedEmail) (st\<lparr>ff_error := None, ff_email := submittedEmail\<rparr>)"

definition handleVerifyCode :: "string \<Rightarrow> reset_flow \<Rightarrow> reset_flow" where
  "handleVerifyCode submittedCode st =
     reset_send (VerifyCode (ff_email st) submittedCode) (st\<lparr>ff_error := None, ff_code := submittedCode\<rparr>)"

definition handleResetPassword :: "string \<Rightarrow> reset_flow \<Rightarrow> reset_flow" where
  "handleResetPassword newPassword st =
     reset_send (ResetPassword (ff_email st) (ff_code st) newPassword) (st\<lparr>ff_error := None\<rparr>)"

definition goBackToEmail :: "reset_flow \<Rightarrow> reset_flow" where
  "goBackToEmail st = st\<lparr>ff_error := None, ff_step := Step_email\<rparr>"

fun reset_answered :: "reset_call \<Rightarrow> reset_flow \<Rightarrow> reset_flow" where
  "reset_answered (SendCode e) st = st\<lparr>ff_step := Step_code\<rparr>"
| "reset_answered (VerifyCode e c) st = st\<lparr>ff_step := Step_password, ff_verified := (e, c) # ff_verified st\<rparr>"
| "reset_answered (ResetPassword e c p) st = st\<lparr>ff_nav := ff_nav st @ [Replace ''/auth/login'', Refresh]\<rparr>"

fun reset_failed :: "reset_call \<Rightarrow> thrown \<Rightarrow> reset_flow \<Rightarrow> reset_flow" where
  "reset_failed (SendCode e) err st = st\<lparr>ff_error := Some (error_message err ''Something went wrong.'')\<rparr>"
| "reset_failed (VerifyCode e c) err st = st\<lparr>ff_error := Some (error_message err ''Invalid or expired code.'')\<rparr>"
| "reset_failed (ResetPassword e c p) err st = st\<lparr>ff_error := Some (error_message err ''Failed to reset password.'')\<rparr>"

definition reset_answer :: "nat \<Rightarrow> thrown option \<Rightarrow> reset_flow \<Rightarrow> reset_flow" where
  "reset_answer n failure st =
     (if n < length (ff_tasks st)
      then
        (let c = ff_tasks st ! n; st' = st\<lparr>ff_tasks := take n (ff_tasks st) @ drop (Suc n) (ff_tasks st)\<rparr>
         in case failure of None \<Rightarrow> reset_answered c st' | Some err \<Rightarrow> reset_failed c err st')
      else st)"

subsection \<open>What the page allows (\<open>components/forgot-password\<close>)\<close>

definition isSendingCode :: "reset_flow \<Rightarrow> bool" where
  "isSendingCode st \<longleftrightarrow> list_ex (\<lambda>c. case c of SendCode _ \<Rightarrow> True | _ \<Rightarrow> False) (ff_tasks st)"

definition isVerifyingCode :: "reset_flow \<Rightarrow> bool" where
  "isVerifyingCode st \<longleftrightarrow> list_ex (\<lambda>c. case c of VerifyCode _ _ \<Rightarrow> True | _ \<Rightarrow> False) (ff_tasks st)"

definition isResettingPassword :: "reset_flow \<Rightarrow> bool" where
  "isResettingPassword st \<longleftrightarrow> list_ex (\<lambda>c. case c of ResetPassword _ _ _ \<Rightarrow> True | _ \<Rightarrow> False) (ff_tasks st)"

text \<open>The second form compares the passwords after the schema: its message, or the submission.\<close>

definition reset_form_submit :: "string \<Rightarrow> string \<Rightarrow> string + string" where
  "reset_form_submit newPassword confirmPassword =
     (if newPassword \<noteq> confirmPassword then Inl ''Passwords do not match.'' else Inr newPassword)"

definition handleConfirmChange :: "string \<Rightarrow> string \<Rightarrow> string option" where
  "handleConfirmChange newPass v = (if newPass \<noteq> [] \<and> v \<noteq> newPass then Some ''Passwords do not match.'' else None)"

text \<open>\<open>e.target.value.replace(/\D/g, '').slice(0, 6)\<close>\<close>

definition code_input :: "string \<Rightarrow> string" where
  "code_input v = take 6 (filter (\<lambda>c. c \<in> set ''0123456789'') v)"

text \<open>The flow's error as the step on screen is given it: the first step takes none.\<close>

definition shown_error :: "reset_flow \<Rightarrow> string option" where
  "shown_error st = (if ff_step st = Step_email then None else ff_error st)"

datatype reset_event =
    SubmitEmail string
  | SubmitCode string
  | SubmitPassword string string
  | Back
  | AnswerCall nat "thrown option"

text \<open>An event of the page; a form that is not shown, is disabled or invalid does nothing.\<close>

fun reset_page_event :: "(string \<Rightarrow> bool) \<Rightarrow> reset_event \<Rightarrow> reset_flow \<Rightarrow> reset_flow" where
  "reset_page_event email_ok (SubmitEmail e) st =
     (if ff_step st = Step_email \<and> \<not> isSendingCode st
      then case emailSchema email_ok e of Inr v \<Rightarrow> handleSendCode v st | Inl _ \<Rightarrow> st else st)"
| "reset_page_event email_ok (SubmitCode c) st =
     (if ff_step st = Step_code \<and> \<not> isVerifyingCode st
      then case codeSchema (code_input c) of Inr v \<Rightarrow> handleVerifyCode v st | Inl _ \<Rightarrow> st else st)"
| "reset_page_event email_ok (SubmitPassword p q) st =
     (if ff_step st = Step_password \<and> \<not> isResettingPassword st
      then case resetPasswordSchema p of
          Inr v \<Rightarrow> (case reset_form_submit v q of Inr w \<Rightarrow> handleResetPassword w st | Inl _ \<Rightarrow> st)
        | Inl _ \<Rightarrow> st
      else st)"
| "reset_page_event email_ok Back st = (if ff_step st = Step_code then goBackToEmail st else st)"
| "reset_page_event email_ok (AnswerCall n failure) st = reset_answer n failure st"

section \<open>The link to the verification page\<close>

lemma encodeURIComponent_plain: "x \<in> set (encodeURIComponent s) \<Longrightarrow> \<not> form_special x"
proof -
  have "\<not> form_special c" if "uri_unreserved c" for c
    using that by (auto simp: form_special_def uri_unreserved_def)
  then show "x \<in> set (encodeURIComponent s) \<Longrightarrow> \<not> form_special x"
    using percent_encode_plain by (auto simp: encodeURIComponent_def split: if_splits)
qed

lemma form_decode_component: "form_decode (encodeURIComponent s) = s"
proof -
  have "map (\<lambda>c. if c = CHR ''+'' then CHR '' '' else c) (encodeURIComponent s) = encodeURIComponent s"
    using encodeURIComponent_plain by (intro map_idI) (auto simp: form_special_def)
  then show ?thesis by (simp add: form_decode_def uri_decode_encode)
qed

lemma verify_link: "verify_initial_email (verify_path email) = email"
proof -
  let ?e = "encodeURIComponent email"
  have plain: "CHR ''&'' \<notin> set (''email='' @ ?e)"
    using encodeURIComponent_plain [of "CHR ''&''" email] by (auto simp: form_special_def)
  have q: "query_of_href (verify_path email) = ''email='' @ ?e"
    using query_of_params [of "''/auth/verify''" "''email='' @ ?e"] by (simp add: verify_path_def)
  have "form_decode ''email'' = ''email''" by code_simp
  then have "parse_query (''email='' @ ?e) = [(''email'', email)]"
    unfolding parse_query_def js_split_none [OF plain] by (simp add: parse_pair_def form_decode_component)
  then show ?thesis unfolding verify_initial_email_def link_params_def q by simp
qed

text \<open>A sign-in that is refused because the address is not verified leads to the verification page with that
  very address filled in, whatever characters it has, and so does a registration.\<close>

theorem unverified_signin_leads_to_verification:
  "au_nav (login_failed (ApiThrown m 403 (Some (JObj [(''error'', JStr m), (''email'', JStr (c # email))]))) st) =
     au_nav st @ [Replace (verify_path (c # email))] \<and>
   verify_initial_email (verify_path (c # email)) = c # email \<and>
   au_nav (register_answered (c # email) None st) = au_nav st @ [Replace (verify_path (c # email)), Refresh]"
  using verify_link by (simp add: login_failed_def body_email_def obj_str_def register_answered_def leave_to_def)

section \<open>Only verified codes are used\<close>

text \<open>The events of a user who does not go back while a code is being checked.\<close>

definition calm_event :: "(string \<Rightarrow> bool) \<Rightarrow> reset_event \<Rightarrow> reset_flow \<Rightarrow> reset_flow" where
  "calm_event email_ok e st = (if e = Back \<and> ff_tasks st \<noteq> [] then st else reset_page_event email_ok e st)"

definition uses_verified :: "(string \<times> string) list \<Rightarrow> reset_call \<Rightarrow> bool" where
  "uses_verified verified c = (case c of ResetPassword e code p \<Rightarrow> (e, code) \<in> set verified | _ \<Rightarrow> True)"

text \<open>At most one call is under way, it belongs to the step shown, and the last step has a verified pair.\<close>

fun task_fits :: "reset_flow \<Rightarrow> reset_call \<Rightarrow> bool" where
  "task_fits st (SendCode e) = (ff_step st = Step_email)"
| "task_fits st (VerifyCode e c) = (ff_step st = Step_code \<and> e = ff_email st \<and> c = ff_code st)"
| "task_fits st (ResetPassword e c p) = (ff_step st = Step_password)"

definition reset_inv :: "reset_flow \<Rightarrow> bool" where
  "reset_inv st \<longleftrightarrow>
     (ff_tasks st = [] \<or> (\<exists>c. ff_tasks st = [c] \<and> task_fits st c)) \<and>
     (ff_step st = Step_password \<longrightarrow> (ff_email st, ff_code st) \<in> set (ff_verified st)) \<and>
     list_all (uses_verified (ff_verified st)) (ff_calls st)"

lemmas reset_ops = handleSendCode_def handleVerifyCode_def handleResetPassword_def goBackToEmail_def reset_send_def
  isSendingCode_def isVerifyingCode_def isResettingPassword_def

lemma uses_verified_mono: "list_all (uses_verified vs) cs \<Longrightarrow> list_all (uses_verified (v # vs)) cs"
  by (auto simp: list_all_iff uses_verified_def split: reset_call.split)

lemma reset_answer_inv:
  assumes "reset_inv st"
  shows "reset_inv (reset_answer n failure st)"
proof (cases "n < length (ff_tasks st)")
  case True
  with assms obtain c where c: "ff_tasks st = [c]" "task_fits st c" "n = 0" by (auto simp: reset_inv_def)
  with assms show ?thesis
    by (cases c; cases failure) (auto simp: reset_inv_def reset_answer_def Let_def uses_verified_mono)
qed (use assms in \<open>simp add: reset_answer_def\<close>)

interpretation calm: machine "calm_event email_ok" reset_inv for email_ok
proof
  fix st e
  assume inv: "reset_inv st"
  show "reset_inv (calm_event email_ok e st)"
  proof (cases e)
    case (AnswerCall n failure)
    with inv show ?thesis by (simp add: calm_event_def reset_answer_inv)
  next
    case (SubmitEmail m)
    with inv show ?thesis
      by (auto simp: calm_event_def reset_inv_def reset_ops emailSchema_def uses_verified_def elim!: task_fits.elims)
  next
    case (SubmitCode c)
    with inv show ?thesis
      by (auto simp: calm_event_def reset_inv_def reset_ops codeSchema_def uses_verified_def elim!: task_fits.elims)
  next
    case (SubmitPassword p q)
    with inv show ?thesis
      by (auto simp: calm_event_def reset_inv_def reset_ops resetPasswordSchema_def reset_form_submit_def uses_verified_def
          elim!: task_fits.elims)
  next
    case Back
    with inv show ?thesis by (auto simp: calm_event_def reset_inv_def reset_ops)
  qed
qed

text \<open>C31: As long as the user does not go back while a call is under way, every password reset that is sent carries
  an address and a code that the server has confirmed together.\<close>

theorem reset_uses_verified_code:
  "let st = fold (calm_event email_ok) es useForgotPasswordFlow
   in list_all (uses_verified (ff_verified st)) (ff_calls st)"
proof -
  have "reset_inv useForgotPasswordFlow" by (simp add: reset_inv_def useForgotPasswordFlow_def)
  from calm.run [OF this, of email_ok es] show ?thesis by (simp add: reset_inv_def Let_def)
qed

text \<open>C32: Going back while a code is checked breaks this: the address given meanwhile replaces the one that was
  checked, and the late confirmation opens the last step, which sends the new address with the other one's code.\<close>

theorem back_while_verifying:
  assumes "email_ok a" and "email_ok b"
  defines "st \<equiv> fold (reset_page_event email_ok)
    [SubmitEmail a, AnswerCall 0 None, SubmitCode ''123456'', Back, SubmitEmail b, AnswerCall 0 None,
     SubmitPassword ''new-password'' ''new-password''] useForgotPasswordFlow"
  shows "ff_verified st = [(a, ''123456'')] \<and> last (ff_calls st) = ResetPassword b ''123456'' ''new-password''"
  using assms(1,2)
  by (simp add: st_def useForgotPasswordFlow_def reset_answer_def reset_ops emailSchema_def codeSchema_def code_input_def
      resetPasswordSchema_def reset_form_submit_def)

theorem back_while_verifying_witness:
  "ff_verified (fold (reset_page_event (\<lambda>_. True))
    [SubmitEmail ''a@x.org'', AnswerCall 0 None, SubmitCode ''123456'', Back, SubmitEmail ''b@x.org'', AnswerCall 0 None,
     SubmitPassword ''new-password'' ''new-password''] useForgotPasswordFlow) = [(''a@x.org'', ''123456'')]"
  using back_while_verifying [of "\<lambda>_. True" "''a@x.org''" "''b@x.org''"] by simp

text \<open>A code that could not be sent leaves the first step as it was: the error is kept but not shown.\<close>

lemma send_failure_not_shown:
  assumes "ff_step st = Step_email" and "ff_tasks st = [SendCode e]"
  shows "ff_error (reset_answer 0 (Some err) st) = Some (error_message err ''Something went wrong.'') \<and>
    shown_error (reset_answer 0 (Some err) st) = None"
  using assms by (simp add: reset_answer_def shown_error_def)

end
