(* ===== verification/Test_Send.thy ===== *)
theory Test_Send
  imports Preview_Hooks Sms
begin

text \<open>
  The preview panel of a channel page (\<open>configure/ChannelPreviewPanel.tsx\<close>) with its test dialogs
  (\<open>configure/components/preview\<close>): what is shown, what a test message contains, and how the dialogs, the
  mutation and the timer that closes a dialog run together.

  A send is split at its \<open>await\<close>.  The mutation hook shows the state of the send it observes: the latest
  one, or none after \<open>reset()\<close>.  Timers are not cleared, so each stays until it fires.
\<close>

section \<open>The panel\<close>

record preview_props =
  pp_channel :: string
  pp_subject :: string
  pp_body :: string
  pp_contentJson :: "json option"
  pp_labelsSubject :: string
  pp_context :: "(string \<times> json) list option"
  pp_subscriber :: "preview_subscriber option"
  pp_senderName :: "string option"
  pp_senderEmail :: "string option"
  pp_smsSenderId :: "string option"

datatype send_mutation = SM_idle | SM_pending | SM_success | SM_error thrown

datatype send_status = Status_sending | Status_sent | Status_error | Status_idle

definition sendStatusValue :: "bool \<Rightarrow> bool \<Rightarrow> bool \<Rightarrow> send_status" where
  "sendStatusValue isPending isSuccess isError =
     (if isPending then Status_sending else if isSuccess then Status_sent else if isError then Status_error else Status_idle)"

definition sendErrorMessage :: "thrown option \<Rightarrow> string \<Rightarrow> string" where
  "sendErrorMessage err fallback = (case err of None \<Rightarrow> [] | Some e \<Rightarrow> error_message e fallback)"

record test_payload =
  ts_channel :: string
  ts_recipient_email :: "string option"
  ts_recipient_phone :: "string option"
  ts_subject :: "string option"
  ts_body :: string
  ts_sender_name :: "string option"
  ts_sender_email :: "string option"
  ts_sender_id :: "string option"

datatype test_target = To_email | To_sms

record test_panel =
  tt_mobileView :: bool
  tt_testEmailOpen :: bool
  tt_testSmsOpen :: bool
  tt_mutation :: send_mutation
  tt_observed :: "nat option"
  tt_tasks :: "(nat \<times> test_target) list"
  tt_timers :: "test_target list"
  tt_sent :: "test_payload list"

definition new_test_panel :: test_panel where
  "new_test_panel =
     \<lparr>tt_mobileView = False, tt_testEmailOpen = False, tt_testSmsOpen = False, tt_mutation = SM_idle,
      tt_observed = None, tt_tasks = [], tt_timers = [], tt_sent = []\<rparr>"

definition subscriberEmail :: "preview_props \<Rightarrow> string" where
  "subscriberEmail p = str_or_empty (Option.bind (pp_subscriber p) ps_email)"

definition subscriberPhone :: "preview_props \<Rightarrow> string" where
  "subscriberPhone p = str_or_empty (Option.bind (pp_subscriber p) ps_phone)"

definition subscriberName :: "preview_props \<Rightarrow> string" where
  "subscriberName p = buildSubscriberDisplayName (Option.bind (pp_subscriber p) ps_firstName)
     (Option.bind (pp_subscriber p) ps_lastName)"

definition previewSubject :: "(rat \<Rightarrow> string) \<Rightarrow> preview_props \<Rightarrow> string" where
  "previewSubject num_text p = usePreviewSubject num_text (pp_subject p) (pp_labelsSubject p) (pp_context p)"

definition displaySubject :: "(rat \<Rightarrow> string) \<Rightarrow> preview_props \<Rightarrow> string" where
  "displaySubject num_text p = js_or (previewSubject num_text p) ''(no subject)''"

definition smsRenderedBody :: "(rat \<Rightarrow> string) \<Rightarrow> preview_props \<Rightarrow> string \<Rightarrow> string" where
  "smsRenderedBody num_text p renderedBody =
     (if pp_channel p \<noteq> ''sms'' then renderedBody
      else if js_trim (pp_body p) = [] then ''Start editing to see a live SMS preview.''
      else case pp_context p of Some c \<Rightarrow> resolveTemplateVariables num_text (pp_body p) c | None \<Rightarrow> pp_body p)"

definition resolvedBody :: "(rat \<Rightarrow> string) \<Rightarrow> preview_props \<Rightarrow> string" where
  "resolvedBody num_text p =
     (case pp_context p of Some c \<Rightarrow> resolveTemplateVariables num_text (pp_body p) c | None \<Rightarrow> pp_body p)"

definition preview_inputs :: "preview_props \<Rightarrow> email_inputs" where
  "preview_inputs p = \<lparr>ei_channel = pp_channel p, ei_body = pp_body p, ei_contentJson = pp_contentJson p, ei_context = pp_context p\<rparr>"

section \<open>Sending a test\<close>

definition test_message :: "(rat \<Rightarrow> string) \<Rightarrow> test_target \<Rightarrow> preview_props \<Rightarrow> string option \<Rightarrow> test_payload" where
  "test_message num_text target p mailyHtml =
     (case target of
        To_email \<Rightarrow>
          \<lparr>ts_channel = ''email'', ts_recipient_email = Some (subscriberEmail p), ts_recipient_phone = None,
           ts_subject = Some (previewSubject num_text p), ts_body = js_or (str_or_empty mailyHtml) (resolvedBody num_text p),
           ts_sender_name = pp_senderName p, ts_sender_email = pp_senderEmail p, ts_sender_id = None\<rparr>
      | To_sms \<Rightarrow>
          \<lparr>ts_channel = ''sms'', ts_recipient_email = None, ts_recipient_phone = Some (subscriberPhone p),
           ts_subject = None, ts_body = resolvedBody num_text p, ts_sender_name = None, ts_sender_email = None,
           ts_sender_id = pp_smsSenderId p\<rparr>)"

text \<open>The request of a payload; JSON has no place for an undefined field.\<close>

definition test_request :: "test_payload \<Rightarrow> mutation" where
  "test_request m =
     (let field = (\<lambda>k v. case v of None \<Rightarrow> [] | Some s \<Rightarrow> [(k, JStr s)])
      in useTestSend (JObj ([(''channel'', JStr (ts_channel m))] @ field ''recipient_email'' (ts_recipient_email m) @
           field ''recipient_phone'' (ts_recipient_phone m) @ field ''subject'' (ts_subject m) @ [(''body'', JStr (ts_body m))] @
           field ''sender_name'' (ts_sender_name m) @ field ''sender_email'' (ts_sender_email m) @
           field ''sender_id'' (ts_sender_id m))))"

definition target_address :: "test_target \<Rightarrow> preview_props \<Rightarrow> string" where
  "target_address target p = (case target of To_email \<Rightarrow> subscriberEmail p | To_sms \<Rightarrow> subscriberPhone p)"

definition handleSendTest ::
    "(rat \<Rightarrow> string) \<Rightarrow> test_target \<Rightarrow> preview_props \<Rightarrow> string option \<Rightarrow> test_panel \<Rightarrow> test_panel" where
  "handleSendTest num_text target p mailyHtml st =
     (if target_address target p = [] then st
      else (let k = length (tt_sent st)
            in st\<lparr>tt_mutation := SM_pending, tt_observed := Some k, tt_tasks := tt_tasks st @ [(k, target)],
                  tt_sent := tt_sent st @ [test_message num_text target p mailyHtml]\<rparr>))"

text \<open>The answer to send \<open>k\<close>: only the observed send changes what is shown; a success starts the timer.\<close>

definition test_answered :: "nat \<Rightarrow> thrown option \<Rightarrow> test_panel \<Rightarrow> test_panel" where
  "test_answered k failure st =
     (case map_of (tt_tasks st) k of
        None \<Rightarrow> st
      | Some target \<Rightarrow>
          (let st1 = st\<lparr>tt_tasks := filter (\<lambda>t. fst t \<noteq> k) (tt_tasks st)\<rparr>;
               st2 = (if tt_observed st = Some k
                      then st1\<lparr>tt_mutation := (case failure of None \<Rightarrow> SM_success | Some e \<Rightarrow> SM_error e)\<rparr> else st1)
           in if failure = None then st2\<lparr>tt_timers := tt_timers st2 @ [target]\<rparr> else st2))"

definition reset_mutation :: "test_panel \<Rightarrow> test_panel" where
  "reset_mutation st = st\<lparr>tt_mutation := SM_idle, tt_observed := None\<rparr>"

definition set_dialog_open :: "test_target \<Rightarrow> bool \<Rightarrow> test_panel \<Rightarrow> test_panel" where
  "set_dialog_open target v st =
     (case target of To_email \<Rightarrow> st\<lparr>tt_testEmailOpen := v\<rparr> | To_sms \<Rightarrow> st\<lparr>tt_testSmsOpen := v\<rparr>)"

definition dialog_open :: "test_target \<Rightarrow> test_panel \<Rightarrow> bool" where
  "dialog_open target st = (case target of To_email \<Rightarrow> tt_testEmailOpen st | To_sms \<Rightarrow> tt_testSmsOpen st)"

definition close_timer :: "nat \<Rightarrow> test_panel \<Rightarrow> test_panel" where
  "close_timer i st =
     (if i < length (tt_timers st)
      then reset_mutation (set_dialog_open (tt_timers st ! i) False
             (st\<lparr>tt_timers := take i (tt_timers st) @ drop (Suc i) (tt_timers st)\<rparr>))
      else st)"

definition handleCloseDialog :: "test_panel \<Rightarrow> test_panel" where
  "handleCloseDialog st = reset_mutation (set_dialog_open To_email False st)"

definition handleCloseSmsDialog :: "test_panel \<Rightarrow> test_panel" where
  "handleCloseSmsDialog st = reset_mutation (set_dialog_open To_sms False st)"

section \<open>The dialogs\<close>

text \<open>\<open>PreviewActions\<close>: the dialog a channel offers.\<close>

definition previewActions :: "string \<Rightarrow> test_target option" where
  "previewActions channel =
     (if channel = ''email'' then Some To_email else if channel = ''sms'' then Some To_sms else None)"

definition panel_status :: "test_panel \<Rightarrow> send_status" where
  "panel_status st = sendStatusValue (tt_mutation st = SM_pending) (tt_mutation st = SM_success)
     (case tt_mutation st of SM_error _ \<Rightarrow> True | _ \<Rightarrow> False)"

definition panel_error :: "string \<Rightarrow> test_panel \<Rightarrow> string" where
  "panel_error fallback st = sendErrorMessage (case tt_mutation st of SM_error e \<Rightarrow> Some e | _ \<Rightarrow> None) fallback"

definition send_disabled :: "test_target \<Rightarrow> preview_props \<Rightarrow> test_panel \<Rightarrow> bool" where
  "send_disabled target p st \<longleftrightarrow> panel_status st = Status_sending \<or> target_address target p = []"

text \<open>The lines \<open>Subject:\<close> and \<open>From:\<close> of the email dialog.\<close>

definition dialog_subject :: "(rat \<Rightarrow> string) \<Rightarrow> preview_props \<Rightarrow> string" where
  "dialog_subject num_text p = js_or (previewSubject num_text p) (pp_labelsSubject p)"

definition dialog_from :: "preview_props \<Rightarrow> string" where
  "dialog_from p = js_or (formatSenderLine (pp_senderName p) (pp_senderEmail p))
     (js_or (str_or_empty (pp_senderName p)) ''Sender'' @ '' <'' @
      js_or (str_or_empty (pp_senderEmail p)) ''sender@example.com'' @ ''>'')"

text \<open>The number of messages the SMS dialog announces for a body of this length, when it does.\<close>

definition announced_messages :: "nat \<Rightarrow> nat option" where
  "announced_messages bodyLength =
     (if 160 < bodyLength then Some (nat \<lceil>of_nat bodyLength / (of_nat 160 :: rat)\<rceil>) else None)"

text \<open>What \<open>ChannelPreview\<close> renders, with its body and, for an email, its subject and sender.\<close>

datatype channel_preview =
    EmailPreview bool string string string bool
  | SmsPreview string "string option"
  | PushPreview string string
  | NoPreview

definition channelPreview :: "(rat \<Rightarrow> string) \<Rightarrow> preview_props \<Rightarrow> email_preview \<Rightarrow> test_panel \<Rightarrow> channel_preview" where
  "channelPreview num_text p em st =
     (let rendered = useRenderedBody num_text (pp_body p) (pp_channel p) (pp_context p) (em_html em);
          shown = (if pp_channel p = ''sms'' then smsRenderedBody num_text p rendered else rendered)
      in if pp_channel p = ''email''
         then EmailPreview (tt_mobileView st) (displaySubject num_text p)
           (getDisplaySenderLine (formatSenderLine (pp_senderName p) (pp_senderEmail p)))
           (if tt_mobileView st then shown else js_or (str_or_empty (useRenderedBodyDesktop (em_html em))) shown) (em_loading em)
         else if pp_channel p = ''sms'' then SmsPreview shown (pp_smsSenderId p)
         else if pp_channel p = ''push'' then PushPreview (displaySubject num_text p) shown
         else NoPreview)"

section \<open>The page\<close>

record test_page =
  tg_props :: preview_props
  tg_email :: email_preview
  tg_panel :: test_panel

definition new_test_page :: "(rat \<Rightarrow> string) \<Rightarrow> preview_props \<Rightarrow> test_page" where
  "new_test_page num_text p =
     \<lparr>tg_props = p, tg_email = useEmailPreview num_text (preview_inputs p), tg_panel = new_test_panel\<rparr>"

text \<open>
  New properties come with a render; the effect of the email preview runs again when one of its inputs
  has changed, which for two equal contents may be a new object only.
\<close>

datatype test_event =
    NewProps preview_props bool
  | PageImported bool nat
  | PageRendered nat
  | MobileView bool
  | DialogOpen bool
  | PressSend
  | PressCancel
  | SendAnswered nat "thrown option"
  | CloseTimer nat

definition on_panel :: "(test_panel \<Rightarrow> test_panel) \<Rightarrow> test_page \<Rightarrow> test_page" where
  "on_panel f st = st\<lparr>tg_panel := f (tg_panel st)\<rparr>"

definition press_send :: "(rat \<Rightarrow> string) \<Rightarrow> test_page \<Rightarrow> test_page" where
  "press_send num_text st =
     (case previewActions (pp_channel (tg_props st)) of
        Some target \<Rightarrow>
          (if dialog_open target (tg_panel st) \<and> \<not> send_disabled target (tg_props st) (tg_panel st)
           then on_panel (handleSendTest num_text target (tg_props st) (em_html (tg_email st))) st else st)
      | None \<Rightarrow> st)"

definition press_cancel :: "test_page \<Rightarrow> test_page" where
  "press_cancel st =
     (case previewActions (pp_channel (tg_props st)) of
        Some To_email \<Rightarrow> if dialog_open To_email (tg_panel st) then on_panel handleCloseDialog st else st
      | Some To_sms \<Rightarrow> if dialog_open To_sms (tg_panel st) then on_panel handleCloseSmsDialog st else st
      | None \<Rightarrow> st)"

fun test_step :: "renderer \<Rightarrow> (rat \<Rightarrow> string) \<Rightarrow> test_event \<Rightarrow> test_page \<Rightarrow> test_page" where
  "test_step maily num_text (NewProps p fresh) st =
     st\<lparr>tg_props := p,
        tg_email := (if fresh \<or> preview_inputs p \<noteq> em_inputs (tg_email st)
          then email_step maily num_text (NewInputs (preview_inputs p)) (tg_email st) else tg_email st)\<rparr>"
| "test_step maily num_text (PageImported success k) st =
     st\<lparr>tg_email := email_step maily num_text (Imported success k) (tg_email st)\<rparr>"
| "test_step maily num_text (PageRendered k) st = st\<lparr>tg_email := email_step maily num_text (Rendered k) (tg_email st)\<rparr>"
| "test_step maily num_text (MobileView v) st = on_panel (\<lambda>t. t\<lparr>tt_mobileView := v\<rparr>) st"
| "test_step maily num_text (DialogOpen v) st =
     (case previewActions (pp_channel (tg_props st)) of
        Some target \<Rightarrow> on_panel (set_dialog_open target v) st | None \<Rightarrow> st)"
| "test_step maily num_text PressSend st = press_send num_text st"
| "test_step maily num_text PressCancel st = press_cancel st"
| "test_step maily num_text (SendAnswered k failure) st = on_panel (test_answered k failure) st"
| "test_step maily num_text (CloseTimer i) st = on_panel (close_timer i) st"

section \<open>What a test message contains\<close>

definition test_inv :: "renderer \<Rightarrow> (rat \<Rightarrow> string) \<Rightarrow> test_page \<Rightarrow> bool" where
  "test_inv maily num_text st \<longleftrightarrow>
     email_inv maily num_text (tg_email st) \<and> em_inputs (tg_email st) = preview_inputs (tg_props st)"

lemma email_inputs_kept:
  "em_inputs (email_step maily num_text (Imported success k) em) = em_inputs em"
  "em_inputs (email_step maily num_text (Rendered k) em) = em_inputs em"
  "em_inputs (email_step maily num_text (NewInputs i) em) = i"
  by (auto simp: email_imported_def email_rendered_def email_failed_def email_effect_def Let_def
      split: option.split email_stage.split)

lemma on_panel_inv [simp]: "test_inv maily num_text (on_panel f st) = test_inv maily num_text st"
  by (simp add: test_inv_def on_panel_def)

interpretation tests: machine "test_step maily num_text" "test_inv maily num_text" for maily num_text
proof
  fix st e
  assume inv: "test_inv maily num_text st"
  then have em: "email_inv maily num_text (tg_email st)" by (simp add: test_inv_def)
  note kept = email.preserved [OF em]
  show "test_inv maily num_text (test_step maily num_text e st)"
  proof (cases e)
    case (NewProps p fresh)
    with inv em kept [of "NewInputs (preview_inputs p)"] show ?thesis
      by (auto simp: test_inv_def email_inputs_kept simp del: email_step.simps)
  next
    case (PageImported success k)
    with inv kept [of "Imported success k"] show ?thesis by (simp add: test_inv_def email_inputs_kept del: email_step.simps)
  next
    case (PageRendered k)
    with inv kept [of "Rendered k"] show ?thesis by (simp add: test_inv_def email_inputs_kept del: email_step.simps)
  qed (use inv in \<open>auto simp: press_send_def press_cancel_def split: option.split test_target.split\<close>)
qed

lemma new_test_page_inv: "test_inv maily num_text (new_test_page num_text p)"
proof -
  have "em_inputs (useEmailPreview num_text i) = i" for i
    by (simp add: useEmailPreview_def email_effect_def Let_def)
  then show ?thesis by (simp add: test_inv_def new_test_page_def email_inv_init)
qed

lemma press_send_sent:
  "tt_sent (tg_panel (press_send num_text st)) = tt_sent (tg_panel st) \<or>
   (\<exists>target. previewActions (pp_channel (tg_props st)) = Some target \<and> target_address target (tg_props st) \<noteq> [] \<and>
     tt_sent (tg_panel (press_send num_text st)) =
       tt_sent (tg_panel st) @ [test_message num_text target (tg_props st) (em_html (tg_email st))])"
  by (auto simp: press_send_def handleSendTest_def on_panel_def Let_def send_disabled_def split: option.split)

text \<open>C27: A test message goes to the address of the preview subscriber, which is not empty, and only on the channel of
  the page.  Unless the preview is still loading, its body is the preview of the present content, or the text
  with the variables filled in.\<close>

theorem test_send_content:
  "let st = fold (test_step maily num_text) es (new_test_page num_text p); q = tg_props st;
       sent = tt_sent (tg_panel st); sent' = tt_sent (tg_panel (test_step maily num_text PressSend st))
   in sent' = sent \<or>
     (\<exists>m. sent' = sent @ [m] \<and> ts_channel m = pp_channel q \<and>
       (ts_channel m = ''email'' \<and> ts_recipient_email m = Some (subscriberEmail q) \<and> subscriberEmail q \<noteq> [] \<or>
        ts_channel m = ''sms'' \<and> ts_recipient_phone m = Some (subscriberPhone q) \<and> subscriberPhone q \<noteq> []) \<and>
       (em_loading (tg_email st) \<or> ts_body m = resolvedBody num_text q \<or>
        Some (ts_body m) = preview_of maily num_text (preview_inputs q)))"
proof -
  let ?st = "fold (test_step maily num_text) es (new_test_page num_text p)"
  have "test_inv maily num_text ?st" by (rule tests.run [OF new_test_page_inv])
  then have "em_loading (tg_email ?st) \<or> em_html (tg_email ?st) = None \<or>
      em_html (tg_email ?st) = preview_of maily num_text (preview_inputs (tg_props ?st))"
    by (auto simp: test_inv_def email_inv_def)
  then have html: "em_loading (tg_email ?st) \<or> str_or_empty (em_html (tg_email ?st)) = [] \<or>
      Some (str_or_empty (em_html (tg_email ?st))) = preview_of maily num_text (preview_inputs (tg_props ?st))"
    by (cases "em_html (tg_email ?st)") auto
  show ?thesis
    unfolding Let_def test_step.simps using press_send_sent [of num_text ?st] html
    by (auto simp: previewActions_def test_message_def target_address_def js_or_def split: if_splits)
qed

text \<open>C28: While a changed email is still being rendered, the page of the earlier content is kept and a test message
  carries it: what is sent is not what the editor shows.\<close>

theorem test_email_during_rendering:
  assumes "pp_channel p = ''email''" and "pp_contentJson p = Some c" and "subscriberEmail p \<noteq> []"
    and "preview_of maily num_text (preview_inputs p) = Some (x # xs)"
  shows "let q = p\<lparr>pp_contentJson := Some c', pp_body := body'\<rparr>;
      st = fold (test_step maily num_text)
        [PageImported True 1, PageRendered 1, NewProps q True, DialogOpen True, PressSend] (new_test_page num_text p)
    in tg_props st = q \<and> em_loading (tg_email st) \<and> map ts_body (tt_sent (tg_panel st)) = [x # xs]"
proof -
  let ?q = "p\<lparr>pp_contentJson := Some c', pp_body := body'\<rparr>" and ?em = "useEmailPreview num_text (preview_inputs p)"
  define em where "em = email_step maily num_text (Rendered 1) (email_step maily num_text (Imported True 1) ?em)"
  have start: "em_loading ?em" "em_renderId ?em = 1" "em_inputs ?em = preview_inputs p"
    using assms(1,2) by (simp_all add: useEmailPreview_def email_effect_def preview_inputs_def Let_def)
  have html: "em_html em = Some (x # xs)"
    using email_answers(2) [OF email_inv_init start(1), of maily] start(2,3) assms(4) by (simp add: em_def)
  have changed: "em_html (email_effect num_text (preview_inputs ?q) em) = Some (x # xs)"
    "em_loading (email_effect num_text (preview_inputs ?q) em)"
    using assms(1) html by (simp_all add: email_effect_def preview_inputs_def Let_def)
  have "fold (test_step maily num_text) [PageImported True 1, PageRendered 1, NewProps ?q True, DialogOpen True]
      (new_test_page num_text p) =
    \<lparr>tg_props = ?q, tg_email = email_effect num_text (preview_inputs ?q) em,
     tg_panel = set_dialog_open To_email True new_test_panel\<rparr>"
    using assms(1) by (simp add: new_test_page_def em_def on_panel_def previewActions_def)
  moreover have "subscriberEmail ?q = subscriberEmail p" by (simp add: subscriberEmail_def)
  ultimately show ?thesis using assms(1,3) changed
    by (simp add: Let_def press_send_def previewActions_def dialog_open_def set_dialog_open_def send_disabled_def
        panel_status_def sendStatusValue_def target_address_def handleSendTest_def on_panel_def new_test_panel_def
        test_message_def)
qed

text \<open>
  A page whose subscriber can be written to, and a renderer that returns the text of the content.
\<close>

definition sample_subscriber :: preview_subscriber where
  "sample_subscriber =
     \<lparr>ps_id = ''s'', ps_firstName = Some ''Ada'', ps_lastName = None, ps_email = Some ''ada@x.org'',
      ps_phone = Some ''+4412'', ps_metadata = None\<rparr>"

definition sample_props :: preview_props where
  "sample_props =
     \<lparr>pp_channel = ''email'', pp_subject = ''Hi'', pp_body = ''old'', pp_contentJson = Some (JStr ''old''),
      pp_labelsSubject = ''Subject'', pp_context = None, pp_subscriber = Some sample_subscriber,
      pp_senderName = None, pp_senderEmail = None, pp_smsSenderId = None\<rparr>"

definition text_renderer :: renderer where
  "text_renderer c values = (case c of JStr s \<Rightarrow> Some s | _ \<Rightarrow> None)"

theorem test_email_during_rendering_witness:
  "map ts_body (tt_sent (tg_panel (fold (test_step text_renderer (\<lambda>_. []))
     [PageImported True 1, PageRendered 1, NewProps (sample_props\<lparr>pp_contentJson := Some (JStr ''new''), pp_body := ''new''\<rparr>) True,
      DialogOpen True, PressSend] (new_test_page (\<lambda>_. []) sample_props)))) = [''old'']"
proof -
  have "preview_of text_renderer (\<lambda>_. []) (preview_inputs sample_props) = Some ''old''"
    by (simp add: preview_of_def uses_maily_def preview_inputs_def sample_props_def text_renderer_def)
  moreover have "subscriberEmail sample_props \<noteq> []"
    by (simp add: subscriberEmail_def sample_props_def sample_subscriber_def)
  ultimately show ?thesis
    using test_email_during_rendering [of sample_props "JStr ''old''" text_renderer "\<lambda>_. []"] unfolding Let_def
    by (simp add: sample_props_def del: fold.simps test_step.simps)
qed

section \<open>A late timer\<close>

text \<open>
  The timer of one test closes the dialog of the next: its outcome, here an error, is never shown.
\<close>

theorem second_outcome_lost:
  assumes "pp_channel p = ''email''" and "subscriberEmail p \<noteq> []"
  shows "let t = tg_panel (fold (test_step maily num_text)
      [DialogOpen True, PressSend, SendAnswered 0 None, PressCancel, DialogOpen True, PressSend, CloseTimer 0,
       SendAnswered 1 (Some e)] (new_test_page num_text p))
    in length (tt_sent t) = 2 \<and> panel_status t = Status_idle \<and> panel_error fallback t = [] \<and> \<not> tt_testEmailOpen t"
  using assms
  by (simp add: Let_def new_test_page_def new_test_panel_def on_panel_def press_send_def press_cancel_def previewActions_def
      dialog_open_def set_dialog_open_def send_disabled_def panel_status_def sendStatusValue_def target_address_def
      handleSendTest_def test_answered_def close_timer_def handleCloseDialog_def reset_mutation_def panel_error_def
      sendErrorMessage_def)

theorem second_outcome_lost_witness:
  "length (tt_sent (tg_panel (fold (test_step text_renderer (\<lambda>_. []))
     [DialogOpen True, PressSend, SendAnswered 0 None, PressCancel, DialogOpen True, PressSend, CloseTimer 0,
      SendAnswered 1 (Some OtherThrown)] (new_test_page (\<lambda>_. []) sample_props)))) = 2"
  using second_outcome_lost [of sample_props text_renderer "\<lambda>_. []" OtherThrown] unfolding Let_def
  by (simp add: sample_props_def subscriberEmail_def sample_subscriber_def del: fold.simps test_step.simps)

section \<open>Two counts of messages\<close>

lemma announced_le:
  assumes "announced_messages n = Some k"
  shows "k \<le> m \<longleftrightarrow> n \<le> m * 160"
  using assms ceiling_div_le [of 160 n m] by (auto simp: announced_messages_def split: if_splits)

text \<open>The number of messages the test dialog announces is never above the number of segments the character counter
  shows for the same text, and it is below it whenever the text fills its messages of 160 units: the dialog
  does not know that the parts of a long message hold 153 or 67 units.\<close>

theorem announced_messages_low:
  assumes "announced_messages (length txt) = Some k"
  shows "k \<le> si_segments (getSmsSegmentInfo txt) \<and>
    (length txt = k * 160 \<longrightarrow> k < si_segments (getSmsSegmentInfo txt))"
proof -
  let ?s = "si_segments (getSmsSegmentInfo txt)"
  have long: "160 < length txt" using assms by (simp add: announced_messages_def split: if_splits)
  have "length txt \<le> sms_capacity_of 160 153 ?s \<or> length txt \<le> sms_capacity_of 70 67 ?s"
    using gsm.least_count [of "length txt" ?s] ucs.least_count [of "length txt" ?s]
    by (auto simp: getSmsSegmentInfo_def getSmsCharset_def Let_def split: if_splits)
  with long have fits: "length txt \<le> ?s * 153"
    by (auto simp: sms_capacity_of_def split: if_splits)
  then have "k \<le> ?s" using announced_le [OF assms, of ?s] by linarith
  moreover have "?s * 153 < ?s * 160" using fits long by (cases "?s = 0") simp_all
  ultimately show ?thesis using fits by (metis le_neq_implies_less leD)
qed

theorem announced_messages_low_witness:
  "(2::nat) < si_segments (getSmsSegmentInfo (replicate 320 0x61))"
proof -
  have "announced_messages 320 = Some 2" by (simp add: announced_messages_def)
  with announced_messages_low [of "replicate 320 0x61" 2] show ?thesis by simp
qed

end
