(* ===== verification/Preview_Data.thy ===== *)
theory Preview_Data
  imports Preview_Hooks Queries
begin

text \<open>
  The data around a preview: the panel of a channel page with its payload and its subscriber
  (\<open>configure/DataPanel.tsx\<close>, \<open>SubscriberSearch.tsx\<close>, \<open>ObjectPreview.tsx\<close>, \<open>PreviewSubscriberSelector.tsx\<close>),
  the variables the editor offers (\<open>ChannelEditorPanel.tsx\<close>), the sender (\<open>ConfigureWorkflowChannel.tsx\<close>,
  \<open>SenderDrawer.tsx\<close>), and the two editors of the test run (\<open>SubscriberInfoEditor.tsx\<close>, \<open>PayloadEditor.tsx\<close>).
\<close>

section \<open>Searching a subscriber\<close>

record subscriber_match =
  sm_id :: string
  sm_name :: "string option"
  sm_email :: "string option"
  sm_phone :: "string option"

text \<open>\<open>s.name?.split(' ')[0] || s.name || ''\<close> and \<open>s.name?.split(' ').slice(1).join(' ') || ''\<close>\<close>

definition toPreviewSubscriber :: "subscriber_match \<Rightarrow> preview_subscriber" where
  "toPreviewSubscriber s =
     (let parts = (case sm_name s of None \<Rightarrow> [] | Some n \<Rightarrow> js_split CHR '' '' n)
      in \<lparr>ps_id = sm_id s,
          ps_firstName = Some (js_or (case parts of [] \<Rightarrow> [] | p # _ \<Rightarrow> p) (str_or_empty (sm_name s))),
          ps_lastName = Some (js_join '' '' (drop 1 parts)),
          ps_email = sm_email s, ps_phone = sm_phone s, ps_metadata = None\<rparr>)"

text \<open>\<open>SearchResults\<close>, shown while the query is not empty.\<close>

datatype results_view = ResultsHidden | ResultsSearching | ResultsFound "subscriber_match list" | ResultsEmpty | ResultsPrompt

definition subscriberSearch_view :: "string \<Rightarrow> bool \<Rightarrow> subscriber_match list \<Rightarrow> results_view" where
  "subscriberSearch_view searchQuery isSearching results =
     (if searchQuery = [] then ResultsHidden
      else if isSearching then ResultsSearching
      else if results \<noteq> [] then ResultsFound results else ResultsEmpty)"

text \<open>\<open>PreviewSubscriberSelector\<close>: a menu around the same search.\<close>

record subscriber_selector =
  sl_open :: bool
  sl_search :: search_input

definition selector_handleSelect :: "subscriber_selector \<Rightarrow> subscriber_selector" where
  "selector_handleSelect st = st\<lparr>sl_open := False, sl_search := setSearchQuery [] (sl_search st)\<rparr>"

definition selector_toggleOpen :: "subscriber_selector \<Rightarrow> subscriber_selector" where
  "selector_toggleOpen st =
     (let st' = st\<lparr>sl_open := \<not> sl_open st\<rparr>
      in if \<not> sl_open st then st'\<lparr>sl_search := setSearchQuery [] (sl_search st')\<rparr> else st')"

definition selector_clickOutside :: "subscriber_selector \<Rightarrow> subscriber_selector" where
  "selector_clickOutside st = st\<lparr>sl_open := False\<rparr>"

definition selector_dropdown :: "bool \<Rightarrow> subscriber_match list \<Rightarrow> subscriber_selector \<Rightarrow> results_view" where
  "selector_dropdown searching results st =
     (if searching then ResultsSearching
      else if results \<noteq> [] then ResultsFound results
      else if js_trim (sr_query (sl_search st)) \<noteq> [] then ResultsEmpty else ResultsPrompt)"

section \<open>The data panel\<close>

definition buildSubscriberData :: "preview_subscriber \<Rightarrow> (string \<times> json) list" where
  "buildSubscriberData s =
     (let field = (\<lambda>k v. if truthy v then [(k, JStr (str_or_empty v))] else [])
      in [(''id'', JStr (ps_id s))] @ field ''firstName'' (ps_firstName s) @ field ''lastName'' (ps_lastName s) @
         field ''email'' (ps_email s) @ field ''phone'' (ps_phone s))"

text \<open>What \<open>SubscriberSection\<close> shows; the data is set as the inner HTML of an element.\<close>

datatype section_view = SectionLoading | SectionError string | SectionHtml string | SectionEmpty

definition subscriberSection :: "(rat \<Rightarrow> string) \<Rightarrow> data_panel \<Rightarrow> section_view" where
  "subscriberSection num_text st =
     (if dp_loading st then SectionLoading
      else if truthy (dp_error st) then SectionError (str_or_empty (dp_error st))
      else case dp_preview st of
          Some s \<Rightarrow> SectionHtml (colorizeObject num_text (buildSubscriberData s))
        | None \<Rightarrow> SectionEmpty)"

section \<open>The variables offered (\<open>ChannelEditorPanel.tsx\<close>)\<close>

definition js_typeof :: "json \<Rightarrow> string" where
  "js_typeof v =
     (case v of JStr _ \<Rightarrow> ''string'' | JNum _ \<Rightarrow> ''number'' | JBool _ \<Rightarrow> ''boolean'' | _ \<Rightarrow> ''object'')"

definition payloadVars :: "(string \<Rightarrow> json option) \<Rightarrow> string \<Rightarrow> variable_definition list" where
  "payloadVars parse payload =
     (case parse payload of
        None \<Rightarrow> []
      | Some v \<Rightarrow> map (\<lambda>(key, x). variable_def (payload_key key) key (js_typeof x) (''Payload field: '' @ key)) (json_entries v))"

definition allVariables :: "(string \<Rightarrow> json option) \<Rightarrow> string \<Rightarrow> variable_definition list" where
  "allVariables parse payload =
     (let staticVars = concat (map vg_variables DEFAULT_VARIABLE_GROUPS); dynamic = payloadVars parse payload
      in if length dynamic > 0
         then staticVars @ [variable_def ''payload'' ''Payload'' ''object'' ''User-defined test payload''] @ dynamic
         else staticVars)"

section \<open>The sender\<close>

definition DEFAULT_SENDER_NAME :: string where
  "DEFAULT_SENDER_NAME = ''Yusuf''"

definition DEFAULT_SENDER_EMAIL :: string where
  "DEFAULT_SENDER_EMAIL = ''yusuf@eayclick.com''"

record sender_page =
  sn_name :: string
  sn_email :: string
  sn_useDefaults :: bool
  sn_providerSet :: bool
  sn_provider :: "provider_config option"

definition provider_effect :: "sender_page \<Rightarrow> sender_page" where
  "provider_effect st =
     (case sn_provider st of
        Some p \<Rightarrow>
          (if \<not> sn_providerSet st
           then st\<lparr>sn_providerSet := True, sn_name := str_or_empty (pc_sender_name p), sn_email := str_or_empty (pc_from_email p)\<rparr>
           else st)
      | None \<Rightarrow> st)"

definition new_sender_page :: "provider_config option \<Rightarrow> sender_page" where
  "new_sender_page p =
     provider_effect \<lparr>sn_name = [], sn_email = [], sn_useDefaults = False, sn_providerSet = False, sn_provider = p\<rparr>"

definition displaySender :: "sender_page \<Rightarrow> string \<times> string" where
  "displaySender st =
     (case (sn_useDefaults st, sn_provider st) of
        (True, Some p) \<Rightarrow> (js_or (str_or_empty (pc_sender_name p)) DEFAULT_SENDER_NAME,
                          js_or (str_or_empty (pc_from_email p)) DEFAULT_SENDER_EMAIL)
      | _ \<Rightarrow> (js_or (sn_name st) DEFAULT_SENDER_NAME, js_or (sn_email st) DEFAULT_SENDER_EMAIL))"

definition handleSenderChange :: "string \<Rightarrow> string \<Rightarrow> bool \<Rightarrow> sender_page \<Rightarrow> sender_page" where
  "handleSenderChange name email defaults st = st\<lparr>sn_name := name, sn_email := email, sn_useDefaults := defaults\<rparr>"

record sender_drawer =
  sd_open :: bool
  sd_localName :: string
  sd_localEmail :: string
  sd_localUseDefaults :: bool

text \<open>The drawer takes its own copy of the sender when it is mounted.\<close>

definition mount_drawer :: "sender_page \<Rightarrow> sender_drawer" where
  "mount_drawer st =
     \<lparr>sd_open = False, sd_localName = sn_name st, sd_localEmail = sn_email st, sd_localUseDefaults = sn_useDefaults st\<rparr>"

definition drawer_line :: "sender_page \<Rightarrow> sender_drawer \<Rightarrow> string" where
  "drawer_line st d =
     (let (showName, showEmail) =
        (case (sn_useDefaults st, sn_provider st) of
           (True, Some p) \<Rightarrow> (js_or (str_or_empty (pc_sender_name p)) ''Default provider'', str_or_empty (pc_from_email p))
         | _ \<Rightarrow> (js_or (sd_localName d) ''Yusuf'', sd_localEmail d))
      in if showEmail \<noteq> [] then showName @ '' <'' @ showEmail @ ''>'' else showName)"

datatype sender_event =
    ProviderLoaded provider_config
  | SheetOpen bool
  | SenderName string
  | SenderEmail string
  | SenderDefaults bool
  | SaveSender

text \<open>The inputs of an open drawer; they are disabled while the provider's settings are used.\<close>

fun sender_step :: "sender_event \<Rightarrow> sender_page \<times> sender_drawer \<Rightarrow> sender_page \<times> sender_drawer" where
  "sender_step (ProviderLoaded p) (st, d) = (provider_effect (st\<lparr>sn_provider := Some p\<rparr>), d)"
| "sender_step (SheetOpen v) (st, d) = (st, d\<lparr>sd_open := v\<rparr>)"
| "sender_step (SenderName s) (st, d) =
     (st, if sd_open d \<and> \<not> sd_localUseDefaults d then d\<lparr>sd_localName := s\<rparr> else d)"
| "sender_step (SenderEmail s) (st, d) =
     (st, if sd_open d \<and> \<not> sd_localUseDefaults d then d\<lparr>sd_localEmail := s\<rparr> else d)"
| "sender_step (SenderDefaults v) (st, d) =
     (st, if sd_open d \<and> sn_provider st \<noteq> None then d\<lparr>sd_localUseDefaults := v\<rparr> else d)"
| "sender_step SaveSender (st, d) =
     (if sd_open d
      then (handleSenderChange (sd_localName d) (sd_localEmail d) (sd_localUseDefaults d) st, d\<lparr>sd_open := False\<rparr>)
      else (st, d))"

section \<open>The editors of a test run\<close>

subsection \<open>\<open>SubscriberInfoEditor.tsx\<close>\<close>

record info_editor =
  ie_editing :: bool
  ie_draft :: preview_subscriber

definition info_handleStartEdit :: "preview_subscriber \<Rightarrow> info_editor \<Rightarrow> info_editor" where
  "info_handleStartEdit s st = st\<lparr>ie_draft := s, ie_editing := True\<rparr>"

definition resetNotificationId :: "trigger_dialog \<Rightarrow> trigger_dialog" where
  "resetNotificationId st = st\<lparr>td_notificationId := None\<rparr>"

definition setSelectedSubscriber :: "preview_subscriber option \<Rightarrow> trigger_dialog \<Rightarrow> trigger_dialog" where
  "setSelectedSubscriber s st = st\<lparr>td_subscriber := s\<rparr>"

definition setPayloadObj :: "(string \<times> json) list \<Rightarrow> trigger_dialog \<Rightarrow> trigger_dialog" where
  "setPayloadObj kvs st = st\<lparr>td_payload := kvs\<rparr>"

text \<open>The panel passes \<open>setSelectedSubscriber\<close> as \<open>onChange\<close> and \<open>resetNotificationId\<close> as \<open>onReset\<close>.\<close>

definition info_handleSave :: "info_editor \<Rightarrow> trigger_dialog \<Rightarrow> info_editor \<times> trigger_dialog" where
  "info_handleSave st t =
     (st\<lparr>ie_editing := False\<rparr>, resetNotificationId (setSelectedSubscriber (Some (ie_draft st)) t))"

definition info_handleCancel :: "preview_subscriber \<Rightarrow> info_editor \<Rightarrow> info_editor" where
  "info_handleCancel s st = st\<lparr>ie_draft := s, ie_editing := False\<rparr>"

definition info_label :: "preview_subscriber \<Rightarrow> string" where
  "info_label s =
     (if truthy (ps_firstName s) \<or> truthy (ps_lastName s)
      then js_trim (str_or_empty (ps_firstName s) @ '' '' @ str_or_empty (ps_lastName s))
      else js_or (str_or_empty (ps_email s)) (js_or (str_or_empty (ps_phone s)) ''Selected subscriber''))"

definition info_badge :: "string option \<Rightarrow> preview_subscriber \<Rightarrow> string" where
  "info_badge userEmail s =
     (if \<not> truthy (ps_email s) then [] else if ps_email s = userEmail then ''you'' else ''overridden'')"

subsection \<open>\<open>PayloadEditor.tsx\<close>\<close>

record payload_form =
  pf_editing :: bool
  pf_draft :: string
  pf_error :: "string option"

definition payload_handleStartEdit :: "(json \<Rightarrow> string) \<Rightarrow> (string \<times> json) list \<Rightarrow> payload_form \<Rightarrow> payload_form" where
  "payload_handleStartEdit pretty payload st =
     st\<lparr>pf_draft := js_or (pretty (JObj payload)) ''{}'', pf_error := None, pf_editing := True\<rparr>"

definition payload_type :: "string \<Rightarrow> payload_form \<Rightarrow> payload_form" where
  "payload_type txt st = st\<lparr>pf_draft := txt, pf_error := None\<rparr>"

definition payload_handleSave ::
    "(rat \<Rightarrow> string) \<Rightarrow> (string \<Rightarrow> json option) \<Rightarrow> payload_form \<Rightarrow> trigger_dialog \<Rightarrow> payload_form \<times> trigger_dialog" where
  "payload_handleSave num_text parse st t =
     (case parse (pf_draft st) of
        None \<Rightarrow> (st\<lparr>pf_error := Some ''Invalid JSON''\<rparr>, t)
      | Some (JObj parsed) \<Rightarrow>
          (let cleaned = map (\<lambda>(k, v). (k, JStr v)) (text_values num_text parsed)
           in (st\<lparr>pf_editing := False, pf_error := None\<rparr>, resetNotificationId (setPayloadObj cleaned t)))
      | Some _ \<Rightarrow> (st\<lparr>pf_error := Some ''Payload must be a JSON object''\<rparr>, t))"

definition payload_handleCancel :: "payload_form \<Rightarrow> payload_form" where
  "payload_handleCancel st = st\<lparr>pf_editing := False, pf_error := None\<rparr>"

definition channelIcon :: "string \<Rightarrow> string" where
  "channelIcon channel =
     (if channel = ''email'' then ''tabler:mail'' else if channel = ''sms'' then ''tabler:message''
      else if channel = ''push'' then ''tabler:bell'' else ''tabler:send'')"

section \<open>Names\<close>

text \<open>A subscriber found by its name is shown with exactly that name, however many words it has, both in the preview
  and in the test run, if the name neither begins nor ends with white space.\<close>

theorem search_name_kept:
  assumes "sm_name s = Some n" and "n \<noteq> []" and "js_trim n = n"
  defines "q \<equiv> toPreviewSubscriber s"
  shows "buildSubscriberDisplayName (ps_firstName q) (ps_lastName q) = n \<and> info_label q = n"
proof -
  obtain p ps where parts: "js_split CHR '' '' n = p # ps" using js_split_Cons by blast
  then have n: "n = p @ (if ps = [] then [] else '' '' @ js_join '' '' ps)"
    using js_join_split [of "CHR '' ''" n] by (simp add: js_join_Cons)
  have ends: "\<not> js_ws (hd n)" "\<not> js_ws (last n)" using js_trim_ends [of n] assms(2,3) by auto
  have sp: "js_ws CHR '' ''" by (simp add: js_ws_def)
  have p: "p \<noteq> []" using n ends(1) sp assms(2) by (cases "ps = []") auto
  have l: "js_join '' '' ps = [] \<longleftrightarrow> ps = []" using n ends(2) sp by (cases "ps = []") auto
  have q: "ps_firstName q = Some p" "ps_lastName q = Some (js_join '' '' ps)"
    using parts p by (simp_all add: q_def toPreviewSubscriber_def assms(1) Let_def)
  have "p @ '' '' @ js_join '' '' ps = (if ps = [] then n @ '' '' else n)" using n by simp
  moreover have "js_trim (n @ '' '') = n"
    using js_trim_snoc [OF sp] assms(3) by simp
  ultimately have "js_trim (p @ '' '' @ js_join '' '' ps) = n" using assms(3) by (cases "ps = []") auto
  then show ?thesis using n p l
    by (auto simp: q buildSubscriberDisplayName_def join_present_def info_label_def)
qed

theorem search_name_kept_witness:
  "info_label (toPreviewSubscriber \<lparr>sm_id = ''1'', sm_name = Some ''Ada King  Lovelace'', sm_email = None, sm_phone = None\<rparr>) =
    ''Ada King  Lovelace''"
proof -
  have "js_trim ''Ada King  Lovelace'' = ''Ada King  Lovelace''" by code_simp
  then show ?thesis
    using search_name_kept [of "\<lparr>sm_id = ''1'', sm_name = Some ''Ada King  Lovelace'', sm_email = None, sm_phone = None\<rparr>"]
    by simp
qed

text \<open>A name that begins with a space is shown twice.\<close>

lemma leading_space_doubled:
  "buildSubscriberDisplayName
     (ps_firstName (toPreviewSubscriber \<lparr>sm_id = ''1'', sm_name = Some '' Ada'', sm_email = None, sm_phone = None\<rparr>))
     (ps_lastName (toPreviewSubscriber \<lparr>sm_id = ''1'', sm_name = Some '' Ada'', sm_email = None, sm_phone = None\<rparr>)) =
   '' Ada Ada''"
  by (simp add: toPreviewSubscriber_def buildSubscriberDisplayName_def join_present_def Let_def)

section \<open>Markup in the data of a subscriber\<close>

lemma js_join_sublist: "x \<in> set xs \<Longrightarrow> sublist x (js_join sep xs)"
proof (induction xs)
  case (Cons y ys)
  then show ?case
  proof (cases "x = y")
    case True
    then show ?thesis by (simp add: js_join_Cons)
  next
    case False
    with Cons have "sublist x (js_join sep ys)" "ys \<noteq> []" by auto
    then show ?thesis by (simp add: js_join_Cons sublist_appendI sublist_append)
  qed
qed simp

lemma sublist_between: "sublist x y \<Longrightarrow> sublist v x \<Longrightarrow> sublist v (a @ y @ b)"
  by (meson sublist_appendI sublist_order.order_trans)

lemma colorizeObject_verbatim:
  assumes "(k, JStr v) \<in> set data"
  shows "sublist v (colorizeObject num_text data)"
proof -
  let ?es = "filter (\<lambda>(k, v). v \<noteq> JNull) data"
  let ?n = "Max (set (map (\<lambda>(k, v). length k) ?es))"
  let ?line = "\<lambda>(key, value). (let val = (case value of
      JStr s \<Rightarrow> ''<span style=\"color:#16a34a\">\"'' @ s @ ''\"</span>''
    | _ \<Rightarrow> ''<span style=\"color:#d97706\">'' @ js_String num_text value @ ''</span>'')
    in ''  '' @ js_padEnd ?n key @ '': '' @ val)"
  have mem: "(k, JStr v) \<in> set ?es" using assms by simp
  then have "?line (k, JStr v) \<in> set (map ?line ?es)" by (metis (no_types, lifting) image_eqI list.set_map)
  then have outer: "sublist (?line (k, JStr v)) (js_join '',\<newline>'' (map ?line ?es))" by (rule js_join_sublist)
  moreover have "?line (k, JStr v) =
      (''  '' @ js_padEnd ?n k @ '': <span style=\"color:#16a34a\">\"'') @ v @ ''\"</span>''"
    by (simp add: Let_def)
  then have inner: "sublist v (?line (k, JStr v))" by (simp only: sublist_appendI)
  moreover have "colorizeObject num_text data = ''{\<newline>'' @ js_join '',\<newline>'' (map ?line ?es) @ ''\<newline>}''"
    using mem by (cases "?es = []") (simp_all only: colorizeObject_def Let_def length_0_conv if_False list.set empty_iff)
  ultimately show ?thesis using sublist_between [OF outer inner, of "''{\<newline>''" "''\<newline>}''"] by (simp only:)
qed

text \<open>C29: The panel sets the subscriber's data as markup without escaping it: whatever a subscriber has as first name,
  last name, email or telephone number becomes part of the page's HTML, tags included, as soon as the
  subscriber is selected.\<close>

theorem subscriber_data_unescaped:
  assumes "v \<in> {ps_firstName s, ps_lastName s, ps_email s, ps_phone s}" and "truthy v" and "\<not> dp_loading st"
    and "dp_error st = None"
  shows "\<exists>html. subscriberSection num_text (selectPreviewSubscriber s st) = SectionHtml html \<and> sublist (str_or_empty v) html"
proof -
  consider "v = ps_firstName s" | "v = ps_lastName s" | "v = ps_email s" | "v = ps_phone s" using assms(1) by blast
  then have "(''firstName'', JStr (str_or_empty v)) \<in> set (buildSubscriberData s) \<or>
    (''lastName'', JStr (str_or_empty v)) \<in> set (buildSubscriberData s) \<or>
    (''email'', JStr (str_or_empty v)) \<in> set (buildSubscriberData s) \<or>
    (''phone'', JStr (str_or_empty v)) \<in> set (buildSubscriberData s)"
    using assms(2) by cases (simp_all add: buildSubscriberData_def Let_def)
  then have "sublist (str_or_empty v) (colorizeObject num_text (buildSubscriberData s))"
    using colorizeObject_verbatim by blast
  then show ?thesis using assms(3,4) by (simp add: subscriberSection_def selectPreviewSubscriber_def)
qed

theorem subscriber_data_unescaped_witness:
  "\<exists>html. subscriberSection (\<lambda>_. [])
      (selectPreviewSubscriber
        \<lparr>ps_id = ''1'', ps_firstName = Some ''<img src=x onerror=go()>'', ps_lastName = None, ps_email = None, ps_phone = None,
         ps_metadata = None\<rparr> (panel_loaded 1 None useDataPanel)) = SectionHtml html \<and>
    sublist ''<img src=x onerror=go()>'' html"
proof -
  have "\<not> dp_loading (panel_loaded 1 None useDataPanel)" "dp_error (panel_loaded 1 None useDataPanel) = None" by code_simp+
  then show ?thesis
    using subscriber_data_unescaped [of "Some ''<img src=x onerror=go()>''"
        "\<lparr>ps_id = ''1'', ps_firstName = Some ''<img src=x onerror=go()>'', ps_lastName = None, ps_email = None, ps_phone = None,
          ps_metadata = None\<rparr>" "panel_loaded 1 None useDataPanel" "\<lambda>_. []"]
    by simp
qed

section \<open>The payload's variables\<close>

lemma payload_key_inject [simp]: "payload_key k = payload_key k' \<longleftrightarrow> k = k'"
  by (simp add: payload_key_def)

lemma payload_entries_get:
  assumes "distinct (map fst kvs)" and "(k, v) \<in> set kvs"
  shows "map_get (fold (\<lambda>(key, value) ctx. map_set (payload_key key) value ctx) kvs ctx) (payload_key k) = Some v"
  using assms
proof (induction kvs arbitrary: ctx)
  case (Cons e kvs)
  have other: "map_get (fold (\<lambda>(key, value) ctx. map_set (payload_key key) value ctx) es c) (payload_key k) = map_get c (payload_key k)"
    if "k \<notin> fst ` set es" for es c
    using that by (induction es arbitrary: c) (auto simp: map_get_set)
  show ?case
  proof (cases "e = (k, v)")
    case True
    with Cons.prems other [of kvs] show ?thesis by (simp add: map_get_set)
  next
    case False
    with Cons show ?thesis by (auto simp: case_prod_beta)
  qed
qed simp

text \<open>Every field of a payload object is offered to the editor as a variable, and a field with a text is resolved to
  that text in the previews, whoever the preview is for.\<close>

theorem payload_variables_resolved:
  assumes "parse payload = Some (JObj kvs)" and "distinct (map fst kvs)" and "(k, JStr v) \<in> set kvs"
  shows "payload_key k \<in> vd_path ` set (allVariables parse payload) \<and>
    context_text num_text (buildPreviewContext parse subscriber workflow payload) (payload_key k) = Some v"
proof
  have "payload_key k \<in> vd_path ` set (payloadVars parse payload)"
    using assms(1,3) by (force simp: payloadVars_def json_entries_def variable_def_def)
  then show "payload_key k \<in> vd_path ` set (allVariables parse payload)"
    by (auto simp: allVariables_def Let_def)
  show "context_text num_text (buildPreviewContext parse subscriber workflow payload) (payload_key k) = Some v"
    using payload_entries_get [OF assms(2,3)] assms(1)
    by (simp add: context_text_def buildPreviewContext_def json_entries_def Let_def)
qed

theorem payload_variables_resolved_witness:
  "context_text (\<lambda>_. []) (buildPreviewContext (\<lambda>_. Some (JObj [(''order'', JStr ''A1'')])) None None ''{}'') ''payload.order'' =
    Some ''A1''"
  using payload_variables_resolved [of "\<lambda>_. Some (JObj [(''order'', JStr ''A1'')])" "''{}''" "[(''order'', JStr ''A1'')]" "''order''"
      "''A1''" "\<lambda>_. []"] by (simp add: payload_key_def)

section \<open>The sender settings\<close>

text \<open>Opening the sender settings and saving them untouched keeps the sender when the page had the provider before
  the drawer was mounted.  When the provider arrives later, the drawer still has the empty fields of the first
  render, and saving them replaces the provider's sender by the built-in one.\<close>

theorem untouched_sender_save:
  assumes "pc_sender_name p = Some n" and "pc_from_email p = Some a" and "n \<noteq> []" and "a \<noteq> []"
  defines "early \<equiv> new_sender_page (Some p)" and "late \<equiv> new_sender_page None"
  shows "displaySender (fst (fold sender_step [SheetOpen True, SaveSender] (early, mount_drawer early))) = (n, a) \<and>
    displaySender (fst (fold sender_step [ProviderLoaded p, SheetOpen True] (late, mount_drawer late))) = (n, a) \<and>
    displaySender (fst (fold sender_step [ProviderLoaded p, SheetOpen True, SaveSender] (late, mount_drawer late))) =
      (DEFAULT_SENDER_NAME, DEFAULT_SENDER_EMAIL)"
  using assms by (simp add: new_sender_page_def provider_effect_def mount_drawer_def handleSenderChange_def displaySender_def)

definition sample_provider :: provider_config where
  "sample_provider =
     \<lparr>pc_id = ''p'', pc_name = ''smtp'', pc_channel = ''email'', pc_sender_name = Some ''Shop'', pc_from_email = Some ''shop@x.org'',
      pc_sender_id = None, pc_from_number = None, pc_is_primary = True, pc_is_active = True\<rparr>"

theorem untouched_sender_save_witness:
  "displaySender (fst (fold sender_step [ProviderLoaded sample_provider, SheetOpen True, SaveSender]
     (new_sender_page None, mount_drawer (new_sender_page None)))) = (DEFAULT_SENDER_NAME, DEFAULT_SENDER_EMAIL)"
  using untouched_sender_save [of sample_provider "''Shop''" "''shop@x.org''"] by (simp add: sample_provider_def)

section \<open>Editing the data of a test run\<close>

lemma text_values_strings:
  "text_values num_text (map (\<lambda>(k, v). (k, JStr v)) xs) = xs"
  by (induction xs) (auto simp: text_values_def)

text \<open>Opening the payload editor of the test run and saving the text unchanged does not change what the run sends,
  although the values that are neither texts, numbers nor booleans are gone from the payload and the others
  have become texts.\<close>

theorem untouched_payload_edit:
  assumes "parse (pretty (JObj (td_payload t))) = Some (JObj (td_payload t))" and "pretty (JObj (td_payload t)) \<noteq> []"
  shows "let r = payload_handleSave num_text parse (payload_handleStartEdit pretty (td_payload t) form) t
    in pf_error (fst r) = None \<and> \<not> pf_editing (fst r) \<and>
    td_payload (snd r) = map (\<lambda>(k, v). (k, JStr v)) (text_values num_text (td_payload t)) \<and>
    td_requests (handleTrigger num_text workflowId channels (snd r)) = td_requests (handleTrigger num_text workflowId channels t)"
  using assms
  by (simp add: Let_def payload_handleSave_def payload_handleStartEdit_def resetNotificationId_def setPayloadObj_def
      handleTrigger_def text_values_strings split: option.split)

theorem untouched_payload_edit_witness:
  "td_payload (snd (payload_handleSave (\<lambda>_. ''7'') (\<lambda>_. Some (JObj [(''n'', JNum 7), (''xs'', JArr [])]))
     (payload_handleStartEdit (\<lambda>_. ''{...}'') [(''n'', JNum 7), (''xs'', JArr [])] \<lparr>pf_editing = False, pf_draft = [], pf_error = None\<rparr>)
     \<lparr>td_open = True, td_subscriber = None, td_payload = [(''n'', JNum 7), (''xs'', JArr [])], td_notificationId = None,
      td_resetTimer = False, td_profile = None, td_mutation = M_idle, td_poll = None,
      td_search = \<lparr>sr_query = [], sr_debounced = [], sr_timer = False\<rparr>, td_requests = []\<rparr>)) = [(''n'', JStr ''7'')]"
  using untouched_payload_edit [of "\<lambda>_. Some (JObj [(''n'', JNum 7), (''xs'', JArr [])])" "\<lambda>_. ''{...}''"
     "\<lparr>td_open = True, td_subscriber = None, td_payload = [(''n'', JNum 7), (''xs'', JArr [])], td_notificationId = None,
      td_resetTimer = False, td_profile = None, td_mutation = M_idle, td_poll = None,
      td_search = \<lparr>sr_query = [], sr_debounced = [], sr_timer = False\<rparr>, td_requests = []\<rparr>" "\<lambda>_. ''7''"
     "\<lparr>pf_editing = False, pf_draft = [], pf_error = None\<rparr>"] unfolding Let_def
  by (simp add: text_values_def)

text \<open>
  The editor of the subscriber's data keeps its draft when another subscriber is selected meanwhile:
  saving puts the first one, id and all, in the place of the second.
\<close>

lemma info_edit_survives_selection:
  "td_subscriber (snd (info_handleSave (info_handleStartEdit a form) (handleSelectSubscriber b t))) = Some a"
  by (simp add: info_handleSave_def info_handleStartEdit_def resetNotificationId_def setSelectedSubscriber_def)

end
