(* ===== verification/Navigation.thy ===== *)
theory Navigation
  imports Workflow_Setup "HOL-Library.List_Lexorder"
begin

text \<open>
  Moving around the dashboard: the menu (\<open>app/dashboard/layout/sidebar\<close>), the search in it
  (\<open>layout/header/Search.tsx\<close>) and the frame of the builder page
  (\<open>app/dashboard/workflows/new/builder/WorkflowBuilderShell.tsx\<close>).

  The arrow between the names of a path lies outside the characters modelled here; the separator is a
  parameter \<open>sep\<close>.
\<close>

section \<open>The menu (\<open>sidebaritems.ts\<close>)\<close>

datatype menu_item = MenuItem
  (mi_heading: "string option") (mi_name: "string option") (mi_icon: "string option") (mi_url: "string option")
  (mi_isPro: bool) (mi_children: "menu_item list")

definition menu_entry :: "string \<Rightarrow> string option \<Rightarrow> string \<Rightarrow> menu_item list \<Rightarrow> menu_item" where
  "menu_entry name icon url children = MenuItem None (Some name) icon (Some url) False children"

definition SidebarContent :: "menu_item list" where
  "SidebarContent =
     [MenuItem (Some []) None None None False
       [menu_entry ''Overview'' (Some ''solar:widget-2-linear'') ''/dashboard'' [],
        menu_entry ''Workflows'' (Some ''octicon:workflow-24'') ''/dashboard/workflows'' [],
        menu_entry ''Subscribers'' (Some ''mynaui:users'') ''/dashboard/subscribers'' [],
        menu_entry ''Notifications'' (Some ''ant-design:notification-outlined'') ''/dashboard/notifications'' [],
        menu_entry ''Integrations'' (Some ''mdi:connection'') ''/dashboard/integrations'' [],
        menu_entry ''Setting'' (Some ''mdi-light:settings'') ''/dashboard/settings''
          [menu_entry ''API Keys'' None ''/dashboard/settings/apikey'' []]]]"

section \<open>The search (\<open>Search.tsx\<close>)\<close>

record search_result =
  se_name :: string
  se_url :: string
  se_path :: "string option"
  se_icon :: "string option"

text \<open>\<open>parentPath ? `${parentPath} .. ${item.name}` : item.name\<close>\<close>

definition current_path :: "string \<Rightarrow> string \<Rightarrow> string option \<Rightarrow> string option" where
  "current_path sep parentPath name =
     (if parentPath \<noteq> [] then Some (parentPath @ sep @ (case name of None \<Rightarrow> ''undefined'' | Some n \<Rightarrow> n)) else name)"

definition search_hit :: "string \<Rightarrow> menu_item \<Rightarrow> bool" where
  "search_hit q item \<longleftrightarrow>
     (case mi_name item of None \<Rightarrow> False | Some n \<Rightarrow> js_includes (js_lower n) (js_lower q)) \<and> truthy (mi_url item)"

definition search_result_of :: "string option \<Rightarrow> menu_item \<Rightarrow> search_result" where
  "search_result_of path item =
     \<lparr>se_name = str_or_empty (mi_name item), se_url = str_or_empty (mi_url item), se_path = path, se_icon = mi_icon item\<rparr>"

text \<open>A path passed on as \<open>undefined\<close> takes the default value, the empty one.\<close>

fun searchItems :: "string \<Rightarrow> string \<Rightarrow> string \<Rightarrow> menu_item list \<Rightarrow> search_result list" where
  "searchItems sep q parentPath [] = []"
| "searchItems sep q parentPath (MenuItem h n i u p cs # items) =
     (let path = current_path sep parentPath n
      in (if search_hit q (MenuItem h n i u p cs) then [search_result_of path (MenuItem h n i u p cs)] else []) @
         searchItems sep q (str_or_empty path) cs @ searchItems sep q parentPath items)"

definition search_results :: "string \<Rightarrow> string \<Rightarrow> search_result list" where
  "search_results sep query = (if js_trim query = [] then [] else searchItems sep query [] SidebarContent)"

subsection \<open>Against the positions of the menu\<close>

text \<open>
  A position is the list of the indices that lead to an item; the items on the way are its chain.  In
  the lexicographic order of positions a parent comes before its children and an item before the
  following ones, which is the order of the menu from top to bottom.
\<close>

fun chain_at :: "menu_item list \<Rightarrow> nat list \<Rightarrow> menu_item list option" where
  "chain_at items [] = None"
| "chain_at items [i] = (if i < length items then Some [items ! i] else None)"
| "chain_at items (i # j # p) =
     (if i < length items then map_option ((#) (items ! i)) (chain_at (mi_children (items ! i)) (j # p)) else None)"

definition menu_positions :: "menu_item list \<Rightarrow> nat list set" where
  "menu_positions items = {p. chain_at items p \<noteq> None}"

definition menu_chains :: "menu_item list \<Rightarrow> menu_item list list" where
  "menu_chains items = map (the \<circ> chain_at items) (sorted_list_of_set (menu_positions items))"

text \<open>The names along a chain from the first item that has one, put together by the separator.\<close>

definition chain_label :: "string \<Rightarrow> menu_item list \<Rightarrow> string" where
  "chain_label sep c =
     js_join sep (map (\<lambda>x. case mi_name x of None \<Rightarrow> ''undefined'' | Some n \<Rightarrow> n)
       (dropWhile (\<lambda>x. mi_name x = None \<or> mi_name x = Some []) c))"

text \<open>The same positions, listed from the first one on.\<close>

fun positions_from :: "nat \<Rightarrow> menu_item list \<Rightarrow> nat list list" where
  "positions_from k [] = []"
| "positions_from k (MenuItem h n i u p cs # items) =
     map ((#) k) ([] # positions_from 0 cs) @ positions_from (Suc k) items"

lemma positions_from_hd: "p \<in> set (positions_from k items) \<Longrightarrow> p \<noteq> [] \<and> k \<le> hd p"
  by (induction k items rule: positions_from.induct) fastforce+

lemma positions_from_sorted: "sorted_wrt (<) (positions_from k items)"
proof (induction k items rule: positions_from.induct)
  case (2 k h n i u p cs items)
  have "k # q < r" if "r \<in> set (positions_from (Suc k) items)" for q r
    using positions_from_hd [OF that] by (cases r) auto
  moreover have "[k] < k # r" if "r \<in> set (positions_from 0 cs)" for r
    using positions_from_hd [OF that] by (cases r) auto
  ultimately show ?case using 2 by (auto simp: sorted_wrt_append sorted_wrt_map)
qed simp

lemma chain_at_Cons:
  "chain_at items (i # p) =
    (if i < length items
     then if p = [] then Some [items ! i] else map_option ((#) (items ! i)) (chain_at (mi_children (items ! i)) p)
     else None)"
  by (cases p) auto

lemma chain_at_0: "chain_at (m # items) (0 # p) \<noteq> None \<longleftrightarrow> p = [] \<or> chain_at (mi_children m) p \<noteq> None"
  by (simp add: chain_at_Cons)

lemma chain_at_Suc: "chain_at (m # items) (Suc i # p) = chain_at items (i # p)"
  by (simp add: chain_at_Cons)

lemma positions_from_iff:
  "j # p \<in> set (positions_from k items) \<longleftrightarrow> k \<le> j \<and> chain_at items ((j - k) # p) \<noteq> None"
proof (induction k items arbitrary: j p rule: positions_from.induct)
  case (1 k)
  then show ?case by (simp add: chain_at_Cons)
next
  case (2 k h n i u q cs items)
  let ?m = "MenuItem h n i u q cs"
  have inner: "p \<in> set (positions_from 0 cs) \<longleftrightarrow> chain_at cs p \<noteq> None"
    using 2(1) positions_from_hd by (cases p) force+
  have "j # p \<in> set (positions_from k (?m # items)) \<longleftrightarrow>
      j = k \<and> (p = [] \<or> chain_at cs p \<noteq> None) \<or> Suc k \<le> j \<and> chain_at items ((j - Suc k) # p) \<noteq> None"
    using 2(2) [of j p] inner by auto
  also have "\<dots> \<longleftrightarrow> k \<le> j \<and> chain_at (?m # items) ((j - k) # p) \<noteq> None"
  proof (cases "k < j")
    case True
    then have "j - k = Suc (j - Suc k)" by simp
    then show ?thesis using True by (simp only: chain_at_Suc) auto
  next
    case False
    then show ?thesis using chain_at_0 [of ?m items p] by auto
  qed
  finally show ?case .
qed

lemma menu_chains_from: "menu_chains items = map (the \<circ> chain_at items) (positions_from 0 items)"
proof -
  have "set (positions_from 0 items) = menu_positions items"
  proof (intro set_eqI)
    fix p show "p \<in> set (positions_from 0 items) \<longleftrightarrow> p \<in> menu_positions items"
      using positions_from_hd positions_from_iff by (cases p) (force simp: menu_positions_def)+
  qed
  then show ?thesis using positions_from_sorted [of 0 items]
    by (simp add: menu_chains_def strict_sorted_iff sorted_list_of_set.idem_if_sorted_distinct flip: \<open>set _ = _\<close>)
qed

lemma positions_from_Suc: "positions_from (Suc k) items = map (\<lambda>p. Suc (hd p) # tl p) (positions_from k items)"
proof (induction k items rule: positions_from.induct)
  case (2 k h n i u p cs items)
  then show ?case by (simp add: comp_def)
qed simp

lemma menu_chains_simps:
  "menu_chains [] = []"
  "menu_chains (MenuItem h n i u p cs # items) =
    map ((#) (MenuItem h n i u p cs)) ([] # menu_chains cs) @ menu_chains items"
proof -
  let ?m = "MenuItem h n i u p cs"
  have "map (the \<circ> chain_at (?m # items)) (map ((#) 0) (positions_from 0 cs)) = map ((#) ?m) (menu_chains cs)"
  proof -
    have "the (chain_at (?m # items) (0 # p)) = ?m # the (chain_at cs p)" if "p \<in> set (positions_from 0 cs)" for p
      using positions_from_hd [OF that] positions_from_iff [of "hd p" "tl p" 0 cs] that by (auto simp: chain_at_Cons)
    then show ?thesis by (auto simp: menu_chains_from)
  qed
  moreover have "map (the \<circ> chain_at (?m # items)) (positions_from (Suc 0) items) = menu_chains items"
  proof -
    have "chain_at (?m # items) (Suc (hd p) # tl p) = chain_at items p" if "p \<in> set (positions_from 0 items)" for p
      using positions_from_hd [OF that] by (simp add: chain_at_Suc)
    then show ?thesis by (auto simp: menu_chains_from positions_from_Suc)
  qed
  ultimately show "menu_chains (?m # items) = map ((#) ?m) ([] # menu_chains cs) @ menu_chains items"
    by (simp add: menu_chains_from)
qed (simp add: menu_chains_from)

lemma js_join_snoc: "js_join sep (ss @ [s]) = (if ss = [] then s else js_join sep ss @ sep @ s)"
  by (induction ss) (auto simp: js_join_Cons)

text \<open>The path handed down is the label of the chain so far.\<close>

lemma current_path_label:
  fixes c m sep
  defines "label \<equiv> chain_label sep (c @ [m])"
  shows "str_or_empty (current_path sep (chain_label sep c) (mi_name m)) = label"
    and "mi_name m = Some n \<Longrightarrow> current_path sep (chain_label sep c) (mi_name m) = Some label"
proof -
  let ?unnamed = "\<lambda>x. mi_name x = None \<or> mi_name x = Some []"
  let ?ns = "\<lambda>c. map (\<lambda>x. case mi_name x of None \<Rightarrow> ''undefined'' | Some n \<Rightarrow> n) (dropWhile ?unnamed c)"
  have empty: "chain_label sep c = [] \<longleftrightarrow> dropWhile ?unnamed c = []"
  proof (cases "dropWhile ?unnamed c")
    case (Cons x xs)
    then have "\<not> ?unnamed x" using hd_dropWhile [of ?unnamed c] by simp
    then show ?thesis using Cons by (auto simp: chain_label_def js_join_Cons)
  next
    case Nil
    then show ?thesis unfolding chain_label_def Nil by simp
  qed
  have "label = (if dropWhile ?unnamed c = [] then str_or_empty (mi_name m)
      else chain_label sep c @ sep @ (case mi_name m of None \<Rightarrow> ''undefined'' | Some n \<Rightarrow> n))"
  proof (cases "dropWhile ?unnamed c = []")
    case True
    then have "\<forall>x\<in>set c. ?unnamed x" by simp
    then have "dropWhile ?unnamed (c @ [m]) = dropWhile ?unnamed [m]" by (intro dropWhile_append2) blast
    then show ?thesis using True by (auto simp: label_def chain_label_def)
  next
    case False
    then obtain x where "x \<in> set c" "\<not> ?unnamed x" by auto
    then have "dropWhile ?unnamed (c @ [m]) = dropWhile ?unnamed c @ [m]" by (rule dropWhile_append1)
    then show ?thesis using False by (auto simp: label_def chain_label_def js_join_snoc)
  qed
  then show "str_or_empty (current_path sep (chain_label sep c) (mi_name m)) = label"
    and "mi_name m = Some n \<Longrightarrow> current_path sep (chain_label sep c) (mi_name m) = Some label"
    using empty by (auto simp: current_path_def)
qed

lemma menu_items_induct [case_names Nil Item]:
  assumes "P []" and "\<And>h n i u p cs items. P cs \<Longrightarrow> P items \<Longrightarrow> P (MenuItem h n i u p cs # items)"
  shows "P items"
  by (rule positions_from.induct [of "\<lambda>_. P" 0]) (use assms in blast)+

text \<open>The items found: the chains whose last item has an address and a name with the query in it.\<close>

definition chain_hit :: "string \<Rightarrow> menu_item list \<Rightarrow> bool" where
  "chain_hit q c \<longleftrightarrow>
     (\<exists>n u. mi_name (last c) = Some n \<and> mi_url (last c) = Some u \<and> u \<noteq> [] \<and> (\<exists>a b. js_lower n = a @ js_lower q @ b))"

definition chain_result :: "string \<Rightarrow> menu_item list \<Rightarrow> search_result" where
  "chain_result sep c =
     \<lparr>se_name = the (mi_name (last c)), se_url = the (mi_url (last c)), se_path = Some (chain_label sep c),
      se_icon = mi_icon (last c)\<rparr>"

lemma searchItems_chains:
  "searchItems sep q (chain_label sep c) items =
    map (chain_result sep \<circ> (@) c) (filter (chain_hit q \<circ> (@) c) (menu_chains items))"
proof (induction items arbitrary: c rule: menu_items_induct)
  case (Item h n i u p cs items)
  let ?m = "MenuItem h n i u p cs"
  have hit: "search_hit q ?m \<longleftrightarrow> chain_hit q (c @ [?m])"
    by (auto simp: search_hit_def chain_hit_def sublist_def truthy_def split: option.splits)
  have found: "search_result_of (current_path sep (chain_label sep c) n) ?m = chain_result sep (c @ [?m])"
    if "chain_hit q (c @ [?m])"
    using that current_path_label(2) [of ?m _ sep c] by (auto simp: chain_hit_def search_result_of_def chain_result_def)
  have "searchItems sep q (str_or_empty (current_path sep (chain_label sep c) n)) cs =
      map (chain_result sep \<circ> (@) (c @ [?m])) (filter (chain_hit q \<circ> (@) (c @ [?m])) (menu_chains cs))"
    using Item(1) [of "c @ [?m]"] current_path_label(1) [of sep c ?m] by (simp add: comp_def)
  then show ?case
    using hit found Item(2) [of c] by (auto simp: menu_chains_simps Let_def filter_map comp_def)
qed (simp add: menu_chains_simps)

text \<open>C40: The recursive search returns exactly the items of the menu, at any depth and in the order of the
  positions in the menu, that have a non-empty address and whose name contains the query in whatever
  case, each with the names that lead to it put together as its path.\<close>

theorem searchItems_filter:
  "searchItems sep q [] items =
    map (\<lambda>c. \<lparr>se_name = the (mi_name (last c)), se_url = the (mi_url (last c)),
          se_path = Some (js_join sep (map (\<lambda>x. case mi_name x of None \<Rightarrow> ''undefined'' | Some n \<Rightarrow> n)
            (dropWhile (\<lambda>x. mi_name x = None \<or> mi_name x = Some []) c))),
          se_icon = mi_icon (last c)\<rparr>)
      (filter (\<lambda>c. \<exists>n u. mi_name (last c) = Some n \<and> mi_url (last c) = Some u \<and> u \<noteq> [] \<and>
          (\<exists>a b. js_lower n = a @ js_lower q @ b))
        (map (the \<circ> chain_at items) (sorted_list_of_set {p. chain_at items p \<noteq> None})))"
proof -
  have "searchItems sep q [] items = map (chain_result sep) (filter (chain_hit q) (menu_chains items))"
    using searchItems_chains [of sep q "[]" items] by (simp add: chain_label_def comp_def)
  then show ?thesis
    by (simp only: chain_result_def [abs_def] chain_hit_def [abs_def] chain_label_def [abs_def] menu_chains_def menu_positions_def)
qed

lemma search_finds_keys:
  "search_results ''/'' ''api'' =
    [\<lparr>se_name = ''API Keys'', se_url = ''/dashboard/settings/apikey'', se_path = Some ''Setting/API Keys'', se_icon = None\<rparr>]"
  by code_simp

section \<open>The sidebar\<close>

datatype sidebar_row =
    SidebarHeading string
  | SidebarSubmenu string "string option" "string option" "sidebar_row list"
  | SidebarLink bool bool "string option" string "string option"

text \<open>A link with whether it is selected, whether it is a sub-item, its address, its target and its text.\<close>

fun renderSidebarItems :: "string \<Rightarrow> bool \<Rightarrow> menu_item list \<Rightarrow> sidebar_row list" where
  "renderSidebarItems currentPath isSubItem [] = []"
| "renderSidebarItems currentPath isSubItem (MenuItem h n i u p cs # items) =
     (if truthy h then SidebarHeading (str_or_empty h)
      else if cs \<noteq> []
      then SidebarSubmenu (str_or_empty u) (mi_url (hd cs)) n (renderSidebarItems currentPath True cs)
      else SidebarLink (Some currentPath = u) isSubItem u
        (if js_starts_with (str_or_empty u) ''https'' then ''_blank'' else ''_self'') n) #
     renderSidebarItems currentPath isSubItem items"

text \<open>A section: its heading, if any, and its children.\<close>

definition sidebar_section :: "string \<Rightarrow> menu_item \<Rightarrow> sidebar_row list" where
  "sidebar_section pathname s =
     renderSidebarItems pathname False
       ((if truthy (mi_heading s) then [MenuItem (mi_heading s) None None None False []] else []) @ mi_children s)"

definition sidebarLayout :: "string \<Rightarrow> sidebar_row list" where
  "sidebarLayout pathname = concat (map (sidebar_section pathname) SidebarContent)"

subsection \<open>A submenu (\<open>sidebar-nav.tsx\<close>)\<close>

record submenu =
  su_open :: bool
  su_inside :: bool
  su_nav :: "string list"

definition getItemStateClass :: "bool \<Rightarrow> bool \<Rightarrow> string" where
  "getItemStateClass isSubItem isSelected =
     (if isSubItem \<and> isSelected then ''!bg-transparent text-primary''
      else if isSelected then ''bg-primary text-white'' else ''text-sidebar-foreground dark:text-white'')"

definition new_submenu :: "string \<Rightarrow> string \<Rightarrow> submenu" where
  "new_submenu itemUrl pathname =
     (let isInside = js_starts_with pathname itemUrl in \<lparr>su_open = isInside, su_inside = isInside, su_nav = []\<rparr>)"

text \<open>A new path: the effect runs when being inside has changed.\<close>

definition submenu_effect :: "string \<Rightarrow> string \<Rightarrow> submenu \<Rightarrow> submenu" where
  "submenu_effect itemUrl pathname st =
     (let isInside = js_starts_with pathname itemUrl
      in if isInside \<noteq> su_inside st then st\<lparr>su_inside := isInside, su_open := isInside\<rparr> else st)"

definition submenu_handleClick :: "string option \<Rightarrow> submenu \<Rightarrow> submenu" where
  "submenu_handleClick firstChildUrl st =
     (if \<not> su_inside st \<and> truthy firstChildUrl then st\<lparr>su_nav := su_nav st @ [str_or_empty firstChildUrl]\<rparr>
      else st\<lparr>su_open := \<not> su_open st\<rparr>)"

text \<open>Clicking the title of a closed section and arriving at its first page opens the section.\<close>

lemma submenu_opens:
  assumes "\<not> su_inside st" and "firstChildUrl = Some (itemUrl @ rest)" and "itemUrl @ rest \<noteq> []"
  defines "st' \<equiv> submenu_handleClick firstChildUrl st"
  shows "su_open (submenu_effect itemUrl (last (su_nav st')) st')"
  using assms by (auto simp: submenu_handleClick_def submenu_effect_def)

section \<open>The frame of the builder page\<close>

record builder_shell =
  sh_drawerOpen :: bool
  sh_drawerTab :: string
  sh_params :: "(string \<times> string) list"

definition new_shell :: "(string \<times> string) list \<Rightarrow> builder_shell" where
  "new_shell params = \<lparr>sh_drawerOpen = False, sh_drawerTab = ''trigger'', sh_params = params\<rparr>"

text \<open>\<open>params.trigger === 'true'\<close> in \<open>page.tsx\<close>.\<close>

definition openTrigger :: "(string \<Rightarrow> param_value option) \<Rightarrow> bool" where
  "openTrigger params \<longleftrightarrow> params ''trigger'' = Some (OneValue ''true'')"

text \<open>The effect opens the drawer and takes the parameter out of the address.\<close>

definition trigger_effect :: "bool \<Rightarrow> builder_shell \<Rightarrow> builder_shell" where
  "trigger_effect open_trigger st =
     (if open_trigger \<and> map_of (sh_params st) ''trigger'' = Some ''true''
      then st\<lparr>sh_drawerTab := ''trigger'', sh_drawerOpen := True, sh_params := filter (\<lambda>p. fst p \<noteq> ''trigger'') (sh_params st)\<rparr>
      else st)"

definition openDrawer :: "string \<Rightarrow> builder_shell \<Rightarrow> builder_shell" where
  "openDrawer tab st = st\<lparr>sh_drawerTab := tab, sh_drawerOpen := True\<rparr>"

definition workflowName :: "workflow_item option \<Rightarrow> string" where
  "workflowName w = (case w of None \<Rightarrow> ''Workflow Builder'' | Some x \<Rightarrow> wfi_name x)"

definition breadcrumbItems :: "string \<Rightarrow> workflow_item option \<Rightarrow> (string \<times> string) list" where
  "breadcrumbItems workflowId w =
     [(''/dashboard/workflows'', ''Workflows''),
      (buildWorkflowBuilderHref (Some \<lparr>lv_workflowId = Some workflowId, lv_name = None, lv_description = None\<rparr>), workflowName w)]"

text \<open>The channels of the notification nodes; a channel the test run does not know is left out.\<close>

definition json_channels :: "json list \<Rightarrow> string list" where
  "json_channels xs =
     concat (map (\<lambda>x. case x of JStr s \<Rightarrow> if s \<in> {''email'', ''sms'', ''push''} then [s] else [] | _ \<Rightarrow> []) xs)"

definition node_channels :: "wf_node \<Rightarrow> string list" where
  "node_channels node =
     (if wn_type node = Notification
      then (case Option.bind (wn_config node) (\<lambda>c. map_of c ''channels'') of Some (JArr xs) \<Rightarrow> json_channels xs | _ \<Rightarrow> [])
      else [])"

definition shell_channels :: "workflow_item option \<Rightarrow> string list" where
  "shell_channels w =
     (case Option.bind w wfi_channels of
        Some (c # cs) \<Rightarrow> c # cs
      | _ \<Rightarrow> js_set_of (concat (map node_channels
          (case Option.bind w wfi_definition of None \<Rightarrow> [] | Some d \<Rightarrow> wd_nodes d))))"

subsection \<open>The channels of a saved draft\<close>

lemma node_channels_exported:
  "node_channels (exportNode n) =
    (if bn_type n = Notification \<and> bn_channel n \<in> {''email'', ''sms'', ''push''} then [bn_channel n] else [])"
  by (auto simp: node_channels_def exportNode_def json_channels_def Let_def split: wf_node_type.split)

text \<open>
  For a workflow whose column of channels is not filled in, the channels shown are those of the draft's
  notification steps that the test run knows, each once.
\<close>

theorem shell_channels_of_draft:
  assumes "wfi_channels w \<in> {None, Some []}" and "wfi_definition w = Some (workflowDefinitionFromBuilderDraft d)"
  shows "distinct (shell_channels (Some w)) \<and>
    set (shell_channels (Some w)) =
      {bn_channel n | n. n \<in> set (wb_nodes d) \<and> bn_type n = Notification} \<inter> {''email'', ''sms'', ''push''}"
proof -
  have "shell_channels (Some w) = js_set_of (concat (map (node_channels \<circ> exportNode) (wb_nodes d)))"
    using assms by (auto simp: shell_channels_def workflowDefinitionFromBuilderDraft_def)
  then show ?thesis by (auto simp: node_channels_exported)
qed

end
