(* ===== verification/Notification_List.thy ===== *)
theory Notification_List
  imports Prelude
begin

text \<open>
  The page of notifications (\<open>features/notifications\<close>): the list with its filter and its search
  (\<open>index.tsx\<close>, \<open>NotificationListing.tsx\<close>) and the cards with the numbers (\<open>NotificationFilter.tsx\<close>).
\<close>

record notification_item =
  nt_id :: string
  nt_title :: string
  nt_message :: string
  nt_status :: string
  nt_is_test :: "bool option"

definition is_test :: "notification_item \<Rightarrow> bool" where
  "is_test n \<longleftrightarrow> nt_is_test n = Some True"

definition getVisibleNotifications :: "notification_item list \<Rightarrow> string \<Rightarrow> string \<Rightarrow> notification_item list" where
  "getVisibleNotifications records selectedFilter searchText =
     (let lowerSearch = js_lower searchText
      in filter (\<lambda>n. \<not> is_test n \<and>
           (selectedFilter = ''total_notifications'' \<or> nt_status n = selectedFilter) \<and>
           (js_includes (js_lower (nt_id n)) lowerSearch \<or> js_includes (js_lower (nt_title n)) lowerSearch \<or>
            js_includes (js_lower (nt_message n)) lowerSearch)) records)"

definition statusBadge :: "string \<Rightarrow> string" where
  "statusBadge status =
     (if status = ''sent'' then ''lightSuccess'' else if status = ''pending'' then ''lightWarning''
      else if status = ''failed'' then ''lightError'' else if status = ''partial_failed'' then ''lightSecondary''
      else ''default'')"

text \<open>The cards: the filter a card sets and the number it shows.\<close>

definition notification_cards :: "notification_item list \<Rightarrow> (string \<times> nat) list" where
  "notification_cards notifications =
     (let productionNotifications = filter (\<lambda>n. \<not> is_test n) notifications;
          count = (\<lambda>s. length (filter (\<lambda>n. nt_status n = s) productionNotifications))
      in [(''total_notifications'', length productionNotifications), (''sent'', count ''sent''),
          (''pending'', count ''pending''), (''failed'', count ''failed''), (''partial_failed'', count ''partial_failed'')])"

record notification_page =
  np_filter :: string
  np_search :: string

definition new_notification_page :: notification_page where
  "new_notification_page = \<lparr>np_filter = ''total_notifications'', np_search = []\<rparr>"

definition setFilter :: "string \<Rightarrow> notification_page \<Rightarrow> notification_page" where
  "setFilter f st = st\<lparr>np_filter := f\<rparr>"

definition searchNotifications :: "string \<Rightarrow> notification_page \<Rightarrow> notification_page" where
  "searchNotifications txt st = st\<lparr>np_search := txt\<rparr>"

definition visible :: "notification_item list \<Rightarrow> notification_page \<Rightarrow> notification_item list" where
  "visible notifications st = getVisibleNotifications notifications (np_filter st) (np_search st)"

section \<open>Cards and list\<close>

text \<open>
  Every card shows the number of notifications that pressing it lists when nothing is searched, and a
  search only ever narrows that list.
\<close>

theorem card_counts_list:
  "list_all (\<lambda>(f, n). n = length (visible notifications (setFilter f (searchNotifications [] st)))) (notification_cards notifications) \<and>
   set (visible notifications (searchNotifications txt st)) \<subseteq> set (visible notifications (searchNotifications [] st))"
  by (auto simp: notification_cards_def visible_def setFilter_def searchNotifications_def getVisibleNotifications_def Let_def
      filter_filter intro!: arg_cong [where f = length] filter_cong)

text \<open>A notification that is queued, being processed or delivered is in the total, and in no other card.\<close>

lemma status_without_card:
  "map_of (notification_cards [\<lparr>nt_id = ''1'', nt_title = [], nt_message = [], nt_status = ''delivered'', nt_is_test = None\<rparr>])
      ''total_notifications'' = Some 1 \<and>
   map snd (tl (notification_cards
      [\<lparr>nt_id = ''1'', nt_title = [], nt_message = [], nt_status = ''delivered'', nt_is_test = None\<rparr>])) = [0, 0, 0, 0]"
  by code_simp

end
