(* ===== verification/Api_Keys.thy ===== *)
theory Api_Keys
  imports Queries
begin

text \<open>
  The page of API keys (\<open>features/settings/apikey/index.tsx\<close>): creating a key, showing its secret once,
  copying it, and deleting a key after a confirmation.  A handler is split at its \<open>await\<close>; the requests
  and the clipboard write under way are tasks, answered in any order.
\<close>

section \<open>The page\<close>

record api_key_item =
  ki_id :: string
  ki_name :: string
  ki_key_prefix :: string
  ki_last_used_at :: "string option"
  ki_created_at :: string

record api_key_secret =
  kx_item :: api_key_item
  kx_key :: string

datatype key_task = CreatingKey string | DeletingKey string | CopyingKey string

datatype key_answer = KeyCreated api_key_secret | KeyDone | KeyFailed thrown

record key_page =
  kp_createOpen :: bool
  kp_createdSecret :: "api_key_secret option"
  kp_name :: string
  kp_error :: "string option"
  kp_copied :: bool
  kp_copyTimers :: nat
  kp_keyToDelete :: "api_key_item option"
  kp_tasks :: "key_task list"
  kp_calls :: "key_task list"

definition new_key_page :: key_page where
  "new_key_page =
     \<lparr>kp_createOpen = False, kp_createdSecret = None, kp_name = [], kp_error = None, kp_copied = False, kp_copyTimers = 0,
      kp_keyToDelete = None, kp_tasks = [], kp_calls = []\<rparr>"

definition is_create :: "key_task \<Rightarrow> bool" where
  "is_create t = (case t of CreatingKey _ \<Rightarrow> True | _ \<Rightarrow> False)"

text \<open>The request of a task, and whether it goes to the server at all.\<close>

definition key_request :: "key_task \<Rightarrow> mutation option" where
  "key_request t =
     (case t of
        CreatingKey n \<Rightarrow> Some (useCreateApiKey (JObj [(''name'', JStr n)]))
      | DeletingKey i \<Rightarrow> Some (useDeleteApiKey i)
      | CopyingKey _ \<Rightarrow> None)"

definition creating :: "key_page \<Rightarrow> bool" where
  "creating st \<longleftrightarrow> list_ex (\<lambda>t. case t of CreatingKey _ \<Rightarrow> True | _ \<Rightarrow> False) (kp_tasks st)"

definition deleting :: "key_page \<Rightarrow> bool" where
  "deleting st \<longleftrightarrow> list_ex (\<lambda>t. case t of DeletingKey _ \<Rightarrow> True | _ \<Rightarrow> False) (kp_tasks st)"

definition isMutating :: "key_page \<Rightarrow> bool" where
  "isMutating st \<longleftrightarrow> creating st \<or> deleting st"

definition start_task :: "key_task \<Rightarrow> key_page \<Rightarrow> key_page" where
  "start_task t st = st\<lparr>kp_tasks := kp_tasks st @ [t], kp_calls := kp_calls st @ [t]\<rparr>"

definition submitCreate :: "key_page \<Rightarrow> key_page" where
  "submitCreate st =
     (let trimmedName = js_trim (kp_name st)
      in if trimmedName = [] then st\<lparr>kp_error := Some ''Name is required''\<rparr>
         else start_task (CreatingKey trimmedName) (st\<lparr>kp_error := None\<rparr>))"

definition handleDelete :: "key_page \<Rightarrow> key_page" where
  "handleDelete st =
     (case kp_keyToDelete st of None \<Rightarrow> st | Some k \<Rightarrow> start_task (DeletingKey (ki_id k)) (st\<lparr>kp_error := None\<rparr>))"

definition copySecret :: "key_page \<Rightarrow> key_page" where
  "copySecret st =
     (case kp_createdSecret st of
        None \<Rightarrow> st | Some s \<Rightarrow> if kx_key s = [] then st else start_task (CopyingKey (kx_key s)) st)"

fun key_answered :: "key_task \<Rightarrow> key_answer \<Rightarrow> key_page \<Rightarrow> key_page" where
  "key_answered (CreatingKey n) (KeyCreated s) st = st\<lparr>kp_createdSecret := Some s, kp_createOpen := False, kp_name := []\<rparr>"
| "key_answered (CreatingKey n) (KeyFailed e) st = st\<lparr>kp_error := Some (error_message e ''Failed to create API key'')\<rparr>"
| "key_answered (DeletingKey i) KeyDone st = st\<lparr>kp_keyToDelete := None\<rparr>"
| "key_answered (DeletingKey i) (KeyFailed e) st = st\<lparr>kp_error := Some (error_message e ''Failed to delete API key'')\<rparr>"
| "key_answered (CopyingKey k) KeyDone st = st\<lparr>kp_copied := True, kp_copyTimers := Suc (kp_copyTimers st)\<rparr>"
| "key_answered (CopyingKey k) (KeyFailed e) st = st\<lparr>kp_error := Some ''Unable to copy key. Please copy it manually.''\<rparr>"
| "key_answered t a st = st"

definition answer_fits :: "key_task \<Rightarrow> key_answer \<Rightarrow> bool" where
  "answer_fits t a \<longleftrightarrow>
     (case a of KeyCreated _ \<Rightarrow> is_create t | KeyDone \<Rightarrow> \<not> is_create t | KeyFailed _ \<Rightarrow> True)"

definition close_secret :: "key_page \<Rightarrow> key_page" where
  "close_secret st = st\<lparr>kp_createdSecret := None, kp_copied := False\<rparr>"

definition key_error :: "thrown option \<Rightarrow> key_page \<Rightarrow> string option" where
  "key_error queryError st =
     (if truthy (kp_error st) then kp_error st
      else map_option (\<lambda>e. error_message e ''Failed to load API keys'') queryError)"

text \<open>
  The events.  A dialog that is open covers the table; the buttons of the table are disabled while a
  request is under way, the buttons of the dialogs while theirs is.
\<close>

datatype key_event =
    OpenCreate bool
  | TypeKeyName string
  | SubmitKey
  | ChooseDelete api_key_item
  | CloseDelete
  | ConfirmDelete
  | PressCopy
  | CloseSecret
  | KeyAnswer nat key_answer
  | CopyTimer

fun key_step :: "key_event \<Rightarrow> key_page \<Rightarrow> key_page" where
  "key_step (OpenCreate v) st = st\<lparr>kp_createOpen := v\<rparr>"
| "key_step (TypeKeyName s) st = (if kp_createOpen st then st\<lparr>kp_name := s\<rparr> else st)"
| "key_step SubmitKey st = (if kp_createOpen st \<and> \<not> creating st then submitCreate st else st)"
| "key_step (ChooseDelete k) st = (if isMutating st then st else st\<lparr>kp_keyToDelete := Some k\<rparr>)"
| "key_step CloseDelete st = st\<lparr>kp_keyToDelete := None\<rparr>"
| "key_step ConfirmDelete st = (if kp_keyToDelete st \<noteq> None \<and> \<not> deleting st then handleDelete st else st)"
| "key_step PressCopy st = copySecret st"
| "key_step CloseSecret st = close_secret st"
| "key_step (KeyAnswer n a) st =
     (if n < length (kp_tasks st) \<and> answer_fits (kp_tasks st ! n) a
      then key_answered (kp_tasks st ! n) a (st\<lparr>kp_tasks := take n (kp_tasks st) @ drop (Suc n) (kp_tasks st)\<rparr>)
      else st)"
| "key_step CopyTimer st = (if 0 < kp_copyTimers st then st\<lparr>kp_copyTimers := kp_copyTimers st - 1, kp_copied := False\<rparr> else st)"

section \<open>Only chosen keys are deleted\<close>

text \<open>The ids the user has chosen in a run of the page.\<close>

definition chosen_ids :: "key_event list \<Rightarrow> string set" where
  "chosen_ids es = {ki_id k | k. ChooseDelete k \<in> set es}"

definition is_delete :: "key_task \<Rightarrow> bool" where
  "is_delete t = (case t of DeletingKey _ \<Rightarrow> True | _ \<Rightarrow> False)"

definition call_ok :: "string set \<Rightarrow> key_task \<Rightarrow> bool" where
  "call_ok ids t = (case t of DeletingKey i \<Rightarrow> i \<in> ids | CreatingKey n \<Rightarrow> n \<noteq> [] \<and> js_trim n = n | CopyingKey k \<Rightarrow> k \<noteq> [])"

definition key_inv :: "string set \<Rightarrow> key_page \<Rightarrow> bool" where
  "key_inv ids st \<longleftrightarrow>
     (\<forall>k. kp_keyToDelete st = Some k \<longrightarrow> ki_id k \<in> ids) \<and> list_all (call_ok ids) (kp_calls st) \<and>
     length (filter is_delete (kp_tasks st)) \<le> 1 \<and> length (filter is_create (kp_tasks st)) \<le> 1"

lemma tasks_idle: "\<not> creating st \<Longrightarrow> filter is_create (kp_tasks st) = []" "\<not> deleting st \<Longrightarrow> filter is_delete (kp_tasks st) = []"
  by (simp_all add: creating_def deleting_def is_create_def is_delete_def filter_empty_conv list_ex_iff)

lemma length_filter_remove: "length (filter P (take n xs @ drop (Suc n) xs)) \<le> length (filter P xs)"
  by (induction xs arbitrary: n) (auto simp: take_Cons split: nat.split intro: le_SucI)

lemma key_answered_inv: "key_inv ids st \<Longrightarrow> key_inv ids (key_answered t a st)"
  by (cases t; cases a) (auto simp: key_inv_def)

definition guarded_key_step :: "string set \<Rightarrow> key_event \<Rightarrow> key_page \<Rightarrow> key_page" where
  "guarded_key_step ids e st = (case e of ChooseDelete k \<Rightarrow> if ki_id k \<in> ids then key_step e st else st | _ \<Rightarrow> key_step e st)"

interpretation keys: machine "guarded_key_step ids" "key_inv ids" for ids
proof
  fix st e
  assume inv: "key_inv ids st"
  show "key_inv ids (guarded_key_step ids e st)"
  proof (cases e)
    case SubmitKey
    with inv tasks_idle(1) [of st] show ?thesis
      by (auto simp: guarded_key_step_def submitCreate_def start_task_def key_inv_def call_ok_def is_create_def is_delete_def Let_def)
  next
    case ConfirmDelete
    with inv tasks_idle(2) [of st] show ?thesis
      by (auto simp: guarded_key_step_def handleDelete_def start_task_def key_inv_def call_ok_def is_create_def is_delete_def
          split: option.split)
  next
    case PressCopy
    with inv show ?thesis
      by (auto simp: guarded_key_step_def copySecret_def start_task_def key_inv_def call_ok_def is_create_def is_delete_def
          split: option.split)
  next
    case (KeyAnswer n a)
    from inv have "key_inv ids (st\<lparr>kp_tasks := take n (kp_tasks st) @ drop (Suc n) (kp_tasks st)\<rparr>)"
      using length_filter_remove [of is_delete n "kp_tasks st"] length_filter_remove [of is_create n "kp_tasks st"]
      by (simp add: key_inv_def)
    with KeyAnswer inv show ?thesis by (simp add: guarded_key_step_def key_answered_inv)
  qed (use inv in \<open>auto simp: guarded_key_step_def key_inv_def close_secret_def\<close>)
qed

lemma guarded_run: "fold (guarded_key_step (chosen_ids es)) es st = fold key_step es st"
proof -
  have "fold (guarded_key_step ids) es' st = fold key_step es' st" if "chosen_ids es' \<subseteq> ids" for es' ids st
    using that
  proof (induction es' arbitrary: st)
    case (Cons e es')
    then have "guarded_key_step ids e st = key_step e st" for st
      by (cases e) (auto simp: guarded_key_step_def chosen_ids_def)
    with Cons show ?case by (auto simp: chosen_ids_def)
  qed simp
  then show ?thesis by simp
qed

text \<open>C33: Whatever the user does and in whatever order the requests are answered, a key is deleted only if it was
  chosen in the table, a key is created only under a trimmed, non-empty name, and at most one creation and
  one deletion are under way.\<close>

theorem api_keys_safe:
  "let st = fold key_step es new_key_page
   in list_all (call_ok (chosen_ids es)) (kp_calls st) \<and>
      length (filter is_delete (kp_tasks st)) \<le> 1 \<and> length (filter is_create (kp_tasks st)) \<le> 1"
proof -
  have "key_inv (chosen_ids es) new_key_page" by (simp add: key_inv_def new_key_page_def)
  from keys.run [OF this, of es] show ?thesis by (simp add: guarded_run key_inv_def Let_def)
qed

text \<open>
  A clipboard write that ends late reports the secret of another key as copied.
\<close>

lemma late_copy_reported:
  "let st = fold key_step
      [OpenCreate True, TypeKeyName ''a'', SubmitKey, KeyAnswer 0 (KeyCreated a), PressCopy, CloseSecret,
       OpenCreate True, TypeKeyName ''b'', SubmitKey, KeyAnswer 1 (KeyCreated b), KeyAnswer 0 KeyDone] new_key_page
   in kx_key a \<noteq> [] \<longrightarrow> kp_createdSecret st = Some b \<and> kp_copied st"
proof -
  have trim: "js_trim ''a'' = ''a''" "js_trim ''b'' = ''b''" by code_simp+
  show ?thesis
    by (simp add: Let_def new_key_page_def creating_def submitCreate_def start_task_def answer_fits_def copySecret_def
        close_secret_def is_create_def trim)
qed

end
