(* ===== verification/Builder_Page.thy ===== *)
theory Builder_Page
  imports Builder_Draft Channel_Config Workflow_Setup
begin

text \<open>
  From the builder to the channel page: the frame of the builder
  (\<open>features/workflows/components/CreateWorkflowBuilder.tsx\<close>) with the handler that saves the draft and
  opens the page of a notification step, the parameters that page reads
  (\<open>app/dashboard/workflows/new/builder/channel/page.tsx\<close>), and the height of the canvas
  (\<open>definition-builder/WorkflowBuilderCanvas.tsx\<close>).
\<close>

section \<open>The frame of the builder\<close>

text \<open>A step the user has asked to configure, while the save before the navigation is under way.\<close>

record configure_task =
  ct_workflowId :: string
  ct_nodeId :: string
  ct_channel :: "string option"

record builder_frame =
  bf_page :: draft_page
  bf_tasks :: "configure_task list"
  bf_pushed :: "string list"

definition frame_workflow_id :: "draft_page \<Rightarrow> string" where
  "frame_workflow_id st = (case dp_workflow st of None \<Rightarrow> [] | Some w \<Rightarrow> wfi_id w)"

definition configure_payload :: "draft_page \<Rightarrow> workflow_payload" where
  "configure_payload st =
     \<lparr>wp_key = (case dp_workflow st of None \<Rightarrow> [] | Some w \<Rightarrow> wfi_key w),
      wp_name = (case dp_workflow st of None \<Rightarrow> [] | Some w \<Rightarrow> wfi_name w),
      wp_description = (case dp_workflow st of None \<Rightarrow> None
        | Some w \<Rightarrow> if truthy (wfi_description w) then wfi_description w else None),
      wp_definition = workflowDefinitionFromBuilderDraft (dp_draft st)\<rparr>"

definition handleConfigureNotificationNode :: "string \<Rightarrow> string option \<Rightarrow> builder_frame \<Rightarrow> builder_frame" where
  "handleConfigureNotificationNode nodeId channel st =
     (let page = bf_page st; i = frame_workflow_id page
      in st\<lparr>bf_page := page\<lparr>dp_sent := dp_sent page @ [(i, configure_payload page)]\<rparr>,
            bf_tasks := bf_tasks st @ [\<lparr>ct_workflowId = i, ct_nodeId = nodeId, ct_channel = channel\<rparr>]\<rparr>)"

text \<open>The save has succeeded or failed; the navigation follows either way.\<close>

definition configure_answered :: "nat \<Rightarrow> bool \<Rightarrow> builder_frame \<Rightarrow> builder_frame" where
  "configure_answered n success st =
     (if n < length (bf_tasks st)
      then
        (let t = bf_tasks st ! n; page = bf_page st
         in st\<lparr>bf_page := (if success then page\<lparr>dp_invalidated := dp_invalidated page @ [ct_workflowId t]\<rparr> else page),
               bf_tasks := take n (bf_tasks st) @ drop (Suc n) (bf_tasks st),
               bf_pushed := bf_pushed st @ [buildWorkflowChannelConfigureHref (ct_workflowId t) (ct_nodeId t) (ct_channel t)]\<rparr>)
      else st)"

record workflow_setup =
  wsu_workflowId :: string
  wsu_key :: string
  wsu_name :: string
  wsu_description :: string

datatype frame_view = FrameLoading | FrameMissing string | FrameBuilder "string option" workflow_setup

definition frame_view_of :: "draft_page \<Rightarrow> frame_view" where
  "frame_view_of st =
     (if page_loading st then FrameLoading
      else case dp_workflow st of
          None \<Rightarrow> FrameMissing (js_or (str_or_empty (page_error st)) ''Workflow draft not found'')
        | Some w \<Rightarrow> FrameBuilder (if truthy (page_error st) then page_error st else None)
            \<lparr>wsu_workflowId = wfi_id w, wsu_key = wfi_key w, wsu_name = wfi_name w,
             wsu_description = str_or_empty (wfi_description w)\<rparr>)"

section \<open>The parameters of the channel page\<close>

definition channel_page_params :: "(string \<Rightarrow> param_value option) \<Rightarrow> string \<times> string" where
  "channel_page_params params = (workflowIdFromRecord params, firstSearchParamValue (params ''nodeId''))"

lemma channel_link:
  "channel_page_params (record_of_link (buildWorkflowChannelConfigureHref workflowId nodeId channel)) = (workflowId, nodeId)"
proof -
  let ?ps = "map_set ''nodeId'' nodeId (map_set ''workflowId'' workflowId [])"
  let ?qs = "if truthy channel then map_set ''channel'' (str_or_empty channel) ?ps else ?ps"
  have href: "buildWorkflowChannelConfigureHref workflowId nodeId channel =
      ''/dashboard/workflows/new/builder/channel'' @ ''?'' @ params_toString ?qs"
    by (simp add: buildWorkflowChannelConfigureHref_def Let_def)
  have "query_of_href (''/dashboard/workflows/new/builder/channel'' @ ''?'' @ params_toString ?qs) = params_toString ?qs"
    by (rule query_of_params) simp
  then have "link_params (buildWorkflowChannelConfigureHref workflowId nodeId channel) = map_of ?qs"
    unfolding href link_params_def by (simp only: parse_params)
  moreover have "map_get ?qs ''workflowId'' = Some workflowId" "map_get ?qs ''nodeId'' = Some nodeId"
    by (simp_all add: map_get_set)
  ultimately show ?thesis
    by (simp add: channel_page_params_def record_of_link_def workflowIdFromRecord_def firstSearchParamValue_def)
qed

section \<open>Configuring a step\<close>

lemma find_exported:
  assumes "n \<in> set nodes" and "distinct (map bn_id nodes)" and "\<forall>m \<in> set nodes. js_trim (bn_id m) = bn_id m"
  shows "List.find (\<lambda>m. wn_id m = bn_id n) (map exportNode nodes) = Some (exportNode n)"
  using assms
proof (induction nodes)
  case (Cons m nodes)
  have "wn_id (exportNode m) = bn_id m" using Cons.prems(3) by (simp add: exportNode_def Let_def)
  with Cons show ?case by (cases "m = n") auto
qed simp

text \<open>C22: Configuring a notification step opens that very step: the link leads the channel page to the workflow and the
  step, and if the server returns what the builder saved before leaving, the page finds the step, with its
  channel and without an error.\<close>

theorem configure_opens_step:
  assumes "dp_workflow (bf_page st) = Some w" and "wfi_id w \<noteq> []"
    and "n \<in> set (wb_nodes (dp_draft (bf_page st)))" and "bn_type n = Notification" and "bn_id n \<noteq> []"
    and "distinct (map bn_id (wb_nodes (dp_draft (bf_page st))))"
    and "\<forall>m \<in> set (wb_nodes (dp_draft (bf_page st))). js_trim (bn_id m) = bn_id m"
    and "bf_tasks st = []"
    and "wfi_definition stored = Some (wp_definition (configure_payload (bf_page st)))"
  defines "st' \<equiv> configure_answered 0 True (handleConfigureNotificationNode (bn_id n) (Some (bn_channel n)) st)"
  shows "channel_page_params (record_of_link (last (bf_pushed st'))) = (wfi_id w, bn_id n) \<and>
    last (dp_sent (bf_page st')) = (wfi_id w, configure_payload (bf_page st)) \<and>
    (let p = channel_run parse pretty (wfi_id w) (bn_id n) [LoadStarted, WorkflowLoaded stored] initialChannelPage
     in cc_error p = None \<and> cc_node p = Some (exportNode n) \<and> cc_channel p = js_or (bn_channel n) ''email'' \<and>
        cc_templateId p = js_trim (bn_templateId n))"
proof -
  let ?e = "exportNode n"
  have found: "List.find (\<lambda>m. wn_id m = bn_id n) (wd_nodes (wp_definition (configure_payload (bf_page st)))) = Some ?e"
    using find_exported [OF assms(3,6,7)] by (simp add: configure_payload_def workflowDefinitionFromBuilderDraft_def)
  have e: "wn_type ?e = Notification" "node_channel ?e = js_or (bn_channel n) ''email''"
    "str_or_empty (obj_str (channel_node_config ?e) ''template_id'') = js_trim (bn_templateId n)"
    using assms(4) by (auto simp: exportNode_def node_channel_def channel_node_config_def obj_str_def js_or_def Let_def)
  have links: "channel_page_params (record_of_link (last (bf_pushed st'))) = (wfi_id w, bn_id n)"
    "last (dp_sent (bf_page st')) = (wfi_id w, configure_payload (bf_page st))"
    using assms(1,8) channel_link
    by (simp_all add: st'_def configure_answered_def handleConfigureNotificationNode_def frame_workflow_id_def Let_def)
  have "let p = workflow_loaded pretty (bn_id n) stored st0
    in cc_error p = cc_error st0 \<and> cc_node p = Some ?e \<and> cc_channel p = js_or (bn_channel n) ''email'' \<and>
       cc_templateId p = js_trim (bn_templateId n)" for st0
    using found assms(9) e
    by (auto simp: workflow_loaded_def send_def load_payload_def Let_def split: option.split)
  note loaded = this [unfolded Let_def, of "refEffects (load_start (wfi_id w) (bn_id n) initialChannelPage)"]
  have "cc_error (refEffects (load_start (wfi_id w) (bn_id n) initialChannelPage)) = None"
    using assms(2,5) by (simp add: refEffects_def load_start_def send_def)
  with loaded show ?thesis using links
    by (simp add: channel_run_def channel_step_def refEffects_def Let_def)
qed

definition sample_email_step :: node_draft where
  "sample_email_step = \<lparr>bn_id = ''email_1'', bn_name = ''Welcome'', bn_type = Notification, bn_duration = [],
     bn_templateId = ''t1'', bn_channel = ''email'', bn_field = [], bn_operator = [], bn_value = []\<rparr>"

definition sample_frame :: builder_frame where
  "sample_frame = \<lparr>bf_page = initialPage\<lparr>dp_workflow := Some sample_workflow,
       dp_draft := \<lparr>wb_triggerEvent = ''signup'', wb_nodes = [sample_email_step], wb_edges = []\<rparr>\<rparr>,
     bf_tasks = [], bf_pushed = []\<rparr>"

theorem configure_opens_step_witness:
  "let st' = configure_answered 0 True (handleConfigureNotificationNode ''email_1'' (Some ''email'') sample_frame)
   in channel_page_params (record_of_link (last (bf_pushed st'))) = (''w1'', ''email_1'') \<and>
      last (dp_sent (bf_page st')) = (''w1'', configure_payload (bf_page sample_frame))"
proof -
  let ?stored = "sample_workflow\<lparr>wfi_definition := Some (wp_definition (configure_payload (bf_page sample_frame)))\<rparr>"
  have w: "dp_workflow (bf_page sample_frame) = Some sample_workflow" "wfi_id sample_workflow \<noteq> []"
    by (simp_all add: sample_frame_def sample_workflow_def)
  have n: "sample_email_step \<in> set (wb_nodes (dp_draft (bf_page sample_frame)))"
    "bn_type sample_email_step = Notification" "bn_id sample_email_step \<noteq> []"
    "distinct (map bn_id (wb_nodes (dp_draft (bf_page sample_frame))))"
    by (simp_all add: sample_frame_def sample_email_step_def)
  have trimmed: "js_trim ''email_1'' = ''email_1''" by code_simp
  have t: "\<forall>m \<in> set (wb_nodes (dp_draft (bf_page sample_frame))). js_trim (bn_id m) = bn_id m"
    by (simp add: sample_frame_def sample_email_step_def trimmed)
  have f: "bf_tasks sample_frame = []" "wfi_definition ?stored = Some (wp_definition (configure_payload (bf_page sample_frame)))"
    by (simp_all add: sample_frame_def)
  have ids: "wfi_id sample_workflow = ''w1''" "bn_id sample_email_step = ''email_1''" "bn_channel sample_email_step = ''email''"
    by (simp_all add: sample_workflow_def sample_email_step_def)
  show ?thesis
    using configure_opens_step [OF w n t f, of "\<lambda>_. None" "\<lambda>_. []"] unfolding Let_def ids by blast
qed

text \<open>The draft has no place for the payload that the channel page stores in the definition, so the save before the
  navigation removes it: the payload editor of the page that opens is empty again.\<close>

theorem configure_erases_payload:
  "wd_payload (wp_definition (configure_payload page)) = None \<and>
   cc_payload (workflow_loaded pretty nodeId
     (stored\<lparr>wfi_definition := Some (wp_definition (configure_payload page))\<rparr>) initialChannelPage) = ''{}''"
  by (simp add: configure_payload_def workflowDefinitionFromBuilderDraft_def workflow_loaded_def load_payload_def send_def
      initialChannelPage_def Let_def split: option.split)

section \<open>The height of the canvas\<close>

definition innerCanvasHeight :: "rat list \<Rightarrow> rat" where
  "innerCanvasHeight ys =
     (let lowestNodeBottom = fold (\<lambda>y current. max current (y + nodeHeight)) ys nodeHeight
      in max 3600 (lowestNodeBottom + 1400))"

text \<open>The height in pixels of the class \<open>h-[..px]\<close> that is chosen.\<close>

definition innerCanvasHeightClass :: "rat \<Rightarrow> rat" where
  "innerCanvasHeightClass h =
     (if h \<le> 3600 then 3600 else if h \<le> 4400 then 4400 else if h \<le> 5200 then 5200 else if h \<le> 6000 then 6000 else 6800)"

definition edgeCount :: "bool list \<Rightarrow> nat" where
  "edgeCount isTerminal = length (filter (\<lambda>t. \<not> t) isTerminal)"

lemma lowest_bottom:
  "fold (\<lambda>y current. max current (y + nodeHeight)) ys c = Max (insert c ((\<lambda>y. y + nodeHeight) ` set ys))"
proof (induction ys arbitrary: c)
  case (Cons y ys)
  show ?case unfolding fold_simps Cons.IH
    by (cases "ys = []") (simp_all add: max.commute max.left_commute max.assoc)
qed simp

text \<open>The scrolled area around the canvas is high enough for a node exactly when the bottom of the node is
  within 6800 pixels: up to there the height grows with the lowest node, and beyond it no longer does.\<close>

theorem canvas_holds_node:
  assumes "y \<in> set ys"
  shows "y + nodeHeight \<le> innerCanvasHeightClass (innerCanvasHeight ys) \<longleftrightarrow> y + nodeHeight \<le> 6800"
proof -
  let ?h = "innerCanvasHeight ys"
  have "y + nodeHeight \<le> fold (\<lambda>y current. max current (y + nodeHeight)) ys nodeHeight"
    unfolding lowest_bottom using assms by (intro Max_ge) auto
  then have "y + nodeHeight + 1400 \<le> ?h" by (simp add: innerCanvasHeight_def Let_def)
  moreover have "?h \<le> 6000 \<Longrightarrow> ?h \<le> innerCanvasHeightClass ?h" "innerCanvasHeightClass ?h \<le> 6800"
    "6000 < ?h \<Longrightarrow> innerCanvasHeightClass ?h = 6800"
    by (simp_all add: innerCanvasHeightClass_def)
  ultimately show ?thesis by (cases "?h \<le> 6000") auto
qed

theorem canvas_holds_node_witness:
  "7000 + nodeHeight > innerCanvasHeightClass (innerCanvasHeight [0, 7000])"
  using canvas_holds_node [of 7000 "[0, 7000]"] by (simp add: nodeHeight_def not_le)

end
