(* ===== verification/Theme.thy ===== *)
theory Theme
  imports Prelude
begin

text \<open>
  The colour theme of the client: the provider \<open>components/theme-provider.tsx\<close>, as \<open>app/layout.tsx\<close> uses it, and
  the switch of the header (\<open>app/dashboard/layout/header/Header.tsx\<close>).  The state holds what React knows and what
  the provider writes outside it: the class and the attribute of the root element and the browser's storage.
\<close>

datatype theme = Light | Dark | SystemTheme

datatype theme_attribute = ClassAttribute | DataThemeAttribute

record theme_props =
  tp_attribute :: theme_attribute
  tp_defaultTheme :: theme
  tp_enableSystem :: bool
  tp_disableTransitionOnChange :: bool

text \<open>The properties \<open>app/layout.tsx\<close> gives.\<close>

definition layout_props :: theme_props where
  "layout_props = \<lparr>tp_attribute = ClassAttribute, tp_defaultTheme = SystemTheme, tp_enableSystem = True,
     tp_disableTransitionOnChange = True\<rparr>"

definition theme_text :: "theme \<Rightarrow> string" where
  "theme_text t = (case t of Light \<Rightarrow> ''light'' | Dark \<Rightarrow> ''dark'' | SystemTheme \<Rightarrow> ''system'')"

text \<open>
  The page with its provider.  \<open>th_systemDark\<close> is the answer of the media query, \<open>th_listener\<close> the theme the
  registered listener was created with, \<open>th_mounted\<close> and \<open>th_deps\<close> what the effects compare with: the properties
  never change, so the first effect runs once and the others whenever the theme is another.
\<close>

record theme_page =
  th_theme :: theme
  th_resolved :: theme
  th_mounted :: bool
  th_deps :: "theme option"
  th_listener :: "theme option"
  th_systemDark :: bool
  th_storage :: "string option"
  th_rootDark :: bool
  th_rootAttribute :: "theme option"
  th_switching :: bool
  th_timers :: nat

definition getSystemTheme :: "theme_page \<Rightarrow> theme" where
  "getSystemTheme st = (if th_systemDark st then Dark else Light)"

definition applyThemeAttribute :: "theme_attribute \<Rightarrow> theme \<Rightarrow> theme_page \<Rightarrow> theme_page" where
  "applyThemeAttribute attribute resolvedTheme st =
     (case attribute of
        DataThemeAttribute \<Rightarrow> st\<lparr>th_rootAttribute := Some resolvedTheme\<rparr>
      | ClassAttribute \<Rightarrow> st\<lparr>th_rootDark := (resolvedTheme = Dark)\<rparr>)"

definition new_theme_page :: "theme_props \<Rightarrow> bool \<Rightarrow> string option \<Rightarrow> theme_page" where
  "new_theme_page p systemDark storage =
     \<lparr>th_theme = tp_defaultTheme p, th_resolved = Light, th_mounted = False, th_deps = None, th_listener = None,
      th_systemDark = systemDark, th_storage = storage, th_rootDark = False, th_rootAttribute = None,
      th_switching = False, th_timers = 0\<rparr>"

section \<open>The effects\<close>

text \<open>The first effect: the stored theme, or the default where the storage has none.\<close>

definition storedTheme :: "theme_props \<Rightarrow> string option \<Rightarrow> theme" where
  "storedTheme p storage =
     (if storage = Some ''light'' then Light else if storage = Some ''dark'' then Dark
      else if storage = Some ''system'' then SystemTheme else tp_defaultTheme p)"

definition resolve :: "theme_props \<Rightarrow> theme \<Rightarrow> theme_page \<Rightarrow> theme" where
  "resolve p t st = (if t = SystemTheme \<and> tp_enableSystem p then getSystemTheme st else t)"

definition mount_effect :: "theme_props \<Rightarrow> theme_page \<Rightarrow> theme_page" where
  "mount_effect p st =
     (let initialTheme = storedTheme p (th_storage st)
      in st\<lparr>th_theme := initialTheme, th_resolved := resolve p initialTheme st\<rparr>)"

text \<open>The second effect, of a render whose theme was \<open>t\<close>.\<close>

definition apply_effect :: "theme_props \<Rightarrow> theme \<Rightarrow> theme_page \<Rightarrow> theme_page" where
  "apply_effect p t st =
     (let nextResolvedTheme = resolve p t st;
          st = st\<lparr>th_resolved := nextResolvedTheme, th_storage := Some (theme_text t)\<rparr>;
          st = (if tp_disableTransitionOnChange p then st\<lparr>th_switching := True\<rparr> else st);
          st = applyThemeAttribute (tp_attribute p) nextResolvedTheme st
      in if tp_disableTransitionOnChange p then st\<lparr>th_timers := Suc (th_timers st)\<rparr> else st)"

text \<open>The listener of the third effect, created in a render whose theme was \<open>t\<close>; the effect also calls it.\<close>

definition handleChange :: "theme_props \<Rightarrow> theme \<Rightarrow> theme_page \<Rightarrow> theme_page" where
  "handleChange p t st =
     (if t = SystemTheme
      then applyThemeAttribute (tp_attribute p) (getSystemTheme st) (st\<lparr>th_resolved := getSystemTheme st\<rparr>)
      else st)"

definition media_effect :: "theme_props \<Rightarrow> theme \<Rightarrow> theme_page \<Rightarrow> theme_page" where
  "media_effect p t st =
     (if \<not> tp_enableSystem p then st else handleChange p t st\<lparr>th_listener := Some t\<rparr>)"

text \<open>The effects after a render: the cleanup of the third, then those whose dependencies have changed.\<close>

definition theme_commit :: "theme_props \<Rightarrow> theme_page \<Rightarrow> theme_page" where
  "theme_commit p st =
     (let t = th_theme st;
          changed = (th_deps st \<noteq> Some t);
          st0 = (if changed then st\<lparr>th_listener := None\<rparr> else st);
          st1 = (if th_mounted st then st0 else mount_effect p st0);
          st2 = (if changed then media_effect p t (apply_effect p t st1) else st1)
      in st2\<lparr>th_mounted := True, th_deps := Some t\<rparr>)"

definition theme_stale :: "theme_page \<Rightarrow> bool" where
  "theme_stale st \<longleftrightarrow> \<not> th_mounted st \<or> th_deps st \<noteq> Some (th_theme st)"

lemma effects_frame [simp]:
  "th_theme (apply_effect p t st) = th_theme st" "th_theme (media_effect p t st) = th_theme st"
  "th_theme (handleChange p t st) = th_theme st" "th_theme (applyThemeAttribute a r st) = th_theme st"
  "th_mounted (apply_effect p t st) = th_mounted st" "th_mounted (media_effect p t st) = th_mounted st"
  by (simp_all add: apply_effect_def media_effect_def handleChange_def applyThemeAttribute_def Let_def
      split: theme_attribute.split)

lemma commit_mounted: "th_mounted (theme_commit p st)"
  by (simp add: theme_commit_def Let_def)

lemma commit_rests: "th_mounted st \<Longrightarrow> \<not> theme_stale (theme_commit p st)"
  by (simp add: theme_commit_def theme_stale_def Let_def)

function theme_settle :: "theme_props \<Rightarrow> theme_page \<Rightarrow> theme_page" where
  "theme_settle p st = (if theme_stale st then theme_settle p (theme_commit p st) else st)"
  by pat_completeness auto

termination
proof (relation "measure (\<lambda>(p, st). if \<not> th_mounted st then 2 else if theme_stale st then 1 else 0)")
  fix p st
  assume "theme_stale st"
  then show "((p, theme_commit p st), p, st) \<in>
      measure (\<lambda>(p, st). if \<not> th_mounted st then 2 else if theme_stale st then 1 else 0)"
    using commit_rests [of st p] commit_mounted [of p st] by auto
qed simp

declare theme_settle.simps [simp del]

lemma settle_rest: "\<not> theme_stale st \<Longrightarrow> theme_settle p st = st"
  by (subst theme_settle.simps) simp

lemma settle_commit: "theme_stale st \<Longrightarrow> theme_settle p st = theme_settle p (theme_commit p st)"
  by (subst theme_settle.simps) simp

lemma settle_mounted:
  "th_mounted st \<Longrightarrow> theme_settle p st = (if theme_stale st then theme_commit p st else st)"
  by (simp add: settle_rest settle_commit commit_rests)

section \<open>Events\<close>

text \<open>\<open>toggleMode\<close> of the header, a functional update of the theme.\<close>

definition toggled :: "theme \<Rightarrow> theme" where
  "toggled prevTheme = (if prevTheme = Dark then Light else Dark)"

datatype theme_event = ToggleMode | SetTheme theme | SystemChanged bool | TransitionTimer

definition theme_apply :: "theme_props \<Rightarrow> theme_event \<Rightarrow> theme_page \<Rightarrow> theme_page" where
  "theme_apply p ev st =
     (case ev of
        ToggleMode \<Rightarrow> st\<lparr>th_theme := toggled (th_theme st)\<rparr>
      | SetTheme t \<Rightarrow> st\<lparr>th_theme := t\<rparr>
      | SystemChanged dark \<Rightarrow>
          (let st' = st\<lparr>th_systemDark := dark\<rparr>
           in if dark = th_systemDark st then st
              else case th_listener st of None \<Rightarrow> st' | Some t \<Rightarrow> handleChange p t st')
      | TransitionTimer \<Rightarrow>
          (if th_timers st = 0 then st else st\<lparr>th_switching := False, th_timers := th_timers st - 1\<rparr>))"

definition theme_step :: "theme_props \<Rightarrow> theme_event \<Rightarrow> theme_page \<Rightarrow> theme_page" where
  "theme_step p ev st = theme_settle p (theme_apply p ev st)"

definition theme_visit :: "theme_props \<Rightarrow> bool \<Rightarrow> string option \<Rightarrow> theme_event list \<Rightarrow> theme_page" where
  "theme_visit p systemDark storage evs =
     fold (theme_step p) evs (theme_settle p (new_theme_page p systemDark storage))"

definition root_shows :: "theme_props \<Rightarrow> theme_page \<Rightarrow> bool" where
  "root_shows p st \<longleftrightarrow>
     (case tp_attribute p of ClassAttribute \<Rightarrow> th_rootDark st = (th_resolved st = Dark)
      | DataThemeAttribute \<Rightarrow> th_rootAttribute st = Some (th_resolved st))"

text \<open>The icon of the header.\<close>

definition shows_moon :: "theme_page \<Rightarrow> bool" where
  "shows_moon st \<longleftrightarrow> th_resolved st = Light"

record header =
  hd_isSticky :: bool
  hd_isOpen :: bool

definition new_header :: header where "new_header = \<lparr>hd_isSticky = False, hd_isOpen = False\<rparr>"

definition handleScroll :: "rat \<Rightarrow> header \<Rightarrow> header" where
  "handleScroll scrollY st = st\<lparr>hd_isSticky := scrollY > 50\<rparr>"

section \<open>What is shown and what is stored\<close>

definition theme_inv :: "theme_props \<Rightarrow> theme_page \<Rightarrow> bool" where
  "theme_inv p st \<longleftrightarrow>
     \<not> theme_stale st \<and> th_resolved st = resolve p (th_theme st) st \<and> root_shows p st \<and>
     th_storage st = Some (theme_text (th_theme st)) \<and>
     th_listener st = (if tp_enableSystem p then Some (th_theme st) else None) \<and>
     th_switching st \<le> (0 < th_timers st)"

lemmas theme_defs = apply_effect_def media_effect_def handleChange_def applyThemeAttribute_def resolve_def
  getSystemTheme_def root_shows_def

lemma commit_inv:
  assumes "th_mounted st" and "th_deps st \<noteq> Some (th_theme st)" and "th_switching st \<le> (0 < th_timers st)"
  shows "theme_inv p (theme_commit p st)"
proof -
  have "\<not> theme_stale (theme_commit p st)" using assms(1) by (rule commit_rests)
  then show ?thesis using assms
    by (cases "tp_attribute p"; cases "tp_enableSystem p")
      (auto simp: theme_inv_def theme_commit_def theme_defs Let_def)
qed

lemma first_commit_switching:
  "th_switching st \<le> (0 < th_timers st) \<Longrightarrow> th_switching (theme_commit p st) \<le> (0 < th_timers (theme_commit p st))"
  by (cases "tp_attribute p") (auto simp: theme_commit_def mount_effect_def theme_defs Let_def)

lemma opened:
  fixes p dark storage
  defines "st \<equiv> theme_settle p (new_theme_page p dark storage)"
  shows "theme_inv p st \<and> th_theme st = storedTheme p storage"
proof -
  let ?c = "theme_commit p (new_theme_page p dark storage)"
  have stale: "theme_stale (new_theme_page p dark storage)" by (simp add: theme_stale_def new_theme_page_def)
  have c: "th_theme ?c = storedTheme p storage" "th_deps ?c = Some (tp_defaultTheme p)" "th_mounted ?c"
    by (simp_all add: theme_commit_def mount_effect_def new_theme_page_def Let_def)
  have sw: "th_switching ?c \<le> (0 < th_timers ?c)" by (rule first_commit_switching) (simp add: new_theme_page_def)
  have st: "st = (if theme_stale ?c then theme_commit p ?c else ?c)"
    unfolding st_def using stale c(3) by (simp add: settle_commit settle_mounted)
  show ?thesis
  proof (cases "theme_stale ?c")
    case True
    then have "th_deps ?c \<noteq> Some (th_theme ?c)" using c(3) by (simp add: theme_stale_def)
    with c(3) sw have "theme_inv p (theme_commit p ?c)" by (intro commit_inv)
    moreover have "th_theme (theme_commit p ?c) = th_theme ?c" using c(3) by (simp add: theme_commit_def Let_def)
    ultimately show ?thesis using st True c(1) by simp
  next
    case False
    then have "storedTheme p storage = tp_defaultTheme p" using c by (simp add: theme_stale_def)
    then have "theme_inv p ?c" using False sw
      by (cases "tp_attribute p"; cases "tp_enableSystem p")
        (auto simp: theme_inv_def theme_commit_def mount_effect_def new_theme_page_def theme_defs Let_def)
    then show ?thesis using st False c(1) by simp
  qed
qed

lemma step_inv: "theme_inv p st \<Longrightarrow> theme_inv p (theme_step p ev st)"
proof -
  assume inv: "theme_inv p st"
  then have m: "th_mounted st" "th_deps st = Some (th_theme st)" by (simp_all add: theme_inv_def theme_stale_def)
  have retheme: "theme_inv p (theme_settle p (st\<lparr>th_theme := t\<rparr>))" for t
  proof (cases "t = th_theme st")
    case True
    with inv show ?thesis by (simp add: theme_inv_def settle_rest)
  next
    case False
    with m have "theme_stale (st\<lparr>th_theme := t\<rparr>)" by (simp add: theme_stale_def)
    moreover have "theme_inv p (theme_commit p (st\<lparr>th_theme := t\<rparr>))"
      using m False inv by (intro commit_inv) (auto simp: theme_inv_def)
    ultimately show ?thesis using m by (simp add: settle_mounted)
  qed
  have rest: "theme_inv p s \<Longrightarrow> theme_inv p (theme_settle p s)" for s by (simp add: theme_inv_def settle_rest)
  show ?thesis
  proof (cases ev)
    case (SystemChanged dark)
    with inv have "theme_inv p (theme_apply p ev st)"
      by (cases "tp_attribute p"; cases "tp_enableSystem p")
        (auto simp: theme_apply_def theme_inv_def theme_stale_def theme_defs Let_def)
    then show ?thesis unfolding theme_step_def by (rule rest)
  next
    case TransitionTimer
    with inv have "theme_inv p (theme_apply p ev st)"
      by (auto simp: theme_apply_def theme_inv_def theme_stale_def theme_defs split: theme_attribute.splits)
    then show ?thesis unfolding theme_step_def by (rule rest)
  qed (simp_all add: theme_step_def theme_apply_def retheme)
qed

interpretation themes: machine "theme_step p" "theme_inv p" for p
  by unfold_locales (rule step_inv)

lemma visit_inv: "theme_inv p (theme_visit p dark storage evs)"
  unfolding theme_visit_def using opened [of p dark storage] by (intro themes.run) blast

text \<open>C24: Whatever was stored and whatever the user and the system do, after every event the page shows the theme
  resolved with the system's present setting: the root element, the state behind the header's icon and the
  storage agree, and the listener for the system is registered with the present theme.\<close>

theorem theme_consistent:
  "let st = theme_visit p dark storage evs
   in th_resolved st = resolve p (th_theme st) st \<and> root_shows p st \<and>
      th_storage st = Some (theme_text (th_theme st)) \<and>
      th_listener st = (if tp_enableSystem p then Some (th_theme st) else None)"
  using visit_inv [of p dark storage evs] by (simp add: theme_inv_def)

lemma stored_roundtrip: "storedTheme p (Some (theme_text t)) = t"
  by (cases t) (simp_all add: storedTheme_def theme_text_def)

text \<open>A theme chosen on one visit is the theme of the next: the page that opens on what a visit has stored takes
  over its theme, whatever happened in between to the system's setting.\<close>

theorem theme_remembered:
  "th_theme (theme_visit p dark' (th_storage (theme_visit p dark storage evs)) []) = th_theme (theme_visit p dark storage evs)"
proof -
  have "th_storage (theme_visit p dark storage evs) = Some (theme_text (th_theme (theme_visit p dark storage evs)))"
    using visit_inv by (simp add: theme_inv_def)
  then show ?thesis
    using opened [of p dark'] by (simp add: theme_visit_def stored_roundtrip)
qed

lemma commit_system: "th_systemDark (theme_commit p st) = th_systemDark st"
  by (cases "tp_attribute p") (auto simp: theme_commit_def mount_effect_def theme_defs Let_def)

lemma settle_system: "th_mounted st \<Longrightarrow> th_systemDark (theme_settle p st) = th_systemDark st"
  by (simp add: settle_mounted commit_system)

lemma commit_theme: "th_mounted st \<Longrightarrow> th_theme (theme_commit p st) = th_theme st"
  by (simp add: theme_commit_def Let_def)

text \<open>C25: The switch of the header turns the theme over by its name, not by what is shown: pressing it changes the page,
  and with it the icon, except in the state a first visit starts in with a dark system, where the press only
  changes what is stored.\<close>

theorem press_without_effect:
  fixes dark storage evs
  defines "st \<equiv> theme_visit layout_props dark storage evs"
  defines "st' \<equiv> theme_step layout_props ToggleMode st"
  shows "(th_rootDark st' = th_rootDark st \<longleftrightarrow> th_theme st = SystemTheme \<and> th_systemDark st) \<and>
    (shows_moon st' = shows_moon st \<longleftrightarrow> th_theme st = SystemTheme \<and> th_systemDark st) \<and>
    th_storage st' = Some (theme_text (toggled (th_theme st)))"
proof -
  have inv: "theme_inv layout_props st" unfolding st_def by (rule visit_inv)
  then have m: "th_mounted st" by (simp add: theme_inv_def theme_stale_def)
  have inv': "theme_inv layout_props st'" unfolding st'_def using inv by (rule themes.preserved)
  have s: "th_systemDark st' = th_systemDark st" "th_theme st' = toggled (th_theme st)"
    using m by (simp_all add: st'_def theme_step_def theme_apply_def settle_system settle_mounted commit_theme commit_system)
  from inv inv' show ?thesis unfolding s
    by (cases "th_theme st")
      (auto simp: s theme_inv_def root_shows_def resolve_def getSystemTheme_def layout_props_def toggled_def shows_moon_def)
qed

lemma first_visit_dark: "th_theme (theme_visit layout_props dark None []) = SystemTheme"
  using opened [of layout_props dark None] by (simp add: theme_visit_def storedTheme_def layout_props_def)

end
