(* ===== verification/Dashboard.thy ===== *)
theory Dashboard
  imports Doubles Workflow_Types Provider_Form
begin

text \<open>
  The overview page (\<open>app/dashboard/page.tsx\<close>, \<open>features/dashboard\<close>): its figures and what its cards show.
  Counts are natural numbers below \<open>2\<^sup>5\<^sup>3\<close>, so their sums are exact; a quotient is rounded to the nearest double.
\<close>

section \<open>Statistics (\<open>types/index.ts\<close>)\<close>

record dashboard_counts =
  dc_total_notifications :: nat
  dc_total_subscribers :: nat
  dc_total_workflows :: nat
  dc_active_providers :: nat

record daily_activity =
  da_day :: string
  da_total :: nat
  da_delivered :: nat

record recent_notification =
  rn_id :: string
  rn_title :: string
  rn_message :: string
  rn_channels :: "string list"
  rn_status :: string
  rn_created_at :: string

record dashboard_stats =
  ds_counts :: dashboard_counts
  ds_notification_stats :: "(string \<times> nat) list"
  ds_daily_activity :: "daily_activity list"
  ds_channel_breakdown :: "(string \<times> nat) list"
  ds_recent_notifications :: "recent_notification list"
  ds_active_providers :: "(string \<times> string) list"

section \<open>Numbers (\<open>utils/index.ts\<close>)\<close>

text \<open>\<open>.replace(/\.0$/, '')\<close>\<close>

definition drop_zero :: "string \<Rightarrow> string" where
  "drop_zero s = (if drop (length s - 2) s = ''.0'' then take (length s - 2) s else s)"

definition formatCount :: "nat \<Rightarrow> string" where
  "formatCount n =
     (if 1000 \<le> n then drop_zero (toFixed1 (double (of_nat n / 1000))) @ ''K'' else show_nat n)"

text \<open>
  How long ago a notification was made.  \<open>js_date\<close> is the time of a date in milliseconds (\<open>None\<close> when it is not
  one; comparisons with it are then false), \<open>locale_date\<close> its text in the browser's language.
\<close>

definition signed_double :: "rat \<Rightarrow> rat" where
  "signed_double x = (if x < 0 then - double (- x) else double x)"

definition floor_quotient :: "int \<Rightarrow> int \<Rightarrow> int" where
  "floor_quotient a b = \<lfloor>signed_double (of_int a / of_int b)\<rfloor>"

definition formatTime :: "(string \<Rightarrow> int option) \<Rightarrow> (string \<Rightarrow> string) \<Rightarrow> int \<Rightarrow> string \<Rightarrow> string" where
  "formatTime js_date locale_date now isoString =
     (case js_date isoString of
        None \<Rightarrow> locale_date isoString
      | Some date \<Rightarrow>
          (let diffMs = now - date;
               diffMins = floor_quotient diffMs 60000;
               diffHours = floor_quotient diffMins 60;
               diffDays = floor_quotient diffHours 24
           in if diffMins < 1 then ''Just now''
              else if diffMins < 60 then show_nat (nat diffMins) @ ''m ago''
              else if diffHours < 24 then show_nat (nat diffHours) @ ''h ago''
              else if diffDays < 7 then show_nat (nat diffDays) @ ''d ago''
              else locale_date isoString))"

datatype trend = Up | Down

text \<open>A value is \<open>None\<close> for the dash that stands for no data.\<close>

record delivery_metric =
  dm_label :: string
  dm_value :: "string option"
  dm_change :: string
  dm_trend :: trend

definition metric :: "string \<Rightarrow> string option \<Rightarrow> trend \<Rightarrow> delivery_metric" where
  "metric label value1 t = \<lparr>dm_label = label, dm_value = value1, dm_change = [], dm_trend = t\<rparr>"

definition stat_sum :: "(string \<Rightarrow> bool) \<Rightarrow> (string \<times> nat) list \<Rightarrow> nat" where
  "stat_sum keep stats = sum_list (map snd (filter (\<lambda>s. keep (fst s)) stats))"

definition rate :: "nat \<Rightarrow> nat \<Rightarrow> rat" where
  "rate part whole = double (double (of_nat part / of_nat whole) * 100)"

definition computeMetrics :: "(string \<times> nat) list \<Rightarrow> delivery_metric list" where
  "computeMetrics stats =
     (let whole = sum_list (map snd stats)
      in if whole = 0
         then [metric ''Delivery rate'' None Up, metric ''Failed'' None Down, metric ''Bounced'' None Down,
               metric ''Spam complaints'' None Up]
         else
           (let sent = stat_sum (\<lambda>s. s = ''sent'' \<or> s = ''partial_failed'') stats;
                failed = stat_sum (\<lambda>s. s = ''failed'') stats;
                deliveryRate = toFixed1 (rate sent whole);
                failedRate = toFixed1 (rate failed whole)
            in [metric ''Delivery rate'' (Some (deliveryRate @ ''%'')) Up, metric ''Failed'' (Some (failedRate @ ''%'')) Down,
                metric ''Bounced'' (Some ''0.0%'') Down, metric ''Spam complaints'' (Some ''0.0%'') Up]))"

section \<open>The cards\<close>

definition STAT_CARDS :: "(string \<times> string) list" where
  "STAT_CARDS = [(''notifications'', ''Notifications''), (''subscribers'', ''Subscribers''), (''workflows'', ''Workflows''),
     (''providers'', ''Providers'')]"

definition getStatValue :: "dashboard_counts option \<Rightarrow> string \<Rightarrow> string option" where
  "getStatValue stats key =
     (case stats of
        None \<Rightarrow> None
      | Some s \<Rightarrow>
          (if key = ''notifications'' then Some (formatCount (dc_total_notifications s))
           else if key = ''subscribers'' then Some (formatCount (dc_total_subscribers s))
           else if key = ''workflows'' then Some (show_nat (dc_total_workflows s))
           else if key = ''providers'' then Some (show_nat (dc_active_providers s))
           else None))"

definition top_cards :: "dashboard_counts option \<Rightarrow> bool \<Rightarrow> (string \<times> string option) list" where
  "top_cards stats isLoading =
     map (\<lambda>(key, title). (title, if isLoading then Some ''...'' else getStatValue stats key)) STAT_CARDS"

datatype 'a card_content = CardLoading | CardEmpty | CardContent 'a

definition delivery_performance :: "(string \<times> nat) list option \<Rightarrow> bool \<Rightarrow> delivery_metric list card_content" where
  "delivery_performance stats isLoading =
     (if isLoading then CardLoading
      else case stats of None \<Rightarrow> CardEmpty | Some s \<Rightarrow> if s = [] then CardEmpty else CardContent (computeMetrics s))"

text \<open>A row of the channel chart; the share is \<open>None\<close> when it is not a number.\<close>

definition CHANNEL_LABELS :: "string \<rightharpoonup> string" where
  "CHANNEL_LABELS = map_of [(''email'', ''Email''), (''sms'', ''SMS''), (''push'', ''Push''), (''in_app'', ''In-App'')]"

definition CHANNEL_COLORS :: "string \<rightharpoonup> string" where
  "CHANNEL_COLORS = map_of [(''email'', ''#13deb9''), (''sms'', ''#f6b51e''), (''push'', ''#8754ec''), (''in_app'', ''#5d87ff'')]"

record channel_row =
  cw_label :: string
  cw_color :: string
  cw_pct :: "int option"
  cw_count :: string

definition js_round :: "rat \<Rightarrow> int" where
  "js_round x = \<lfloor>x + 1 / 2\<rfloor>"

definition channel_pct :: "nat \<Rightarrow> nat \<Rightarrow> int option" where
  "channel_pct whole n = (if whole = 0 then None else Some (js_round (rate n whole)))"

definition countDisplay :: "nat \<Rightarrow> string" where
  "countDisplay n = (if 1000 \<le> n then drop_zero (toFixed1 (double (of_nat n / 1000))) @ ''k'' else show_nat n)"

definition channel_row_of :: "nat \<Rightarrow> string \<times> nat \<Rightarrow> channel_row" where
  "channel_row_of whole d =
     \<lparr>cw_label = (case CHANNEL_LABELS (fst d) of Some l \<Rightarrow> l | None \<Rightarrow> fst d),
      cw_color = (case CHANNEL_COLORS (fst d) of Some c \<Rightarrow> c | None \<Rightarrow> ''#5d87ff''),
      cw_pct = channel_pct whole (snd d), cw_count = countDisplay (snd d)\<rparr>"

definition channel_breakdown :: "(string \<times> nat) list option \<Rightarrow> bool \<Rightarrow> channel_row list card_content" where
  "channel_breakdown data isLoading =
     (if isLoading then CardLoading
      else case data of
          None \<Rightarrow> CardEmpty
        | Some ds \<Rightarrow>
            (if ds = [] then CardEmpty
             else
               (let whole = sum_list (map snd ds); sorted1 = sort_key (\<lambda>d. - int (snd d)) ds
                in CardContent (map (channel_row_of whole) sorted1))))"

text \<open>The table of recent notifications.\<close>

definition STATUS_LABEL :: "string \<rightharpoonup> string" where
  "STATUS_LABEL = map_of [(''sent'', ''Delivered''), (''failed'', ''Failed''), (''partial_failed'', ''Partial''),
     (''partial_skipped'', ''Partial''), (''skipped'', ''Skipped''), (''pending'', ''Pending'')]"

definition STATUS_BADGE :: "string \<rightharpoonup> string" where
  "STATUS_BADGE = map_of [(''sent'', ''bg-success text-white''), (''failed'', ''bg-error text-white''),
     (''partial_failed'', ''bg-warning text-white''), (''partial_skipped'', ''bg-muted text-muted-foreground''),
     (''skipped'', ''bg-muted text-muted-foreground''), (''pending'', ''bg-info text-white'')]"

record recent_row =
  rr_text :: string
  rr_channels :: string
  rr_badge :: string
  rr_status :: string
  rr_time :: string

definition recent_row_of ::
    "(string \<Rightarrow> int option) \<Rightarrow> (string \<Rightarrow> string) \<Rightarrow> int \<Rightarrow> recent_notification \<Rightarrow> recent_row" where
  "recent_row_of js_date locale_date now item =
     \<lparr>rr_text = js_or (rn_title item) (rn_message item), rr_channels = js_join '', '' (rn_channels item),
      rr_badge = (case STATUS_BADGE (rn_status item) of Some b \<Rightarrow> b | None \<Rightarrow> ''bg-muted text-muted-foreground''),
      rr_status = (case STATUS_LABEL (rn_status item) of Some l \<Rightarrow> l | None \<Rightarrow> rn_status item),
      rr_time = formatTime js_date locale_date now (rn_created_at item)\<rparr>"

definition renderContent :: "(string \<Rightarrow> int option) \<Rightarrow> (string \<Rightarrow> string) \<Rightarrow> int \<Rightarrow> bool \<Rightarrow>
    recent_notification list option \<Rightarrow> recent_row list card_content" where
  "renderContent js_date locale_date now isLoading data =
     (if isLoading then CardLoading
      else case data of None \<Rightarrow> CardEmpty | Some ds \<Rightarrow> if ds = [] then CardEmpty else CardContent (map (recent_row_of js_date locale_date now) ds))"

text \<open>The card of providers: up to four icons, and how many more there are.\<close>

definition providerIcon :: "string \<Rightarrow> string" where
  "providerIcon name = (case List.find (\<lambda>p. pd_key p = name) SUPPORTED_PROVIDERS of
     Some d \<Rightarrow> pd_icon d | None \<Rightarrow> ''mdi:plug-socket-outline'')"

definition providerLabel :: "string \<Rightarrow> string" where
  "providerLabel name = (case List.find (\<lambda>p. pd_key p = name) SUPPORTED_PROVIDERS of Some d \<Rightarrow> pd_label d | None \<Rightarrow> name)"

definition providerCountLabel :: "nat \<Rightarrow> string" where
  "providerCountLabel n = show_nat n @ '' active provider'' @ (if n \<noteq> 1 then ''s'' else []) @ '' connected''"

record provider_strip =
  sp_icons :: "(string \<times> string) list"
  sp_more :: "nat option"
  sp_text :: string

definition renderProviderContent ::
    "(string \<times> string) list option \<Rightarrow> nat option \<Rightarrow> provider_strip card_content" where
  "renderProviderContent activeProviders number =
     (case number of
        None \<Rightarrow> CardLoading
      | Some c \<Rightarrow>
          (if activeProviders = None \<or> activeProviders = Some [] then CardEmpty
           else CardContent
             \<lparr>sp_icons = map (\<lambda>p. (providerLabel (fst p), providerIcon (fst p)))
                (take 4 (case activeProviders of None \<Rightarrow> [] | Some ps \<Rightarrow> ps)),
              sp_more = (if 4 < c then Some (c - 4) else None), sp_text = providerCountLabel c\<rparr>))"

text \<open>The list of workflows; \<open>isActive\<close> is a field of the answer that no other page reads.\<close>

record top_workflow =
  tw_name :: string
  tw_key :: string
  tw_trigger :: string
  tw_active :: bool
  tw_status :: string

definition topWorkflow :: "workflow_item \<times> bool \<Rightarrow> top_workflow" where
  "topWorkflow w =
     (let (item, isActive) = w;
          definition_trigger = (case wfi_definition item of None \<Rightarrow> [] | Some d \<Rightarrow>
            (case wd_trigger d of None \<Rightarrow> [] | Some t \<Rightarrow> str_or_empty (wt_event t)))
      in \<lparr>tw_name = wfi_name item, tw_key = wfi_key item,
          tw_trigger = js_or (str_or_empty (wfi_triggerEvent item)) (js_or definition_trigger
            (show_nat (case wfi_channels item of None \<Rightarrow> 0 | Some cs \<Rightarrow> length cs) @ '' channels'')),
          tw_active = (wfi_status item = Some ''active'' \<or> isActive),
          tw_status = js_or (str_or_empty (wfi_status item)) (if isActive then ''Active'' else ''Archived'')\<rparr>)"

definition topWorkflows :: "(workflow_item \<times> bool) list option \<Rightarrow> top_workflow list" where
  "topWorkflows workflows = map topWorkflow (take 5 (case workflows of None \<Rightarrow> [] | Some ws \<Rightarrow> ws))"

section \<open>How close the figures are\<close>

lemma drop_zero_tenths:
  "drop_zero (tenths_text k) = (if k mod 10 = 0 then show_nat (k div 10) else tenths_text k)"
proof -
  have k: "k mod 10 < 10" by simp
  have "tenths_text k = show_nat (k div 10) @ ''.'' @ [digit_char (k mod 10)]"
    unfolding tenths_text_def show_nat_small [OF k] ..
  moreover have "digit_char 0 = CHR ''0''" by code_simp
  then have "digit_char (k mod 10) = CHR ''0'' \<longleftrightarrow> k mod 10 = 0" using digit_char_inject [OF k, of 0] by simp
  ultimately show ?thesis by (simp add: drop_zero_def)
qed

lemma near_int:
  fixes r :: rat and i j :: int
  assumes "\<bar>of_int i - of_int j\<bar> \<le> of_int c + r" and "r < 1"
  shows "\<bar>i - j\<bar> \<le> c"
proof -
  have "of_int \<bar>i - j\<bar> < (of_int (c + 1) :: rat)" using assms by simp
  then show ?thesis unfolding of_int_less_iff by simp
qed

lemma quotient_error: "0 < x \<Longrightarrow> \<bar>of_nat (tenths (double x)) - x * 10\<bar> \<le> 1 / 2 + x * 10 / 2 ^ 53"
  using tenths_error [OF double_nonneg, of x] double_error [of x] unfolding abs_le_iff by linarith

text \<open>C37: A count is shown exactly below 1000, and above as a number of thousands with at most one decimal, never more
  than 50 away from the count (which doubles represent exactly), without a trailing zero.\<close>

theorem formatCount_close:
  assumes "n < 2 ^ 53"
  shows "formatCount n =
      (let k = tenths (double (of_nat n / 1000))
       in if n < 1000 then show_nat n else (if k mod 10 = 0 then show_nat (k div 10) else tenths_text k) @ ''K'') \<and>
    \<bar>100 * int (tenths (double (of_nat n / 1000))) - int n\<bar> \<le> 50"
proof -
  let ?x = "of_nat n / 1000 :: rat" and ?k = "tenths (double (of_nat n / 1000))"
  have "\<bar>100 * int ?k - int n\<bar> \<le> 50"
  proof (cases "n = 0")
    case False
    then have "\<bar>of_nat ?k - ?x * 10\<bar> \<le> 1 / 2 + ?x * 10 / 2 ^ 53" by (intro quotient_error) simp
    then have "\<bar>of_int (100 * int ?k) - of_int (int n)\<bar> \<le> (of_int 50 + of_nat n / 2 ^ 53 :: rat)"
      by (simp add: abs_le_iff field_simps)
    moreover have "(of_nat n :: rat) < of_nat (2 ^ 53)" using assms by (simp only: of_nat_less_iff)
    ultimately show ?thesis by (intro near_int) auto
  qed (simp add: tenths_def double_def)
  then show ?thesis by (simp add: formatCount_def toFixed1_def drop_zero_tenths Let_def)
qed

theorem formatCount_close_witness:
  "\<bar>100 * int (tenths (double (of_nat 999950 / 1000))) - int 999950\<bar> \<le> 50"
  by (rule conjunct2 [OF formatCount_close]) simp

lemma million_in_thousands: "formatCount 1000000 = ''1000K''"
proof -
  have "double 1000 = 1000" using double_int [of 1000] by simp
  moreover have "\<lfloor>20001 / 2 :: rat\<rfloor> = 10000" by (rule floor_unique) simp_all
  ultimately have "tenths (double (of_nat 1000000 / 1000)) = 10000" by (simp add: tenths_def)
  moreover have "show_nat 1000 = ''1000''" by code_simp
  ultimately show ?thesis by (simp add: formatCount_def toFixed1_def drop_zero_tenths)
qed

text \<open>A rate: two rounded operations, so it is off by less than a billionth, and never above 100.\<close>

lemma rate_bounds:
  assumes "part \<le> whole" and "0 < whole"
  defines "k \<equiv> tenths (rate part whole)"
  shows "k \<le> 1000" and "\<bar>of_nat k - 1000 * (of_nat part / of_nat whole)\<bar> \<le> (1 / 2 + 1 / 10 ^ 9 :: rat)"
proof -
  let ?x = "of_nat part / of_nat whole :: rat" and ?r = "rate part whole"
  have x: "0 \<le> ?x" "?x \<le> 1" using assms by (simp_all add: divide_le_eq)
  have d: "0 \<le> double ?x" "double ?x \<le> 1" using double_nonneg double_le_int [of ?x 1] x by simp_all
  have r: "0 \<le> ?r" "?r \<le> 100" using double_nonneg double_le_int [of "double ?x * 100" 100] d by (simp_all add: rate_def)
  have err: "\<bar>double y - y\<bar> \<le> y / 2 ^ 53" if "0 \<le> y" for y
    using that double_error [of y] by (cases "y = 0") (simp_all add: double_def)
  have e: "\<bar>of_nat k - ?r * 10\<bar> \<le> 1 / 2" unfolding k_def by (rule tenths_error [OF r(1)])
  moreover have "\<bar>?r - double ?x * 100\<bar> \<le> double ?x * 100 / 2 ^ 53" unfolding rate_def by (rule err) (use d in simp)
  moreover have "\<bar>double ?x - ?x\<bar> \<le> ?x / 2 ^ 53" by (rule err) (rule x)
  ultimately show "\<bar>of_nat k - 1000 * ?x\<bar> \<le> 1 / 2 + 1 / 10 ^ 9" using x d unfolding abs_le_iff by simp
  have "(of_nat k :: rat) < of_nat 1001" using e r(2) unfolding abs_le_iff by simp
  then show "k \<le> 1000" unfolding of_nat_less_iff by simp
qed

lemma stat_sum_le: "stat_sum keep stats \<le> sum_list (map snd stats)"
  unfolding stat_sum_def by (induction stats) auto

lemma stat_sum_disjoint: "\<forall>s. \<not> (f s \<and> g s) \<Longrightarrow> stat_sum f stats + stat_sum g stats \<le> sum_list (map snd stats)"
  unfolding stat_sum_def by (induction stats) auto

text \<open>C36: Of the notifications, the rates of delivery and of failure are shown in tenths of a percent, each at most
  100.0% and within half a tenth (and the rounding of two double operations) of the exact share; their sum is
  at most 100.1%.  Without notifications every rate is a dash.\<close>

theorem rates_close:
  "let whole = sum_list (map snd stats); values = map dm_value (computeMetrics stats);
       share = (\<lambda>keep. 1000 * (of_nat (stat_sum keep stats) / of_nat whole) :: rat)
   in whole = 0 \<and> values = [None, None, None, None] \<or>
      (\<exists>kd kf. values = [Some (tenths_text kd @ ''%''), Some (tenths_text kf @ ''%''), Some ''0.0%'', Some ''0.0%''] \<and>
         kd \<le> 1000 \<and> kf \<le> 1000 \<and> kd + kf \<le> 1001 \<and>
         \<bar>of_nat kd - share (\<lambda>s. s = ''sent'' \<or> s = ''partial_failed'')\<bar> \<le> 1 / 2 + 1 / 10 ^ 9 \<and>
         \<bar>of_nat kf - share (\<lambda>s. s = ''failed'')\<bar> \<le> 1 / 2 + 1 / 10 ^ 9)"
proof (cases "sum_list (map snd stats) = 0")
  case True
  then show ?thesis by (simp add: computeMetrics_def metric_def)
next
  case False
  let ?whole = "sum_list (map snd stats)"
  let ?s = "stat_sum (\<lambda>s. s = ''sent'' \<or> s = ''partial_failed'') stats" and ?f = "stat_sum (\<lambda>s. s = ''failed'') stats"
  let ?kd = "tenths (rate ?s ?whole)" and ?kf = "tenths (rate ?f ?whole)"
  note s = rate_bounds [OF stat_sum_le, of stats "\<lambda>s. s = ''sent'' \<or> s = ''partial_failed''"]
  note f = rate_bounds [OF stat_sum_le, of stats "\<lambda>s. s = ''failed''"]
  have "?s + ?f \<le> ?whole" by (rule stat_sum_disjoint) auto
  then have "(of_nat ?s + of_nat ?f :: rat) \<le> of_nat ?whole" by (simp only: of_nat_add [symmetric] of_nat_le_iff)
  then have "of_nat ?s / of_nat ?whole + of_nat ?f / of_nat ?whole \<le> (1 :: rat)"
    using False by (simp add: add_divide_distrib [symmetric] divide_le_eq)
  with s(2) f(2) False have "(of_nat (?kd + ?kf) :: rat) < of_nat 1002" unfolding abs_le_iff by simp
  then have "?kd + ?kf \<le> 1001" unfolding of_nat_less_iff by simp
  moreover have "map dm_value (computeMetrics stats) =
      [Some (tenths_text ?kd @ ''%''), Some (tenths_text ?kf @ ''%''), Some ''0.0%'', Some ''0.0%'']"
    using False by (simp add: computeMetrics_def metric_def toFixed1_def Let_def)
  ultimately show ?thesis using s f False unfolding Let_def by (intro disjI2 exI conjI) simp_all
qed


section \<open>How long ago\<close>

lemma floor_quotient_nat:
  assumes "0 < k" and "n < 2 ^ 53"
  shows "floor_quotient (int n) (int k) = int (n div k)"
proof -
  have "\<not> (of_nat n / of_nat k :: rat) < 0" by (simp add: not_less)
  then show ?thesis using floor_double [OF assms] by (simp add: floor_quotient_def signed_double_def)
qed

lemma floor_quotient_neg: "a < 0 \<Longrightarrow> 0 < b \<Longrightarrow> floor_quotient a b < 1"
proof -
  assume "a < 0" "0 < b"
  then have "(of_int a / of_int b :: rat) < 0" by (simp add: divide_neg_pos)
  then show ?thesis using double_nonneg [of "- (of_int a / of_int b)"]
    by (simp add: floor_quotient_def signed_double_def floor_less_iff)
qed

text \<open>The divisions of doubles are exact here: an age is given in the largest unit it fills, rounded down, a time in
  the future as just now, and an age of a week or more, or no date at all, as the date.\<close>

lemma formatTime_units:
  assumes "js_date s = Some date" and "now - date < 2 ^ 53"
  shows "formatTime js_date locale_date now s =
    (let age = nat (now - date)
     in if age < 60000 then ''Just now'' else if age < 3600000 then show_nat (age div 60000) @ ''m ago''
        else if age < 86400000 then show_nat (age div 3600000) @ ''h ago''
        else if age < 604800000 then show_nat (age div 86400000) @ ''d ago'' else locale_date s)"
proof (cases "now < date")
  case True
  then have "floor_quotient (now - date) 60000 < 1" by (intro floor_quotient_neg) simp_all
  with True assms(1) show ?thesis by (simp add: formatTime_def)
next
  case False
  define n where "n = nat (now - date)"
  have d: "now - date = int n" using False by (simp add: n_def)
  have n: "n < 2 ^ 53" using assms(2) d by simp
  have q: "floor_quotient (int n) 60000 = int (n div 60000)"
    "floor_quotient (int (n div 60000)) 60 = int (n div 3600000)"
    "floor_quotient (int (n div 3600000)) 24 = int (n div 86400000)"
    using floor_quotient_nat [of 60000 n] floor_quotient_nat [of 60 "n div 60000"] floor_quotient_nat [of 24 "n div 3600000"] n
    by (simp_all add: div_mult2_eq [symmetric] div_le_dividend [THEN le_less_trans])
  have c: "int (n div 60000) < 1 \<longleftrightarrow> n < 60000" "int (n div 60000) < 60 \<longleftrightarrow> n < 3600000"
    "int (n div 3600000) < 24 \<longleftrightarrow> n < 86400000" "int (n div 86400000) < 7 \<longleftrightarrow> n < 604800000"
    by linarith+
  show ?thesis unfolding formatTime_def assms(1) option.case Let_def d q c nat_int ..
qed

end
