(* ===== verification/Pages.thy ===== *)
theory Pages
  imports Workflow_List Workflow_Setup Navigation Notification_List Subscriber_List Display Json_Text
begin

text \<open>
  The remaining pages of the dashboard that decide something: the rows of the workflow table
  (\<open>features/workflows/components/WorkflowTableBody.tsx\<close>), the activities of a workflow (its page and
  \<open>WorkflowActivitiesView.tsx\<close>), the page of one notification (\<open>app/dashboard/notifications/[id]/page.tsx\<close>), the command shown for the API (\<open>IntegratePanelContent.tsx\<close>) and the page of
  subscribers (\<open>features/subscribers/list/SubscriberList.tsx\<close>, \<open>SubscriberListing.tsx\<close>).
\<close>

section \<open>The workflow table\<close>

definition rowChannelIcon :: "string \<Rightarrow> string" where
  "rowChannelIcon channel =
     (if channel = ''email'' then ''tabler:mail'' else if channel = ''sms'' then ''tabler:message''
      else if channel = ''push'' then ''tabler:bell'' else ''tabler:send'')"

definition builder_link :: "string \<Rightarrow> string" where
  "builder_link i = ''/dashboard/workflows/new/builder?workflowId='' @ i"

text \<open>An entry of the menu of a row: a link, a disabled entry, or a call of one of the two handlers.\<close>

datatype row_action = LinkTo string | Unavailable | AskPause workflow_item | AskDelete workflow_item

definition row_menu :: "workflow_item \<Rightarrow> (string \<times> row_action) list" where
  "row_menu item =
     (let isPaused = (wfi_status item = Some ''paused'')
      in [(''Edit'', LinkTo (builder_link (wfi_id item))),
          (if isPaused then (''Trigger (paused)'', Unavailable)
           else (''Trigger'', LinkTo (builder_link (wfi_id item) @ ''&trigger=true''))),
          (''Activities'', LinkTo (''/dashboard/workflows/'' @ wfi_id item @ ''/activities'')),
          (if isPaused then ''Resume'' else ''Pause'', AskPause item),
          (''Delete'', AskDelete item)])"

text \<open>A row; the icons are \<open>None\<close> for the dash of a workflow without channels.\<close>

record workflow_row =
  wr_click :: string
  wr_name :: string
  wr_description :: "string option"
  wr_key :: string
  wr_icons :: "string list option"
  wr_status :: string
  wr_menuDisabled :: bool
  wr_menu :: "(string \<times> row_action) list"

definition workflow_row_of :: "string option \<Rightarrow> workflow_item \<Rightarrow> workflow_row" where
  "workflow_row_of mutatingID item =
     \<lparr>wr_click = builder_link (wfi_id item), wr_name = wfi_name item,
      wr_description = (if truthy (wfi_description item) then wfi_description item else None),
      wr_key = wfi_key item,
      wr_icons = (case wfi_channels item of None \<Rightarrow> None | Some cs \<Rightarrow> if cs = [] then None else Some (map rowChannelIcon cs)),
      wr_status = (if wfi_status item = Some ''paused'' then ''Inactive'' else ''Active''),
      wr_menuDisabled = (mutatingID = Some (wfi_id item)), wr_menu = row_menu item\<rparr>"

datatype table_body = TableMessage string | TableRows "workflow_row list"

definition workflowTableBody :: "workflow_list \<Rightarrow> table_body" where
  "workflowTableBody st =
     (let visible = visibleItems (wl_items st) (wl_search st)
      in if wl_loading st then TableMessage ''Loading workflows...''
         else if visible = [] then TableMessage ''No workflows configured yet.''
         else TableRows (map (workflow_row_of (wl_mutatingID st)) visible))"

text \<open>What a menu entry does to the list.\<close>

definition choose_action :: "row_action \<Rightarrow> workflow_list \<Rightarrow> workflow_list" where
  "choose_action a st =
     (case a of AskPause item \<Rightarrow> requestPause item st | AskDelete item \<Rightarrow> requestDelete item st | _ \<Rightarrow> st)"

lemma form_encode_plain: "\<forall>c \<in> set s. form_unreserved c \<Longrightarrow> form_encode s = s"
  by (induction s) (auto simp: form_encode_def)

lemma builder_link_query:
  assumes "\<forall>c \<in> set i. form_unreserved c"
  shows "parse_query (query_of_href (builder_link i)) = [(''workflowId'', i)]"
    and "parse_query (query_of_href (builder_link i @ ''&trigger=true'')) = [(''workflowId'', i), (''trigger'', ''true'')]"
proof -
  let ?p = "''/dashboard/workflows/new/builder''"
  have plain: "form_encode ''workflowId'' = ''workflowId''" "form_encode ''trigger'' = ''trigger''"
    "form_encode ''true'' = ''true''" by code_simp+
  have q: "CHR ''?'' \<notin> set ?p" by simp
  have "builder_link i = ?p @ ''?'' @ params_toString [(''workflowId'', i)]"
    by (simp add: builder_link_def params_toString_def plain form_encode_plain [OF assms])
  then show "parse_query (query_of_href (builder_link i)) = [(''workflowId'', i)]"
    by (simp only: query_of_params [OF q] parse_params)
  have "builder_link i @ ''&trigger=true'' = ?p @ ''?'' @ params_toString [(''workflowId'', i), (''trigger'', ''true'')]"
    by (simp add: builder_link_def params_toString_def plain form_encode_plain [OF assms])
  then show "parse_query (query_of_href (builder_link i @ ''&trigger=true'')) = [(''workflowId'', i), (''trigger'', ''true'')]"
    by (simp only: query_of_params [OF q] parse_params)
qed

text \<open>C23: The entry that triggers a workflow is offered exactly while the workflow is not paused; its link leads the
  builder page to that workflow with the drawer for triggering open, and takes itself out of the address, so
  loading the page again does not open the drawer once more.\<close>

theorem menu_trigger_opens_drawer:
  assumes "\<forall>c \<in> set (wfi_id item). form_unreserved c"
  shows "(map_of (row_menu item) ''Trigger'' =
      (if wfi_status item = Some ''paused'' then None else Some (LinkTo (builder_link (wfi_id item) @ ''&trigger=true'')))) \<and>
    (let href = builder_link (wfi_id item) @ ''&trigger=true''; params = record_of_link href;
         shell = trigger_effect (openTrigger params) (new_shell (parse_query (query_of_href href)))
     in workflowIdFromRecord params = wfi_id item \<and> sh_drawerOpen shell \<and> sh_drawerTab shell = ''trigger'' \<and>
        sh_params shell = [(''workflowId'', wfi_id item)] \<and>
        trigger_effect (openTrigger (\<lambda>k. map_option OneValue (map_of (sh_params shell) k))) (new_shell (sh_params shell)) =
          new_shell (sh_params shell))"
proof -
  let ?href = "builder_link (wfi_id item) @ ''&trigger=true''"
  note q = builder_link_query [OF assms]
  have "workflowIdFromRecord (record_of_link ?href) = wfi_id item" "openTrigger (record_of_link ?href)"
    using q by (simp_all add: workflowIdFromRecord_def firstSearchParamValue_def record_of_link_def link_params_def openTrigger_def)
  then show ?thesis using q
    by (simp add: row_menu_def trigger_effect_def new_shell_def openTrigger_def Let_def)
qed

definition sample_item :: workflow_item where
  "sample_item = \<lparr>wfi_id = ''w1'', wfi_key = ''welcome'', wfi_name = ''Welcome'', wfi_description = None,
     wfi_channels = Some [''email''], wfi_status = Some ''active'', wfi_triggerEvent = None, wfi_definition = None,
     wfi_createdAt = ''t0'', wfi_updatedAt = ''t1''\<rparr>"

theorem menu_trigger_opens_drawer_witness:
  "workflowIdFromRecord (record_of_link (builder_link (wfi_id sample_item) @ ''&trigger=true'')) = ''w1''"
proof -
  have "\<forall>c \<in> set (wfi_id sample_item). form_unreserved c" by code_simp
  from menu_trigger_opens_drawer [OF this] show ?thesis by (simp add: Let_def sample_item_def)
qed

section \<open>The activities of a workflow\<close>

text \<open>The title of the page (\<open>app/dashboard/workflows/[id]/activities/page.tsx\<close>), which the server renders: it
  asks for the workflow with the client's own request function.\<close>

definition activities_title :: "'w browser_env \<Rightarrow> string \<Rightarrow> 'w \<Rightarrow> string" where
  "activities_title env i w =
     (let (path, init) = workflowApi_getWorkflow i
      in case fst (request env path (Some init) w) of
          Inr (Some (JObj o1)) \<Rightarrow> (case obj_str o1 ''name'' of Some n \<Rightarrow> n | None \<Rightarrow> ''undefined'')
        | _ \<Rightarrow> ''Workflow Activities'')"

record activity =
  ac_id :: string
  ac_title :: string
  ac_status :: "string option"
  ac_channels :: "string list option"

record activity_row =
  ar_title :: string
  ar_badge :: string
  ar_status :: "string option"
  ar_icons :: "string list"
  ar_link :: string

definition activity_row_of :: "activity \<Rightarrow> activity_row" where
  "activity_row_of n =
     \<lparr>ar_title = ac_title n,
      ar_badge = (case ac_status n of None \<Rightarrow> ''default'' | Some s \<Rightarrow> statusBadge s),
      ar_status = map_option (map (\<lambda>c. if c = CHR ''_'' then CHR '' '' else c)) (ac_status n),
      ar_icons = map rowChannelIcon (case ac_channels n of None \<Rightarrow> [] | Some cs \<Rightarrow> cs),
      ar_link = ''/dashboard/notifications/'' @ ac_id n\<rparr>"

datatype activities_view = ActivitiesLoading | ActivitiesError string | Activities string "activity_row list"

definition workflowActivitiesView :: "activity list option \<Rightarrow> bool \<Rightarrow> thrown option \<Rightarrow> activities_view" where
  "workflowActivitiesView activities isLoading error =
     (if isLoading then ActivitiesLoading
      else case error of
          Some e \<Rightarrow> ActivitiesError (error_message e ''Failed to load activities'')
        | None \<Rightarrow>
            (let items = (case activities of None \<Rightarrow> [] | Some xs \<Rightarrow> xs)
             in Activities (show_nat (length items) @ '' notification'' @ (if length items \<noteq> 1 then ''s'' else []) @
                  '' triggered through this workflow'') (map activity_row_of items)))"

text \<open>What \<open>fetch\<close> does on the server with an address that names no host: it rejects.\<close>

definition server_fetch :: "'w browser_env \<Rightarrow> bool" where
  "server_fetch env \<longleftrightarrow> (\<forall>w p init. be_fetch env w (CHR ''/'' # p) init = (None, w))"

text \<open>The page of activities is rendered on the server, where the path of the client's request names no host: the
  request fails, and the page always has the title it falls back to, whatever the workflow is called.\<close>

theorem activities_title_default:
  assumes "server_fetch env"
  shows "activities_title env i w = ''Workflow Activities''"
  using assms
  by (simp add: activities_title_def workflowApi_getWorkflow_def api_bare_def request_def server_fetch_def)

theorem activities_title_default_witness:
  "activities_title \<lparr>be_fetch = (\<lambda>w p init. (if take 1 p = ''/'' then None else Some \<lparr>bw_status = 200, bw_text = Some p\<rparr>, w)),
     be_jparse = (\<lambda>s. Some (JStr s)), be_jprint = (\<lambda>_. [])\<rparr> ''w1'' () = ''Workflow Activities''"
  by (rule activities_title_default) (simp add: server_fetch_def)

section \<open>The page of a notification\<close>

record notification_record = notification_item +
  nd_service_id :: "string option"
  nd_user_id :: "string option"
  nd_environment_id :: "string option"
  nd_retry_count :: "nat option"
  nd_channels :: "string list option"
  nd_metadata :: "(string \<times> json) list option"

record notification_detail =
  dt_heading :: string
  dt_title :: string
  dt_badge :: string
  dt_status :: string
  dt_user :: string
  dt_service :: string
  dt_environment :: string
  dt_retries :: string
  dt_message :: string
  dt_channels :: "string list"
  dt_metadata :: "(string \<times> string) list"

definition capitalised :: "string \<Rightarrow> string" where
  "capitalised s = map ascii_upper_char (take 1 s) @ drop 1 s"

text \<open>A value that is an object or an array is printed as JSON, any other as text.\<close>

definition detail_value :: "(rat \<Rightarrow> string) \<Rightarrow> json \<Rightarrow> string" where
  "detail_value num_text v =
     (case v of JObj _ \<Rightarrow> json_text num_text v | JArr _ \<Rightarrow> json_text num_text v | _ \<Rightarrow> js_String num_text v)"

definition notification_detail_of :: "(rat \<Rightarrow> string) \<Rightarrow> notification_record \<Rightarrow> notification_detail" where
  "notification_detail_of num_text n =
     (let na = (\<lambda>v. case v of None \<Rightarrow> ''N/A'' | Some s \<Rightarrow> s)
      in \<lparr>dt_heading = ''Notification: '' @ nt_id n, dt_title = nt_title n, dt_badge = statusBadge (nt_status n),
          dt_status = js_or (nt_status n) ''unknown'', dt_user = na (nd_user_id n), dt_service = na (nd_service_id n),
          dt_environment = na (nd_environment_id n),
          dt_retries = show_nat (case nd_retry_count n of None \<Rightarrow> 0 | Some k \<Rightarrow> k),
          dt_message = js_or (nt_message n) ''N/A'',
          dt_channels = (case nd_channels n of None \<Rightarrow> [''No channels specified'']
            | Some cs \<Rightarrow> if cs = [] then [''No channels specified''] else map capitalised cs),
          dt_metadata = map (\<lambda>(k, v). (k, detail_value num_text v))
            (case nd_metadata n of None \<Rightarrow> [] | Some kvs \<Rightarrow> kvs)\<rparr>)"

datatype notification_view = NotificationLoading | NotificationMissing | NotificationShown notification_detail

definition notificationDetailPage :: "(rat \<Rightarrow> string) \<Rightarrow> notification_record option \<Rightarrow> bool \<Rightarrow> notification_view" where
  "notificationDetailPage num_text notification loading =
     (if loading then NotificationLoading
      else case notification of None \<Rightarrow> NotificationMissing | Some n \<Rightarrow> NotificationShown (notification_detail_of num_text n))"

section \<open>The command for the API\<close>

record user_info =
  ui_id :: string
  ui_email :: string
  ui_first_name :: string
  ui_last_name :: string

definition snippet_line :: "string \<Rightarrow> string" where
  "snippet_line s = s @ [CHR 0x0A]"

definition snippet_field :: "string \<Rightarrow> string \<Rightarrow> string" where
  "snippet_field k v = CHR 0x22 # k @ [CHR 0x22] @ '': '' @ [CHR 0x22] @ v @ [CHR 0x22]"

definition snippet_open :: "string \<Rightarrow> string" where
  "snippet_open k = CHR 0x22 # k @ [CHR 0x22] @ '': {''"

text \<open>The JSON text between the quotes of \<open>-d\<close>.\<close>

definition snippet_body :: "string \<Rightarrow> user_info option \<Rightarrow> string" where
  "snippet_body title user =
     (let field = (\<lambda>f d. case user of None \<Rightarrow> d | Some u \<Rightarrow> f u)
      in snippet_line ''{'' @
         snippet_line (''  '' @ snippet_field ''name'' title @ '','') @
         snippet_line (''  '' @ snippet_open ''to'') @
         snippet_line (''    '' @ snippet_field ''subscriberId'' (field ui_id ''sub_abc123'') @ '','') @
         snippet_line (''    '' @ snippet_field ''email'' (field ui_email ''user@example.com'') @ '','') @
         snippet_line (''    '' @ snippet_field ''firstName'' (field ui_first_name ''John'') @ '','') @
         snippet_line (''    '' @ snippet_field ''lastName'' (field ui_last_name ''Doe'')) @
         snippet_line ''  },'' @
         snippet_line (''  '' @ snippet_open ''payload'') @
         snippet_line (''    '' @ snippet_field ''plan'' ''premium'') @
         snippet_line ''  }'' @ ''}'')"

text \<open>\<open>String.raw\<close> keeps the backslashes at the ends of the lines.\<close>

definition buildCurlSnippet :: "string \<Rightarrow> string \<Rightarrow> string \<Rightarrow> user_info option \<Rightarrow> string option \<Rightarrow> string" where
  "buildCurlSnippet baseUrl workflowId title user keyPrefix =
     (let apiKey = (if truthy keyPrefix then str_or_empty keyPrefix @ ''...'' else ''YOUR_API_KEY''); bs = [CHR '' '', CHR 0x5C]
      in snippet_line (''curl -X POST '' @ baseUrl @ ''/api/notifications/trigger'' @ bs) @
         snippet_line (''  -H '' @ [CHR 0x22] @ ''Authorization: Bearer '' @ apiKey @ [CHR 0x22] @ bs) @
         snippet_line (''  -H '' @ [CHR 0x22] @ ''Content-Type: application/json'' @ [CHR 0x22] @ bs) @
         ''  -d '' @ [CHR 0x27] @ snippet_body title user @ [CHR 0x27])"

text \<open>The shell reads a quoted argument up to the next quote, so a name with an apostrophe ends the body.\<close>

definition shell_argument :: "string \<Rightarrow> string" where
  "shell_argument s = takeWhile (\<lambda>c. c \<noteq> CHR 0x27) s"

lemma snippet_cut_at_apostrophe:
  assumes "CHR 0x27 \<notin> set a"
  shows "shell_argument (snippet_body (a @ CHR 0x27 # b) user) =
    snippet_line ''{'' @ ''  '' @ CHR 0x22 # ''name'' @ [CHR 0x22] @ '': '' @ [CHR 0x22] @ a"
  using assms
  by (simp add: shell_argument_def snippet_body_def snippet_line_def snippet_field_def Let_def takeWhile_append takeWhile_eq_all_conv)

section \<open>The page of subscribers\<close>

text \<open>\<open>sp_deletes\<close> are the deletions under way, \<open>sp_sent\<close> all that were sent, \<open>sp_writes\<close> the writes to the
  clipboard under way, \<open>sp_copyTimers\<close> the timers that take the check mark away again.\<close>

record subscriber_page =
  sp_filter :: string
  sp_search :: string
  sp_editing :: "subscriber option"
  sp_deletingItem :: "subscriber option"
  sp_deletes :: "string list"
  sp_sent :: "string list"
  sp_invalidated :: nat
  sp_createOpen :: bool
  sp_copiedId :: "string option"
  sp_writes :: "string list"
  sp_copyTimers :: nat

definition new_subscriber_page :: subscriber_page where
  "new_subscriber_page =
     \<lparr>sp_filter = ''total_subscribers'', sp_search = [], sp_editing = None, sp_deletingItem = None, sp_deletes = [],
      sp_sent = [], sp_invalidated = 0, sp_createOpen = False, sp_copiedId = None, sp_writes = [], sp_copyTimers = 0\<rparr>"

text \<open>The button of the dialog, disabled while a deletion is under way, and the end of a deletion.\<close>

definition handleDeleteConfirm :: "subscriber_page \<Rightarrow> subscriber_page" where
  "handleDeleteConfirm st =
     (case sp_deletingItem st of
        None \<Rightarrow> st
      | Some s \<Rightarrow>
          (if sp_deletes st \<noteq> [] then st
           else st\<lparr>sp_deletes := [su_id s], sp_sent := sp_sent st @ [su_id s]\<rparr>))"

definition delete_settled :: "bool \<Rightarrow> subscriber_page \<Rightarrow> subscriber_page" where
  "delete_settled success st =
     (if sp_deletes st = [] then st
      else st\<lparr>sp_deletes := tl (sp_deletes st), sp_deletingItem := None,
             sp_invalidated := (if success then Suc (sp_invalidated st) else sp_invalidated st)\<rparr>)"

text \<open>Copying an id: the click, the end of the write, and the timer that was then started.\<close>

definition handleCopyId :: "string \<Rightarrow> subscriber_page \<Rightarrow> subscriber_page" where
  "handleCopyId i st = st\<lparr>sp_writes := sp_writes st @ [i]\<rparr>"

definition copy_written :: "nat \<Rightarrow> bool \<Rightarrow> subscriber_page \<Rightarrow> subscriber_page" where
  "copy_written n success st =
     (if n < length (sp_writes st)
      then
        (let i = sp_writes st ! n; st' = st\<lparr>sp_writes := take n (sp_writes st) @ drop (Suc n) (sp_writes st)\<rparr>
         in if success then st'\<lparr>sp_copiedId := Some i, sp_copyTimers := Suc (sp_copyTimers st)\<rparr> else st')
      else st)"

definition copy_timer :: "subscriber_page \<Rightarrow> subscriber_page" where
  "copy_timer st =
     (if sp_copyTimers st = 0 then st else st\<lparr>sp_copiedId := None, sp_copyTimers := sp_copyTimers st - 1\<rparr>)"

datatype subscriber_page_event =
    FilterSet string
  | SearchSet string
  | EditClicked subscriber
  | EditClosed
  | DeleteClicked subscriber
  | DeleteConfirmed
  | DeleteCancelled
  | DeleteSettled bool
  | CreateOpened bool
  | CopyClicked string
  | CopyWritten nat bool
  | CopyTimer

fun subscriber_page_step :: "subscriber_page_event \<Rightarrow> subscriber_page \<Rightarrow> subscriber_page" where
  "subscriber_page_step (FilterSet f) st = st\<lparr>sp_filter := f\<rparr>"
| "subscriber_page_step (SearchSet s) st = st\<lparr>sp_search := s\<rparr>"
| "subscriber_page_step (EditClicked s) st = st\<lparr>sp_editing := Some s\<rparr>"
| "subscriber_page_step EditClosed st = st\<lparr>sp_editing := None\<rparr>"
| "subscriber_page_step (DeleteClicked s) st = st\<lparr>sp_deletingItem := Some s\<rparr>"
| "subscriber_page_step DeleteConfirmed st = handleDeleteConfirm st"
| "subscriber_page_step DeleteCancelled st = st\<lparr>sp_deletingItem := None\<rparr>"
| "subscriber_page_step (DeleteSettled success) st = delete_settled success st"
| "subscriber_page_step (CreateOpened open1) st = st\<lparr>sp_createOpen := open1\<rparr>"
| "subscriber_page_step (CopyClicked i) st = handleCopyId i st"
| "subscriber_page_step (CopyWritten n success) st = copy_written n success st"
| "subscriber_page_step CopyTimer st = copy_timer st"

definition subscriber_run :: "subscriber_page_event list \<Rightarrow> subscriber_page" where
  "subscriber_run evs = fold subscriber_page_step evs new_subscriber_page"

text \<open>What a row shows; the two dates need the calendar of the browser and are left out.\<close>

record subscriber_row =
  sr_name :: string
  sr_id :: string
  sr_copied :: bool
  sr_email :: string
  sr_phone :: string

definition subscriber_row_of :: "subscriber_page \<Rightarrow> subscriber \<Rightarrow> subscriber_row" where
  "subscriber_row_of st s =
     \<lparr>sr_name = su_name s, sr_id = su_id s, sr_copied = (sp_copiedId st = Some (su_id s)),
      sr_email = js_or (str_or_empty (su_email s)) ''N/A'', sr_phone = js_or (str_or_empty (su_phone s)) ''N/A''\<rparr>"

datatype subscribers_view = SubscribersLoading | SubscribersFailed string | NoSubscribers | SubscriberRows "subscriber_row list"

definition subscriberList :: "subscriber list option \<Rightarrow> bool \<Rightarrow> string option \<Rightarrow> subscriber_page \<Rightarrow> subscribers_view" where
  "subscriberList data isLoading error st =
     (let subscribers = (case data of None \<Rightarrow> [] | Some xs \<Rightarrow> xs)
      in if isLoading then SubscribersLoading
         else case error of
             Some message \<Rightarrow> SubscribersFailed message
           | None \<Rightarrow>
               (if subscribers = [] then NoSubscribers
                else SubscriberRows (map (subscriber_row_of st) (filterSubscribers subscribers (sp_filter st) (sp_search st)))))"

definition chosen :: "subscriber_page_event list \<Rightarrow> string list" where
  "chosen evs = concat (map (\<lambda>e. case e of DeleteClicked s \<Rightarrow> [su_id s] | _ \<Rightarrow> []) evs)"

definition confirmations :: "subscriber_page_event list \<Rightarrow> nat" where
  "confirmations evs = length (filter (\<lambda>e. e = DeleteConfirmed) evs)"

definition delete_inv :: "subscriber_page_event list \<Rightarrow> subscriber_page \<Rightarrow> bool" where
  "delete_inv evs st \<longleftrightarrow>
     (\<forall>s. sp_deletingItem st = Some s \<longrightarrow> su_id s \<in> set (chosen evs)) \<and> set (sp_sent st) \<subseteq> set (chosen evs) \<and>
     length (sp_deletes st) \<le> 1 \<and> length (sp_sent st) \<le> confirmations evs"

lemma delete_inv_step: "delete_inv evs st \<Longrightarrow> delete_inv (evs @ [e]) (subscriber_page_step e st)"
  by (cases e)
    (auto simp: delete_inv_def chosen_def confirmations_def handleDeleteConfirm_def delete_settled_def handleCopyId_def
      copy_written_def copy_timer_def Let_def split: option.splits)

lemma delete_inv_run: "delete_inv evs (subscriber_run evs)"
proof (induction evs rule: rev_induct)
  case Nil
  then show ?case by (simp add: subscriber_run_def delete_inv_def new_subscriber_page_def)
next
  case (snoc e evs)
  then show ?case using delete_inv_step by (simp add: subscriber_run_def)
qed

text \<open>Whatever the order of clicks and answers, only subscribers whose deletion the user asked for are deleted, each
  confirmation sends at most one request, and at most one is under way.\<close>

theorem deletes_confirmed:
  "set (sp_sent (subscriber_run evs)) \<subseteq> set (chosen evs) \<and>
   length (sp_sent (subscriber_run evs)) \<le> confirmations evs \<and> length (sp_deletes (subscriber_run evs)) \<le> 1"
  using delete_inv_run [of evs] by (simp add: delete_inv_def)

text \<open>The end of a deletion, success or not, closes the dialog that is open by then, even of another subscriber, and
  a failure leaves no other trace.\<close>

lemma settled_closes_any_dialog:
  "let st = fold subscriber_page_step [DeleteClicked a, DeleteConfirmed, DeleteCancelled, DeleteClicked b] new_subscriber_page
   in sp_deletingItem st = Some b \<and> handleDeleteConfirm st = st \<and>
      delete_settled False st = st\<lparr>sp_deletes := [], sp_deletingItem := None\<rparr>"
  by (simp add: handleDeleteConfirm_def delete_settled_def new_subscriber_page_def)

text \<open>The timer of an earlier copy takes away the check mark of a later one.\<close>

lemma early_timer_clears_later_copy:
  "let st = fold subscriber_page_step [CopyClicked a, CopyWritten 0 True, CopyClicked b, CopyWritten 0 True] new_subscriber_page
   in sp_copiedId st = Some b \<and> sp_copiedId (copy_timer st) = None \<and> sp_copyTimers (copy_timer st) = 1"
  by (simp add: handleCopyId_def copy_written_def copy_timer_def new_subscriber_page_def)

end
