(* ===== verification/Builder_View.thy ===== *)
theory Builder_View
  imports Selectors Display Trigger_Dialog
begin

text \<open>
  What the builder offers and shows: the card of a node with its toolbar (\<open>definition-builder/canvas-node.tsx\<close>), the
  button of an edge (\<open>canvas-edge.tsx\<close>) and the menu of steps behind it (\<open>WorkflowStepActionMenu.tsx\<close>), the
  inspector (\<open>inspector/index.tsx\<close>, \<open>NotificationConfig.tsx\<close>, \<open>EdgeInfo.tsx\<close>), and the panel of a test run
  (\<open>app/dashboard/workflows/new/builder/TriggerPanelContent.tsx\<close>).
\<close>

section \<open>A node on the canvas\<close>

record 'a toolbar_item =
  ti_label :: string
  ti_enabled :: bool
  ti_onClick :: "string \<Rightarrow> 'a"

definition node_toolbar :: "'a enriched_node \<Rightarrow> 'a toolbar_item list" where
  "node_toolbar n =
     [\<lparr>ti_label = ''Edit node'', ti_enabled = True, ti_onClick = en_onEditNode n\<rparr>,
      \<lparr>ti_label = (if en_canDuplicate n then ''Duplicate node'' else ''Trigger cannot be duplicated''),
       ti_enabled = en_canDuplicate n, ti_onClick = en_onDuplicateNode n\<rparr>,
      \<lparr>ti_label = (if en_canDelete n then ''Delete node'' else ''Trigger cannot be deleted''),
       ti_enabled = en_canDelete n, ti_onClick = en_onRemoveNode n\<rparr>]"

text \<open>What a click does: the call of the handler with the node's id, or nothing.\<close>

definition handleAction :: "'a enriched_node \<Rightarrow> 'a toolbar_item \<Rightarrow> 'a option" where
  "handleAction n item = (if ti_enabled item then Some (ti_onClick item (cn_id n)) else None)"

record node_card =
  nc_title :: string
  nc_status :: "string option"
  nc_description :: string
  nc_subtitle :: string
  nc_issues :: "string list"
  nc_issueLabel :: "string option"
  nc_hasErrorBorder :: bool

definition issue_count_label :: "nat \<Rightarrow> string" where
  "issue_count_label n = show_nat n @ '' issue'' @ (if n \<noteq> 1 then ''s'' else [])"

definition node_card_of :: "bool \<Rightarrow> 'a enriched_node \<Rightarrow> node_card" where
  "node_card_of selected n =
     (let draft = cn_draft n; meta = getNodeMeta draft; issues = en_nodeIssues n
      in \<lparr>nc_title = getNodeDisplayName draft, nc_status = (if nm_status meta = [] then None else Some (nm_status meta)),
          nc_description = js_or (nm_description meta) (buildNodeDescription draft),
          nc_subtitle = buildNodeSubtitle draft (en_triggerEvent n),
          nc_issues = map wi_message issues,
          nc_issueLabel = (if issues = [] then None else Some (issue_count_label (length issues))),
          nc_hasErrorBorder = (\<not> selected \<and> issues \<noteq> [])\<rparr>)"

section \<open>An edge and the menu of steps\<close>

record edge_geometry =
  eg_path :: "(rat \<times> rat) \<times> (rat \<times> rat)"
  eg_button :: "rat \<times> rat"

definition edge_geometry_of :: "bool \<Rightarrow> rat \<times> rat \<Rightarrow> rat \<times> rat \<Rightarrow> edge_geometry" where
  "edge_geometry_of isTerminal source target =
     (let (sourceX, sourceY) = source;
          targetX = (if isTerminal then sourceX else fst target);
          targetY = (if isTerminal then sourceY + 56 else snd target);
          labelX = (sourceX + targetX) / 2; labelY = (sourceY + targetY) / 2;
          buttonSize = 28
      in \<lparr>eg_path = (source, (targetX, targetY)), eg_button = (labelX - buttonSize / 2, labelY - buttonSize / 2)\<rparr>)"

record step_item =
  si_label :: string
  si_type :: wf_node_type
  si_channel :: "string option"

definition channelItems :: "step_item list" where
  "channelItems =
     [\<lparr>si_label = ''Email'', si_type = Notification, si_channel = Some ''email''\<rparr>,
      \<lparr>si_label = ''SMS'', si_type = Notification, si_channel = Some ''sms''\<rparr>,
      \<lparr>si_label = ''Push'', si_type = Notification, si_channel = Some ''push''\<rparr>]"

definition actionItems :: "step_item list" where
  "actionItems = [\<lparr>si_label = ''Delay'', si_type = Delay, si_channel = None\<rparr>]"

text \<open>A click on an entry: the edge's handler with the type and the channel; the menu closes.\<close>

definition select_step :: "'a enriched_edge \<Rightarrow> step_item \<Rightarrow> 'a \<times> bool" where
  "select_step e item = (ee_onInsertNode e (ce_id e) (si_type item) (si_channel item), False)"

section \<open>The inspector\<close>

definition inspectorTitleText :: "bool \<Rightarrow> bool \<Rightarrow> string" where
  "inspectorTitleText selectedNode selectedEdge =
     (if selectedNode then ''Configure step'' else if selectedEdge then ''Configure transition'' else ''Configure workflow'')"

definition inspectorDescription :: "bool \<Rightarrow> bool \<Rightarrow> string" where
  "inspectorDescription selectedNode selectedEdge =
     (if selectedNode then ''Adjust this step without changing its system ID.''
      else if selectedEdge then ''Review the current linear transition between steps.''
      else ''Review workflow-level details and autosave status.'')"

definition notificationContentHint :: "string \<Rightarrow> string" where
  "notificationContentHint channel =
     (if channel = ''sms'' then ''SMS body is rendered from the linked SMS template body at send time.''
      else if channel = ''push'' then ''Push title and message are rendered from the linked push template at send time.''
      else ''Email subject and body are rendered from the linked email template at send time.'')"

datatype step_config = DelaySettings | NotificationSettings string string | LegacyCondition | NoSettings

record step_panel =
  sp_title :: string
  sp_description :: string
  sp_badge :: "(string \<times> nat \<times> nat) option"
  sp_config :: step_config

datatype inspector_panel = StepPanel step_panel | EdgePanel string string | WorkflowPanel

definition step_panel_of :: "node_draft \<Rightarrow> wf_issue list \<Rightarrow> edge_counts \<Rightarrow> step_panel" where
  "step_panel_of d issues counts =
     \<lparr>sp_title = getNodeDisplayName d, sp_description = buildNodeDescription d,
      sp_badge = (if bn_type d = Trigger then None
        else Some (if length issues = 0 then ''ready'' else ''needs attention'', ec_incoming counts, ec_outgoing counts)),
      sp_config = (case bn_type d of
          Delay \<Rightarrow> DelaySettings
        | Notification \<Rightarrow>
            (let channel = js_or (bn_channel d) ''email'' in NotificationSettings channel (notificationContentHint channel))
        | Condition \<Rightarrow> LegacyCondition
        | _ \<Rightarrow> NoSettings)\<rparr>"

definition workflowDefinitionInspector ::
    "canvas_node list \<Rightarrow> canvas_edge list \<Rightarrow> wf_issue list \<Rightarrow> string option \<Rightarrow> string option \<Rightarrow> inspector_panel" where
  "workflowDefinitionInspector nodes edges nodeIssues selectedNodeId selectedEdgeId =
     (case findSelectedNode nodes selectedNodeId of
        Some n \<Rightarrow> StepPanel (step_panel_of (cn_draft n) nodeIssues (getConnectedEdgeCounts edges (Some n)))
      | None \<Rightarrow>
          (case findSelectedEdge edges selectedEdgeId of
             Some e \<Rightarrow>
               (let (s, t) = getEdgeNodeLabels (Some e) nodes in EdgePanel (js_or s ''Source'') (js_or t ''Target''))
           | None \<Rightarrow> WorkflowPanel))"

text \<open>The name field of a step.\<close>

definition rename_step :: "string \<Rightarrow> node_draft \<Rightarrow> node_draft" where
  "rename_step value1 d = d\<lparr>bn_name := value1\<rparr>"

section \<open>The panel of a test run\<close>

record trigger_panel =
  tv_channels :: "string list"
  tv_triggering :: bool
  tv_indicator :: "string option"
  tv_error :: "string option"
  tv_events :: "(string option \<times> nat) option"
  tv_summary :: "(nat \<times> nat \<times> nat) option"
  tv_buttonDisabled :: bool
  tv_buttonLabel :: string

definition event_status :: "json \<Rightarrow> string option" where
  "event_status e = (case e of JObj o1 \<Rightarrow> obj_str o1 ''status'' | _ \<Rightarrow> None)"

definition count_status :: "string \<Rightarrow> json list \<Rightarrow> nat" where
  "count_status s events = length (filter (\<lambda>e. event_status e = Some s) events)"

text \<open>The indicator while the run is polled; the entity is part of a JavaScript string, so it is shown as it stands.\<close>

definition polling_text :: "nat \<Rightarrow> string" where
  "polling_text n =
     (if n = 0 then ''Processing notification&hellip;''
      else ''Delivering via '' @ show_nat n @ '' channel'' @ (if 1 < n then ''s'' else []) @ ''&hellip;'')"

definition trigger_panel_of :: "string list \<Rightarrow> trigger_dialog \<Rightarrow> trigger_panel" where
  "trigger_panel_of selectedChannels st =
     (let events = dialog_events st; isTriggering = (td_mutation st = M_pending);
          isPolling = dialog_isPolling st; isDone = dialog_isDone st
      in \<lparr>tv_channels = selectedChannels, tv_triggering = isTriggering,
          tv_indicator = (if isPolling then Some (polling_text (length events)) else None),
          tv_error = (case td_mutation st of M_error message \<Rightarrow> (if message = [] then None else Some message) | _ \<Rightarrow> None),
          tv_events = (if isPolling \<or> isDone
            then Some (if truthy (td_notificationId st)
                then Some (''/dashboard/notifications/'' @ str_or_empty (td_notificationId st)) else None, length events)
            else None),
          tv_summary = (if (isPolling \<or> isDone) \<and> 0 < length events
            then Some (count_status ''sent'' events, count_status ''failed'' events, count_status ''skipped'' events)
            else None),
          tv_buttonDisabled = (\<not> dialog_isValid selectedChannels st \<or> isTriggering),
          tv_buttonLabel = (if isTriggering then ''Triggering'' else ''Send notification'')\<rparr>)"

section \<open>Lemmas\<close>

text \<open>The toolbar of a node the builder shows: editing selects it, and duplicating and deleting call the operations of
  the store with its id, except on the trigger, where both are switched off.\<close>

lemma toolbar_calls:
  assumes "n \<in> set (enrichCanvasNodes nodes ev remove duplicate select issues dx dy)"
  shows "map (handleAction n) (node_toolbar n) =
    [Some (select (Some (cn_id n)) None),
     if bn_type (cn_draft n) = Trigger then None else Some (duplicate (cn_id n)),
     if bn_type (cn_draft n) = Trigger then None else Some (remove (cn_id n))]"
  using assms by (auto simp: enrichCanvasNodes_def node_toolbar_def handleAction_def)

text \<open>The menu inserts a delay or a notification on one of the known channels, each once; it never inserts a trigger or
  one of the legacy conditions that validation rejects.\<close>

lemma menu_steps:
  "map si_channel channelItems = map Some notificationChannels \<and>
   list_all (\<lambda>i. si_type i = Notification) channelItems \<and> map (\<lambda>i. (si_type i, si_channel i)) actionItems = [(Delay, None)]"
  by (simp add: channelItems_def actionItems_def notificationChannels_def)

text \<open>The button of an edge is centred on the path that is drawn, also on the stub after the last step.\<close>

lemma button_centred:
  "let g = edge_geometry_of isTerminal s t; (p, q) = eg_path g
   in p = s \<and> fst (eg_button g) + 14 = (fst p + fst q) / 2 \<and> snd (eg_button g) + 14 = (snd p + snd q) / 2"
  by (cases s) (simp add: edge_geometry_of_def)

lemma count_disjoint: "a \<noteq> b \<Longrightarrow> b \<noteq> c \<Longrightarrow> a \<noteq> c \<Longrightarrow> count_status a es + count_status b es + count_status c es \<le> length es"
  unfolding count_status_def by (induction es) auto

text \<open>The summary never counts an attempt twice, and while a run is sent or followed no second one can be started.\<close>

lemma panel_summary: "tv_summary (trigger_panel_of cs st) = Some (a, b, c) \<Longrightarrow> a + b + c \<le> length (dialog_events st)"
  using count_disjoint [of "''sent''" "''failed''" "''skipped''" "dialog_events st"]
  by (auto simp: trigger_panel_of_def Let_def split: if_splits)

lemma panel_blocked:
  "td_mutation st = M_pending \<or> dialog_isPolling st \<Longrightarrow> tv_buttonDisabled (trigger_panel_of cs st)"
  by (auto simp: trigger_panel_of_def dialog_isValid_def dialog_isPolling_def Let_def)

end
