(* ===== verification/Spec2Isabelle.thy ===== *)
theory Spec2Isabelle
  imports Draft Validation Canvas Builder_Store Chain_Editor Selectors Backend_Proxy Routes Api_Client Queries
    Encode Display Sms Builder_Draft Channel_Config Workflow_Setup Trigger_Dialog Builder_Hook
    Subscriber_List Subscriber_Forms Phone_Input Preview_Hooks Workflow_List Provider_Form Delay_Duration
    Auth_Flows Test_Send Preview_Data Navigation Notification_List Api_Keys Builder_Page
    Theme Dashboard Pages Builder_View
begin

text \<open>
  The web client of a multi-channel notification service (\<open>src/web\<close>), formalised: the workflow builder
  with its data, editing, validation, autosave and previews, and the Next.js server between the browser
  and the backend.

  \<^bold>\<open>How the parts work together.\<close>  The backend stores a workflow as a definition: a trigger, nodes and
  edges.  The builder page loads it, turns it into a draft, and the draft into a canvas graph that lives
  in the builder's store.  The user edits the graph; after each edit the store's graph is read back as a
  draft and handed to the page, which saves it after a pause and validates what it is about to store.
  The channel page edits the message template of one notification node and writes its id into the same
  definition.  Every page reads and writes through API methods, which call the routes of the web server;
  the routes attach the session's token and forward to the backend, renewing the session once when the
  backend answers 401.

  \<^bold>\<open>Theories and what they model\<close> (paths under \<open>src/web/src\<close>).

  Foundation:
  \<^item> \<open>Prelude\<close>: the JavaScript values and library operations the client uses.
  \<^item> \<open>Js_Regex\<close>: regular expressions and the backtracking matcher of the language standard.
  \<^item> \<open>Workflow_Types\<close>: \<open>app/types/workflow.ts\<close>, \<open>features/workflows/types\<close>,
    \<open>features/workflows/constants\<close>, and JSON values.
  \<^item> \<open>Json_Text\<close>: \<open>JSON.stringify\<close>, as used for the signatures the hooks compare.

  The workflow builder (\<open>features/workflows\<close>):
  \<^item> \<open>Draft\<close>: \<open>draft/*\<close>, both conversions between a definition and a draft.
  \<^item> \<open>Graph_Search\<close>, \<open>Chain\<close>, \<open>Validation\<close>: \<open>utils/validation/*\<close>; the two searches over the adjacency
    map, the theory of single chains that serves as specification, and the validators.
  \<^item> \<open>Canvas\<close>: \<open>utils/canvas/*\<close>, the graph built from a draft and the draft read back.
  \<^item> \<open>Builder_Store\<close>, \<open>Chain_Editor\<close>: \<open>store/builder/*\<close>; the operations, and what each does to the chain
    of steps.  \<open>Chain_Editor\<close> composes them to the editing runs of a user.
  \<^item> \<open>Selectors\<close>: \<open>store/builder/selectors.ts\<close>, what the canvas and the inspector are shown.
  \<^item> \<open>Builder_Hook\<close>: \<open>hooks/use-workflow-builder.ts\<close>, the store joined to its page.
  \<^item> \<open>Builder_Draft\<close>: \<open>hooks/use-workflow-builder-draft.ts\<close>, the page's local draft and autosave.
  \<^item> \<open>Channel_Config\<close>: \<open>hooks/use-channel-config.ts\<close>, the channel page and its template autosave.
  \<^item> \<open>Builder_Page\<close>: \<open>components/CreateWorkflowBuilder.tsx\<close>, the way from a step of the builder to its channel
    page, with the parameters of that page, and the height of the canvas.
  \<^item> \<open>Builder_View\<close>: what the builder shows and offers: the card and toolbar of a node, the button of an edge with the
    menu of steps, the inspector, and the panel of a test run.
  \<^item> \<open>Encode\<close>, \<open>Display\<close>, \<open>Sms\<close>: the variable syntax of the editor, the texts and previews shown,
    the number of SMS segments.
  \<^item> \<open>Workflow_Setup\<close>: the setup form, the links between the pages and their query strings.
  \<^item> \<open>Trigger_Dialog\<close>: sending a test run and following its status.
  \<^item> \<open>Preview_Hooks\<close>: \<open>hooks/use-email-preview.ts\<close>, \<open>hooks/use-data-panel.ts\<close>; the asynchronous
    rendering of the email and the panel of preview data.  \<open>Effect_Runs\<close> holds what an effect with a
    cancellation flag does, whatever it computes.
  \<^item> \<open>Test_Send\<close>: \<open>configure/ChannelPreviewPanel.tsx\<close> and the test dialogs; the preview of a channel joined
    to the dialogs that send it as a test.  \<open>Preview_Data\<close>: the data around it, that is the subscriber, the
    payload and its variables, the sender, and the editors of a test run.
  \<^item> \<open>Workflow_List\<close>: \<open>hooks/use-workflow-list.ts\<close>, the list with its optimistic actions.
  \<^item> \<open>Delay_Duration\<close>: \<open>utils/duration/*\<close> and the handlers of the delay inspector.

  The other features (\<open>features\<close>):
  \<^item> \<open>Subscriber_List\<close>, \<open>Subscriber_Forms\<close>, \<open>Phone_Input\<close>: \<open>subscribers\<close>; the cards over the list, the
    create and edit forms with the preferences, and the telephone field.
  \<^item> \<open>Provider_Form\<close>: \<open>integrations\<close>; the provider form and what a submission sends.
  \<^item> \<open>Dashboard\<close>: \<open>dashboard\<close>, the figures of the overview and what its cards show; \<open>Doubles\<close> holds the nearest
    double of a quotient and \<open>toFixed\<close>.
  \<^item> \<open>Pages\<close>: the rows and menus of the workflow table, the activities of a workflow, the page of one
    notification, the command shown for the API, and the page of subscribers with its dialogs.
  \<^item> \<open>Theme\<close>: \<open>components/theme-provider.tsx\<close>, the colour theme, its effects and the switch in the header.
  \<^item> \<open>Notification_List\<close>: \<open>notifications\<close>; \<open>Api_Keys\<close>: \<open>settings/apikey\<close>.
  \<^item> \<open>Navigation\<close>: \<open>app/dashboard/layout\<close>, the menu and the search in it, and the frame of the builder page.
  \<^item> \<open>Auth_Flows\<close>: \<open>auth\<close>; signing in and up, verification, onboarding and the password reset.

  The HTTP side:
  \<^item> \<open>Backend_Proxy\<close>: \<open>lib/config.ts\<close>, \<open>lib/auth-session.ts\<close>, \<open>lib/backend-api.ts\<close>.
  \<^item> \<open>Routes\<close>: every handler under \<open>app/api\<close>, and \<open>lib/wrap-data.ts\<close>.
  \<^item> \<open>Api_Client\<close>: \<open>lib/api-client.ts\<close> and the API modules \<open>features/*/api.ts\<close>.
  \<^item> \<open>Queries\<close>: the query and mutation hooks \<open>features/*/queries.ts\<close>.

  \<^bold>\<open>Correspondence.\<close>  A TypeScript interface is a record with a prefix per type (\<open>bn_\<close> for a draft node,
  \<open>wn_\<close> for a stored one), a union of string literals a datatype, an absent optional field \<open>None\<close>.  A
  function keeps its name.  A React hook is a record of its state, refs and the outside actions it has
  issued, with one function per handler, effect, timer and asynchronous answer.  A save with an \<open>await\<close>
  is split there, so that other events may come between.  Effects run in source order on the values of
  the render that scheduled them.

  \<^bold>\<open>Parameters.\<close>  Code outside the repository is an argument of the definitions that use it: \<open>fetch\<close>
  with the world it acts on, \<open>JSON.parse\<close> and the indented \<open>JSON.stringify\<close>, the text of a number
  (\<open>num_text\<close>), the layout engine dagre, \<open>applyNodeChanges\<close>, \<open>applyEdgeChanges\<close> and \<open>addEdge\<close> of
  React Flow, the source of random id suffixes, the renderer of the email editor, the telephone library
  and the comparison of names by the browser's language, the email pattern of the schema library, and
  for durations the reading and the printing of numbers.  Hypotheses about them are premises of the theorems
  that need them, and each has a witness with a concrete function.

  \<^bold>\<open>What the lemmas show.\<close>
  \<^item> Validation: the validators report nothing exactly for the valid workflows, and the edge checks
    accept exactly the single chains from the trigger through all nodes; both searches are sound and
    complete for the edge relation.
  \<^item> Editing: insertion, duplication and removal refine the corresponding list operations on the chain
    of steps, so every editing run of an opened valid workflow leaves a graph whose export is accepted.
  \<^item> Conversions: saving and loading a draft, building and reading a canvas, loading and saving a
    template, and following a link are round trips.
    Configuring a step saves the draft and leads to the page of that very step.
  \<^item> Autosave: the effects come to rest, an unsaved change to a valid draft is always armed or on its way while
    no save fails, an edit that leaves the draft valid and its timer send exactly the edited draft; and the
    cases in which an edit is lost.  Contrary to \<open>docs/definition-builder.md\<close>, which lets the autosave pause
    while there are validation issues, an invalid draft is sent as well (\<open>invalid_draft_autosaved\<close>).
  \<^item> HTTP: at most one renewal and one repetition per call; on every route of \<open>route_table\<close> but the
    \<open>public_routes\<close> only authorised requests, with the method, path and body of the route; safe cookies; the
    status and payload of an error delivered to the caller; each of the 44 API methods routed to its handler, for
    ids that are single path segments; and each mutation refreshing the queries of its resource.  Some routes
    lose the query string or the renewed session.
  \<^item> Forms and lists: stored preferences are shown and sent back unchanged, the list comes to rest, a
    preview never shows the rendering of an older text, a duration keeps its time span, the password is
    reset only with a confirmed pair of address and code; and the sequences of events that break this.
    The fields of a delay step have no effect, since they name the draft and not the canvas node
    (\<open>delay_edit_lost\<close>).  The number of SMS segments is never too high, and right for texts without
    characters of the extension table.
  \<^item> Tests and pages: a test goes to the preview subscriber with the present content once the preview is
    at rest, a key or a subscriber is deleted only when chosen, the search of the menu finds the items with the query in their names,
    the theme shown, stored and applied agree, and the figures are close to the exact shares.

  \<^bold>\<open>Interfaces.\<close>  \<open>simulation\<close> (in \<open>Chain_Editor\<close>): an operation that refines an abstract step under an
  invariant, and what follows for every run; interpreted on the store's operations.  \<open>placeholder\<close> (in
  \<open>Encode\<close>): a pattern that finds exactly the placeholders between stretches of plain text, and what a
  global replacement then does; interpreted on the braces of a template and the elements of the editor.
  \<open>sms_capacity\<close> (in \<open>Sms\<close>): the two capacities of an alphabet; interpreted on both alphabets.
  \<open>machine\<close> (in \<open>Prelude\<close>): a component driven by events whose steps keep an invariant, which then
  holds after every run; interpreted on the preferences of a subscriber, the email preview, the data
  panel, the page that sends tests, the list of workflows, the API keys, the theme and the password reset.

  \<^bold>\<open>Bounds and termination.\<close>  The two graph searches terminate by a measure on the unvisited nodes, the
  matcher because an empty iteration is abandoned.  \<open>settle\<close>, which runs the effects of the builder page
  until none is left, terminates because two commits always suffice (\<open>effects_settle\<close>), and so does the one of the
  theme (\<open>theme_settle\<close>); \<open>answer_all\<close> of the list
  by the number of requests under way.  No fuel is used.

  \<^bold>\<open>Restrictions.\<close>  Strings are sequences of UTF-16 code units below 256, except in \<open>Sms\<close>, where
  code units are 16-bit words.  Numbers in JSON are rational; quotients of counts and durations are rounded to
  the nearest double.  A timer has no clock: it may fire at any
  later step until it is cleared.

  \<^bold>\<open>Not modelled.\<close>  The Go backend (another language, seen here only through HTTP); rendering, that is
  markup, styling and third-party widgets; the cache of react-query and the scheduling of React beyond
  the order of effects; the dates of tables and previews, which use the calendar and the locale of the browser;
  \<open>getSenderInitial\<close>, which upper-cases any Unicode text.

  \<^bold>\<open>Left out on purpose.\<close>  \<open>components/utilities/data-table\<close> and \<open>inspector/TriggerWorkflowDialog.tsx\<close>, which no page
  uses; the dialogs that only show the state of a hook modelled here.
\<close>

end
